(* ===== verification/Prelude.thy ===== *)
theory Prelude
  imports Main "HOL-Library.State_Monad" "HOL-Library.Word" "HOL-Library.Multiset"
begin

text \<open>
  Shared vocabulary of the development.

  \<^item> C strings: a NUL-terminated \<open>char *\<close> is the list of its characters before the NUL;
    the string functions of libc the sources call (\<open>strncmp\<close>, \<open>strcasestr\<close>, the conversion
    \<open>%[^:]\<close> of \<open>sscanf\<close>, the precision of \<open>snprintf\<close>) are functions on such lists.
  \<^item> Errors: a value of a sum type, \<open>Inl\<close> for a fault; \<open>andThen\<close> chains fallible steps.
  \<^item> Effects: a stateful C function is a value of the state monad.  \<open>hoare P m Q\<close> is a
    total-correctness triple (every monadic program here returns) and \<open>preserves P m\<close> the
    invariance of \<open>P\<close>; the structural rules are collected in \<open>hoare_intros\<close>.
  \<^item> Transition systems: the locale \<open>transition_invariant\<close> lifts a one-step invariant to every
    reachable state.
\<close>

named_theorems hoare_intros \<open>structural rules of the triples on the state monad\<close>
named_theorems cstring_simps \<open>evaluation of the C string functions\<close>

section \<open>Errors\<close>

text \<open>A fallible C function returns \<open>Inl\<close> of a fault or \<open>Inr\<close> of its result; the first fault stops.\<close>

definition andThen :: "'e + 'a \<Rightarrow> ('a \<Rightarrow> 'e + 'b) \<Rightarrow> 'e + 'b" where
  "andThen m f = (case m of Inl x \<Rightarrow> Inl x | Inr y \<Rightarrow> f y)"

lemma andThen_simps [simp]: "andThen (Inr y) f = f y" "andThen (Inl x) f = Inl x"
  by (simp_all add: andThen_def)

lemma andThen_eq_Inr: "andThen m f = Inr z \<longleftrightarrow> (\<exists>y. m = Inr y \<and> f y = Inr z)"
  by (cases m) auto

lemma andThen_eq_Inl: "andThen m f = Inl x \<longleftrightarrow> m = Inl x \<or> (\<exists>y. m = Inr y \<and> f y = Inl x)"
  by (cases m) auto

section \<open>C strings\<close>

type_synonym byte = "8 word"

abbreviation NUL :: char where
  "NUL \<equiv> CHR 0x00"

text \<open>The C string at the start of a buffer: the characters before the first NUL.\<close>

definition cstr :: "string \<Rightarrow> string" where
  "cstr buf = takeWhile (\<lambda>c. c \<noteq> NUL) buf"

text \<open>\<open>strncmp (a, b, n) == 0\<close>: at most \<open>n\<close> characters are compared, the NUL included.\<close>

fun strncmp0 :: "string \<Rightarrow> string \<Rightarrow> nat \<Rightarrow> bool" where
  "strncmp0 a b 0 = True"
| "strncmp0 [] [] (Suc n) = True"
| "strncmp0 (x # xs) (y # ys) (Suc n) = (x = y \<and> strncmp0 xs ys n)"
| "strncmp0 a b (Suc n) = False"

definition tolower :: "char \<Rightarrow> char" where
  "tolower c = (if of_char c \<in> {65..90 :: nat} then char_of (of_char c + 32 :: nat) else c)"

fun is_prefix_of :: "string \<Rightarrow> string \<Rightarrow> bool" where
  "is_prefix_of [] ys = True"
| "is_prefix_of (x # xs) [] = False"
| "is_prefix_of (x # xs) (y # ys) = (x = y \<and> is_prefix_of xs ys)"

fun strstr :: "string \<Rightarrow> string \<Rightarrow> bool" where
  "strstr [] pat = (pat = [])"
| "strstr (x # xs) pat = (is_prefix_of pat (x # xs) \<or> strstr xs pat)"

text \<open>\<open>strcasestr (hay, pat) != NULL\<close>.\<close>

definition strcasestr :: "string \<Rightarrow> string \<Rightarrow> bool" where
  "strcasestr hay pat = strstr (map tolower hay) (map tolower pat)"

text \<open>What \<open>snprintf (buf, size, ...)\<close> leaves in \<open>buf\<close> for the formatted text \<open>s\<close>.\<close>

definition snprintf :: "nat \<Rightarrow> string \<Rightarrow> string" where
  "snprintf n s = take (n - 1) s"

text \<open>The decimal text \<open>%d\<close> prints for a non-negative number.\<close>

fun print_nat :: "nat \<Rightarrow> string" where
  "print_nat n = (if n < 10 then [char_of (48 + n)]
                  else print_nat (n div 10) @ [char_of (48 + n mod 10)])"

declare print_nat.simps [simp del]

lemma strncmp0_length:
  "strncmp0 a b n \<Longrightarrow> length a < n \<Longrightarrow> a = b"
  by (induction a b n rule: strncmp0.induct) auto

lemma strncmp0_refl [simp]: "strncmp0 a a n"
proof (induction a arbitrary: n)
  case Nil
  show ?case by (cases n) auto
next
  case (Cons x xs)
  then show ?case by (cases n) auto
qed

lemma strncmp0_iff_take:
  "length a = n \<Longrightarrow> strncmp0 a b n \<longleftrightarrow> take n b = a"
  by (induction a b n rule: strncmp0.induct) auto

lemma is_prefix_of_iff: "is_prefix_of xs ys \<longleftrightarrow> (\<exists>zs. ys = xs @ zs)"
  by (induction xs ys rule: is_prefix_of.induct) auto

lemma strstr_iff: "strstr hay pat \<longleftrightarrow> (\<exists>us vs. hay = us @ pat @ vs)"
proof (induction hay)
  case Nil
  show ?case by simp
next
  case (Cons x xs)
  show ?case
  proof
    assume "strstr (x # xs) pat"
    then show "\<exists>us vs. x # xs = us @ pat @ vs"
      using Cons.IH by (fastforce simp: is_prefix_of_iff intro: exI [of _ "[]"] exI [of _ "x # _"])
  next
    assume "\<exists>us vs. x # xs = us @ pat @ vs"
    then obtain us vs where e: "x # xs = us @ pat @ vs" by blast
    show "strstr (x # xs) pat"
    proof (cases us)
      case Nil
      with e have "is_prefix_of pat (x # xs)" by (auto simp: is_prefix_of_iff)
      then show ?thesis by simp
    next
      case (Cons u us')
      with e have "xs = us' @ pat @ vs" by simp
      with Cons.IH have "strstr xs pat" by blast
      then show ?thesis by simp
    qed
  qed
qed

lemma cstr_no_NUL [simp]: "NUL \<notin> set (cstr s)"
  unfolding cstr_def by (auto dest: set_takeWhileD)

lemma cstr_id: "NUL \<notin> set s \<Longrightarrow> cstr s = s"
  unfolding cstr_def by (auto simp: takeWhile_eq_all_conv)

lemma cstr_append_NUL: "NUL \<notin> set s \<Longrightarrow> cstr (s @ NUL # t) = s"
  unfolding cstr_def by (induction s) auto

lemma cstr_length: "length (cstr s) \<le> length s"
  unfolding cstr_def by (rule length_takeWhile_le)

lemma snprintf_bound: "0 < n \<Longrightarrow> length (snprintf n s) < n"
  by (auto simp: snprintf_def)

section \<open>Triples on the state monad\<close>

definition hoare :: "('s \<Rightarrow> bool) \<Rightarrow> ('s, 'a) state \<Rightarrow> ('a \<Rightarrow> 's \<Rightarrow> bool) \<Rightarrow> bool" where
  "hoare P m Q \<longleftrightarrow> (\<forall>s. P s \<longrightarrow> (case run_state m s of (r, s') \<Rightarrow> Q r s'))"

definition preserves :: "('s \<Rightarrow> bool) \<Rightarrow> ('s, 'a) state \<Rightarrow> bool" where
  "preserves P m \<longleftrightarrow> hoare P m (\<lambda>_. P)"

text \<open>The final state of a run; \<open>modify\<close> is an assignment to part of the state.\<close>

definition exec :: "('s, 'a) state \<Rightarrow> 's \<Rightarrow> 's" where
  "exec m s = snd (run_state m s)"

definition result :: "('s, 'a) state \<Rightarrow> 's \<Rightarrow> 'a" where
  "result m s = fst (run_state m s)"

definition modify :: "('s \<Rightarrow> 's) \<Rightarrow> ('s, unit) state" where
  "modify f = State (\<lambda>s. ((), f s))"

definition skip :: "('s, unit) state" where
  "skip = State_Monad.return ()"

lemma run_state_modify [simp]: "run_state (modify f) s = ((), f s)"
  by (simp add: modify_def)

lemma run_state_skip [simp]: "run_state skip s = ((), s)"
  by (simp add: skip_def)

lemma run_state_eq: "run_state m s = (result m s, exec m s)"
  by (simp add: result_def exec_def)

lemma exec_bind [simp]: "exec (m \<bind> f) s = exec (f (result m s)) (exec m s)"
  by (simp add: exec_def result_def split: prod.split)

lemma result_bind [simp]: "result (m \<bind> f) s = result (f (result m s)) (exec m s)"
  by (simp add: exec_def result_def split: prod.split)

lemma exec_result_simps [simp]:
  "exec (State_Monad.return x) s = s" "result (State_Monad.return x) s = x"
  "exec State_Monad.get s = s" "result State_Monad.get s = s"
  "exec (modify f) s = f s" "result (modify f) s = ()"
  "exec skip s = s" "result skip s = ()"
  by (simp_all add: exec_def result_def)

lemma exec_if [simp]: "exec (if b then m else n) s = (if b then exec m s else exec n s)"
  and result_if [simp]: "result (if b then m else n) s = (if b then result m s else result n s)"
  by simp_all

lemma hoareI:
  "(\<And>s. P s \<Longrightarrow> Q (result m s) (exec m s)) \<Longrightarrow> hoare P m Q"
  by (simp add: hoare_def run_state_eq)

lemma hoareD: "hoare P m Q \<Longrightarrow> P s \<Longrightarrow> Q (result m s) (exec m s)"
  by (simp add: hoare_def run_state_eq)

lemma preservesI: "(\<And>s. P s \<Longrightarrow> P (exec m s)) \<Longrightarrow> preserves P m"
  by (simp add: preserves_def hoareI)

lemma preservesD: "preserves P m \<Longrightarrow> P s \<Longrightarrow> P (exec m s)"
  unfolding preserves_def by (drule hoareD)

lemma preserves_bind [hoare_intros]:
  "preserves P m \<Longrightarrow> (\<And>r. preserves P (f r)) \<Longrightarrow> preserves P (m \<bind> f)"
  by (rule preservesI) (metis exec_bind preservesD)

lemma preserves_return [hoare_intros]: "preserves P (State_Monad.return x)"
  by (auto intro!: preservesI)

lemma preserves_skip [hoare_intros]: "preserves P skip"
  by (auto intro!: preservesI)

lemma preserves_get_bind [hoare_intros]:
  "(\<And>s0. preserves P (f s0)) \<Longrightarrow> preserves P (State_Monad.get \<bind> f)"
  by (rule preservesI) (metis exec_bind exec_result_simps(3) preservesD)

lemma preserves_if [hoare_intros]:
  "(b \<Longrightarrow> preserves P m) \<Longrightarrow> (\<not> b \<Longrightarrow> preserves P n) \<Longrightarrow> preserves P (if b then m else n)"
  by simp

lemma preserves_case_option [hoare_intros]:
  "(o' = None \<Longrightarrow> preserves P m) \<Longrightarrow> (\<And>x. o' = Some x \<Longrightarrow> preserves P (f x)) \<Longrightarrow>
   preserves P (case o' of None \<Rightarrow> m | Some x \<Rightarrow> f x)"
  by (cases o') auto

lemma preserves_modify: "(\<And>s. P s \<Longrightarrow> P (f s)) \<Longrightarrow> preserves P (modify f)"
  by (auto intro!: preservesI)

lemma hoare_bind:
  assumes "hoare P m R" and "\<And>r. hoare (R r) (f r) Q"
  shows "hoare P (m \<bind> f) Q"
proof (rule hoareI)
  fix s
  assume "P s"
  with assms(1) have "R (result m s) (exec m s)" by (rule hoareD)
  with assms(2) have "Q (result (f (result m s)) (exec m s)) (exec (f (result m s)) (exec m s))"
    by (rule hoareD)
  then show "Q (result (m \<bind> f) s) (exec (m \<bind> f) s)" by simp
qed

lemma hoare_if:
  "(b \<Longrightarrow> hoare P m Q) \<Longrightarrow> (\<not> b \<Longrightarrow> hoare P n Q) \<Longrightarrow> hoare P (if b then m else n) Q"
  by simp

lemma hoare_get:
  assumes "\<And>s0. P s0 \<Longrightarrow> hoare (\<lambda>s. s = s0) (f s0) Q"
  shows "hoare P (State_Monad.get \<bind> f) Q"
proof (rule hoareI)
  fix s
  assume "P s"
  with hoareD [OF assms, of s s]
  show "Q (result (State_Monad.get \<bind> f) s) (exec (State_Monad.get \<bind> f) s)" by simp
qed

lemma hoare_weaken:
  "hoare P m Q \<Longrightarrow> (\<And>s. P' s \<Longrightarrow> P s) \<Longrightarrow> (\<And>r s. Q r s \<Longrightarrow> Q' r s) \<Longrightarrow> hoare P' m Q'"
  by (rule hoareI) (metis hoareD)

section \<open>Machine integers\<close>

text \<open>Numbers that fit a 32-bit word are read back unchanged.\<close>

lemma sint_small: "- (2 ^ 31) \<le> n \<Longrightarrow> n < 2 ^ 31 \<Longrightarrow> sint (word_of_int n :: 32 word) = n"
  by (simp add: sint_sbintrunc' signed_take_bit_int_eq_self)

lemma uint_small: "0 \<le> n \<Longrightarrow> n < 2 ^ 31 \<Longrightarrow> uint (word_of_int n :: 32 word) = n"
  by (simp add: uint_word_of_int_eq take_bit_int_eq_self)

section \<open>Transition systems\<close>

locale transition_invariant =
  fixes init :: "'s \<Rightarrow> bool"
    and step :: "'s \<Rightarrow> 's \<Rightarrow> bool"
    and inv :: "'s \<Rightarrow> bool"
  assumes init_inv: "init s \<Longrightarrow> inv s"
    and step_inv: "step s t \<Longrightarrow> inv s \<Longrightarrow> inv t"
begin

lemma trace_inv: "step\<^sup>*\<^sup>* s t \<Longrightarrow> inv s \<Longrightarrow> inv t"
  by (induction rule: rtranclp_induct) (auto intro: step_inv)

lemma reachable_inv: "init s \<Longrightarrow> step\<^sup>*\<^sup>* s t \<Longrightarrow> inv t"
  by (blast intro: trace_inv init_inv)

end

end
