(* ===== verification/Usb_Modes.thy ===== *)
theory Usb_Modes
  imports Prelude
begin

text \<open>
  The USB modes of the daemon \<^verbatim>\<open>usbd\<close> (\<^verbatim>\<open>usbd/usb_defines.h\<close> and the table
  \<^verbatim>\<open>usb_mode_list\<close> of \<^verbatim>\<open>usbd/usb_app.c\<close>): the enumerations, the protocol strings, the mode
  table with its function pointers (as constructors of \<open>hook\<close>), and the two table searches of
  the daemon.  The locale \<open>mode_table\<close> states what the clients of the table rely on (an entry
  sits at the index of its own mode and no two entries answer to the same request) and what
  follows for the searches; it is interpreted on the table of the sources.
\<close>

section \<open>Enumerations\<close>

datatype USBD_STATE_T =
    USBD_STATE_CABLE_DEFAULT
  | USBD_STATE_CABLE_DETACHED
  | USBD_STATE_CABLE_ATTACHED
  | USBD_STATE_ENUM_IN_PROGRESS
  | USBD_STATE_ENUMERATED

datatype MOTO_ACCY_TYPE_T =
    MOTO_ACCY_TYPE_EMU_CABLE_USB
  | MOTO_ACCY_TYPE_EMU_CABLE_FACTORY
  | MOTO_ACCY_TYPE_EMU_UNKNOWN

datatype MOTO_MODE_TYPE_T =
    MOTO_MODE_TYPE_NORMAL
  | MOTO_MODE_TYPE_DEBUG
  | MOTO_MODE_TYPE_BPTOOLS
  | MOTO_MODE_TYPE_TABLET
  | MOTO_MODE_TYPE_UNKNOWN

datatype USB_MODE_T =
    USB_MODE_MIN
  | USB_MODE_NGP
  | USB_MODE_CDROM
  | USB_MODE_MTP
  | USB_MODE_MSC
  | USB_MODE_MSC_ONLY
  | USB_MODE_HID
  | USB_MODE_NGP_ADB
  | USB_MODE_MTP_ADB
  | USB_MODE_MSC_ADB
  | USB_MODE_ADB
  | USB_MODE_NETWORK
  | USB_MODE_MODEM
  | USB_MODE_MODEM_ADB
  | USB_MODE_NETWORK_ADB
  | USB_MODE_CHARGE_ONLY
  | USB_MODE_CHARGE_ADB
  | USB_MODE_RNDIS
  | USB_MODE_RNDIS_ADB
  | USB_MODE_CDROM2
  | USB_MODE_BPTOOLS_ETH
  | USB_MODE_BPTOOLS_ETH_ADB
  | USB_MODE_RNDIS_BPTOOLS_ETH
  | USB_MODE_RNDIS_BPTOOLS_ETH_ADB
  | USB_MODE_TABLET_NETWORK_MTP
  | USB_MODE_TABLET_NETWORK_MTP_ADB
  | USB_MODE_MAX

text \<open>The value of an enumerator, and the enumerator of a value.\<close>

definition all_modes :: "USB_MODE_T list" where
  "all_modes = [USB_MODE_MIN, USB_MODE_NGP, USB_MODE_CDROM,
     USB_MODE_MTP, USB_MODE_MSC, USB_MODE_MSC_ONLY,
     USB_MODE_HID, USB_MODE_NGP_ADB, USB_MODE_MTP_ADB,
     USB_MODE_MSC_ADB, USB_MODE_ADB, USB_MODE_NETWORK,
     USB_MODE_MODEM, USB_MODE_MODEM_ADB, USB_MODE_NETWORK_ADB,
     USB_MODE_CHARGE_ONLY, USB_MODE_CHARGE_ADB, USB_MODE_RNDIS,
     USB_MODE_RNDIS_ADB, USB_MODE_CDROM2, USB_MODE_BPTOOLS_ETH,
     USB_MODE_BPTOOLS_ETH_ADB, USB_MODE_RNDIS_BPTOOLS_ETH, USB_MODE_RNDIS_BPTOOLS_ETH_ADB,
     USB_MODE_TABLET_NETWORK_MTP, USB_MODE_TABLET_NETWORK_MTP_ADB, USB_MODE_MAX]"

primrec mode_ord :: "USB_MODE_T \<Rightarrow> nat" where
  "mode_ord USB_MODE_MIN = 0"
| "mode_ord USB_MODE_NGP = 1"
| "mode_ord USB_MODE_CDROM = 2"
| "mode_ord USB_MODE_MTP = 3"
| "mode_ord USB_MODE_MSC = 4"
| "mode_ord USB_MODE_MSC_ONLY = 5"
| "mode_ord USB_MODE_HID = 6"
| "mode_ord USB_MODE_NGP_ADB = 7"
| "mode_ord USB_MODE_MTP_ADB = 8"
| "mode_ord USB_MODE_MSC_ADB = 9"
| "mode_ord USB_MODE_ADB = 10"
| "mode_ord USB_MODE_NETWORK = 11"
| "mode_ord USB_MODE_MODEM = 12"
| "mode_ord USB_MODE_MODEM_ADB = 13"
| "mode_ord USB_MODE_NETWORK_ADB = 14"
| "mode_ord USB_MODE_CHARGE_ONLY = 15"
| "mode_ord USB_MODE_CHARGE_ADB = 16"
| "mode_ord USB_MODE_RNDIS = 17"
| "mode_ord USB_MODE_RNDIS_ADB = 18"
| "mode_ord USB_MODE_CDROM2 = 19"
| "mode_ord USB_MODE_BPTOOLS_ETH = 20"
| "mode_ord USB_MODE_BPTOOLS_ETH_ADB = 21"
| "mode_ord USB_MODE_RNDIS_BPTOOLS_ETH = 22"
| "mode_ord USB_MODE_RNDIS_BPTOOLS_ETH_ADB = 23"
| "mode_ord USB_MODE_TABLET_NETWORK_MTP = 24"
| "mode_ord USB_MODE_TABLET_NETWORK_MTP_ADB = 25"
| "mode_ord USB_MODE_MAX = 26"

lemma length_all_modes [simp]: "length all_modes = 27"
  by (simp add: all_modes_def)

lemma all_modes_nth_ord [simp]: "all_modes ! mode_ord m = m"
  by (cases m) (simp_all add: all_modes_def)

lemma mode_ord_less [simp]: "mode_ord m < 27"
  by (cases m) simp_all

lemma mode_ord_inj: "mode_ord a = mode_ord b \<Longrightarrow> a = b"
  by (metis all_modes_nth_ord)

lemma mode_ord_eq_iff [simp]: "mode_ord a = mode_ord b \<longleftrightarrow> a = b"
  by (auto dest: mode_ord_inj)

lemma mode_ord_nth [simp]: "i < 27 \<Longrightarrow> mode_ord (all_modes ! i) = i"
proof -
  assume "i < 27"
  have "map mode_ord all_modes = [0..<27]"
    by (simp add: all_modes_def upt_rec)
  then have "map mode_ord all_modes ! i = [0..<27] ! i" by (rule arg_cong)
  with \<open>i < 27\<close> show ?thesis by simp
qed

text \<open>The enumerators are compared by their values, as C compares them.\<close>

instantiation USB_MODE_T :: linorder
begin

definition less_eq_USB_MODE_T :: "USB_MODE_T \<Rightarrow> USB_MODE_T \<Rightarrow> bool" where
  "less_eq_USB_MODE_T a b = (mode_ord a \<le> mode_ord b)"

definition less_USB_MODE_T :: "USB_MODE_T \<Rightarrow> USB_MODE_T \<Rightarrow> bool" where
  "less_USB_MODE_T a b = (mode_ord a < mode_ord b)"

instance
  by standard (auto simp: less_eq_USB_MODE_T_def less_USB_MODE_T_def)

end

lemmas mode_order_defs = less_eq_USB_MODE_T_def less_USB_MODE_T_def

lemma mode_MIN_le [simp]: "USB_MODE_MIN \<le> m"
  by (simp add: mode_order_defs)

lemma mode_less_MAX_iff: "m < USB_MODE_MAX \<longleftrightarrow> m \<noteq> USB_MODE_MAX"
  by (cases m) (simp_all add: mode_order_defs)

section \<open>The mode table\<close>

text \<open>The function pointers of the table, by the name of the C function they point to.\<close>

datatype hook =
    Mtp_enable_done | Adb_pre_enable | Adb_pre_disable
  | Ngp_pre_enable | Ngp_enable_done | Ngp_pre_disable
  | Ngp_adb_pre_enable | Ngp_adb_enable_done | Ngp_adb_pre_disable
  | Mtp_adb_pre_enable | Mtp_adb_enable_done | Mtp_adb_pre_disable
  | Modem_enable_done | Modem_pre_disable | Modem_adb_pre_enable
  | Modem_adb_enable_done | Modem_adb_pre_disable | Cdrom_pre_enable
  | Cdrom_disable_done | Cdrom_enable_done | Cdrom_pre_disable
  | Msc_pre_enable | Msc_enable_done | Msc_pre_disable
  | Msc_disable_done | Msc_only_enable_done | Msc_only_pre_disable
  | Msc_adb_enable_done | Msc_adb_pre_disable | Network_enable_done
  | Network_pre_disable

record usb_mode_data =
  md_mode :: USB_MODE_T
  md_name :: string
  pre_enable :: "hook option"
  enable_done :: "hook option"
  pre_disable :: "hook option"
  disable_done :: "hook option"
  mode_req :: "string option"
  mode_done :: "string option"
  switch_req :: "string option"
  resp_ok :: "string option"
  resp_fail :: "string option"

text \<open>The build-time configuration of \<^verbatim>\<open>usbd/Android.mk\<close>.\<close>

record config =
  AT_RELAY :: bool
  MSD_CDROM_ENABLED :: bool
  USBD_TABLET_MODE :: bool
  CDROM_BLOCK_DEVICE :: string
  CDROMIO_DEVNODE :: string

text \<open>An entry whose unnamed fields are zero-initialised.\<close>

definition blank_entry :: "USB_MODE_T \<Rightarrow> string \<Rightarrow> usb_mode_data" where
  "blank_entry m n = \<lparr>md_mode = m, md_name = n, pre_enable = None, enable_done = None,
     pre_disable = None, disable_done = None, mode_req = None, mode_done = None,
     switch_req = None, resp_ok = None, resp_fail = None\<rparr>"

text \<open>The strings of \<^verbatim>\<open>usb_defines.h\<close> that the table and the daemon send.\<close>

abbreviation USBD_CABLE_ATTACHED :: string where
  "USBD_CABLE_ATTACHED \<equiv> ''cable_connected''"

abbreviation USBD_CABLE_DETACHED :: string where
  "USBD_CABLE_DETACHED \<equiv> ''cable_disconnected''"

abbreviation USBD_GET_DESCRIPTOR :: string where
  "USBD_GET_DESCRIPTOR \<equiv> ''get_descriptor''"

abbreviation USBD_ENUMERATED :: string where
  "USBD_ENUMERATED \<equiv> ''usb_enumerated''"

abbreviation USBD_EVENT_ADB_ON :: string where
  "USBD_EVENT_ADB_ON \<equiv> ''usbd_adb_status_on''"

abbreviation USBD_EVENT_ADB_OFF :: string where
  "USBD_EVENT_ADB_OFF \<equiv> ''usbd_adb_status_off''"

abbreviation USBD_EVENT_TETHERING_ON :: string where
  "USBD_EVENT_TETHERING_ON \<equiv> ''usbd_tethering_status_on''"

abbreviation USBD_EVENT_TETHERING_OFF :: string where
  "USBD_EVENT_TETHERING_OFF \<equiv> ''usbd_tethering_status_off''"

abbreviation USBD_REQ_SWITCH_NGP :: string where
  "USBD_REQ_SWITCH_NGP \<equiv> ''usbd_req_switch_ngp''"

abbreviation USBD_REQ_SWITCH_MTP :: string where
  "USBD_REQ_SWITCH_MTP \<equiv> ''usbd_req_switch_mtp''"

abbreviation USBD_REQ_SWITCH_MSC :: string where
  "USBD_REQ_SWITCH_MSC \<equiv> ''usbd_req_switch_msc''"

abbreviation USBD_REQ_SWITCH_HID :: string where
  "USBD_REQ_SWITCH_HID \<equiv> ''usbd_req_switch_hid''"

abbreviation USBD_REQ_SWITCH_MODEM :: string where
  "USBD_REQ_SWITCH_MODEM \<equiv> ''usbd_req_switch_modem''"

abbreviation USBD_REQ_SWITCH_CHARGE_ONLY :: string where
  "USBD_REQ_SWITCH_CHARGE_ONLY \<equiv> ''usbd_req_switch_none''"

abbreviation USBD_REQ_SWITCH_RNDIS :: string where
  "USBD_REQ_SWITCH_RNDIS \<equiv> ''usbd_req_switch_rndis''"

abbreviation USBD_REQ_SWITCH_BPTOOLS :: string where
  "USBD_REQ_SWITCH_BPTOOLS \<equiv> ''usbd_req_switch_bptools''"

abbreviation USBD_START_NGP :: string where
  "USBD_START_NGP \<equiv> ''usbd_start_ngp''"

abbreviation USBD_START_MTP :: string where
  "USBD_START_MTP \<equiv> ''usbd_start_mtp''"

abbreviation USBD_START_MSC_MOUNT :: string where
  "USBD_START_MSC_MOUNT \<equiv> ''usbd_start_msc_mount''"

abbreviation USBD_DISK_ATTACH :: string where
  "USBD_DISK_ATTACH \<equiv> ''usb_disk_plugin''"

abbreviation USBD_DISK_DETACH :: string where
  "USBD_DISK_DETACH \<equiv> ''usb_disk_plugout''"

text \<open>Entries \<open>USB_MODE_MIN\<close> to \<open>USB_MODE_MSC_ADB\<close> of the table.\<close>

definition storage_modes :: "config \<Rightarrow> usb_mode_data list" where
  "storage_modes cfg = [
     (blank_entry USB_MODE_MIN ''unuse'')
      \<lparr>mode_req := Some ''usb_unload_driver''\<rparr>,
     (blank_entry USB_MODE_NGP ''acm_eth_mtp'')
      \<lparr>pre_enable := Some Ngp_pre_enable, enable_done := Some Ngp_enable_done,
       pre_disable := Some Ngp_pre_disable, mode_done := Some USBD_START_NGP,
       switch_req := Some USBD_REQ_SWITCH_NGP, resp_fail := Some ''usb_mode_ngp:fail''\<rparr>,
     (blank_entry USB_MODE_CDROM ''cdrom'')
      \<lparr>pre_enable := Some Cdrom_pre_enable, enable_done := Some Cdrom_enable_done,
       pre_disable := Some Cdrom_pre_disable, disable_done := Some Cdrom_disable_done,
       mode_req := Some ''usb_mode_ngp'', resp_ok := Some ''usb_mode_ngp:ok'',
       resp_fail := Some ''usb_mode_ngp:fail''\<rparr>,
     (blank_entry USB_MODE_MTP ''mtp'')
      \<lparr>enable_done := Some Mtp_enable_done, mode_req := Some ''usb_mode_mtp'',
       mode_done := Some USBD_START_MTP, switch_req := Some USBD_REQ_SWITCH_MTP,
       resp_ok := Some ''usb_mode_mtp:ok'', resp_fail := Some ''usb_mode_mtp:fail''\<rparr>,
     (blank_entry USB_MODE_MSC ''msc'')
      \<lparr>pre_enable := Some Msc_pre_enable, enable_done := Some Msc_enable_done,
       pre_disable := Some Msc_pre_disable, disable_done := Some Msc_disable_done,
       mode_req := Some ''usb_mode_msc'', mode_done := Some USBD_START_MSC_MOUNT,
       switch_req := Some USBD_REQ_SWITCH_MSC, resp_ok := Some ''usb_mode_msc:ok'',
       resp_fail := Some ''usb_mode_msc:fail''\<rparr>,
     (blank_entry USB_MODE_MSC_ONLY ''msc_only'')
      \<lparr>enable_done := Some Msc_only_enable_done,
       pre_disable := Some Msc_only_pre_disable, mode_req := Some ''usb_mode_msc_only'',
       mode_done := Some USBD_START_MSC_MOUNT, resp_ok := Some ''usb_mode_msc:ok'',
       resp_fail := Some ''usb_mode_msc:fail''\<rparr>,
     (blank_entry USB_MODE_HID ''hid'')
      \<lparr>mode_req := Some ''usb_mode_hid'', switch_req := Some USBD_REQ_SWITCH_HID,
       resp_ok := Some ''usb_mode_hid:ok'', resp_fail := Some ''usb_mode_hid:fail''\<rparr>,
     (blank_entry USB_MODE_NGP_ADB (if AT_RELAY cfg then ''acm_acm1_eth_mtp_adb'' else ''acm_eth_mtp_adb''))
      \<lparr>pre_enable := Some Ngp_adb_pre_enable, enable_done := Some Ngp_adb_enable_done,
       pre_disable := Some Ngp_adb_pre_disable, mode_req := Some ''usb_mode_ngp_adb'',
       mode_done := Some USBD_START_NGP, switch_req := Some USBD_REQ_SWITCH_NGP,
       resp_ok := Some ''usb_mode_ngp:ok'', resp_fail := Some ''usb_mode_ngp:fail''\<rparr>,
     (blank_entry USB_MODE_MTP_ADB ''mtp_adb'')
      \<lparr>pre_enable := Some Mtp_adb_pre_enable, pre_disable := Some Mtp_adb_pre_disable,
       enable_done := Some Mtp_adb_enable_done, mode_req := Some ''usb_mode_mtp_adb'',
       mode_done := Some USBD_START_MTP, switch_req := Some USBD_REQ_SWITCH_MTP,
       resp_ok := Some ''usb_mode_mtp:ok'', resp_fail := Some ''usb_mode_mtp:fail''\<rparr>,
     (blank_entry USB_MODE_MSC_ADB ''msc_adb'')
      \<lparr>enable_done := Some Msc_adb_enable_done, pre_disable := Some Msc_adb_pre_disable,
       mode_req := Some ''usb_mode_msc_adb'', mode_done := Some USBD_START_MSC_MOUNT,
       switch_req := Some USBD_REQ_SWITCH_MSC, resp_ok := Some ''usb_mode_msc:ok'',
       resp_fail := Some ''usb_mode_msc:fail''\<rparr>]"

text \<open>Entries \<open>USB_MODE_ADB\<close> to \<open>USB_MODE_CDROM2\<close>.\<close>

definition network_modes :: "config \<Rightarrow> usb_mode_data list" where
  "network_modes cfg = [
     (blank_entry USB_MODE_ADB ''android_adb_only'')
      \<lparr>pre_enable := Some Adb_pre_enable, pre_disable := Some Adb_pre_disable,
       mode_req := Some ''usb_mode_adb'', switch_req := Some USBD_REQ_SWITCH_HID,
       resp_ok := Some ''usb_mode_hid:ok'', resp_fail := Some ''usb_mode_hid:fail''\<rparr>,
     (blank_entry USB_MODE_NETWORK ''eth'')
      \<lparr>enable_done := Some Network_enable_done, pre_disable := Some Network_pre_disable\<rparr>,
     (blank_entry USB_MODE_MODEM ''acm'')
      \<lparr>pre_disable := Some Modem_pre_disable, enable_done := Some Modem_enable_done,
       mode_req := Some ''usb_mode_modem'', switch_req := Some USBD_REQ_SWITCH_MODEM,
       resp_ok := Some ''usb_mode_modem:ok'', resp_fail := Some ''usb_mode_modem:fail''\<rparr>,
     (blank_entry USB_MODE_MODEM_ADB ''modem_adb'')
      \<lparr>pre_enable := Some Modem_adb_pre_enable,
       enable_done := Some Modem_adb_enable_done,
       pre_disable := Some Modem_adb_pre_disable,
       mode_req := Some ''usb_mode_modem_adb'',
       switch_req := Some USBD_REQ_SWITCH_MODEM, resp_ok := Some ''usb_mode_modem:ok'',
       resp_fail := Some ''usb_mode_modem:fail''\<rparr>,
     (blank_entry USB_MODE_NETWORK_ADB (if AT_RELAY cfg then ''acm1_eth_adb'' else ''eth_adb''))
      \<lparr>enable_done := Some Network_enable_done, pre_disable := Some Network_pre_disable\<rparr>,
     (blank_entry USB_MODE_CHARGE_ONLY ''charge_only'')
      \<lparr>mode_req := Some ''usb_mode_charge_only'',
       switch_req := Some USBD_REQ_SWITCH_CHARGE_ONLY,
       resp_ok := Some ''usb_mode_msc:ok'', resp_fail := Some ''usb_mode_msc:fail''\<rparr>,
     (blank_entry USB_MODE_CHARGE_ADB ''charge_adb'')
      \<lparr>mode_req := Some ''usb_mode_charge_adb'',
       switch_req := Some USBD_REQ_SWITCH_CHARGE_ONLY,
       resp_ok := Some ''usb_mode_msc:ok'', resp_fail := Some ''usb_mode_msc:fail''\<rparr>,
     (blank_entry USB_MODE_RNDIS ''rndis'')
      \<lparr>mode_req := Some ''usb_mode_rndis'', switch_req := Some USBD_REQ_SWITCH_RNDIS,
       resp_ok := Some ''usb_mode_rndis:ok'', resp_fail := Some ''usb_mode_rndis:fail''\<rparr>,
     (blank_entry USB_MODE_RNDIS_ADB ''rndis_adb'')
      \<lparr>mode_req := Some ''usb_mode_rndis_adb'',
       switch_req := Some USBD_REQ_SWITCH_RNDIS, resp_ok := Some ''usb_mode_rndis:ok'',
       resp_fail := Some ''usb_mode_rndis:fail''\<rparr>,
     (blank_entry USB_MODE_CDROM2 ''cdrom2'')
      \<lparr>pre_enable := Some Cdrom_pre_enable, enable_done := Some Cdrom_enable_done,
       pre_disable := Some Cdrom_pre_disable, disable_done := Some Cdrom_disable_done\<rparr>]"

text \<open>Entries \<open>USB_MODE_BPTOOLS_ETH\<close> to \<open>USB_MODE_MAX\<close>.\<close>

definition bptools_modes :: "usb_mode_data list" where
  "bptools_modes = [
     (blank_entry USB_MODE_BPTOOLS_ETH ''acm_acm1_acm2_acm3_eth'')
      \<lparr>mode_req := Some ''usb_mode_acm_acm1_acm2_acm3_eth'',
       switch_req := Some USBD_REQ_SWITCH_BPTOOLS,
       resp_ok := Some ''usb_mode_bptools:ok'',
       resp_fail := Some ''usb_mode_bptools:fail''\<rparr>,
     (blank_entry USB_MODE_BPTOOLS_ETH_ADB ''acm_acm1_acm2_acm3_eth_adb'')
      \<lparr>mode_req := Some ''usb_mode_acm_acm1_acm2_acm3_eth_adb'',
       switch_req := Some USBD_REQ_SWITCH_BPTOOLS,
       resp_ok := Some ''usb_mode_bptools:ok'',
       resp_fail := Some ''usb_mode_bptools:fail''\<rparr>,
     (blank_entry USB_MODE_RNDIS_BPTOOLS_ETH ''rndis_acm_acm1_acm2_acm3_eth'')
      \<lparr>mode_req := Some ''usb_mode_rndis_acm_acm1_acm2_acm3_eth'',
       switch_req := Some USBD_REQ_SWITCH_BPTOOLS,
       resp_ok := Some ''usb_mode_bptools:ok'',
       resp_fail := Some ''usb_mode_bptools:fail''\<rparr>,
     (blank_entry USB_MODE_RNDIS_BPTOOLS_ETH_ADB ''rndis_acm_acm1_acm2_acm3_eth_adb'')
      \<lparr>mode_req := Some ''usb_mode_rndis_acm_acm1_acm2_acm3_eth_adb'',
       switch_req := Some USBD_REQ_SWITCH_BPTOOLS,
       resp_ok := Some ''usb_mode_bptools:ok'',
       resp_fail := Some ''usb_mode_bptools:fail''\<rparr>,
     blank_entry USB_MODE_TABLET_NETWORK_MTP ''eth_mtp'',
     blank_entry USB_MODE_TABLET_NETWORK_MTP_ADB ''eth_mtp_adb'',
     blank_entry USB_MODE_MAX ''unuse'']"

definition usb_mode_list :: "config \<Rightarrow> usb_mode_data list" where
  "usb_mode_list cfg = storage_modes cfg @ network_modes cfg @ bptools_modes"

lemmas usb_mode_list_defs =
  usb_mode_list_def storage_modes_def network_modes_def bptools_modes_def blank_entry_def

definition usb_entry :: "config \<Rightarrow> USB_MODE_T \<Rightarrow> usb_mode_data" where
  "usb_entry cfg m = usb_mode_list cfg ! mode_ord m"
section \<open>Searching the table\<close>

text \<open>
  The search loop of \<open>usbd_socket_event\<close> over the entries below \<open>USB_MODE_MAX\<close>: the index of
  the first entry whose request string equals the message, or the index after the last entry.
\<close>

fun match_mode_req :: "usb_mode_data list \<Rightarrow> string \<Rightarrow> nat \<Rightarrow> nat" where
  "match_mode_req [] buf i = i"
| "match_mode_req (d # ds) buf i =
     (if mode_req d \<noteq> None \<and> mode_req d = Some buf then i else match_mode_req ds buf (Suc i))"

text \<open>
  The search loop of \<open>usb_req_mode_switch\<close>: the first entry with the name \<open>tag\<close> and a switch
  request, with its index and that request.
\<close>

fun match_switch_req :: "usb_mode_data list \<Rightarrow> string \<Rightarrow> nat \<Rightarrow> (nat \<times> string) option" where
  "match_switch_req [] tag i = None"
| "match_switch_req (d # ds) tag i =
     (if md_name d = tag \<and> switch_req d \<noteq> None then Some (i, the (switch_req d))
      else match_switch_req ds tag (Suc i))"

definition searched_modes :: "config \<Rightarrow> usb_mode_data list" where
  "searched_modes cfg = take (mode_ord USB_MODE_MAX) (usb_mode_list cfg)"

lemma match_mode_req_lower: "i \<le> match_mode_req ds buf i"
proof (induction ds arbitrary: i)
  case (Cons d ds)
  from Cons.IH [of "Suc i"] show ?case by simp
qed simp

lemma match_mode_req_upper: "match_mode_req ds buf i \<le> i + length ds"
proof (induction ds arbitrary: i)
  case (Cons d ds)
  from Cons.IH [of "Suc i"] show ?case by simp
qed simp

lemma match_mode_req_hit:
  "match_mode_req ds buf i < i + length ds \<Longrightarrow>
   mode_req (ds ! (match_mode_req ds buf i - i)) = Some buf"
proof (induction ds arbitrary: i)
  case Nil
  then show ?case by simp
next
  case (Cons d ds)
  show ?case
  proof (cases "mode_req d = Some buf")
    case True
    then show ?thesis by simp
  next
    case False
    with Cons.prems have lt: "match_mode_req ds buf (Suc i) < Suc i + length ds" by simp
    have "Suc i \<le> match_mode_req ds buf (Suc i)" by (rule match_mode_req_lower)
    with False Cons.IH [OF lt] show ?thesis
      by (simp add: nth_Cons' Suc_diff_le [symmetric])
  qed
qed

lemma match_mode_req_none_iff:
  "match_mode_req ds buf i = i + length ds \<longleftrightarrow> (\<forall>d \<in> set ds. mode_req d \<noteq> Some buf)"
proof (induction ds arbitrary: i)
  case Nil
  then show ?case by simp
next
  case (Cons d ds)
  show ?case
  proof (cases "mode_req d = Some buf")
    case False
    with Cons.IH [of "Suc i"] show ?thesis by simp
  qed simp
qed

lemma distinct_map_filter_inj:
  assumes "distinct (List.map_filter f xs)" and "i < length xs" and "j < length xs"
    and "f (xs ! i) = Some r" and "f (xs ! j) = Some r"
  shows "i = j"
  using assms
proof (induction xs arbitrary: i j)
  case Nil
  then show ?case by simp
next
  case (Cons x xs)
  have mem: "r \<in> set (List.map_filter f xs)" if "k < length xs" "f (xs ! k) = Some r" for k
    using that by (force simp: List.map_filter_def in_set_conv_nth)
  show ?case
    using Cons mem by (cases i; cases j) (auto simp: List.map_filter_simps split: option.splits)
qed

text \<open>What the daemon relies on of the table, and what follows for its searches.\<close>

locale mode_table =
  fixes tbl :: "usb_mode_data list"
  assumes positional: "map md_mode tbl = all_modes"
    and req_distinct: "distinct (List.map_filter mode_req (take 26 tbl))"
begin

lemma tbl_length: "length tbl = 27"
  using arg_cong [OF positional, of length] by simp

lemma entry_mode: "md_mode (tbl ! mode_ord m) = m"
proof -
  have "map md_mode tbl ! mode_ord m = m" by (simp add: positional)
  then show ?thesis by (simp add: tbl_length)
qed

lemma req_found:
  assumes "m \<noteq> USB_MODE_MAX" and "mode_req (tbl ! mode_ord m) = Some r"
  shows "match_mode_req (take 26 tbl) r 0 = mode_ord m"
proof -
  let ?k = "match_mode_req (take 26 tbl) r 0"
  have len: "length (take 26 tbl) = 26" by (simp add: tbl_length)
  have m: "mode_ord m < 26" using assms(1) by (cases m) simp_all
  then have "tbl ! mode_ord m \<in> set (take 26 tbl)"
    using len by (metis nth_mem nth_take)
  then have "?k \<noteq> 26"
    using match_mode_req_none_iff [of "take 26 tbl" r 0] assms(2) len by auto
  then have k: "?k < 26"
    using match_mode_req_upper [of "take 26 tbl" r 0] len by simp
  then have "mode_req (take 26 tbl ! ?k) = Some r"
    using match_mode_req_hit [of "take 26 tbl" r 0] len by simp
  then show ?thesis
    using distinct_map_filter_inj [OF req_distinct, of ?k "mode_ord m" r] k m len assms(2)
    by simp
qed

lemma req_unknown:
  "(\<And>m. mode_req (tbl ! mode_ord m) \<noteq> Some r) \<Longrightarrow> match_mode_req (take 26 tbl) r 0 = 26"
proof -
  assume none: "\<And>m. mode_req (tbl ! mode_ord m) \<noteq> Some r"
  have "mode_req d \<noteq> Some r" if "d \<in> set (take 26 tbl)" for d
  proof -
    from that obtain i where "i < 26" "d = tbl ! i"
      by (auto simp: in_set_conv_nth tbl_length)
    with none [of "all_modes ! i"] show ?thesis by simp
  qed
  then show ?thesis
    using match_mode_req_none_iff [of "take 26 tbl" r 0] by (simp add: tbl_length)
qed

end

lemma usb_mode_list_positional: "map md_mode (usb_mode_list cfg) = all_modes"
  by (simp add: usb_mode_list_defs all_modes_def)

lemma usb_mode_list_req_distinct:
  "distinct (List.map_filter mode_req (take 26 (usb_mode_list cfg)))"
  by (simp add: usb_mode_list_defs List.map_filter_simps)

interpretation usb_table: mode_table "usb_mode_list cfg" for cfg
  by unfold_locales (rule usb_mode_list_positional, rule usb_mode_list_req_distinct)

end
