(* ===== verification/Usb_World.thy ===== *)
theory Usb_World
  imports Usb_Modes
begin

text \<open>
  The state of the daemon (the globals of \<^verbatim>\<open>usbd/usb_app.c\<close> and the buffers \<open>main\<close> keeps
  across iterations) and its interface to the system.

  Every call the sources make to the kernel or to libcutils is a value of \<open>io_call\<close>; a call is
  appended to \<open>history\<close> and answered by an environment \<open>env\<close>, which is a parameter of the
  model: it may answer each call differently, depending on everything that happened before.
  Nothing is assumed of the environment unless a theorem says so.  Log output is left out.

  Undefined behaviour of the C code (a write past the end of a buffer, a read outside of one, a
  read of an uninitialised buffer, a null string argument) is a value of \<open>fault\<close>; once it has
  happened the model makes no further step.
\<close>

section \<open>Calls and their answers\<close>

datatype open_flag = O_RDONLY | O_WRONLY | O_RDWR

datatype ioctl_request = LOOP_CLR_FD | LOOP_GET_STATUS | LOOP_SET_FD int

datatype io_call =
    Sys_write int string
  | Sys_read int nat
  | Sys_open string open_flag
  | Sys_close int
  | Sys_access string
  | Sys_ioctl int ioctl_request
  | Sys_mknod string "32 word"
  | Sys_mount string string string
  | Sys_umount string
  | Sys_system string
  | Sys_property_get string string
  | Sys_fopen string string
  | Sys_fgets int
  | Sys_ftell_end int
  | Sys_fread int nat
  | Sys_fprintf int string
  | Sys_fclose int
  | Sys_opendir string
  | Sys_local_server string
  | Sys_chown string
  | Sys_chmod string
  | Sys_accept int
  | Sys_netlink_socket
  | Sys_setsockopt int string
  | Sys_bind int
  | Sys_recvmsg int

text \<open>
  An environment: the value a call returns, \<open>errno\<close> after it, the bytes it leaves in the
  caller's buffer, the names a directory lists, and the sender of a netlink message
  (\<open>nl_groups\<close>, \<open>nl_pid\<close>, and the user id of its credentials if it has any).
\<close>

record env =
  io_ret :: "io_call list \<Rightarrow> io_call \<Rightarrow> int"
  io_errno :: "io_call list \<Rightarrow> io_call \<Rightarrow> int"
  io_data :: "io_call list \<Rightarrow> io_call \<Rightarrow> string"
  io_dir :: "io_call list \<Rightarrow> string \<Rightarrow> string list"
  io_sender :: "io_call list \<Rightarrow> nat \<times> nat \<times> nat option"

abbreviation EEXIST :: int where "EEXIST \<equiv> 17"
abbreviation ENXIO :: int where "ENXIO \<equiv> 6"
abbreviation ECONNRESET :: int where "ECONNRESET \<equiv> 104"

section \<open>The state of the daemon\<close>

datatype fault = Buffer_overflow | Out_of_bounds_read | Uninitialised_read | Null_string

record usbd =
  usbd_curr_usb_mode :: USB_MODE_T
  usbd_current_state :: USBD_STATE_T
  connected_apps_fd :: "int set"
  usbd_server_fd :: int
  usb_device_fd :: int
  uevent_sock :: int
  usbd_app_fd :: int
  max_fd :: int
  usb_get_des_count :: int
  current_usb_online :: bool
  usbd_mode :: MOTO_MODE_TYPE_T
  usb_alt_mode :: bool
  tethering_enabled :: int
  usbd_curr_cable_status :: MOTO_ACCY_TYPE_T
  curr_loop_dev :: string
  cdrom_mounted :: bool
  pcSwitchbuf :: "string option"
  adbEnablebuf :: "string option"
  tetheringEnablebuf :: "string option"
  fault :: "fault option"
  history :: "io_call list"

text \<open>The values the globals are initialised with.\<close>

definition initial_usbd :: usbd where
  "initial_usbd = \<lparr>usbd_curr_usb_mode = USB_MODE_MIN,
     usbd_current_state = USBD_STATE_CABLE_DEFAULT, connected_apps_fd = {},
     usbd_server_fd = -1, usb_device_fd = -1, uevent_sock = -1, usbd_app_fd = 0, max_fd = -1,
     usb_get_des_count = 0, current_usb_online = False, usbd_mode = MOTO_MODE_TYPE_NORMAL,
     usb_alt_mode = False, tethering_enabled = 0,
     usbd_curr_cable_status = MOTO_ACCY_TYPE_EMU_UNKNOWN, curr_loop_dev = [],
     cdrom_mounted = False, pcSwitchbuf = None, adbEnablebuf = None,
     tetheringEnablebuf = None, fault = None, history = []\<rparr>"

lemma initial_usbd_simps [simp]:
  "usbd_curr_usb_mode initial_usbd = USB_MODE_MIN"
  "usbd_mode initial_usbd = MOTO_MODE_TYPE_NORMAL" "\<not> usb_alt_mode initial_usbd"
  "tethering_enabled initial_usbd = 0" "pcSwitchbuf initial_usbd = None"
  "adbEnablebuf initial_usbd = None" "tetheringEnablebuf initial_usbd = None"
  "fault initial_usbd = None" "history initial_usbd = []"
  by (simp_all add: initial_usbd_def)

type_synonym 'a usb_op = "(usbd, 'a) state"

abbreviation ret :: "'a \<Rightarrow> 'a usb_op" where
  "ret \<equiv> State_Monad.return"

abbreviation get_usbd :: "usbd usb_op" where
  "get_usbd \<equiv> State_Monad.get"

section \<open>Making a call\<close>

definition log_call :: "io_call \<Rightarrow> unit usb_op" where
  "log_call c = modify (\<lambda>s. s\<lparr>history := history s @ [c]\<rparr>)"

definition call :: "env \<Rightarrow> io_call \<Rightarrow> int usb_op" where
  "call e c = do { s \<leftarrow> get_usbd; log_call c; ret (io_ret e (history s) c) }"

definition call_errno :: "env \<Rightarrow> io_call \<Rightarrow> (int \<times> int) usb_op" where
  "call_errno e c = do {
     s \<leftarrow> get_usbd; log_call c; ret (io_ret e (history s) c, io_errno e (history s) c) }"

definition call_data :: "env \<Rightarrow> io_call \<Rightarrow> (int \<times> string) usb_op" where
  "call_data e c = do {
     s \<leftarrow> get_usbd; log_call c; ret (io_ret e (history s) c, io_data e (history s) c) }"

definition raise_fault :: "fault \<Rightarrow> unit usb_op" where
  "raise_fault f = modify (\<lambda>s. s\<lparr>fault := Some f\<rparr>)"

text \<open>A buffer of \<open>n\<close> bytes holding the bytes \<open>d\<close>, zero-filled or cut to its size.\<close>

definition fill :: "nat \<Rightarrow> string \<Rightarrow> string" where
  "fill n d = take n (d @ replicate n NUL)"

text \<open>Writing a C string with its NUL.\<close>

definition write_cstr :: "env \<Rightarrow> int \<Rightarrow> string \<Rightarrow> int usb_op" where
  "write_cstr e fd s = call e (Sys_write fd (s @ [NUL]))"

lemma length_fill [simp]: "length (fill n d) = n"
  by (simp add: fill_def)

lemma fill_exact: "length d = n \<Longrightarrow> fill n d = d"
  by (simp add: fill_def)

text \<open>
  A call changes nothing but the history.  These equations are the simplifier's view of every
  operation: the state after an operation is computed field by field.
\<close>

lemma exec_log_call [simp]: "exec (log_call c) s = s\<lparr>history := history s @ [c]\<rparr>"
  by (simp add: log_call_def)

lemma exec_call [simp]: "exec (call e c) s = s\<lparr>history := history s @ [c]\<rparr>"
  by (simp add: call_def)

lemma result_call [simp]: "result (call e c) s = io_ret e (history s) c"
  by (simp add: call_def)

lemma exec_call_errno [simp]: "exec (call_errno e c) s = s\<lparr>history := history s @ [c]\<rparr>"
  by (simp add: call_errno_def)

lemma result_call_errno [simp]:
  "result (call_errno e c) s = (io_ret e (history s) c, io_errno e (history s) c)"
  by (simp add: call_errno_def)

lemma exec_call_data [simp]: "exec (call_data e c) s = s\<lparr>history := history s @ [c]\<rparr>"
  by (simp add: call_data_def)

lemma result_call_data [simp]:
  "result (call_data e c) s = (io_ret e (history s) c, io_data e (history s) c)"
  by (simp add: call_data_def)

lemma exec_write_cstr [simp]:
  "exec (write_cstr e fd m) s = s\<lparr>history := history s @ [Sys_write fd (m @ [NUL])]\<rparr>"
  by (simp add: write_cstr_def)

lemma result_write_cstr [simp]:
  "result (write_cstr e fd m) s = io_ret e (history s) (Sys_write fd (m @ [NUL]))"
  by (simp add: write_cstr_def)

lemma exec_raise_fault [simp]: "exec (raise_fault f) s = s\<lparr>fault := Some f\<rparr>"
  by (simp add: raise_fault_def)

section \<open>Frames\<close>

text \<open>
  Most operations touch the history and at most the bookkeeping of the CD-ROM image
  (\<open>curr_loop_dev\<close>, \<open>cdrom_mounted\<close>); what they leave alone is a \<open>frame\<close>.
  \<open>io_only\<close> operations change the history alone.
\<close>

definition core :: "usbd \<Rightarrow> usbd" where
  "core s = s\<lparr>curr_loop_dev := [], cdrom_mounted := False, history := []\<rparr>"

definition keeps_core :: "'a usb_op \<Rightarrow> bool" where
  "keeps_core m \<longleftrightarrow> (\<forall>s. core (exec m s) = core s)"

definition io_only :: "'a usb_op \<Rightarrow> bool" where
  "io_only m \<longleftrightarrow> (\<forall>s. \<exists>h. exec m s = s\<lparr>history := history s @ h\<rparr>)"

named_theorems frame_intros \<open>rules for keeps_core and io_only\<close>

lemma core_eq_iff:
  "core s = core t \<longleftrightarrow>
     usbd_curr_usb_mode s = usbd_curr_usb_mode t \<and> usbd_current_state s = usbd_current_state t \<and>
     connected_apps_fd s = connected_apps_fd t \<and> usbd_server_fd s = usbd_server_fd t \<and>
     usb_device_fd s = usb_device_fd t \<and> uevent_sock s = uevent_sock t \<and>
     usbd_app_fd s = usbd_app_fd t \<and> max_fd s = max_fd t \<and>
     usb_get_des_count s = usb_get_des_count t \<and> current_usb_online s = current_usb_online t \<and>
     usbd_mode s = usbd_mode t \<and> usb_alt_mode s = usb_alt_mode t \<and>
     tethering_enabled s = tethering_enabled t \<and>
     usbd_curr_cable_status s = usbd_curr_cable_status t \<and> pcSwitchbuf s = pcSwitchbuf t \<and>
     adbEnablebuf s = adbEnablebuf t \<and> tetheringEnablebuf s = tetheringEnablebuf t \<and>
     fault s = fault t"
  by (cases s; cases t) (auto simp: core_def)

lemma keeps_coreI: "(\<And>s. core (exec m s) = core s) \<Longrightarrow> keeps_core m"
  by (simp add: keeps_core_def)

lemma keeps_coreD: "keeps_core m \<Longrightarrow> core (exec m s) = core s"
  by (simp add: keeps_core_def)

lemma keeps_core_bind [frame_intros]:
  "keeps_core m \<Longrightarrow> (\<And>r. keeps_core (f r)) \<Longrightarrow> keeps_core (m \<bind> f)"
  by (simp add: keeps_core_def)

lemma keeps_core_if [frame_intros]:
  "(b \<Longrightarrow> keeps_core m) \<Longrightarrow> (\<not> b \<Longrightarrow> keeps_core n) \<Longrightarrow> keeps_core (if b then m else n)"
  by simp

lemma keeps_core_basic [frame_intros]:
  "keeps_core (ret x)" "keeps_core skip" "keeps_core get_usbd" "keeps_core (call e c)"
  "keeps_core (call_errno e c)" "keeps_core (call_data e c)" "keeps_core (write_cstr e fd m)"
  by (auto intro!: keeps_coreI simp: core_def)

lemma keeps_core_cdrom [frame_intros]:
  "keeps_core (modify (\<lambda>s. s\<lparr>cdrom_mounted := b\<rparr>))"
  "keeps_core (modify (\<lambda>s. s\<lparr>curr_loop_dev := d\<rparr>))"
  by (auto intro!: keeps_coreI simp: core_def)

lemma keeps_core_case_prod [frame_intros]:
  "(\<And>a b. keeps_core (f a b)) \<Longrightarrow> keeps_core (case p of (a, b) \<Rightarrow> f a b)"
  by (cases p) simp

lemma keeps_core_case_option [frame_intros]:
  "keeps_core m \<Longrightarrow> (\<And>x. keeps_core (f x)) \<Longrightarrow>
   keeps_core (case q of None \<Rightarrow> m | Some x \<Rightarrow> f x)"
  by (cases q) simp_all

lemma io_onlyD: "io_only m \<Longrightarrow> \<exists>h. exec m s = s\<lparr>history := history s @ h\<rparr>"
  by (simp add: io_only_def)

lemma io_only_bind [frame_intros]:
  assumes "io_only m" and "\<And>r. io_only (f r)"
  shows "io_only (m \<bind> f)"
  unfolding io_only_def
proof
  fix s
  obtain h where h: "exec m s = s\<lparr>history := history s @ h\<rparr>"
    using assms(1) io_onlyD by blast
  obtain h' where "exec (f (result m s)) (exec m s) =
      (exec m s)\<lparr>history := history (exec m s) @ h'\<rparr>"
    using assms(2) io_onlyD by blast
  with h have "exec (m \<bind> f) s = s\<lparr>history := history s @ (h @ h')\<rparr>" by simp
  then show "\<exists>h. exec (m \<bind> f) s = s\<lparr>history := history s @ h\<rparr>" by blast
qed

lemma io_only_if [frame_intros]:
  "(b \<Longrightarrow> io_only m) \<Longrightarrow> (\<not> b \<Longrightarrow> io_only n) \<Longrightarrow> io_only (if b then m else n)"
  by simp

lemma io_onlyI: "(\<And>s. exec m s = s\<lparr>history := history s @ h s\<rparr>) \<Longrightarrow> io_only m"
  unfolding io_only_def by blast

lemma io_only_pure [frame_intros]: "io_only (ret x)" "io_only skip" "io_only get_usbd"
  by (auto intro: io_onlyI [where h = "\<lambda>_. []"])

lemma io_only_call [frame_intros]:
  "io_only (call e c)" "io_only (call_errno e c)" "io_only (call_data e c)"
  "io_only (write_cstr e fd m)"
  by (rule io_onlyI, simp)+

lemma io_only_case_prod [frame_intros]:
  "(\<And>a b. io_only (f a b)) \<Longrightarrow> io_only (case p of (a, b) \<Rightarrow> f a b)"
  by (cases p) simp

lemma io_only_case_option [frame_intros]:
  "io_only m \<Longrightarrow> (\<And>x. io_only (f x)) \<Longrightarrow> io_only (case q of None \<Rightarrow> m | Some x \<Rightarrow> f x)"
  by (cases q) simp_all

lemma io_only_keeps_core: "io_only m \<Longrightarrow> keeps_core m"
proof (rule keeps_coreI)
  fix s
  assume "io_only m"
  then obtain h where "exec m s = s\<lparr>history := history s @ h\<rparr>" using io_onlyD by blast
  then show "core (exec m s) = core s" by (simp add: core_def)
qed

text \<open>No operation rewrites the history: it only grows.\<close>

definition grows :: "'a usb_op \<Rightarrow> bool" where
  "grows m \<longleftrightarrow> (\<forall>s. \<exists>h. history (exec m s) = history s @ h)"

lemma growsD: "grows m \<Longrightarrow> \<exists>h. history (exec m s) = history s @ h"
  by (simp add: grows_def)

lemma io_only_grows: "io_only m \<Longrightarrow> grows m"
  unfolding grows_def
proof
  fix s
  assume "io_only m"
  then obtain h where "exec m s = s\<lparr>history := history s @ h\<rparr>" using io_onlyD by blast
  then show "\<exists>h. history (exec m s) = history s @ h" by simp
qed

lemma grows_bind [frame_intros]:
  assumes "grows m" and "\<And>r. grows (f r)"
  shows "grows (m \<bind> f)"
  unfolding grows_def
proof
  fix s
  obtain h where "history (exec m s) = history s @ h" using growsD [OF assms(1)] by blast
  moreover obtain h' where
    "history (exec (f (result m s)) (exec m s)) = history (exec m s) @ h'"
    using growsD [OF assms(2)] by blast
  ultimately show "\<exists>h. history (exec (m \<bind> f) s) = history s @ h" by simp
qed

lemma grows_if [frame_intros]:
  "(b \<Longrightarrow> grows m) \<Longrightarrow> (\<not> b \<Longrightarrow> grows n) \<Longrightarrow> grows (if b then m else n)"
  by simp

lemma grows_modify: "(\<And>s. history (f s) = history s) \<Longrightarrow> grows (modify f)"
  by (simp add: grows_def)

lemma grows_basic [frame_intros]:
  "grows (ret x)" "grows skip" "grows get_usbd" "grows (call e c)" "grows (call_errno e c)"
  "grows (call_data e c)" "grows (write_cstr e fd m)"
  by (rule io_only_grows, rule frame_intros)+

lemma grows_cdrom [frame_intros]:
  "grows (modify (\<lambda>s. s\<lparr>cdrom_mounted := b\<rparr>))"
  "grows (modify (\<lambda>s. s\<lparr>curr_loop_dev := d\<rparr>))"
  by (rule grows_modify, simp)+

lemma grows_case_prod [frame_intros]:
  "(\<And>a b. grows (f a b)) \<Longrightarrow> grows (case p of (a, b) \<Rightarrow> f a b)"
  by (cases p) simp

lemma grows_case_option [frame_intros]:
  "grows m \<Longrightarrow> (\<And>x. grows (f x)) \<Longrightarrow> grows (case q of None \<Rightarrow> m | Some x \<Rightarrow> f x)"
  by (cases q) simp_all

end
