(* ===== verification/Usb_Cdrom.thy ===== *)
theory Usb_Cdrom
  imports Usb_World
begin

text \<open>
  The CD-ROM image of the daemon: binding it to a loop device (\<open>loop_create\<close>), exporting it
  through the mass-storage driver (\<open>cdrom_partition_mount\<close>), mounting it to read its version
  file (\<open>cdrom_smart_version_mount\<close>, \<open>cdrom_read_version_key\<close>), and the functions the mode
  table points to.
\<close>

section \<open>Loop devices\<close>

abbreviation LOOP_MAX :: nat where "LOOP_MAX \<equiv> 4096"
abbreviation LOOP_DEV_PATH_LEN :: nat where "LOOP_DEV_PATH_LEN \<equiv> 255"
abbreviation MAX_VERSION_SIZE :: nat where "MAX_VERSION_SIZE \<equiv> 255"

unbundle bit_operations_syntax

text \<open>The node of the \<open>i\<close>th loop device and its device number.\<close>

definition loop_path :: "nat \<Rightarrow> string" where
  "loop_path i = ''/dev/block/loop'' @ print_nat i"

definition loop_dev :: "nat \<Rightarrow> 32 word" where
  "loop_dev i = (0xff AND word_of_nat i) OR (push_bit 12 (word_of_nat i) AND 0xfff00000)
                OR push_bit 8 7"

datatype loop_scan = Loop_error | Loop_exhausted | Loop_free nat int

text \<open>
  The search loop of \<open>loop_create\<close> with \<open>n\<close> devices left, \<open>i\<close> the next one: the first device
  whose status is \<open>ENXIO\<close> is free and stays open.
\<close>

fun loop_search :: "env \<Rightarrow> nat \<Rightarrow> nat \<Rightarrow> loop_scan usb_op" where
  "loop_search e 0 i = ret Loop_exhausted"
| "loop_search e (Suc n) i = do {
     (mk, mk_errno) \<leftarrow> call_errno e (Sys_mknod (loop_path i) (loop_dev i));
     if mk < 0 \<and> mk_errno \<noteq> EEXIST then ret Loop_error
     else do {
       fd \<leftarrow> call e (Sys_open (loop_path i) O_RDWR);
       if fd < 0 then ret Loop_error
       else do {
         (rc, rc_errno) \<leftarrow> call_errno e (Sys_ioctl fd LOOP_GET_STATUS);
         if rc < 0 \<and> rc_errno = ENXIO then ret (Loop_free i fd)
         else do {
           _ \<leftarrow> call e (Sys_close fd);
           if rc < 0 then ret Loop_error else loop_search e n (Suc i)
         }
       }
     }
   }"

definition loop_create :: "env \<Rightarrow> string \<Rightarrow> int usb_op" where
  "loop_create e loopFile = do {
     r \<leftarrow> loop_search e LOOP_MAX 0;
     case r of
       Loop_error \<Rightarrow> ret (-1)
     | Loop_exhausted \<Rightarrow> ret (-1)
     | Loop_free i fd \<Rightarrow> do {
         modify (\<lambda>s. s\<lparr>curr_loop_dev := take (LOOP_DEV_PATH_LEN - 1) (loop_path i)\<rparr>);
         file_fd \<leftarrow> call e (Sys_open loopFile O_RDWR);
         if file_fd < 0 then do { _ \<leftarrow> call e (Sys_close fd); ret (-1) }
         else do {
           rc \<leftarrow> call e (Sys_ioctl fd (LOOP_SET_FD file_fd));
           if rc < 0 then do {
             _ \<leftarrow> call e (Sys_close file_fd);
             _ \<leftarrow> call e (Sys_close fd);
             ret (-1)
           }
           else do {
             _ \<leftarrow> call e (Sys_close fd);
             _ \<leftarrow> call e (Sys_close file_fd);
             ret 0
           }
         }
       }
   }"

section \<open>Exporting the CD-ROM\<close>

text \<open>The end of \<open>cdrom_partition_mount\<close>: create the loop device and hand it to the driver.\<close>

definition cdrom_bind_loop :: "env \<Rightarrow> int \<Rightarrow> bool \<Rightarrow> unit usb_op" where
  "cdrom_bind_loop e fd mount =
     (if mount then do {
        rc \<leftarrow> loop_create e ''/cdrom/cdrom_vfat.bin'';
        if rc \<noteq> 0 then skip
        else do {
          modify (\<lambda>s. s\<lparr>cdrom_mounted := True\<rparr>);
          s \<leftarrow> get_usbd;
          _ \<leftarrow> call e (Sys_write fd (curr_loop_dev s));
          _ \<leftarrow> call e (Sys_close fd);
          skip
        }
      }
      else do { _ \<leftarrow> call e (Sys_close fd); skip })"

definition cdrom_partition_mount :: "config \<Rightarrow> env \<Rightarrow> bool \<Rightarrow> unit usb_op" where
  "cdrom_partition_mount cfg e mount = do {
     fd \<leftarrow> call e (Sys_open (CDROMIO_DEVNODE cfg) O_WRONLY);
     if fd < 0 then skip
     else do {
       acc \<leftarrow> call e (Sys_access (CDROM_BLOCK_DEVICE cfg));
       if acc = 0 then do {
         _ \<leftarrow> (if mount then call e (Sys_write fd (CDROM_BLOCK_DEVICE cfg))
               else call e (Sys_write fd [NUL]));
         _ \<leftarrow> call e (Sys_close fd);
         skip
       }
       else do {
         s \<leftarrow> get_usbd;
         if cdrom_mounted s then do {
           _ \<leftarrow> call e (Sys_write fd [NUL]);
           device_fd \<leftarrow> call e (Sys_open (curr_loop_dev s) O_RDONLY);
           if device_fd < 0 then skip
           else do {
             rc \<leftarrow> call e (Sys_ioctl device_fd LOOP_CLR_FD);
             if rc < 0 then do { _ \<leftarrow> call e (Sys_close device_fd); skip }
             else do {
               modify (\<lambda>s. s\<lparr>cdrom_mounted := False\<rparr>);
               _ \<leftarrow> call e (Sys_close device_fd);
               cdrom_bind_loop e fd mount
             }
           }
         }
         else cdrom_bind_loop e fd mount
       }
     }
   }"

section \<open>Reading the version of the image\<close>

definition cdrom_smart_version_mount :: "config \<Rightarrow> env \<Rightarrow> bool \<Rightarrow> unit usb_op" where
  "cdrom_smart_version_mount cfg e imount = do {
     acc \<leftarrow> call e (Sys_access (CDROM_BLOCK_DEVICE cfg));
     if acc = 0 then do {
       _ \<leftarrow> (if imount then call e (Sys_mount (CDROM_BLOCK_DEVICE cfg) ''/cdrom'' ''iso9660'')
             else call e (Sys_umount ''/cdrom''));
       skip
     }
     else if imount then do {
       rc \<leftarrow> loop_create e ''/cdrom/cdrom_vfat.bin'';
       if rc \<noteq> 0 then skip
       else do {
         s \<leftarrow> get_usbd;
         _ \<leftarrow> call e (Sys_mount (curr_loop_dev s) ''/cdrom'' ''iso9660'');
         skip
       }
     }
     else do {
       _ \<leftarrow> call e (Sys_umount ''/cdrom'');
       s \<leftarrow> get_usbd;
       device_fd \<leftarrow> call e (Sys_open (curr_loop_dev s) O_RDONLY);
       if device_fd < 0 then skip
       else do {
         rc \<leftarrow> call e (Sys_ioctl device_fd LOOP_CLR_FD);
         if rc < 0 then skip else do { _ \<leftarrow> call e (Sys_close device_fd); skip }
       }
     }
   }"

abbreviation version_prefix :: string where
  "version_prefix \<equiv> ''pc_mot_drv_vers_query:''"

text \<open>
  \<open>file_len\<close> is an unsigned long, so an error of \<open>ftell\<close> becomes a huge length; the answer to
  \<open>Sys_fread\<close> is what the buffer holds after the call.
\<close>

definition version_len :: "int \<Rightarrow> nat" where
  "version_len pos = min (unat (word_of_int pos :: 32 word))
                         (MAX_VERSION_SIZE - length version_prefix - 1)"

definition cdrom_read_version_key :: "env \<Rightarrow> int usb_op" where
  "cdrom_read_version_key e = do {
     file \<leftarrow> call e (Sys_fopen ''/cdrom/cdinfo'' ''rb'');
     if file = 0 then ret 0
     else do {
       pos \<leftarrow> call e (Sys_ftell_end file);
       (_, d) \<leftarrow> call_data e (Sys_fread file (version_len pos));
       _ \<leftarrow> call e (Sys_fclose file);
       s \<leftarrow> get_usbd;
       if usb_device_fd s < 0 then ret 0
       else call e (Sys_write (usb_device_fd s)
              (version_prefix @ fill (version_len pos) d @ [NUL]))
     }
   }"

section \<open>The functions of the mode table\<close>

abbreviation cdrom_param :: string where
  "cdrom_param \<equiv> ''/sys/module/g_mot_android/parameters/cdrom''"
abbreviation eject_param :: string where
  "eject_param \<equiv> ''/sys/module/g_mot_android/parameters/allow_eject''"
abbreviation msc_enable :: string where
  "msc_enable \<equiv> ''/sys/devices/virtual/usb_composite/usb_mass_storage/enable''"

text \<open>\<open>system ("echo b > path")\<close>.\<close>

definition system_echo :: "env \<Rightarrow> string \<Rightarrow> string \<Rightarrow> unit usb_op" where
  "system_echo e b path = do { _ \<leftarrow> call e (Sys_system (''echo '' @ b @ '' > '' @ path)); skip }"

definition cdrom_pre_enable :: "env \<Rightarrow> unit usb_op" where
  "cdrom_pre_enable e = system_echo e ''1'' cdrom_param"

definition cdrom_disable_done :: "env \<Rightarrow> unit usb_op" where
  "cdrom_disable_done e = system_echo e ''0'' cdrom_param"

definition cdrom_enable_done :: "config \<Rightarrow> env \<Rightarrow> unit usb_op" where
  "cdrom_enable_done cfg e = cdrom_partition_mount cfg e True"

definition cdrom_pre_disable :: "config \<Rightarrow> env \<Rightarrow> unit usb_op" where
  "cdrom_pre_disable cfg e = cdrom_partition_mount cfg e False"

definition msc_pre_enable :: "config \<Rightarrow> env \<Rightarrow> unit usb_op" where
  "msc_pre_enable cfg e =
     (if MSD_CDROM_ENABLED cfg
      then do { system_echo e ''1'' cdrom_param; system_echo e ''0'' eject_param } else skip)"

definition msc_enable_done :: "config \<Rightarrow> env \<Rightarrow> unit usb_op" where
  "msc_enable_done cfg e = do {
     (if MSD_CDROM_ENABLED cfg then cdrom_partition_mount cfg e True else skip);
     system_echo e ''1'' msc_enable }"

definition msc_pre_disable :: "config \<Rightarrow> env \<Rightarrow> unit usb_op" where
  "msc_pre_disable cfg e = do {
     (if MSD_CDROM_ENABLED cfg then cdrom_partition_mount cfg e False else skip);
     system_echo e ''0'' msc_enable }"

definition msc_disable_done :: "config \<Rightarrow> env \<Rightarrow> unit usb_op" where
  "msc_disable_done cfg e =
     (if MSD_CDROM_ENABLED cfg
      then do { system_echo e ''0'' cdrom_param; system_echo e ''1'' eject_param } else skip)"

definition msc_only_enable_done :: "env \<Rightarrow> unit usb_op" where
  "msc_only_enable_done e = system_echo e ''1'' msc_enable"

definition msc_only_pre_disable :: "env \<Rightarrow> unit usb_op" where
  "msc_only_pre_disable e = system_echo e ''0'' msc_enable"

definition msc_adb_enable_done :: "env \<Rightarrow> unit usb_op" where
  "msc_adb_enable_done e = system_echo e ''1'' msc_enable"

definition msc_adb_pre_disable :: "env \<Rightarrow> unit usb_op" where
  "msc_adb_pre_disable e = system_echo e ''0'' msc_enable"

text \<open>
  A call through a function pointer.  The functions of the MTP, ADB, NGP, modem and network
  modes have empty bodies in the source.
\<close>

fun run_hook :: "config \<Rightarrow> env \<Rightarrow> hook \<Rightarrow> unit usb_op" where
  "run_hook cfg e Cdrom_pre_enable = cdrom_pre_enable e"
| "run_hook cfg e Cdrom_disable_done = cdrom_disable_done e"
| "run_hook cfg e Cdrom_enable_done = cdrom_enable_done cfg e"
| "run_hook cfg e Cdrom_pre_disable = cdrom_pre_disable cfg e"
| "run_hook cfg e Msc_pre_enable = msc_pre_enable cfg e"
| "run_hook cfg e Msc_enable_done = msc_enable_done cfg e"
| "run_hook cfg e Msc_pre_disable = msc_pre_disable cfg e"
| "run_hook cfg e Msc_disable_done = msc_disable_done cfg e"
| "run_hook cfg e Msc_only_enable_done = msc_only_enable_done e"
| "run_hook cfg e Msc_only_pre_disable = msc_only_pre_disable e"
| "run_hook cfg e Msc_adb_enable_done = msc_adb_enable_done e"
| "run_hook cfg e Msc_adb_pre_disable = msc_adb_pre_disable e"
| "run_hook cfg e Mtp_enable_done = skip"
| "run_hook cfg e Adb_pre_enable = skip"
| "run_hook cfg e Adb_pre_disable = skip"
| "run_hook cfg e Ngp_pre_enable = skip"
| "run_hook cfg e Ngp_enable_done = skip"
| "run_hook cfg e Ngp_pre_disable = skip"
| "run_hook cfg e Ngp_adb_pre_enable = skip"
| "run_hook cfg e Ngp_adb_enable_done = skip"
| "run_hook cfg e Ngp_adb_pre_disable = skip"
| "run_hook cfg e Mtp_adb_pre_enable = skip"
| "run_hook cfg e Mtp_adb_enable_done = skip"
| "run_hook cfg e Mtp_adb_pre_disable = skip"
| "run_hook cfg e Modem_enable_done = skip"
| "run_hook cfg e Modem_pre_disable = skip"
| "run_hook cfg e Modem_adb_pre_enable = skip"
| "run_hook cfg e Modem_adb_enable_done = skip"
| "run_hook cfg e Modem_adb_pre_disable = skip"
| "run_hook cfg e Network_enable_done = skip"
| "run_hook cfg e Network_pre_disable = skip"

text \<open>\<open>if (p) p ();\<close> on a function pointer of the table.\<close>

definition run_opt :: "config \<Rightarrow> env \<Rightarrow> hook option \<Rightarrow> unit usb_op" where
  "run_opt cfg e h = (case h of None \<Rightarrow> skip | Some f \<Rightarrow> run_hook cfg e f)"

section \<open>Frames of the CD-ROM operations\<close>

lemma loop_search_io_only [frame_intros]: "io_only (loop_search e n i)"
  by (induction n arbitrary: i) (auto intro!: frame_intros)

lemma loop_create_keeps_core [frame_intros]: "keeps_core (loop_create e f)"
  unfolding loop_create_def
  by (intro frame_intros io_only_keeps_core [OF loop_search_io_only])
     (auto intro!: frame_intros split: loop_scan.split)

lemma cdrom_partition_mount_keeps_core [frame_intros]:
  "keeps_core (cdrom_partition_mount cfg e b)"
  unfolding cdrom_partition_mount_def cdrom_bind_loop_def by (intro frame_intros)

lemma cdrom_smart_version_mount_keeps_core [frame_intros]:
  "keeps_core (cdrom_smart_version_mount cfg e b)"
  unfolding cdrom_smart_version_mount_def by (intro frame_intros)

lemma cdrom_read_version_key_io_only [frame_intros]: "io_only (cdrom_read_version_key e)"
  unfolding cdrom_read_version_key_def by (intro frame_intros)

lemma system_echo_keeps_core [frame_intros]: "keeps_core (system_echo e b p)"
  unfolding system_echo_def by (intro frame_intros)

lemmas hook_defs =
  cdrom_pre_enable_def cdrom_disable_done_def cdrom_enable_done_def cdrom_pre_disable_def
  msc_pre_enable_def msc_enable_done_def msc_pre_disable_def msc_disable_done_def
  msc_only_enable_done_def msc_only_pre_disable_def msc_adb_enable_done_def
  msc_adb_pre_disable_def

lemma run_hook_keeps_core [frame_intros]: "keeps_core (run_hook cfg e h)"
  by (cases h) (auto simp: hook_defs intro!: frame_intros)

lemma run_opt_keeps_core [frame_intros]: "keeps_core (run_opt cfg e h)"
  unfolding run_opt_def by (intro frame_intros)

lemma loop_create_grows [frame_intros]: "grows (loop_create e f)"
  unfolding loop_create_def
  by (rule grows_bind [OF io_only_grows [OF loop_search_io_only]])
     (auto intro!: frame_intros split: loop_scan.split)

lemma cdrom_partition_mount_grows [frame_intros]: "grows (cdrom_partition_mount cfg e b)"
  unfolding cdrom_partition_mount_def cdrom_bind_loop_def by (intro frame_intros)

lemma system_echo_grows [frame_intros]: "grows (system_echo e b p)"
  unfolding system_echo_def by (intro frame_intros)

lemma run_hook_grows [frame_intros]: "grows (run_hook cfg e h)"
  by (cases h) (auto simp: hook_defs intro!: frame_intros)

lemma run_opt_grows [frame_intros]: "grows (run_opt cfg e h)"
  unfolding run_opt_def by (intro frame_intros)

section \<open>File descriptors\<close>

text \<open>
  The descriptors a history leaves open: a successful \<open>open\<close> adds the descriptor it returned,
  \<open>close\<close> removes one.
\<close>

fun fd_effect :: "env \<Rightarrow> io_call list \<Rightarrow> io_call \<Rightarrow> int multiset \<Rightarrow> int multiset" where
  "fd_effect e h (Sys_open p f) M =
     (if io_ret e h (Sys_open p f) < 0 then M else add_mset (io_ret e h (Sys_open p f)) M)"
| "fd_effect e h (Sys_close fd) M = M - {#fd#}"
| "fd_effect e h _ M = M"

fun fds_after :: "env \<Rightarrow> io_call list \<Rightarrow> io_call list \<Rightarrow> int multiset \<Rightarrow> int multiset" where
  "fds_after e h [] M = M"
| "fds_after e h (c # cs) M = fds_after e (h @ [c]) cs (fd_effect e h c M)"

definition open_fds :: "env \<Rightarrow> io_call list \<Rightarrow> int multiset" where
  "open_fds e h = fds_after e [] h {#}"

lemma fds_after_append:
  "fds_after e h (cs @ ds) M = fds_after e (h @ cs) ds (fds_after e h cs M)"
  by (induction cs arbitrary: h M) simp_all

lemma open_fds_append [simp]: "open_fds e (h @ cs) = fds_after e h cs (open_fds e h)"
  by (simp add: open_fds_def fds_after_append)

lemma open_fds_Nil [simp]: "open_fds e [] = {#}"
  by (simp add: open_fds_def)

lemma loop_search_fds:
  "open_fds e (history (exec (loop_search e n i) s)) =
     (case result (loop_search e n i) s of
        Loop_free j fd \<Rightarrow> add_mset fd (open_fds e (history s))
      | _ \<Rightarrow> open_fds e (history s))"
  by (induction n arbitrary: i s) (simp_all split: loop_scan.split)

lemma loop_search_free:
  "result (loop_search e n i) s = Loop_free j fd \<Longrightarrow> i \<le> j \<and> j < i + n \<and> 0 \<le> fd"
  by (induction n arbitrary: i s) (fastforce split: if_splits)+

lemma loop_create_fds:
  "open_fds e (history (exec (loop_create e f) s)) = open_fds e (history s)"
  using loop_search_fds [of e LOOP_MAX 0 s]
  by (simp add: loop_create_def split: loop_scan.split)

text \<open>A loop device has a number of at most four digits, so its path is never cut.\<close>

lemma print_nat_length: "n < 10 ^ k \<Longrightarrow> 0 < k \<Longrightarrow> length (print_nat n) \<le> k"
proof (induction n arbitrary: k rule: print_nat.induct)
  case (1 n)
  show ?case
  proof (cases "n < 10")
    case True
    with "1.prems" show ?thesis by (simp add: print_nat.simps [of n])
  next
    case False
    with "1.prems" obtain j where k: "k = Suc j" "0 < j"
      by (cases k; cases "k - 1") auto
    from "1.prems" k have "n div 10 < 10 ^ j" by (simp add: less_mult_imp_div_less mult.commute)
    with "1.IH" False k have "length (print_nat (n div 10)) \<le> j" by simp
    with False k show ?thesis by (simp add: print_nat.simps [of n])
  qed
qed

lemma loop_path_length: "i < LOOP_MAX \<Longrightarrow> length (loop_path i) \<le> 19"
  using print_nat_length [of i 4] by (simp add: loop_path_def)

lemma loop_create_ok:
  assumes "result (loop_create e f) s = 0"
  obtains i where "i < LOOP_MAX" "curr_loop_dev (exec (loop_create e f) s) = loop_path i"
proof (cases "result (loop_search e LOOP_MAX 0) s")
  case (Loop_free i fd)
  from loop_search_free [OF this] have i: "i < LOOP_MAX" by simp
  then have "take 254 (loop_path i) = loop_path i" using loop_path_length [OF i] by simp
  with Loop_free that [OF i] show ?thesis by (simp add: loop_create_def)
qed (use assms in \<open>simp_all add: loop_create_def\<close>)

end
