(* ===== verification/Usb_Daemon.thy ===== *)
theory Usb_Daemon
  imports Usb_Cdrom
begin

text \<open>
  The operations of the daemon (\<^verbatim>\<open>usbd/usb_app.c\<close>): setting a USB mode, the messages of the
  application, the status notifications, the mode switches the PC asks for and the alternate
  modes.  Each is one monadic definition; an early \<open>return\<close> of the source is a branch.
\<close>

section \<open>Setting the mode\<close>

definition usbd_set_usb_mode :: "config \<Rightarrow> env \<Rightarrow> USB_MODE_T \<Rightarrow> int usb_op" where
  "usbd_set_usb_mode cfg e new_mode = do {
     s \<leftarrow> get_usbd;
     run_opt cfg e (pre_disable (usb_entry cfg (usbd_curr_usb_mode s)));
     run_opt cfg e (disable_done (usb_entry cfg (usbd_curr_usb_mode s)));
     modify (\<lambda>s. s\<lparr>usbd_curr_usb_mode := new_mode\<rparr>);
     if new_mode = USB_MODE_MIN then ret 0
     else do {
       run_opt cfg e (pre_enable (usb_entry cfg new_mode));
       s \<leftarrow> get_usbd;
       _ \<leftarrow> write_cstr e (usb_device_fd s) (md_name (usb_entry cfg new_mode));
       ret 0
     }
   }"

section \<open>Properties of the system\<close>

definition usbd_get_adb_property :: "env \<Rightarrow> int usb_op" where
  "usbd_get_adb_property e = do {
     (rc, buf) \<leftarrow> call_data e (Sys_property_get ''persist.service.adb.enable'' ''0'');
     if rc = 0 then ret (-1) else if buf = ''1'' then ret 1 else ret 0
   }"

definition usbd_get_startup_mode :: "config \<Rightarrow> env \<Rightarrow> MOTO_MODE_TYPE_T usb_op" where
  "usbd_get_startup_mode cfg e = do {
     (_, buf) \<leftarrow> call_data e (Sys_property_get ''ro.usb_mode'' ''normal'');
     if buf = ''debug'' then ret MOTO_MODE_TYPE_DEBUG
     else do {
       (_, buf) \<leftarrow> call_data e (Sys_property_get ''persist.usb.android_config'' ''0'');
       if buf = ''1'' then ret MOTO_MODE_TYPE_DEBUG
       else do {
         (_, buf) \<leftarrow> call_data e (Sys_property_get ''ro.bootmode'' ''normal'');
         if buf = ''bp-tools'' then ret MOTO_MODE_TYPE_BPTOOLS
         else if USBD_TABLET_MODE cfg then ret MOTO_MODE_TYPE_TABLET
         else ret MOTO_MODE_TYPE_NORMAL
       }
     }
   }"

definition usbd_factorycable_adb_enabled :: "env \<Rightarrow> bool usb_op" where
  "usbd_factorycable_adb_enabled e = do {
     (_, buf) \<leftarrow> call_data e (Sys_property_get ''persist.factory.allow_adb'' ''0'');
     ret (buf = ''1'')
   }"

definition usbd_enumerate_default_mode :: "config \<Rightarrow> env \<Rightarrow> int usb_op" where
  "usbd_enumerate_default_mode cfg e = do {
     s \<leftarrow> get_usbd;
     case usbd_mode s of
       MOTO_MODE_TYPE_DEBUG \<Rightarrow> do {
         adb \<leftarrow> usbd_get_adb_property e;
         usbd_set_usb_mode cfg e (if adb \<noteq> 0 then USB_MODE_MSC_ADB else USB_MODE_MSC) }
     | MOTO_MODE_TYPE_BPTOOLS \<Rightarrow> do {
         adb \<leftarrow> usbd_get_adb_property e;
         usbd_set_usb_mode cfg e
           (if adb \<noteq> 0 then USB_MODE_BPTOOLS_ETH_ADB else USB_MODE_BPTOOLS_ETH) }
     | MOTO_MODE_TYPE_TABLET \<Rightarrow> do {
         adb \<leftarrow> usbd_get_adb_property e;
         usbd_set_usb_mode cfg e
           (if adb \<noteq> 0 then USB_MODE_TABLET_NETWORK_MTP_ADB else USB_MODE_CDROM) }
     | _ \<Rightarrow> ret 0
   }"

section \<open>The alternate modes\<close>

text \<open>
  The table \<open>usb_alt_mode_tlb\<close>, indexed by the mode type (from \<open>BPTOOLS\<close> to \<open>TABLET\<close>), the
  ADB flag and the tethering flag.
\<close>

definition usb_alt_mode_tlb :: "USB_MODE_T list list list" where
  "usb_alt_mode_tlb =
     [[[USB_MODE_BPTOOLS_ETH, USB_MODE_RNDIS_BPTOOLS_ETH],
       [USB_MODE_BPTOOLS_ETH_ADB, USB_MODE_RNDIS_BPTOOLS_ETH_ADB]],
      [[USB_MODE_CDROM, USB_MODE_CDROM],
       [USB_MODE_TABLET_NETWORK_MTP_ADB, USB_MODE_RNDIS_ADB]]]"

primrec mode_type_ord :: "MOTO_MODE_TYPE_T \<Rightarrow> nat" where
  "mode_type_ord MOTO_MODE_TYPE_NORMAL = 0"
| "mode_type_ord MOTO_MODE_TYPE_DEBUG = 1"
| "mode_type_ord MOTO_MODE_TYPE_BPTOOLS = 2"
| "mode_type_ord MOTO_MODE_TYPE_TABLET = 3"
| "mode_type_ord MOTO_MODE_TYPE_UNKNOWN = 4"

text \<open>A checked read of the table: \<open>None\<close> is an index outside of it.\<close>

definition alt_mode_lookup :: "MOTO_MODE_TYPE_T \<Rightarrow> int \<Rightarrow> int \<Rightarrow> USB_MODE_T option" where
  "alt_mode_lookup mode adb_en tether =
     (if mode \<in> {MOTO_MODE_TYPE_BPTOOLS, MOTO_MODE_TYPE_TABLET} \<and>
         0 \<le> adb_en \<and> adb_en < 2 \<and> 0 \<le> tether \<and> tether < 2
      then Some (usb_alt_mode_tlb ! (mode_type_ord mode - mode_type_ord MOTO_MODE_TYPE_BPTOOLS)
                   ! nat adb_en ! nat tether)
      else None)"

definition adb_flag :: "string \<Rightarrow> int" where
  "adb_flag adb_buf =
     (if adb_buf = ''adb_enable'' then 1 else if adb_buf = ''adb_disable'' then 0 else -1)"

definition tether_flag :: "string \<Rightarrow> int" where
  "tether_flag tether_buf =
     (if tether_buf = ''tethering_enable'' then 1
      else if tether_buf = ''tethering_disable'' then 0 else -1)"

text \<open>The end of \<open>usbd_alt_mode_set\<close>: a mode outside of the enumeration is not set.\<close>

definition set_alt_mode :: "config \<Rightarrow> env \<Rightarrow> USB_MODE_T \<Rightarrow> int usb_op" where
  "set_alt_mode cfg e alt_new_mode =
     (if USB_MODE_MIN \<le> alt_new_mode \<and> alt_new_mode < USB_MODE_MAX
      then do { _ \<leftarrow> usbd_set_usb_mode cfg e alt_new_mode; ret 0 } else ret 0)"

definition usbd_alt_mode_set ::
  "config \<Rightarrow> env \<Rightarrow> MOTO_MODE_TYPE_T \<Rightarrow> string \<Rightarrow> string \<Rightarrow> int usb_op" where
  "usbd_alt_mode_set cfg e mode adb_buf tether_buf =
     (let adb_en = adb_flag adb_buf; tether_en = tether_flag tether_buf in
      if tether_en < 0 \<and> adb_en < 0 then ret 0
      else do {
        (if 0 \<le> tether_en then modify (\<lambda>s. s\<lparr>tethering_enabled := tether_en\<rparr>) else skip);
        if mode = MOTO_MODE_TYPE_DEBUG then
          set_alt_mode cfg e
            (if adb_en = 1 \<or> tether_en = 1 then USB_MODE_MSC_ADB else USB_MODE_MSC)
        else if mode = MOTO_MODE_TYPE_BPTOOLS \<or> mode = MOTO_MODE_TYPE_TABLET then do {
          adb_en \<leftarrow> (if adb_en < 0 then usbd_get_adb_property e else ret adb_en);
          if adb_en < 0 then ret (-1)
          else do {
            s \<leftarrow> get_usbd;
            case alt_mode_lookup mode adb_en (tethering_enabled s) of
              None \<Rightarrow> do { raise_fault Out_of_bounds_read; ret (-1) }
            | Some m \<Rightarrow> set_alt_mode cfg e m
          }
        }
        else ret (-1)
      })"

section \<open>Messages to the application\<close>

definition usbd_send_adb_status :: "env \<Rightarrow> int \<Rightarrow> int \<Rightarrow> int usb_op" where
  "usbd_send_adb_status e newfd en_flag =
     (if en_flag = 1 then write_cstr e newfd USBD_EVENT_ADB_ON
      else write_cstr e newfd USBD_EVENT_ADB_OFF)"

definition usbd_send_tethering_status :: "env \<Rightarrow> int \<Rightarrow> int \<Rightarrow> int usb_op" where
  "usbd_send_tethering_status e newfd en_flag =
     (if en_flag = 1 then write_cstr e newfd USBD_EVENT_TETHERING_ON
      else write_cstr e newfd USBD_EVENT_TETHERING_OFF)"

definition notification_message :: "USBD_STATE_T \<Rightarrow> string option" where
  "notification_message st =
     (case st of
        USBD_STATE_CABLE_ATTACHED \<Rightarrow> Some USBD_CABLE_ATTACHED
      | USBD_STATE_CABLE_DETACHED \<Rightarrow> Some USBD_CABLE_DETACHED
      | USBD_STATE_ENUM_IN_PROGRESS \<Rightarrow> Some USBD_GET_DESCRIPTOR
      | USBD_STATE_ENUMERATED \<Rightarrow> Some USBD_ENUMERATED
      | USBD_STATE_CABLE_DEFAULT \<Rightarrow> None)"

definition usbd_notify_current_status :: "env \<Rightarrow> int \<Rightarrow> int usb_op" where
  "usbd_notify_current_status e appfd = do {
     s \<leftarrow> get_usbd;
     case notification_message (usbd_current_state s) of
       Some m \<Rightarrow> do { rc \<leftarrow> write_cstr e appfd m; if rc < 0 then ret (-1) else ret rc }
     | None \<Rightarrow> ret 0
   }"

definition usbd_enum_process :: "config \<Rightarrow> env \<Rightarrow> int \<Rightarrow> int usb_op" where
  "usbd_enum_process cfg e newfd = do {
     s \<leftarrow> get_usbd;
     run_opt cfg e (enable_done (usb_entry cfg (usbd_curr_usb_mode s)));
     s \<leftarrow> get_usbd;
     case mode_done (usb_entry cfg (usbd_curr_usb_mode s)) of
       Some m \<Rightarrow>
         if 0 \<le> newfd then do { rc \<leftarrow> write_cstr e newfd m; if rc < 0 then ret (-1) else ret 0 }
         else ret 0
     | None \<Rightarrow> ret 0
   }"

section \<open>The connection to the application\<close>

definition usbd_get_maxfd :: "usbd \<Rightarrow> int" where
  "usbd_get_maxfd s =
     (let fd = uevent_sock s;
          fd = (if fd > usb_device_fd s then fd else usb_device_fd s);
          fd = (if fd > usbd_server_fd s then fd else usbd_server_fd s);
          fd = (if fd > usbd_app_fd s then fd else usbd_app_fd s)
      in fd)"

definition usbd_save_socket_fd :: "int \<Rightarrow> unit usb_op" where
  "usbd_save_socket_fd newfd = do {
     s \<leftarrow> get_usbd;
     if usbd_app_fd s = -1
     then modify (\<lambda>s. s\<lparr>connected_apps_fd := insert newfd (connected_apps_fd s),
                        usbd_app_fd := newfd\<rparr>)
     else skip
   }"

text \<open>
  The sequence the daemon runs at every failed write to the application: \<open>FD_CLR\<close>, forget the
  descriptor, recompute \<open>max_fd\<close>.
\<close>

definition clear_app_fd :: "unit usb_op" where
  "clear_app_fd = modify (\<lambda>s.
     let s' = s\<lparr>connected_apps_fd := connected_apps_fd s - {usbd_app_fd s}, usbd_app_fd := -1\<rparr>
     in s'\<lparr>max_fd := usbd_get_maxfd s'\<rparr>)"

text \<open>
  The body of \<open>usbd_socket_event\<close> once a message has been read: \<open>buf\<close> is the message as a
  C string, \<open>i\<close> the index the search loop stopped at.
\<close>

definition usbd_mode_request :: "config \<Rightarrow> env \<Rightarrow> int \<Rightarrow> USB_MODE_T \<Rightarrow> int usb_op" where
  "usbd_mode_request cfg e client_fd m = do {
     rc \<leftarrow> (case resp_ok (usb_entry cfg m) of
              None \<Rightarrow> ret 0 | Some r \<Rightarrow> write_cstr e client_fd r);
     if rc < 0 then ret (-1)
     else do {
       s \<leftarrow> get_usbd;
       if usbd_curr_usb_mode s \<noteq> m then
         (if current_usb_online s then do { _ \<leftarrow> usbd_set_usb_mode cfg e m; ret 0 } else ret 0)
       else
         (case mode_done (usb_entry cfg (usbd_curr_usb_mode s)) of
            None \<Rightarrow> ret 0
          | Some d \<Rightarrow> do {
              rc \<leftarrow> write_cstr e client_fd d;
              if rc < 0 then ret (-1) else ret 0 })
     }
   }"

definition usbd_app_message :: "config \<Rightarrow> env \<Rightarrow> int \<Rightarrow> string \<Rightarrow> int usb_op" where
  "usbd_app_message cfg e client_fd buf = do {
     s \<leftarrow> get_usbd;
     if usbd_curr_cable_status s = MOTO_ACCY_TYPE_EMU_CABLE_FACTORY then ret 0
     else
       (let i = match_mode_req (searched_modes cfg) buf 0 in
        if i = mode_ord USB_MODE_MIN then do { _ \<leftarrow> usbd_set_usb_mode cfg e USB_MODE_MIN; ret 0 }
        else if mode_ord USB_MODE_MIN < i \<and> i < mode_ord USB_MODE_MAX
        then usbd_mode_request cfg e client_fd (all_modes ! i)
        else ret 0)
   }"

abbreviation SOCKET_BUFFER_SIZE :: nat where "SOCKET_BUFFER_SIZE \<equiv> 1024"

definition usbd_socket_event :: "config \<Rightarrow> env \<Rightarrow> int \<Rightarrow> int usb_op" where
  "usbd_socket_event cfg e client_fd = do {
     (rc, d) \<leftarrow> call_data e (Sys_read client_fd SOCKET_BUFFER_SIZE);
     if rc < 0 then ret (-1)
     else if rc = 0 then do { _ \<leftarrow> call e (Sys_close client_fd); ret (- ECONNRESET) }
     else usbd_app_message cfg e client_fd
            (cstr (fill SOCKET_BUFFER_SIZE (take (nat rc) d)))
   }"

section \<open>Mode switches the PC asks for\<close>

definition cdrom_switch_mode :: "MOTO_MODE_TYPE_T \<Rightarrow> int \<Rightarrow> int \<Rightarrow> USB_MODE_T option" where
  "cdrom_switch_mode mode en_flag tether =
     (if mode = MOTO_MODE_TYPE_TABLET then
        (if en_flag = 0 then
           Some (if tether \<noteq> 0 then USB_MODE_RNDIS else USB_MODE_TABLET_NETWORK_MTP)
         else if en_flag = 1 then
           Some (if tether \<noteq> 0 then USB_MODE_RNDIS_ADB else USB_MODE_TABLET_NETWORK_MTP_ADB)
         else None)
      else if en_flag = 0 then Some USB_MODE_NGP
      else if en_flag = 1 then Some USB_MODE_NGP_ADB else None)"

definition usb_req_mode_switch :: "config \<Rightarrow> env \<Rightarrow> string \<Rightarrow> unit usb_op" where
  "usb_req_mode_switch cfg e tag = do {
     en_flag \<leftarrow> usbd_get_adb_property e;
     if en_flag < 0 then skip
     else case match_switch_req (searched_modes cfg) tag 0 of
       None \<Rightarrow>
         if tag = ''cdrom2'' then do { _ \<leftarrow> usbd_set_usb_mode cfg e USB_MODE_CDROM2; skip }
         else skip
     | Some (i, temp_ptr) \<Rightarrow> do {
         s \<leftarrow> get_usbd;
         if usbd_curr_usb_mode s = USB_MODE_CDROM \<or> usbd_curr_usb_mode s = USB_MODE_CDROM2 then
           (case cdrom_switch_mode (usbd_mode s) en_flag (tethering_enabled s) of
              None \<Rightarrow> skip
            | Some m \<Rightarrow> do { _ \<leftarrow> usbd_set_usb_mode cfg e m; skip })
         else if 0 \<le> usbd_app_fd s then do {
           rc \<leftarrow> write_cstr e (usbd_app_fd s) temp_ptr;
           if rc < 0 then clear_app_fd else skip
         }
         else skip
       }
   }"

end
