(* ===== verification/Usb_Main.thy ===== *)
theory Usb_Main
  imports Usb_Daemon
begin

text \<open>
  The events of the daemon (\<^verbatim>\<open>usbd/usb_app.c\<close>): kernel uevents (the cable switch and SCSI
  disks), the messages of the USB driver, connections of the application, and \<open>main\<close>: its
  initialisation and one iteration of its loop.
\<close>

section \<open>Files\<close>

text \<open>\<open>copy_string_from_file\<close>: the contents without the last byte, or \<open>None\<close> for \<open>-1\<close>.\<close>

definition copy_string_from_file :: "env \<Rightarrow> string \<Rightarrow> nat \<Rightarrow> string option usb_op" where
  "copy_string_from_file e filename n = do {
     fd \<leftarrow> call e (Sys_open filename O_RDONLY);
     if fd = -1 then ret None
     else do {
       (count, d) \<leftarrow> call_data e (Sys_read fd n);
       if count < 0 then do { _ \<leftarrow> call e (Sys_close fd); ret None }
       else do {
         _ \<leftarrow> call e (Sys_close fd);
         ret (Some (if 0 < count then cstr (take (nat count - 1) d) else []))
       }
     }
   }"

text \<open>
  \<open>readUsbSwitchState\<close>: \<open>None\<close> for \<open>-1\<close>.  The answer to \<open>Sys_fgets\<close> is 0 when \<open>fgets\<close>
  returns \<open>NULL\<close>.
\<close>

definition cable_of_state :: "string \<Rightarrow> MOTO_ACCY_TYPE_T" where
  "cable_of_state st =
     (case st of
        c # _ \<Rightarrow> if c = CHR ''1'' then MOTO_ACCY_TYPE_EMU_CABLE_USB
                 else if c = CHR ''2'' then MOTO_ACCY_TYPE_EMU_CABLE_FACTORY
                 else MOTO_ACCY_TYPE_EMU_UNKNOWN
      | [] \<Rightarrow> MOTO_ACCY_TYPE_EMU_UNKNOWN)"

definition readUsbSwitchState :: "env \<Rightarrow> MOTO_ACCY_TYPE_T option usb_op" where
  "readUsbSwitchState e = do {
     fp \<leftarrow> call e (Sys_fopen ''/sys/class/switch/usb_connected/state'' ''r'');
     if fp = 0 then ret None
     else do {
       (rc, st) \<leftarrow> call_data e (Sys_fgets fp);
       _ \<leftarrow> call e (Sys_fclose fp);
       if rc \<noteq> 0 then ret (Some (cable_of_state st)) else ret None
     }
   }"

section \<open>Uevents\<close>

abbreviation USBD_UEVENT_MSG_LEN :: int where "USBD_UEVENT_MSG_LEN \<equiv> 64 * 1024"

text \<open>
  The loop over the NUL-separated fields of an uevent: \<open>s\<close> is what is left of the \<open>count\<close>
  bytes; the last \<open>ACTION=\<close> and \<open>SUBSYSTEM=\<close> fields are kept.
\<close>

function uevent_fields ::
  "string \<Rightarrow> string option \<Rightarrow> string option \<Rightarrow> string option \<times> string option" where
  "uevent_fields s a subsys_type =
     (if s = [] then (a, subsys_type)
      else let f = cstr s; rest = drop (length f + 1) s in
        if strncmp0 ''ACTION='' f 7 then uevent_fields rest (Some (drop 7 f)) subsys_type
        else if strncmp0 ''SUBSYSTEM='' f 10 then uevent_fields rest a (Some (drop 10 f))
        else uevent_fields rest a subsys_type)"
  by pat_completeness auto
termination
  by (relation "measure (\<lambda>(s, a, t). length s)") auto

declare uevent_fields.simps [simp del]

text \<open>
  The backward scan for the \<open><device>\<close> part of a device path: \<open>p\<close> is the position under
  inspection, \<open>paren_count\<close> the slashes still to skip and \<open>tmp\<close> the last slash skipped;
  \<open>None\<close> is the scan that reaches the start of the path.
\<close>

fun find_device :: "string \<Rightarrow> nat \<Rightarrow> nat \<Rightarrow> nat \<Rightarrow> string option" where
  "find_device path 0 paren_count tmp = None"
| "find_device path (Suc p) paren_count tmp =
     (let c = (path @ [NUL]) ! Suc p in
      if 0 < paren_count \<and> c = CHR ''/'' then find_device path p (paren_count - 1) (Suc p)
      else if paren_count = 0 \<and> c = CHR ''-''
      then Some (snprintf (tmp - Suc p) (drop (Suc p + 1) path))
      else find_device path p paren_count tmp)"

definition disk_event :: "string \<Rightarrow> string \<Rightarrow> string \<Rightarrow> string" where
  "disk_event a prodname dev =
     snprintf 255 ((if a = ''add'' then USBD_DISK_ATTACH else USBD_DISK_DETACH)
                   @ '':'' @ prodname @ '':/mnt/usbdisk_'' @ dev)"

text \<open>\<open>sprintf (filename, "%s%s%s", "/sys", dev_path, suffix)\<close> into a buffer of 255 bytes.\<close>

definition sysfs_name :: "string \<Rightarrow> string \<Rightarrow> string option" where
  "sysfs_name dev_path suffix =
     (let f = ''/sys'' @ dev_path @ suffix in if length f < 255 then Some f else None)"

definition scsi_disk_event :: "env \<Rightarrow> string \<Rightarrow> string \<Rightarrow> unit usb_op" where
  "scsi_disk_event e a dev_path =
     (case sysfs_name dev_path ''/device/type'' of
        None \<Rightarrow> raise_fault Buffer_overflow
      | Some filename \<Rightarrow> do {
          ty \<leftarrow> copy_string_from_file e filename 128;
          if ty \<noteq> Some ''0'' then skip
          else case sysfs_name dev_path ''/device/model'' of
            None \<Rightarrow> raise_fault Buffer_overflow
          | Some filename \<Rightarrow> do {
              prod \<leftarrow> copy_string_from_file e filename 128;
              let prodname = (case prod of None \<Rightarrow> ''NONAME'' | Some n \<Rightarrow> n);
              case find_device dev_path (length dev_path) 6 0 of
                None \<Rightarrow> raise_fault Null_string
              | Some dev \<Rightarrow> do {
                  s \<leftarrow> get_usbd;
                  _ \<leftarrow> write_cstr e (usbd_app_fd s) (disk_event a prodname dev);
                  skip
                }
            }
        })"

definition scsi_uevent :: "env \<Rightarrow> string \<Rightarrow> unit usb_op" where
  "scsi_uevent e buffer =
     (case dropWhile (\<lambda>c. c \<noteq> CHR ''@'') buffer of
        [] \<Rightarrow> raise_fault Out_of_bounds_read
      | _ # after_at \<Rightarrow>
          (case uevent_fields buffer None None of
             (Some a, Some subsys_type) \<Rightarrow>
               if subsys_type = ''scsi_device'' \<and> (a = ''add'' \<or> a = ''remove'')
               then scsi_disk_event e a (cstr after_at) else skip
           | _ \<Rightarrow> skip))"

text \<open>A cable event: the new state of the cable switch becomes the state of the daemon.\<close>

definition cable_event :: "env \<Rightarrow> bool usb_op" where
  "cable_event e = do {
     st \<leftarrow> readUsbSwitchState e;
     case st of
       None \<Rightarrow> ret False
     | Some cable \<Rightarrow> do {
         modify (\<lambda>s. s\<lparr>usbd_curr_cable_status := cable\<rparr>);
         if cable \<noteq> MOTO_ACCY_TYPE_EMU_UNKNOWN then do {
           modify (\<lambda>s. s\<lparr>current_usb_online := True,
                          usbd_current_state := USBD_STATE_CABLE_ATTACHED\<rparr>);
           ret True
         }
         else do {
           modify (\<lambda>s. s\<lparr>current_usb_online := False,
                          usbd_current_state := USBD_STATE_CABLE_DETACHED,
                          usb_get_des_count := 0\<rparr>);
           s \<leftarrow> get_usbd;
           _ \<leftarrow> write_cstr e (usb_device_fd s) ''usb_cable_detach'';
           ret True
         }
       }
   }"

text \<open>
  \<open>process_usb_uevent_message\<close>; the result is \<open>busbEvent\<close>.  The message must come from the
  kernel (group 1, process 0) with root credentials and fit the buffer.
\<close>

definition trusted_sender :: "nat \<times> nat \<times> nat option \<Rightarrow> bool" where
  "trusted_sender sender = (case sender of (nl_groups, nl_pid, uid) \<Rightarrow>
     nl_groups = 1 \<and> nl_pid = 0 \<and> uid = Some 0)"

definition process_usb_uevent_message :: "env \<Rightarrow> bool usb_op" where
  "process_usb_uevent_message e = do {
     s \<leftarrow> get_usbd;
     (count, d) \<leftarrow> call_data e (Sys_recvmsg (uevent_sock s));
     if count \<le> 0 then ret False
     else if \<not> trusted_sender (io_sender e (history s)) then ret False
     else if USBD_UEVENT_MSG_LEN - 1 \<le> count then ret False
     else
       (let buffer = fill (nat count) d; hdr = cstr buffer in
        if strcasestr hdr ''usb_connected'' \<and> strcasestr hdr ''switch'' then cable_event e
        else if strcasestr hdr ''scsi_device'' then do { scsi_uevent e buffer; ret False }
        else ret False)
   }"

section \<open>Cable changes\<close>

definition set_factory_mode :: "config \<Rightarrow> env \<Rightarrow> unit usb_op" where
  "set_factory_mode cfg e = do {
     adb \<leftarrow> usbd_factorycable_adb_enabled e;
     _ \<leftarrow> usbd_set_usb_mode cfg e (if adb then USB_MODE_NETWORK_ADB else USB_MODE_NETWORK);
     skip
   }"

definition usbd_handle_cable_status_change :: "config \<Rightarrow> env \<Rightarrow> unit usb_op" where
  "usbd_handle_cable_status_change cfg e = do {
     s \<leftarrow> get_usbd;
     if usbd_curr_cable_status s = MOTO_ACCY_TYPE_EMU_CABLE_FACTORY then set_factory_mode cfg e
     else if \<not> usb_alt_mode s then
       (if 0 \<le> usbd_app_fd s then do {
          rc \<leftarrow> usbd_notify_current_status e (usbd_app_fd s);
          if rc < 0 then clear_app_fd else skip
        }
        else skip)
     else if usbd_curr_cable_status s = MOTO_ACCY_TYPE_EMU_CABLE_USB then do {
       modify (\<lambda>s. s\<lparr>tethering_enabled := 0\<rparr>);
       _ \<leftarrow> usbd_enumerate_default_mode cfg e;
       skip
     }
     else skip
   }"

definition usbd_get_initial_cable_status :: "env \<Rightarrow> int usb_op" where
  "usbd_get_initial_cable_status e = do {
     modify (\<lambda>s. s\<lparr>current_usb_online := False,
                    usbd_current_state := USBD_STATE_CABLE_DEFAULT\<rparr>);
     st \<leftarrow> readUsbSwitchState e;
     case st of
       None \<Rightarrow> ret (-1)
     | Some cable \<Rightarrow> do {
         modify (\<lambda>s. s\<lparr>usbd_curr_cable_status := cable\<rparr>);
         (if cable \<noteq> MOTO_ACCY_TYPE_EMU_UNKNOWN
          then modify (\<lambda>s. s\<lparr>current_usb_online := True,
                              usbd_current_state := USBD_STATE_CABLE_ATTACHED\<rparr>)
          else skip);
         ret 0
       }
   }"

text \<open>The directory loop of \<open>usbd_get_flashdrive_status\<close>; it stops at the first match.\<close>

abbreviation SCSI_DEVICE_PATH :: string where
  "SCSI_DEVICE_PATH \<equiv> ''/sys/bus/scsi/devices''"

fun flashdrive_scan :: "env \<Rightarrow> string list \<Rightarrow> unit usb_op" where
  "flashdrive_scan e [] = skip"
| "flashdrive_scan e (d # ds) =
     (if strncmp0 ''host'' d 5 then do {
        file \<leftarrow> call e (Sys_fopen
          (snprintf 256 (SCSI_DEVICE_PATH @ ''/'' @ d @ ''/uevent'')) ''w'');
        if file = 0 then skip
        else do {
          _ \<leftarrow> call e (Sys_fprintf file ''add'');
          _ \<leftarrow> call e (Sys_fclose file);
          skip
        }
      }
      else flashdrive_scan e ds)"

definition usbd_get_flashdrive_status :: "env \<Rightarrow> int usb_op" where
  "usbd_get_flashdrive_status e = do {
     s \<leftarrow> get_usbd;
     dir \<leftarrow> call e (Sys_opendir SCSI_DEVICE_PATH);
     if dir = 0 then ret (-1)
     else do { flashdrive_scan e (io_dir e (history s) SCSI_DEVICE_PATH); ret 0 }
   }"

section \<open>Messages of the USB driver\<close>

text \<open>
  \<open>sscanf (devbuf + off, "%[^:]", buf)\<close> for a destination of \<open>n\<close> bytes whose content so far
  is \<open>old\<close> (\<open>None\<close>: never written): an empty field leaves the destination as it is.
\<close>

definition devbuf_size :: nat where
  "devbuf_size = 90"

definition scan_field :: "nat \<Rightarrow> string \<Rightarrow> nat \<Rightarrow> string option \<Rightarrow> fault + string" where
  "scan_field n devbuf off old =
     (if devbuf_size \<le> off then Inl Out_of_bounds_read
      else let field = takeWhile (\<lambda>c. c \<noteq> CHR '':'') (cstr (drop off devbuf)) in
        if field = [] then (case old of None \<Rightarrow> Inl Uninitialised_read | Some b \<Rightarrow> Inr b)
        else if n \<le> length field then Inl Buffer_overflow
        else Inr field)"

text \<open>
  The enumeration field: \<open>length\<close> bytes from the offset after the three scanned fields, in a
  zeroed buffer.
\<close>

definition enum_field :: "string \<Rightarrow> nat \<Rightarrow> string" where
  "enum_field devbuf n =
     (let len = int (length (cstr devbuf)) - int n - 2
      in if 0 < len then cstr (take (nat len) (drop (n + 3) devbuf)) else [])"

text \<open>The reaction to the third and fourth field while a normal USB cable is attached.\<close>

definition usb_enum_event :: "config \<Rightarrow> env \<Rightarrow> string \<Rightarrow> unit usb_op" where
  "usb_enum_event cfg e enubuf =
     (if strncmp0 enubuf ''get_desc'' 8 then do {
        modify (\<lambda>s. s\<lparr>usb_get_des_count := usb_get_des_count s + 1\<rparr>);
        s \<leftarrow> get_usbd;
        if usb_get_des_count s = 1 then do {
          modify (\<lambda>s. s\<lparr>usbd_current_state := USBD_STATE_ENUM_IN_PROGRESS\<rparr>);
          if 0 \<le> usbd_app_fd s then do {
            rc \<leftarrow> write_cstr e (usbd_app_fd s) USBD_GET_DESCRIPTOR;
            if rc < 0 then clear_app_fd else skip
          }
          else skip
        }
        else skip
      }
      else if strncmp0 enubuf ''enumerated'' 10 then do {
        modify (\<lambda>s. s\<lparr>usbd_current_state := USBD_STATE_ENUMERATED\<rparr>);
        s \<leftarrow> get_usbd;
        rc \<leftarrow> usbd_enum_process cfg e (usbd_app_fd s);
        if rc < 0 then clear_app_fd else skip
      }
      else skip)"

definition forward_status :: "env \<Rightarrow> string \<Rightarrow> string \<Rightarrow> unit usb_op" where
  "forward_status e adb_buf tether_buf = do {
     s \<leftarrow> get_usbd;
     _ \<leftarrow> (if adb_buf = ''adb_enable'' then usbd_send_adb_status e (usbd_app_fd s) 1
           else if adb_buf = ''adb_disable'' then usbd_send_adb_status e (usbd_app_fd s) 0
           else ret 0);
     _ \<leftarrow> (if tether_buf = ''tethering_enable''
           then usbd_send_tethering_status e (usbd_app_fd s) 1
           else if tether_buf = ''tethering_disable''
           then usbd_send_tethering_status e (usbd_app_fd s) 0
           else ret 0);
     skip
   }"

text \<open>The factory-cable branch: only the ADB field is looked at.\<close>

definition factory_device_event :: "config \<Rightarrow> env \<Rightarrow> string \<Rightarrow> unit usb_op" where
  "factory_device_event cfg e adb_buf = do {
     allowed \<leftarrow> usbd_factorycable_adb_enabled e;
     if allowed \<and> adb_buf = ''adb_enable''
     then do { _ \<leftarrow> usbd_set_usb_mode cfg e USB_MODE_NETWORK_ADB; skip }
     else if adb_buf = ''adb_disable''
     then do { _ \<leftarrow> usbd_set_usb_mode cfg e USB_MODE_NETWORK; skip }
     else skip
   }"

definition device_event_rest ::
  "config \<Rightarrow> env \<Rightarrow> string \<Rightarrow> string \<Rightarrow> string \<Rightarrow> string \<Rightarrow> unit usb_op" where
  "device_event_rest cfg e pc_buf adb_buf tether_buf enubuf = do {
     s \<leftarrow> get_usbd;
     (if usb_alt_mode s \<and> current_usb_online s
      then do { _ \<leftarrow> usbd_alt_mode_set cfg e (usbd_mode s) adb_buf tether_buf; skip }
      else if 0 \<le> usbd_app_fd s then forward_status e adb_buf tether_buf
      else skip);
     s \<leftarrow> get_usbd;
     if usbd_curr_cable_status s = MOTO_ACCY_TYPE_EMU_CABLE_USB \<and> current_usb_online s then do {
       (if pc_buf \<noteq> ''none'' then usb_req_mode_switch cfg e pc_buf else skip);
       usb_enum_event cfg e enubuf
     }
     else skip
   }"

definition usb_device_event :: "config \<Rightarrow> env \<Rightarrow> unit usb_op" where
  "usb_device_event cfg e = do {
     s \<leftarrow> get_usbd;
     (rc, d) \<leftarrow> call_data e (Sys_read (usb_device_fd s) (devbuf_size - 1));
     if rc \<le> 0 then skip
     else
       (let devbuf = fill devbuf_size (take (nat rc) (take (devbuf_size - 1) d)) in
        case scan_field 50 devbuf 0 (pcSwitchbuf s) of
          Inl f \<Rightarrow> raise_fault f
        | Inr pc \<Rightarrow> do {
            modify (\<lambda>s. s\<lparr>pcSwitchbuf := Some pc\<rparr>);
            case scan_field 20 devbuf (length pc + 1) (adbEnablebuf s) of
              Inl f \<Rightarrow> raise_fault f
            | Inr adb \<Rightarrow> do {
                modify (\<lambda>s. s\<lparr>adbEnablebuf := Some adb\<rparr>);
                if usbd_curr_cable_status s = MOTO_ACCY_TYPE_EMU_CABLE_FACTORY
                then factory_device_event cfg e adb
                else case scan_field 20 devbuf (length pc + length adb + 2)
                            (tetheringEnablebuf s) of
                    Inl f \<Rightarrow> raise_fault f
                  | Inr teth \<Rightarrow> do {
                      modify (\<lambda>s. s\<lparr>tetheringEnablebuf := Some teth\<rparr>);
                      device_event_rest cfg e pc adb teth
                        (enum_field devbuf (length pc + length adb + length teth))
                    }
              }
          })
   }"

section \<open>Connections of the application\<close>

text \<open>What a new connection is told: the ADB status, the cable state, then disks.\<close>

definition greet_app :: "env \<Rightarrow> int \<Rightarrow> unit usb_op" where
  "greet_app e newfd = do {
     en_flag \<leftarrow> usbd_get_adb_property e;
     _ \<leftarrow> usbd_send_adb_status e newfd en_flag;
     s \<leftarrow> get_usbd;
     _ \<leftarrow> (if usbd_curr_cable_status s \<noteq> MOTO_ACCY_TYPE_EMU_CABLE_FACTORY
           then usbd_notify_current_status e newfd else ret 0);
     _ \<leftarrow> usbd_get_flashdrive_status e;
     skip
   }"

definition server_event :: "env \<Rightarrow> unit usb_op" where
  "server_event e = do {
     s \<leftarrow> get_usbd;
     newfd \<leftarrow> call e (Sys_accept (usbd_server_fd s));
     if 0 \<le> newfd then do {
       usbd_save_socket_fd newfd;
       modify (\<lambda>s. s\<lparr>max_fd := usbd_get_maxfd s\<rparr>);
       greet_app e newfd
     }
     else skip
   }"

definition app_event :: "config \<Rightarrow> env \<Rightarrow> unit usb_op" where
  "app_event cfg e = do {
     s \<leftarrow> get_usbd;
     rc \<leftarrow> usbd_socket_event cfg e (usbd_app_fd s);
     if rc < 0 then clear_app_fd else skip
   }"

section \<open>The main program\<close>

definition usbd_socket_init :: "env \<Rightarrow> int usb_op" where
  "usbd_socket_init e = do {
     fd \<leftarrow> call e (Sys_local_server ''usbd'');
     modify (\<lambda>s. s\<lparr>usbd_server_fd := fd\<rparr>);
     if fd < 0 then ret (-1)
     else do {
       _ \<leftarrow> call e (Sys_chown ''/dev/socket/usbd'');
       _ \<leftarrow> call e (Sys_chmod ''/dev/socket/usbd'');
       ret 0
     }
   }"

definition uevent_socket_init :: "env \<Rightarrow> int usb_op" where
  "uevent_socket_init e = do {
     sock \<leftarrow> call e Sys_netlink_socket;
     modify (\<lambda>s. s\<lparr>uevent_sock := sock\<rparr>);
     if sock < 0 then ret (-1)
     else do {
       r1 \<leftarrow> call e (Sys_setsockopt sock ''SO_RCVBUFFORCE'');
       if r1 < 0 then ret (-1)
       else do {
         r2 \<leftarrow> call e (Sys_setsockopt sock ''SO_PASSCRED'');
         if r2 < 0 then ret (-1)
         else do {
           r3 \<leftarrow> call e (Sys_bind sock);
           if r3 < 0 then ret (-1) else ret 0
         }
       }
     }
   }"

text \<open>
  \<open>main\<close> up to its loop; the result is \<open>False\<close> when the daemon exits with an error.
\<close>

definition main_start_mode :: "config \<Rightarrow> env \<Rightarrow> bool usb_op" where
  "main_start_mode cfg e = do {
     mode \<leftarrow> usbd_get_startup_mode cfg e;
     modify (\<lambda>s. s\<lparr>usbd_mode := mode,
                    usb_alt_mode := usb_alt_mode s \<or> mode \<noteq> MOTO_MODE_TYPE_NORMAL\<rparr>);
     s \<leftarrow> get_usbd;
     sock \<leftarrow> (if usb_alt_mode s then ret 0 else usbd_socket_init e);
     if sock < 0 then do { _ \<leftarrow> call e (Sys_close (usb_device_fd s)); ret False }
     else do { c \<leftarrow> usbd_get_initial_cable_status e; ret (0 \<le> c) }
   }"

definition main_open :: "config \<Rightarrow> env \<Rightarrow> bool usb_op" where
  "main_open cfg e = do {
     modify (\<lambda>s. s\<lparr>usbd_app_fd := -1\<rparr>);
     u \<leftarrow> uevent_socket_init e;
     if u < 0 then ret False
     else do {
       dev \<leftarrow> call e (Sys_open ''/dev/usb_device_mode'' O_RDWR);
       modify (\<lambda>s. s\<lparr>usb_device_fd := dev\<rparr>);
       if dev < 0 then ret False else main_start_mode cfg e
     }
   }"

definition main_init :: "config \<Rightarrow> env \<Rightarrow> bool usb_op" where
  "main_init cfg e = do {
     ok \<leftarrow> main_open cfg e;
     if \<not> ok then ret False
     else do {
       modify (\<lambda>s. s\<lparr>connected_apps_fd :=
         {uevent_sock s, usb_device_fd s} \<union> (if usb_alt_mode s then {} else {usbd_server_fd s})\<rparr>);
       modify (\<lambda>s. s\<lparr>max_fd := usbd_get_maxfd s\<rparr>);
       cdrom_smart_version_mount cfg e True;
       _ \<leftarrow> cdrom_read_version_key e;
       cdrom_smart_version_mount cfg e False;
       s \<leftarrow> get_usbd;
       (if current_usb_online s then
          (if usbd_curr_cable_status s = MOTO_ACCY_TYPE_EMU_CABLE_FACTORY
           then set_factory_mode cfg e
           else if usb_alt_mode s \<and> usbd_curr_cable_status s = MOTO_ACCY_TYPE_EMU_CABLE_USB
           then do { _ \<leftarrow> usbd_enumerate_default_mode cfg e; skip }
           else skip)
        else skip);
       ret True
     }
   }"

text \<open>A fault stops the iteration.\<close>

definition unless_fault :: "unit usb_op \<Rightarrow> unit usb_op" where
  "unless_fault m = do { s \<leftarrow> get_usbd; if fault s = None then m else skip }"

text \<open>One iteration of the loop of \<open>main\<close>; \<open>rset\<close> is what \<open>select\<close> leaves of the set.\<close>

definition main_iteration :: "config \<Rightarrow> env \<Rightarrow> int set \<Rightarrow> unit usb_op" where
  "main_iteration cfg e rset = do {
     s \<leftarrow> get_usbd;
     (if uevent_sock s \<in> rset then do {
        ev \<leftarrow> process_usb_uevent_message e;
        if ev then usbd_handle_cable_status_change cfg e else skip
      }
      else skip);
     unless_fault (do {
       s \<leftarrow> get_usbd;
       if usb_device_fd s \<in> rset then usb_device_event cfg e else skip });
     unless_fault (do {
       s \<leftarrow> get_usbd;
       if \<not> usb_alt_mode s \<and> usbd_server_fd s \<in> rset then server_event e else skip });
     unless_fault (do {
       s \<leftarrow> get_usbd;
       if \<not> usb_alt_mode s \<and> 0 \<le> usbd_app_fd s \<and> usbd_app_fd s \<in> rset
       then app_event cfg e else skip })
   }"

end
