(* ===== verification/Usb_Invariant.thy ===== *)
theory Usb_Invariant
  imports Usb_Main
begin

text \<open>
  The invariant of the daemon's main loop.  \<open>usb_inv\<close> relates the cable, the connection to the
  application, the descriptor set given to \<open>select\<close> and the mode variables; every operation
  preserves it, and \<open>transition_invariant\<close> lifts it to every state the loop reaches.
\<close>

section \<open>Frames of the operations\<close>

lemma core_set_mode:
  "core (exec (usbd_set_usb_mode cfg e m) s) = core (s\<lparr>usbd_curr_usb_mode := m\<rparr>)"
proof -
  have *: "core (exec (run_opt cfg e h) t) = core t" for h t
    by (rule keeps_coreD) (rule frame_intros)
  have upd: "core t = core u \<Longrightarrow> core (t\<lparr>usbd_curr_usb_mode := m\<rparr>) = core (u\<lparr>usbd_curr_usb_mode := m\<rparr>)"
    for t u by (simp add: core_eq_iff)
  have hist: "core (t\<lparr>history := h\<rparr>) = core t" for t h by (simp add: core_def)
  have key: "core ((exec (run_opt cfg e h) (exec (run_opt cfg e h') s))\<lparr>usbd_curr_usb_mode := m\<rparr>)
             = core (s\<lparr>usbd_curr_usb_mode := m\<rparr>)" for h h'
    by (rule upd) (simp add: *)
  show ?thesis
    by (cases "m = USB_MODE_MIN")
       (use key in \<open>simp_all add: usbd_set_usb_mode_def hist *\<close>)
qed

lemma usbd_get_adb_property_io_only [frame_intros]: "io_only (usbd_get_adb_property e)"
  unfolding usbd_get_adb_property_def by (intro frame_intros)

lemma usbd_get_startup_mode_io_only [frame_intros]: "io_only (usbd_get_startup_mode cfg e)"
  unfolding usbd_get_startup_mode_def by (intro frame_intros)

lemma usbd_factorycable_adb_enabled_io_only [frame_intros]:
  "io_only (usbd_factorycable_adb_enabled e)"
  unfolding usbd_factorycable_adb_enabled_def by (intro frame_intros)

lemma usbd_send_status_io_only [frame_intros]:
  "io_only (usbd_send_adb_status e fd b)" "io_only (usbd_send_tethering_status e fd b)"
  unfolding usbd_send_adb_status_def usbd_send_tethering_status_def by (intro frame_intros)+

lemma usbd_notify_current_status_io_only [frame_intros]:
  "io_only (usbd_notify_current_status e fd)"
  unfolding usbd_notify_current_status_def by (intro frame_intros)

lemma usbd_enum_process_keeps_core [frame_intros]: "keeps_core (usbd_enum_process cfg e fd)"
  unfolding usbd_enum_process_def by (intro frame_intros)

lemma readUsbSwitchState_io_only [frame_intros]: "io_only (readUsbSwitchState e)"
  unfolding readUsbSwitchState_def by (intro frame_intros)

lemma copy_string_from_file_io_only [frame_intros]: "io_only (copy_string_from_file e f n)"
  unfolding copy_string_from_file_def by (intro frame_intros)

lemma flashdrive_scan_io_only [frame_intros]: "io_only (flashdrive_scan e ds)"
  by (induction ds) (auto intro!: frame_intros)

lemma usbd_get_flashdrive_status_io_only [frame_intros]: "io_only (usbd_get_flashdrive_status e)"
  unfolding usbd_get_flashdrive_status_def by (intro frame_intros)

lemma forward_status_io_only [frame_intros]: "io_only (forward_status e a t)"
  unfolding forward_status_def by (intro frame_intros)

section \<open>The invariant\<close>

definition fds_inv :: "usbd \<Rightarrow> bool" where
  "fds_inv s \<longleftrightarrow>
     0 \<le> uevent_sock s \<and> 0 \<le> usb_device_fd s \<and> (\<not> usb_alt_mode s \<longrightarrow> 0 \<le> usbd_server_fd s) \<and>
     -1 \<le> usbd_app_fd s \<and> (usb_alt_mode s \<longrightarrow> usbd_app_fd s = -1) \<and>
     usbd_app_fd s \<notin> {uevent_sock s, usb_device_fd s} \<and>
     (\<not> usb_alt_mode s \<longrightarrow> usbd_app_fd s \<noteq> usbd_server_fd s) \<and>
     connected_apps_fd s = {uevent_sock s, usb_device_fd s}
       \<union> (if usb_alt_mode s then {} else {usbd_server_fd s})
       \<union> (if 0 \<le> usbd_app_fd s then {usbd_app_fd s} else {}) \<and>
     max_fd s = usbd_get_maxfd s"

definition cable_inv :: "usbd \<Rightarrow> bool" where
  "cable_inv s \<longleftrightarrow>
     (current_usb_online s \<longleftrightarrow> usbd_curr_cable_status s \<noteq> MOTO_ACCY_TYPE_EMU_UNKNOWN) \<and>
     (current_usb_online s \<longleftrightarrow>
        usbd_current_state s \<notin> {USBD_STATE_CABLE_DEFAULT, USBD_STATE_CABLE_DETACHED})"

definition mode_inv :: "usbd \<Rightarrow> bool" where
  "mode_inv s \<longleftrightarrow>
     usbd_curr_usb_mode s \<noteq> USB_MODE_MAX \<and> usbd_mode s \<noteq> MOTO_MODE_TYPE_UNKNOWN \<and>
     (usb_alt_mode s \<longleftrightarrow> usbd_mode s \<noteq> MOTO_MODE_TYPE_NORMAL) \<and>
     tethering_enabled s \<in> {0, 1}"

definition fits :: "nat \<Rightarrow> string option \<Rightarrow> bool" where
  "fits n b \<longleftrightarrow> (case b of None \<Rightarrow> True | Some x \<Rightarrow> length x < n)"

definition buf_inv :: "usbd \<Rightarrow> bool" where
  "buf_inv s \<longleftrightarrow> fits 50 (pcSwitchbuf s) \<and> fits 20 (adbEnablebuf s) \<and>
                fits 20 (tetheringEnablebuf s)"

text \<open>
  What the kernel documents of \<open>accept\<close>: the descriptor it returns is not one that is open.
\<close>

definition accept_fresh :: "env \<Rightarrow> usbd \<Rightarrow> bool" where
  "accept_fresh e s \<longleftrightarrow> (\<forall>h. io_ret e h (Sys_accept (usbd_server_fd s))
                          \<notin> {uevent_sock s, usb_device_fd s, usbd_server_fd s})"

definition usb_inv :: "env \<Rightarrow> usbd \<Rightarrow> bool" where
  "usb_inv e s \<longleftrightarrow> fds_inv s \<and> cable_inv s \<and> mode_inv s \<and> buf_inv s \<and> accept_fresh e s"

lemma usbd_get_maxfd_max:
  "usbd_get_maxfd s =
     max (max (max (uevent_sock s) (usb_device_fd s)) (usbd_server_fd s)) (usbd_app_fd s)"
  by (simp add: usbd_get_maxfd_def Let_def)

lemmas usb_inv_defs = usb_inv_def fds_inv_def cable_inv_def mode_inv_def buf_inv_def
  accept_fresh_def usbd_get_maxfd_max

text \<open>A part of the invariant does not see the fields it does not mention.\<close>

lemma fds_inv_upd [simp]:
  "fds_inv (s\<lparr>usbd_curr_usb_mode := x0\<rparr>) = fds_inv s"
  "fds_inv (s\<lparr>usbd_current_state := x1\<rparr>) = fds_inv s"
  "fds_inv (s\<lparr>usb_get_des_count := x8\<rparr>) = fds_inv s"
  "fds_inv (s\<lparr>current_usb_online := x9\<rparr>) = fds_inv s"
  "fds_inv (s\<lparr>usbd_mode := x10\<rparr>) = fds_inv s"
  "fds_inv (s\<lparr>tethering_enabled := x12\<rparr>) = fds_inv s"
  "fds_inv (s\<lparr>usbd_curr_cable_status := x13\<rparr>) = fds_inv s"
  "fds_inv (s\<lparr>curr_loop_dev := x14\<rparr>) = fds_inv s"
  "fds_inv (s\<lparr>cdrom_mounted := x15\<rparr>) = fds_inv s"
  "fds_inv (s\<lparr>pcSwitchbuf := x16\<rparr>) = fds_inv s"
  "fds_inv (s\<lparr>adbEnablebuf := x17\<rparr>) = fds_inv s"
  "fds_inv (s\<lparr>tetheringEnablebuf := x18\<rparr>) = fds_inv s"
  "fds_inv (s\<lparr>fault := x19\<rparr>) = fds_inv s"
  "fds_inv (s\<lparr>history := x20\<rparr>) = fds_inv s"
  by (simp_all add: fds_inv_def usbd_get_maxfd_max cong: if_cong split del: if_split)

lemma cable_inv_upd [simp]:
  "cable_inv (s\<lparr>usbd_curr_usb_mode := x0\<rparr>) = cable_inv s"
  "cable_inv (s\<lparr>connected_apps_fd := x2\<rparr>) = cable_inv s"
  "cable_inv (s\<lparr>usbd_server_fd := x3\<rparr>) = cable_inv s"
  "cable_inv (s\<lparr>usb_device_fd := x4\<rparr>) = cable_inv s"
  "cable_inv (s\<lparr>uevent_sock := x5\<rparr>) = cable_inv s"
  "cable_inv (s\<lparr>usbd_app_fd := x6\<rparr>) = cable_inv s"
  "cable_inv (s\<lparr>max_fd := x7\<rparr>) = cable_inv s"
  "cable_inv (s\<lparr>usb_get_des_count := x8\<rparr>) = cable_inv s"
  "cable_inv (s\<lparr>usbd_mode := x10\<rparr>) = cable_inv s"
  "cable_inv (s\<lparr>usb_alt_mode := x11\<rparr>) = cable_inv s"
  "cable_inv (s\<lparr>tethering_enabled := x12\<rparr>) = cable_inv s"
  "cable_inv (s\<lparr>curr_loop_dev := x14\<rparr>) = cable_inv s"
  "cable_inv (s\<lparr>cdrom_mounted := x15\<rparr>) = cable_inv s"
  "cable_inv (s\<lparr>pcSwitchbuf := x16\<rparr>) = cable_inv s"
  "cable_inv (s\<lparr>adbEnablebuf := x17\<rparr>) = cable_inv s"
  "cable_inv (s\<lparr>tetheringEnablebuf := x18\<rparr>) = cable_inv s"
  "cable_inv (s\<lparr>fault := x19\<rparr>) = cable_inv s"
  "cable_inv (s\<lparr>history := x20\<rparr>) = cable_inv s"
  by (simp_all add: cable_inv_def)

lemma mode_inv_upd [simp]:
  "mode_inv (s\<lparr>usbd_current_state := x1\<rparr>) = mode_inv s"
  "mode_inv (s\<lparr>connected_apps_fd := x2\<rparr>) = mode_inv s"
  "mode_inv (s\<lparr>usbd_server_fd := x3\<rparr>) = mode_inv s"
  "mode_inv (s\<lparr>usb_device_fd := x4\<rparr>) = mode_inv s"
  "mode_inv (s\<lparr>uevent_sock := x5\<rparr>) = mode_inv s"
  "mode_inv (s\<lparr>usbd_app_fd := x6\<rparr>) = mode_inv s"
  "mode_inv (s\<lparr>max_fd := x7\<rparr>) = mode_inv s"
  "mode_inv (s\<lparr>usb_get_des_count := x8\<rparr>) = mode_inv s"
  "mode_inv (s\<lparr>current_usb_online := x9\<rparr>) = mode_inv s"
  "mode_inv (s\<lparr>usbd_curr_cable_status := x13\<rparr>) = mode_inv s"
  "mode_inv (s\<lparr>curr_loop_dev := x14\<rparr>) = mode_inv s"
  "mode_inv (s\<lparr>cdrom_mounted := x15\<rparr>) = mode_inv s"
  "mode_inv (s\<lparr>pcSwitchbuf := x16\<rparr>) = mode_inv s"
  "mode_inv (s\<lparr>adbEnablebuf := x17\<rparr>) = mode_inv s"
  "mode_inv (s\<lparr>tetheringEnablebuf := x18\<rparr>) = mode_inv s"
  "mode_inv (s\<lparr>fault := x19\<rparr>) = mode_inv s"
  "mode_inv (s\<lparr>history := x20\<rparr>) = mode_inv s"
  by (simp_all add: mode_inv_def)

lemma buf_inv_upd [simp]:
  "buf_inv (s\<lparr>usbd_curr_usb_mode := x0\<rparr>) = buf_inv s"
  "buf_inv (s\<lparr>usbd_current_state := x1\<rparr>) = buf_inv s"
  "buf_inv (s\<lparr>connected_apps_fd := x2\<rparr>) = buf_inv s"
  "buf_inv (s\<lparr>usbd_server_fd := x3\<rparr>) = buf_inv s"
  "buf_inv (s\<lparr>usb_device_fd := x4\<rparr>) = buf_inv s"
  "buf_inv (s\<lparr>uevent_sock := x5\<rparr>) = buf_inv s"
  "buf_inv (s\<lparr>usbd_app_fd := x6\<rparr>) = buf_inv s"
  "buf_inv (s\<lparr>max_fd := x7\<rparr>) = buf_inv s"
  "buf_inv (s\<lparr>usb_get_des_count := x8\<rparr>) = buf_inv s"
  "buf_inv (s\<lparr>current_usb_online := x9\<rparr>) = buf_inv s"
  "buf_inv (s\<lparr>usbd_mode := x10\<rparr>) = buf_inv s"
  "buf_inv (s\<lparr>usb_alt_mode := x11\<rparr>) = buf_inv s"
  "buf_inv (s\<lparr>tethering_enabled := x12\<rparr>) = buf_inv s"
  "buf_inv (s\<lparr>usbd_curr_cable_status := x13\<rparr>) = buf_inv s"
  "buf_inv (s\<lparr>curr_loop_dev := x14\<rparr>) = buf_inv s"
  "buf_inv (s\<lparr>cdrom_mounted := x15\<rparr>) = buf_inv s"
  "buf_inv (s\<lparr>fault := x19\<rparr>) = buf_inv s"
  "buf_inv (s\<lparr>history := x20\<rparr>) = buf_inv s"
  by (simp_all add: buf_inv_def)

lemma accept_fresh_upd [simp]:
  "accept_fresh e (s\<lparr>usbd_curr_usb_mode := x0\<rparr>) = accept_fresh e s"
  "accept_fresh e (s\<lparr>usbd_current_state := x1\<rparr>) = accept_fresh e s"
  "accept_fresh e (s\<lparr>connected_apps_fd := x2\<rparr>) = accept_fresh e s"
  "accept_fresh e (s\<lparr>usbd_app_fd := x6\<rparr>) = accept_fresh e s"
  "accept_fresh e (s\<lparr>max_fd := x7\<rparr>) = accept_fresh e s"
  "accept_fresh e (s\<lparr>usb_get_des_count := x8\<rparr>) = accept_fresh e s"
  "accept_fresh e (s\<lparr>current_usb_online := x9\<rparr>) = accept_fresh e s"
  "accept_fresh e (s\<lparr>usbd_mode := x10\<rparr>) = accept_fresh e s"
  "accept_fresh e (s\<lparr>usb_alt_mode := x11\<rparr>) = accept_fresh e s"
  "accept_fresh e (s\<lparr>tethering_enabled := x12\<rparr>) = accept_fresh e s"
  "accept_fresh e (s\<lparr>usbd_curr_cable_status := x13\<rparr>) = accept_fresh e s"
  "accept_fresh e (s\<lparr>curr_loop_dev := x14\<rparr>) = accept_fresh e s"
  "accept_fresh e (s\<lparr>cdrom_mounted := x15\<rparr>) = accept_fresh e s"
  "accept_fresh e (s\<lparr>pcSwitchbuf := x16\<rparr>) = accept_fresh e s"
  "accept_fresh e (s\<lparr>adbEnablebuf := x17\<rparr>) = accept_fresh e s"
  "accept_fresh e (s\<lparr>tetheringEnablebuf := x18\<rparr>) = accept_fresh e s"
  "accept_fresh e (s\<lparr>fault := x19\<rparr>) = accept_fresh e s"
  "accept_fresh e (s\<lparr>history := x20\<rparr>) = accept_fresh e s"
  by (simp_all add: accept_fresh_def)

lemma usb_inv_core: "core s = core t \<Longrightarrow> usb_inv e s \<longleftrightarrow> usb_inv e t"
proof -
  have "usb_inv e (core u) \<longleftrightarrow> usb_inv e u" for u
    by (simp add: usb_inv_def core_def)
  then show "core s = core t \<Longrightarrow> usb_inv e s \<longleftrightarrow> usb_inv e t" by metis
qed

named_theorems inv_intros \<open>every operation preserves the invariant\<close>

lemma keeps_core_inv: "keeps_core m \<Longrightarrow> preserves (usb_inv e) m"
  by (rule preservesI) (simp add: usb_inv_core [OF keeps_coreD])

lemma io_only_inv: "io_only m \<Longrightarrow> preserves (usb_inv e) m"
  by (rule keeps_core_inv) (rule io_only_keeps_core)

lemma set_mode_inv [inv_intros]:
  "m \<noteq> USB_MODE_MAX \<Longrightarrow> preserves (usb_inv e') (usbd_set_usb_mode cfg e m)"
  by (rule preservesI)
     (simp add: usb_inv_core [OF core_set_mode], simp add: usb_inv_def mode_inv_def)

lemma raise_fault_inv [inv_intros]: "preserves (usb_inv e) (raise_fault f)"
  unfolding raise_fault_def by (rule preserves_modify) (simp add: usb_inv_def)

lemma clear_app_fd_inv [inv_intros]: "preserves (usb_inv e) clear_app_fd"
  unfolding clear_app_fd_def by (rule preserves_modify) (auto simp: usb_inv_defs Let_def)

lemma basic_inv [inv_intros]:
  "preserves (usb_inv e') (ret x)" "preserves (usb_inv e') skip"
  "preserves (usb_inv e') get_usbd"
  "preserves (usb_inv e') (call e c)" "preserves (usb_inv e') (call_data e c)"
  "preserves (usb_inv e') (call_errno e c)" "preserves (usb_inv e') (write_cstr e fd msg)"
  by (rule io_only_inv, rule frame_intros)+

lemma case_prod_inv [inv_intros]:
  "(\<And>a b. preserves P (f a b)) \<Longrightarrow> preserves P (case p of (a, b) \<Rightarrow> f a b)"
  by (cases p) simp

declare preserves_bind [inv_intros] preserves_if [inv_intros] preserves_case_option [inv_intros]

lemma usbd_get_adb_property_inv [inv_intros]: "preserves (usb_inv e') (usbd_get_adb_property e)"
  by (rule io_only_inv) (rule frame_intros)

lemma usbd_factorycable_inv [inv_intros]:
  "preserves (usb_inv e') (usbd_factorycable_adb_enabled e)"
  by (rule io_only_inv) (rule frame_intros)

lemma set_factory_mode_inv [inv_intros]: "preserves (usb_inv e') (set_factory_mode cfg e)"
  unfolding set_factory_mode_def by (intro inv_intros) (auto split: if_splits)

lemma usbd_enumerate_default_mode_inv [inv_intros]:
  "preserves (usb_inv e') (usbd_enumerate_default_mode cfg e)"
  unfolding usbd_enumerate_default_mode_def
  by (rule preserves_get_bind)
     (auto split: MOTO_MODE_TYPE_T.split if_splits intro!: inv_intros)

lemma set_alt_mode_inv [inv_intros]: "preserves (usb_inv e') (set_alt_mode cfg e m)"
  unfolding set_alt_mode_def by (intro inv_intros) (simp add: mode_less_MAX_iff)

lemma tethering_inv [inv_intros]:
  "t \<in> {0, 1} \<Longrightarrow> preserves (usb_inv e) (modify (\<lambda>s. s\<lparr>tethering_enabled := t\<rparr>))"
  by (rule preserves_modify) (simp add: usb_inv_def, simp add: mode_inv_def)

lemma usbd_alt_mode_set_inv [inv_intros]:
  "preserves (usb_inv e') (usbd_alt_mode_set cfg e mode adb teth)"
  unfolding usbd_alt_mode_set_def Let_def
  by (intro inv_intros) (auto simp: tether_flag_def split: if_splits)

lemma usbd_mode_request_inv [inv_intros]:
  "m \<noteq> USB_MODE_MAX \<Longrightarrow> preserves (usb_inv e') (usbd_mode_request cfg e fd m)"
  unfolding usbd_mode_request_def by (intro inv_intros)

lemma usbd_app_message_inv [inv_intros]:
  "preserves (usb_inv e') (usbd_app_message cfg e fd buf)"
  unfolding usbd_app_message_def Let_def
proof (intro inv_intros)
  fix i :: nat
  assume "mode_ord USB_MODE_MIN < i \<and> i < mode_ord USB_MODE_MAX"
  then have "mode_ord (all_modes ! i) \<noteq> mode_ord USB_MODE_MAX" by simp
  then show "all_modes ! i \<noteq> USB_MODE_MAX" by auto
qed simp

lemma usbd_socket_event_inv [inv_intros]: "preserves (usb_inv e') (usbd_socket_event cfg e fd)"
  unfolding usbd_socket_event_def by (intro inv_intros)

lemma app_event_inv [inv_intros]: "preserves (usb_inv e') (app_event cfg e)"
  unfolding app_event_def by (intro inv_intros)

lemma usb_req_mode_switch_inv [inv_intros]:
  "preserves (usb_inv e') (usb_req_mode_switch cfg e tag)"
  unfolding usb_req_mode_switch_def
  by (intro inv_intros) (auto simp: cdrom_switch_mode_def split: if_splits)

text \<open>While the cable is attached: the enumeration states may be entered.\<close>

abbreviation online :: "usbd \<Rightarrow> bool" where
  "online \<equiv> current_usb_online"

definition online_inv :: "env \<Rightarrow> usbd \<Rightarrow> bool" where
  "online_inv e s \<longleftrightarrow> usb_inv e s \<and> current_usb_online s"

named_theorems online_intros \<open>operations that do not touch the cable status\<close>

lemma keeps_core_online: "keeps_core m \<Longrightarrow> preserves online m"
  by (rule preservesI) (metis core_eq_iff keeps_coreD)

lemma online_basic [online_intros]:
  "preserves online (ret x)" "preserves online skip"
  "preserves online get_usbd"
  "preserves online (write_cstr e fd msg)"
  "preserves online (usbd_enum_process cfg e fd)"
  by (intro keeps_core_online frame_intros)+

lemma online_adb [online_intros]: "preserves online (usbd_get_adb_property e)"
  by (rule keeps_core_online, rule io_only_keeps_core) (rule frame_intros)

lemma online_set_mode [online_intros]:
  "preserves online (usbd_set_usb_mode cfg e m)"
  by (rule preservesI) (use core_set_mode in \<open>force simp: core_eq_iff\<close>)

lemma online_modify [online_intros]:
  "preserves online clear_app_fd"
  "preserves online (modify (\<lambda>s. s\<lparr>usb_get_des_count := f s\<rparr>))"
  "preserves online (modify (\<lambda>s. s\<lparr>usbd_current_state := g s\<rparr>))"
  unfolding clear_app_fd_def by (rule preserves_modify, simp add: Let_def)+

declare preserves_bind [online_intros] preserves_if [online_intros]
  preserves_case_option [online_intros] case_prod_inv [online_intros]

lemma usb_req_mode_switch_online [online_intros]:
  "preserves online (usb_req_mode_switch cfg e tag)"
  unfolding usb_req_mode_switch_def by (intro online_intros)

lemma online_invI [inv_intros]:
  "preserves (usb_inv e) m \<Longrightarrow> preserves online m \<Longrightarrow> preserves (online_inv e) m"
  by (auto simp: online_inv_def intro!: preservesI intro: preservesD)

lemma des_count_inv [inv_intros]:
  "preserves (usb_inv e) (modify (\<lambda>s. s\<lparr>usb_get_des_count := f s\<rparr>))"
  by (rule preserves_modify) (simp add: usb_inv_def)

lemma enum_state_inv:
  "st \<in> {USBD_STATE_ENUM_IN_PROGRESS, USBD_STATE_ENUMERATED} \<Longrightarrow>
   preserves (online_inv e) (modify (\<lambda>s. s\<lparr>usbd_current_state := st\<rparr>))"
  by (rule preserves_modify) (auto simp: online_inv_def usb_inv_def cable_inv_def)

lemma usbd_enum_process_inv [inv_intros]:
  "preserves (usb_inv e') (usbd_enum_process cfg e fd)"
  by (rule keeps_core_inv) (rule frame_intros)

lemma usb_enum_event_online: "preserves (online_inv e') (usb_enum_event cfg e enubuf)"
  unfolding usb_enum_event_def
  by (intro preserves_bind preserves_if enum_state_inv online_invI)
     (auto intro!: inv_intros online_intros)

lemma exec_usb_enum_event_inv:
  "usb_inv e' s \<Longrightarrow> current_usb_online s \<Longrightarrow> usb_inv e' (exec (usb_enum_event cfg e b) s)"
  using preservesD [OF usb_enum_event_online, of e' s cfg e b] by (simp add: online_inv_def)

lemma forward_status_inv [inv_intros]: "preserves (usb_inv e') (forward_status e a t)"
  by (rule io_only_inv) (rule frame_intros)

lemma enum_branch_inv:
  "preserves (usb_inv e') (do {
     s \<leftarrow> get_usbd;
     if usbd_curr_cable_status s = MOTO_ACCY_TYPE_EMU_CABLE_USB \<and> current_usb_online s then do {
       (if b then usb_req_mode_switch cfg e pc_buf else skip);
       usb_enum_event cfg e enubuf
     }
     else skip })"
proof (rule preservesI)
  fix s
  assume inv: "usb_inv e' s"
  let ?t = "exec (if b then usb_req_mode_switch cfg e pc_buf else skip) s"
  have "usb_inv e' ?t"
    using inv preservesD [OF usb_req_mode_switch_inv] by simp
  moreover have "current_usb_online s \<Longrightarrow> current_usb_online ?t"
    using preservesD [OF usb_req_mode_switch_online] by simp
  ultimately show "usb_inv e' (exec (do {
     s \<leftarrow> get_usbd;
     if usbd_curr_cable_status s = MOTO_ACCY_TYPE_EMU_CABLE_USB \<and> current_usb_online s then do {
       (if b then usb_req_mode_switch cfg e pc_buf else skip);
       usb_enum_event cfg e enubuf
     }
     else skip }) s)"
    using inv exec_usb_enum_event_inv by simp
qed

lemma device_event_rest_inv [inv_intros]:
  "preserves (usb_inv e') (device_event_rest cfg e pc adb teth enu)"
  unfolding device_event_rest_def
  by (rule preserves_bind [OF basic_inv(3)], rule preserves_bind [OF _ enum_branch_inv])
     (intro inv_intros)

lemma factory_device_event_inv [inv_intros]:
  "preserves (usb_inv e') (factory_device_event cfg e adb)"
  unfolding factory_device_event_def by (intro inv_intros) simp_all

lemma scan_field_fits:
  "scan_field n devbuf off old = Inr x \<Longrightarrow> fits n old \<Longrightarrow> length x < n"
  by (auto simp: scan_field_def Let_def fits_def split: if_splits option.splits)

lemma buffers_inv [inv_intros]:
  "length x < 50 \<Longrightarrow> preserves (usb_inv e) (modify (\<lambda>s. s\<lparr>pcSwitchbuf := Some x\<rparr>))"
  "length x < 20 \<Longrightarrow> preserves (usb_inv e) (modify (\<lambda>s. s\<lparr>adbEnablebuf := Some x\<rparr>))"
  "length x < 20 \<Longrightarrow> preserves (usb_inv e) (modify (\<lambda>s. s\<lparr>tetheringEnablebuf := Some x\<rparr>))"
  by (rule preserves_modify, simp add: usb_inv_def, simp add: buf_inv_def fits_def)+

lemma case_sum_inv [inv_intros]:
  "(\<And>a. x = Inl a \<Longrightarrow> preserves P (f a)) \<Longrightarrow> (\<And>b. x = Inr b \<Longrightarrow> preserves P (g b)) \<Longrightarrow>
   preserves P (case x of Inl a \<Rightarrow> f a | Inr b \<Rightarrow> g b)"
  by (cases x) auto

text \<open>An operation may use what the invariant says of the state it reads first.\<close>

lemma preserves_get:
  assumes "\<And>s0. P s0 \<Longrightarrow> preserves P (f s0)"
  shows "preserves P (State_Monad.get \<bind> f)"
proof (rule preservesI)
  fix s
  assume "P s"
  with preservesD [OF assms [OF \<open>P s\<close>]] have "P (exec (f s) s)" .
  then show "P (exec (State_Monad.get \<bind> f) s)" by simp
qed

lemma usb_device_event_inv [inv_intros]: "preserves (usb_inv e') (usb_device_event cfg e)"
  unfolding usb_device_event_def Let_def
proof (rule preserves_get, intro inv_intros)
  fix s0 :: usbd
  assume "usb_inv e' s0"
  then have "fits 50 (pcSwitchbuf s0)" "fits 20 (adbEnablebuf s0)"
    "fits 20 (tetheringEnablebuf s0)"
    by (simp_all add: usb_inv_def buf_inv_def)
  then show "scan_field 50 d o1 (pcSwitchbuf s0) = Inr b \<Longrightarrow> length b < 50"
    "scan_field 20 d o2 (adbEnablebuf s0) = Inr b2 \<Longrightarrow> length b2 < 20"
    "scan_field 20 d o3 (tetheringEnablebuf s0) = Inr b3 \<Longrightarrow> length b3 < 20" for d o1 o2 o3 b b2 b3
    by (auto dest: scan_field_fits)
qed

lemma read_switch_inv: "usb_inv e' s \<Longrightarrow> usb_inv e' (exec (readUsbSwitchState e) s)"
  by (rule preservesD [OF io_only_inv]) (rule frame_intros)

lemma cable_event_inv [inv_intros]: "preserves (usb_inv e') (cable_event e)"
proof (rule preservesI)
  fix s
  assume "usb_inv e' s"
  then have t: "usb_inv e' (exec (readUsbSwitchState e) s)" by (rule read_switch_inv)
  show "usb_inv e' (exec (cable_event e) s)"
  proof (cases "result (readUsbSwitchState e) s")
    case None
    with t show ?thesis by (simp add: cable_event_def)
  next
    case (Some c)
    with t show ?thesis
      by (simp add: cable_event_def, simp add: usb_inv_def, simp add: cable_inv_def)
  qed
qed

lemma scsi_disk_event_inv [inv_intros]: "preserves (usb_inv e') (scsi_disk_event e a dev)"
  unfolding scsi_disk_event_def Let_def
  by (intro inv_intros io_only_inv [OF copy_string_from_file_io_only])

lemma scsi_uevent_inv [inv_intros]: "preserves (usb_inv e') (scsi_uevent e buf)"
  unfolding scsi_uevent_def
  by (auto intro!: inv_intros split: list.split option.split)

lemma process_usb_uevent_message_inv [inv_intros]:
  "preserves (usb_inv e') (process_usb_uevent_message e)"
  unfolding process_usb_uevent_message_def Let_def by (intro inv_intros)

lemma usbd_notify_current_status_inv [inv_intros]:
  "preserves (usb_inv e') (usbd_notify_current_status e fd)"
  by (rule io_only_inv) (rule frame_intros)

lemma usbd_handle_cable_status_change_inv [inv_intros]:
  "preserves (usb_inv e') (usbd_handle_cable_status_change cfg e)"
  unfolding usbd_handle_cable_status_change_def by (intro inv_intros) simp

lemma greet_app_io_only: "io_only (greet_app e fd)"
  unfolding greet_app_def by (intro frame_intros)

text \<open>Saving a fresh descriptor and recomputing \<open>max_fd\<close>.\<close>

lemma save_fd_inv:
  assumes "usb_inv e s" and "\<not> usb_alt_mode s" and "0 \<le> fd"
    and "fd \<notin> {uevent_sock s, usb_device_fd s, usbd_server_fd s}"
  shows "usb_inv e (exec (do { usbd_save_socket_fd fd;
           modify (\<lambda>s. s\<lparr>max_fd := usbd_get_maxfd s\<rparr>) }) s)"
  using assms
  by (auto simp: usbd_save_socket_fd_def usb_inv_def fds_inv_def usbd_get_maxfd_max)

lemma server_event_inv:
  assumes inv: "usb_inv e s" and normal: "\<not> usb_alt_mode s"
  shows "usb_inv e (exec (server_event e) s)"
proof -
  let ?c = "Sys_accept (usbd_server_fd s)"
  let ?s = "s\<lparr>history := history s @ [?c]\<rparr>"
  let ?fd = "io_ret e (history s) ?c"
  have s': "usb_inv e ?s" using inv by (simp add: usb_inv_def)
  show ?thesis
  proof (cases "0 \<le> ?fd")
    case False
    with s' show ?thesis by (simp add: server_event_def)
  next
    case True
    have "?fd \<notin> {uevent_sock s, usb_device_fd s, usbd_server_fd s}"
      using inv by (simp add: usb_inv_def accept_fresh_def)
    then have u: "usb_inv e (exec (do { usbd_save_socket_fd ?fd;
        modify (\<lambda>s. s\<lparr>max_fd := usbd_get_maxfd s\<rparr>) }) ?s)"
      using save_fd_inv [OF s' _ True] normal by simp
    show ?thesis
      using preservesD [OF io_only_inv [OF greet_app_io_only [of e ?fd]] u] True
      by (simp add: server_event_def)
  qed
qed

lemma unless_fault_inv [inv_intros]:
  "preserves (usb_inv e) m \<Longrightarrow> preserves (usb_inv e) (unless_fault m)"
  unfolding unless_fault_def by (intro inv_intros)

lemma server_branch_inv [inv_intros]:
  "preserves (usb_inv e) (do {
     s \<leftarrow> get_usbd;
     if \<not> usb_alt_mode s \<and> usbd_server_fd s \<in> rset then server_event e else skip })"
  by (rule preservesI) (simp add: server_event_inv)

lemma main_iteration_inv: "preserves (usb_inv e) (main_iteration cfg e rset)"
  unfolding main_iteration_def
  by (rule preserves_bind [OF basic_inv(3)], rule preserves_bind)
     (intro inv_intros, (intro preserves_bind unless_fault_inv server_branch_inv; intro inv_intros))

section \<open>Initialisation\<close>

definition opened :: "usbd \<Rightarrow> bool" where
  "opened s \<longleftrightarrow> 0 \<le> uevent_sock s \<and> 0 \<le> usb_device_fd s \<and>
     (\<not> usb_alt_mode s \<longrightarrow> 0 \<le> usbd_server_fd s) \<and> usbd_app_fd s = -1 \<and>
     cable_inv s \<and> mode_inv s \<and> buf_inv s \<and> fault s = None"

lemma read_switch_frame: "core (exec (readUsbSwitchState e) s) = core s"
  by (rule keeps_coreD, rule io_only_keeps_core) (rule frame_intros)

lemma startup_mode_frame: "core (exec (usbd_get_startup_mode cfg e) s) = core s"
  by (rule keeps_coreD, rule io_only_keeps_core) (rule frame_intros)

lemma startup_mode_known: "result (usbd_get_startup_mode cfg e) s \<noteq> MOTO_MODE_TYPE_UNKNOWN"
  by (simp add: usbd_get_startup_mode_def)

text \<open>
  The stages of \<open>main_open\<close> as triples over what has been set up so far: \<open>booting\<close> holds from the
  start, the descriptors and the mode are added one by one.
\<close>

definition booting :: "usbd \<Rightarrow> bool" where
  "booting s \<longleftrightarrow> usbd_app_fd s = -1 \<and> usbd_curr_usb_mode s \<noteq> USB_MODE_MAX \<and>
     tethering_enabled s = 0 \<and> buf_inv s \<and> fault s = None \<and> \<not> usb_alt_mode s"

definition booted_mode :: "usbd \<Rightarrow> bool" where
  "booted_mode s \<longleftrightarrow> usbd_app_fd s = -1 \<and> mode_inv s \<and> buf_inv s \<and> fault s = None \<and>
     0 \<le> uevent_sock s \<and> 0 \<le> usb_device_fd s"

lemma boot_uevent:
  "hoare booting (uevent_socket_init e) (\<lambda>r s. booting s \<and> (0 \<le> r \<longrightarrow> 0 \<le> uevent_sock s))"
  by (rule hoareI) (auto simp: uevent_socket_init_def booting_def)

lemma boot_startup_mode:
  "hoare P (usbd_get_startup_mode cfg e) (\<lambda>r s. P s \<and> r \<noteq> MOTO_MODE_TYPE_UNKNOWN)"
  if "\<And>s h. P (s\<lparr>history := h\<rparr>) = P s" for P
  by (rule hoareI) (simp add: usbd_get_startup_mode_def that)

lemma boot_socket:
  "hoare booted_mode (usbd_socket_init e) (\<lambda>r s. booted_mode s \<and> (0 \<le> r \<longrightarrow> 0 \<le> usbd_server_fd s))"
  by (rule hoareI) (auto simp: usbd_socket_init_def booted_mode_def)

lemma read_switch_hist: "\<exists>h. exec (readUsbSwitchState e) s = s\<lparr>history := history s @ h\<rparr>"
  by (rule io_onlyD) (rule frame_intros)

lemma boot_cable:
  "hoare (\<lambda>s. booted_mode s \<and> (usb_alt_mode s \<or> 0 \<le> usbd_server_fd s))
     (usbd_get_initial_cable_status e) (\<lambda>r s. 0 \<le> r \<longrightarrow> opened s)"
proof (rule hoareI)
  fix s
  assume s: "booted_mode s \<and> (usb_alt_mode s \<or> 0 \<le> usbd_server_fd s)"
  let ?s = "s\<lparr>current_usb_online := False, usbd_current_state := USBD_STATE_CABLE_DEFAULT\<rparr>"
  obtain h where "exec (readUsbSwitchState e) ?s = ?s\<lparr>history := history ?s @ h\<rparr>"
    using read_switch_hist by blast
  with s show "0 \<le> result (usbd_get_initial_cable_status e) s \<longrightarrow>
      opened (exec (usbd_get_initial_cable_status e) s)"
    by (cases "result (readUsbSwitchState e) ?s")
       (auto simp: usbd_get_initial_cable_status_def opened_def booted_mode_def cable_inv_def)
qed

definition booted_fds :: "usbd \<Rightarrow> bool" where
  "booted_fds s \<longleftrightarrow> booting s \<and> 0 \<le> uevent_sock s \<and> 0 \<le> usb_device_fd s"

lemma main_start_mode_opened: "hoare booted_fds (main_start_mode cfg e) (\<lambda>r s. r \<longrightarrow> opened s)"
  unfolding main_start_mode_def
proof (rule hoare_bind [OF boot_startup_mode])
  show "booted_fds (s\<lparr>history := h\<rparr>) = booted_fds s" for s h
    by (simp add: booted_fds_def booting_def)
next
  fix m
  let ?set = "modify (\<lambda>s. s\<lparr>usbd_mode := m,
                usb_alt_mode := usb_alt_mode s \<or> m \<noteq> MOTO_MODE_TYPE_NORMAL\<rparr>)"
  have set: "hoare (\<lambda>s. booted_fds s \<and> m \<noteq> MOTO_MODE_TYPE_UNKNOWN) ?set (\<lambda>_. booted_mode)"
    by (rule hoareI) (simp add: booted_fds_def booting_def booted_mode_def mode_inv_def)
  have sock: "hoare (\<lambda>s. s = s0) (if usb_alt_mode s0 then ret 0 else usbd_socket_init e)
      (\<lambda>r s. 0 \<le> r \<longrightarrow> booted_mode s \<and> (usb_alt_mode s \<or> 0 \<le> usbd_server_fd s))"
    if "booted_mode s0" for s0
    using that hoareD [OF boot_socket that, of e] by (auto intro!: hoareI)
  have cable: "hoare (\<lambda>s. 0 \<le> r \<longrightarrow> booted_mode s \<and> (usb_alt_mode s \<or> 0 \<le> usbd_server_fd s))
      (if r < 0 then do { _ \<leftarrow> call e (Sys_close fd); ret False }
       else do { c \<leftarrow> usbd_get_initial_cable_status e; ret (0 \<le> c) }) (\<lambda>r s. r \<longrightarrow> opened s)"
    for r :: int and fd
    using hoareD [OF boot_cable, of _ e] by (auto intro!: hoareI)
  show "hoare (\<lambda>s. booted_fds s \<and> m \<noteq> MOTO_MODE_TYPE_UNKNOWN) (do {
      ?set;
      s \<leftarrow> get_usbd;
      sock \<leftarrow> (if usb_alt_mode s then ret 0 else usbd_socket_init e);
      if sock < 0 then do { _ \<leftarrow> call e (Sys_close (usb_device_fd s)); ret False }
      else do { c \<leftarrow> usbd_get_initial_cable_status e; ret (0 \<le> c) } }) (\<lambda>r s. r \<longrightarrow> opened s)"
    by (rule hoare_bind [OF set], rule hoare_get, rule hoare_bind [OF sock cable])
qed

lemma main_open_opened:
  assumes "result (main_open cfg e) initial_usbd"
  shows "opened (exec (main_open cfg e) initial_usbd)"
proof -
  let ?s0 = "initial_usbd\<lparr>usbd_app_fd := -1\<rparr>"
  let ?s1 = "exec (uevent_socket_init e) ?s0"
  let ?c = "Sys_open ''/dev/usb_device_mode'' O_RDWR"
  let ?dev = "io_ret e (history ?s1) ?c"
  let ?s2 = "?s1\<lparr>history := history ?s1 @ [?c], usb_device_fd := ?dev\<rparr>"
  have ok: "0 \<le> result (uevent_socket_init e) ?s0" "0 \<le> ?dev" "result (main_start_mode cfg e) ?s2"
    and fin: "exec (main_open cfg e) initial_usbd = exec (main_start_mode cfg e) ?s2"
    using assms by (auto simp: main_open_def split: if_splits)
  have "booting ?s0" by (simp add: booting_def buf_inv_def fits_def)
  with hoareD [OF boot_uevent, of ?s0 e] ok(1) have "booting ?s1" "0 \<le> uevent_sock ?s1" by simp_all
  with ok(2) have "booted_fds ?s2" by (simp add: booted_fds_def booting_def)
  then have "result (main_start_mode cfg e) ?s2 \<longrightarrow> opened (exec (main_start_mode cfg e) ?s2)"
    by (rule hoareD [OF main_start_mode_opened])
  with ok(3) fin show ?thesis by simp
qed

text \<open>The end of the initialisation keeps the invariant.\<close>

lemma main_init_tail_inv:
  "preserves (usb_inv e') (do {
     cdrom_smart_version_mount cfg e True;
     _ \<leftarrow> cdrom_read_version_key e;
     cdrom_smart_version_mount cfg e False;
     s \<leftarrow> get_usbd;
     (if current_usb_online s then
        (if usbd_curr_cable_status s = MOTO_ACCY_TYPE_EMU_CABLE_FACTORY
         then set_factory_mode cfg e
         else if usb_alt_mode s \<and> usbd_curr_cable_status s = MOTO_ACCY_TYPE_EMU_CABLE_USB
         then do { _ \<leftarrow> usbd_enumerate_default_mode cfg e; skip }
         else skip)
      else skip);
     ret True })"
  by (intro inv_intros keeps_core_inv [OF cdrom_smart_version_mount_keeps_core]
      io_only_inv [OF cdrom_read_version_key_io_only])

text \<open>A started daemon: \<open>main\<close> has reached its loop, on a kernel with a sound \<open>accept\<close>.\<close>

definition usbd_started :: "config \<Rightarrow> env \<Rightarrow> usbd \<Rightarrow> bool" where
  "usbd_started cfg e s \<longleftrightarrow>
     result (main_init cfg e) initial_usbd \<and> s = exec (main_init cfg e) initial_usbd \<and>
     accept_fresh e (exec (main_open cfg e) initial_usbd)"

lemma usbd_started_inv: "usbd_started cfg e s \<Longrightarrow> usb_inv e s"
proof -
  assume st: "usbd_started cfg e s"
  let ?o = "exec (main_open cfg e) initial_usbd"
  let ?c = "?o\<lparr>connected_apps_fd := {uevent_sock ?o, usb_device_fd ?o} \<union>
               (if usb_alt_mode ?o then {} else {usbd_server_fd ?o})\<rparr>"
  let ?m = "?c\<lparr>max_fd := usbd_get_maxfd ?c\<rparr>"
  from st have ok: "result (main_open cfg e) initial_usbd"
    by (auto simp: usbd_started_def main_init_def split: if_splits)
  then have "opened ?o" by (rule main_open_opened)
  then have "usb_inv e ?m"
    using st by (auto simp: opened_def usbd_started_def usb_inv_def fds_inv_def usbd_get_maxfd_max)
  then show "usb_inv e s"
    using preservesD [OF main_init_tail_inv, of e ?m cfg e] st ok
    by (simp add: usbd_started_def main_init_def split del: if_split)
qed

section \<open>The main loop\<close>

text \<open>
  One iteration from a state without a fault; \<open>select\<close> leaves any part of the set it was given.
\<close>

inductive usbd_step :: "config \<Rightarrow> env \<Rightarrow> usbd \<Rightarrow> usbd \<Rightarrow> bool" for cfg e where
  iterate: "fault s = None \<Longrightarrow> rset \<subseteq> connected_apps_fd s \<Longrightarrow>
    usbd_step cfg e s (exec (main_iteration cfg e rset) s)"

inductive_cases usbd_stepE: "usbd_step cfg e s t"

interpretation usbd_loop: transition_invariant "usbd_started cfg e" "usbd_step cfg e" "usb_inv e"
  for cfg e
proof unfold_locales
  show "usbd_started cfg e s \<Longrightarrow> usb_inv e s" for s by (rule usbd_started_inv)
  show "usbd_step cfg e s t \<Longrightarrow> usb_inv e s \<Longrightarrow> usb_inv e t" for s t
    by (auto elim!: usbd_stepE intro: preservesD [OF main_iteration_inv])
qed

end
