(* ===== verification/Usb_Properties.thy ===== *)
theory Usb_Properties
  imports Usb_Invariant
begin

text \<open>
  The properties of the USB daemon: what its loop guarantees in every state it reaches, the
  effect of each event, the robustness of its message parser, and the resources of its CD-ROM
  code.  \<open>demo_cfg\<close> and \<open>demo_env\<close> are a phone with a normal USB cable, on which the
  hypotheses of the theorems are met.
\<close>

section \<open>A concrete system\<close>

definition demo_cfg :: config where
  "demo_cfg = \<lparr>AT_RELAY = False, MSD_CDROM_ENABLED = False, USBD_TABLET_MODE = False,
     CDROM_BLOCK_DEVICE = ''/dev/block/cdrom'',
     CDROMIO_DEVNODE = ''/sys/devices/platform/usb_mass_storage/lun0/file''\<rparr>"

fun demo_ret :: "io_call list \<Rightarrow> io_call \<Rightarrow> int" where
  "demo_ret h Sys_netlink_socket = 3"
| "demo_ret h (Sys_open p f) = 4"
| "demo_ret h (Sys_local_server n) = 5"
| "demo_ret h (Sys_accept fd) = 6"
| "demo_ret h (Sys_fopen p m) = 100"
| "demo_ret h (Sys_fgets f) = 1"
| "demo_ret h (Sys_property_get k d) = 1"
| "demo_ret h (Sys_read fd n) = 13"
| "demo_ret h _ = 0"

fun demo_data :: "io_call list \<Rightarrow> io_call \<Rightarrow> string" where
  "demo_data h (Sys_fgets f) = ''1''"
| "demo_data h (Sys_property_get k d) = d"
| "demo_data h (Sys_read fd n) = ''usb_mode_mtp'' @ [NUL]"
| "demo_data h _ = []"

definition demo_env :: env where
  "demo_env = \<lparr>io_ret = demo_ret, io_errno = \<lambda>h c. 0, io_data = demo_data,
     io_dir = \<lambda>h d. [''0:0:0:0'', ''host0'', ''target0:0:0''], io_sender = \<lambda>h. (1, 0, Some 0)\<rparr>"

text \<open>The demo daemon after its initialisation.\<close>

definition demo_state :: usbd where
  "demo_state = exec (main_init demo_cfg demo_env) initial_usbd"

lemmas demo_defs = demo_cfg_def demo_env_def

lemmas demo_eval = demo_cfg_def demo_env_def main_init_def main_open_def main_start_mode_def
  uevent_socket_init_def usbd_get_startup_mode_def usbd_socket_init_def
  usbd_get_initial_cable_status_def readUsbSwitchState_def cable_of_state_def
  cdrom_smart_version_mount_def cdrom_read_version_key_def initial_usbd_def version_len_def fill_def usbd_get_maxfd_def
  usbd_enumerate_default_mode_def usbd_get_adb_property_def usbd_set_usb_mode_def usb_entry_def
  usb_mode_list_defs run_opt_def blank_entry_def


lemma demo_state_fields:
  "usbd_curr_usb_mode demo_state = USB_MODE_MIN" "current_usb_online demo_state"
  "usbd_curr_cable_status demo_state = MOTO_ACCY_TYPE_EMU_CABLE_USB"
  "usb_device_fd demo_state = 4" "usbd_app_fd demo_state = -1" "\<not> usb_alt_mode demo_state"
  "fault demo_state = None" "connected_apps_fd demo_state = {3, 4, 5}"
  "uevent_sock demo_state = 3" "usbd_server_fd demo_state = 5" "max_fd demo_state = 5"
  by (simp_all add: demo_state_def demo_eval)

text \<open>The same phone started in the bp-tools boot mode: an alternate mode.\<close>

definition demo_alt_env :: env where
  "demo_alt_env = demo_env\<lparr>io_data := (\<lambda>h c. if c = Sys_property_get ''ro.bootmode'' ''normal''
                                          then ''bp-tools'' else demo_data h c)\<rparr>"

definition demo_alt_state :: usbd where
  "demo_alt_state = exec (main_init demo_cfg demo_alt_env) initial_usbd"

lemma demo_alt_state_fields:
  "usb_alt_mode demo_alt_state" "usbd_mode demo_alt_state = MOTO_MODE_TYPE_BPTOOLS"
  "usbd_curr_usb_mode demo_alt_state = USB_MODE_BPTOOLS_ETH" "fault demo_alt_state = None"
  by (simp_all add: demo_alt_state_def demo_alt_env_def demo_eval)

lemma demo_alt_started: "usbd_started demo_cfg demo_alt_env demo_alt_state"
  by (simp add: usbd_started_def demo_alt_state_def demo_alt_env_def accept_fresh_def demo_eval)

lemma demo_started: "usbd_started demo_cfg demo_env demo_state"
  by (simp add: usbd_started_def demo_state_def accept_fresh_def demo_eval)
section \<open>The loop\<close>

text \<open>C7: in every state the main loop reaches, the descriptor set given to \<open>select\<close> holds exactly
  the uevent socket, the driver, the listening socket (unless an alternate mode is active) and
  the connected application, all of them valid and covered by \<open>max_fd + 1\<close>.\<close>

theorem usb_select_covers:
  assumes "usbd_started cfg e s" and "(usbd_step cfg e)\<^sup>*\<^sup>* s t"
  shows "connected_apps_fd t = {uevent_sock t, usb_device_fd t}
           \<union> (if usb_alt_mode t then {} else {usbd_server_fd t})
           \<union> (if 0 \<le> usbd_app_fd t then {usbd_app_fd t} else {}) \<and>
         (\<forall>fd \<in> connected_apps_fd t. 0 \<le> fd \<and> fd < max_fd t + 1)"
proof -
  have "fds_inv t" using usbd_loop.reachable_inv [OF assms] by (simp add: usb_inv_def)
  then show ?thesis by (auto simp: fds_inv_def usbd_get_maxfd_max)
qed

theorem usb_select_covers_witness:
  "connected_apps_fd demo_state = {3, 4, 5} \<and>
   3 < max_fd demo_state + 1 \<and> 4 < max_fd demo_state + 1 \<and> 5 < max_fd demo_state + 1"
  using usb_select_covers [OF demo_started rtranclp.rtrancl_refl] demo_state_fields by simp

text \<open>C8: in every state the loop reaches, the daemon is online exactly when a cable is attached, and
  exactly then the reported state is attached, enumerating or enumerated.\<close>

theorem usb_cable_consistent:
  assumes "usbd_started cfg e s" and "(usbd_step cfg e)\<^sup>*\<^sup>* s t"
  shows "(current_usb_online t \<longleftrightarrow> usbd_curr_cable_status t \<noteq> MOTO_ACCY_TYPE_EMU_UNKNOWN) \<and>
         (current_usb_online t \<longleftrightarrow> usbd_current_state t \<in>
           {USBD_STATE_CABLE_ATTACHED, USBD_STATE_ENUM_IN_PROGRESS, USBD_STATE_ENUMERATED})"
proof -
  have "cable_inv t" using usbd_loop.reachable_inv [OF assms] by (simp add: usb_inv_def)
  then show ?thesis by (cases "usbd_current_state t") (auto simp: cable_inv_def)
qed

theorem usb_cable_consistent_witness:
  "usbd_current_state demo_state \<in>
     {USBD_STATE_CABLE_ATTACHED, USBD_STATE_ENUM_IN_PROGRESS, USBD_STATE_ENUMERATED}"
  using usb_cable_consistent [OF demo_started rtranclp.rtrancl_refl] demo_state_fields by simp

text \<open>C10: in an alternate mode the daemon never has an application connection, the mode it reports is
  a real one, and the alternate-mode table is never read outside its bounds: handling a driver
  message in \<open>usbd_alt_mode_set\<close> raises no fault.\<close>

theorem usb_alt_mode_safe:
  assumes "usbd_started cfg e s" and "(usbd_step cfg e)\<^sup>*\<^sup>* s t" and "usb_alt_mode t"
  shows "usbd_app_fd t = -1 \<and> usbd_curr_usb_mode t < USB_MODE_MAX \<and>
         fault (exec (usbd_alt_mode_set cfg e (usbd_mode t) adb teth) t) = fault t"
proof -
  have inv: "usb_inv e t" by (rule usbd_loop.reachable_inv [OF assms(1,2)])
  then have fd: "usbd_app_fd t = -1" and m: "usbd_curr_usb_mode t < USB_MODE_MAX"
    and te: "tethering_enabled t \<in> {0, 1}"
    using assms(3) by (simp_all add: usb_inv_def fds_inv_def mode_inv_def mode_less_MAX_iff)
  have set: "fault (exec (set_alt_mode cfg e m) u) = fault u" for m u
    using core_set_mode [of cfg e m u] by (simp add: set_alt_mode_def core_eq_iff)
  have "fault (exec (usbd_alt_mode_set cfg e (usbd_mode t) adb teth) t) = fault t"
    using te by (auto simp: usbd_alt_mode_set_def Let_def set usbd_get_adb_property_def
      adb_flag_def tether_flag_def alt_mode_lookup_def split: option.split)
  with fd m show ?thesis by simp
qed

theorem usb_alt_mode_safe_witness:
  "usbd_app_fd demo_alt_state = -1 \<and> usbd_curr_usb_mode demo_alt_state < USB_MODE_MAX \<and>
   fault (exec (usbd_alt_mode_set demo_cfg demo_alt_env (usbd_mode demo_alt_state)
                  ''none'' ''tethering_enable'') demo_alt_state) = None"
  using usb_alt_mode_safe [OF demo_alt_started rtranclp.rtrancl_refl demo_alt_state_fields(1)]
    demo_alt_state_fields(4) by simp

section \<open>Switching the mode\<close>

lemma set_usb_mode_history:
  assumes "m \<noteq> USB_MODE_MIN"
  shows "\<exists>h. history (exec (usbd_set_usb_mode cfg e m) s) =
    history s @ h @ [Sys_write (usb_device_fd s) (md_name (usb_entry cfg m) @ [NUL])]"
proof -
  let ?u = "exec (run_opt cfg e (disable_done (usb_entry cfg (usbd_curr_usb_mode s))))
             (exec (run_opt cfg e (pre_disable (usb_entry cfg (usbd_curr_usb_mode s)))) s)"
  let ?v = "exec (run_opt cfg e (pre_enable (usb_entry cfg m))) (?u\<lparr>usbd_curr_usb_mode := m\<rparr>)"
  have c: "core (exec (run_opt cfg e k) t) = core t" for k t
    by (rule keeps_coreD) (rule frame_intros)
  have fd: "usb_device_fd (exec (run_opt cfg e k) t) = usb_device_fd t" for k t
    using c [of k t] by (simp add: core_eq_iff)
  have g: "\<exists>h. history (exec (run_opt cfg e k) t) = history t @ h" for k t
    by (rule growsD) (rule frame_intros)
  obtain h1 where h1: "history (exec (run_opt cfg e (pre_disable (usb_entry cfg (usbd_curr_usb_mode s)))) s)
      = history s @ h1" using g by blast
  obtain h2 where "history ?u = history s @ h1 @ h2" using g h1 by (metis append.assoc)
  moreover obtain h3 where "history ?v = history (?u\<lparr>usbd_curr_usb_mode := m\<rparr>) @ h3"
    using g by blast
  ultimately have "history ?v = history s @ (h1 @ h2 @ h3)" by simp
  then show ?thesis using assms by (simp add: usbd_set_usb_mode_def fd)
qed


text \<open>The request strings of the table are proper C strings that fit the socket buffer.\<close>

lemma mode_req_string:
  "mode_req (usb_entry cfg m) = Some r \<Longrightarrow> NUL \<notin> set r \<and> r \<noteq> [] \<and> length r < 100"
  by (cases m) (auto simp: usb_entry_def usb_mode_list_defs)

lemma usb_entry_req:
  assumes "m \<noteq> USB_MODE_MAX" and "mode_req (usb_entry cfg m) = Some r"
  shows "match_mode_req (searched_modes cfg) r 0 = mode_ord m"
  using usb_table.req_found [of m cfg r] assms by (simp add: usb_entry_def searched_modes_def)

lemma cstr_fill:
  "NUL \<notin> set r \<Longrightarrow> length r < n \<Longrightarrow> cstr (fill n (take (Suc (length r)) (r @ NUL # d))) = r"
  by (cases "n - length r") (simp_all add: fill_def cstr_append_NUL)



text \<open>On a factory cable the application cannot change anything: its message is read and dropped.\<close>

theorem factory_cable_ignores_app:
  assumes "usbd_curr_cable_status s = MOTO_ACCY_TYPE_EMU_CABLE_FACTORY"
  shows "core (exec (usbd_socket_event cfg e fd) s) = core s \<and>
    (\<exists>h. history (exec (usbd_socket_event cfg e fd) s) = history s @ h \<and>
         set h \<subseteq> {Sys_read fd 1024, Sys_close fd})"
  using assms by (auto simp: usbd_socket_event_def usbd_app_message_def core_def)

text \<open>Without a cable no request of the application selects a mode: the mode stays as it is, or
  the driver is unloaded.\<close>

theorem offline_keeps_mode:
  assumes "\<not> current_usb_online s"
  shows "usbd_curr_usb_mode (exec (usbd_socket_event cfg e fd) s) \<in>
           {usbd_curr_usb_mode s, USB_MODE_MIN}"
proof -
  have set: "usbd_curr_usb_mode (exec (usbd_set_usb_mode cfg e m) t) = m" for m t
    using core_set_mode [of cfg e m t] by (simp add: core_eq_iff)
  show ?thesis
    using assms by (auto simp: usbd_socket_event_def usbd_app_message_def usbd_mode_request_def
        Let_def set split: option.split)
qed

section \<open>Uevents\<close>

text \<open>A uevent changes the daemon only if the kernel sent it with root credentials and it fits
  the buffer; otherwise it is received and dropped.\<close>

theorem untrusted_uevent_dropped:
  assumes "\<not> (trusted_sender (io_sender e (history s)) \<and>
              0 < io_ret e (history s) (Sys_recvmsg (uevent_sock s)) \<and>
              io_ret e (history s) (Sys_recvmsg (uevent_sock s)) < USBD_UEVENT_MSG_LEN - 1)"
  shows "exec (process_usb_uevent_message e) s = s\<lparr>history := history s @ [Sys_recvmsg (uevent_sock s)]\<rparr> \<and>
         \<not> result (process_usb_uevent_message e) s"
  using assms by (auto simp: process_usb_uevent_message_def)

text \<open>The uevent of the cable switch, and the answer of the switch file.\<close>

definition cable_uevent :: "env \<Rightarrow> usbd \<Rightarrow> bool" where
  "cable_uevent e s \<longleftrightarrow>
     (let c = Sys_recvmsg (uevent_sock s); n = io_ret e (history s) c;
          hdr = cstr (fill (nat n) (io_data e (history s) c))
      in 0 < n \<and> n < USBD_UEVENT_MSG_LEN - 1 \<and> trusted_sender (io_sender e (history s)) \<and>
         strcasestr hdr ''usb_connected'' \<and> strcasestr hdr ''switch'')"

lemma cable_uevent_run:
  assumes "cable_uevent e s"
  shows "run_state (process_usb_uevent_message e) s =
         run_state (cable_event e) (s\<lparr>history := history s @ [Sys_recvmsg (uevent_sock s)]\<rparr>)"
  using assms
  by (simp add: cable_uevent_def process_usb_uevent_message_def Let_def run_state_eq)

text \<open>C32: when the cable switch reports a change to a connected application's daemon in normal mode
  (no factory cable), the daemon takes over the new cable state and the last thing it does is to
  tell the application that the cable was attached or detached.\<close>

theorem cable_change_notifies:
  fixes s :: usbd and cfg :: config and e :: env
  defines "u \<equiv> s\<lparr>history := history s @ [Sys_recvmsg (uevent_sock s)]\<rparr>"
    and "t \<equiv> exec (do { ev \<leftarrow> process_usb_uevent_message e;
                       if ev then usbd_handle_cable_status_change cfg e else skip }) s"
  assumes "cable_uevent e s" "result (readUsbSwitchState e) u = Some c"
    and "c \<noteq> MOTO_ACCY_TYPE_EMU_CABLE_FACTORY" "\<not> usb_alt_mode s" "0 \<le> usbd_app_fd s"
  shows "usbd_curr_cable_status t = c \<and> (current_usb_online t \<longleftrightarrow> c \<noteq> MOTO_ACCY_TYPE_EMU_UNKNOWN) \<and>
    last (history t) = Sys_write (usbd_app_fd s)
      ((if c = MOTO_ACCY_TYPE_EMU_UNKNOWN then USBD_CABLE_DETACHED else USBD_CABLE_ATTACHED) @ [NUL])"
proof -
  obtain h where h: "exec (readUsbSwitchState e) u = u\<lparr>history := history u @ h\<rparr>"
    using read_switch_hist by blast
  have p: "result (process_usb_uevent_message e) s = result (cable_event e) u"
    "exec (process_usb_uevent_message e) s = exec (cable_event e) u"
    using cable_uevent_run [OF assms(3)] by (simp_all add: u_def run_state_eq)
  have fields: "usb_alt_mode u = usb_alt_mode s" "usbd_app_fd u = usbd_app_fd s"
    by (simp_all add: u_def)
  show ?thesis
    unfolding t_def using assms(4-7) h fields
    by (simp add: p cable_event_def usbd_handle_cable_status_change_def clear_app_fd_def Let_def
        usbd_notify_current_status_def notification_message_def)
qed

text \<open>A phone whose application is connected and whose cable switch sends an uevent.\<close>

definition demo_cable_env :: env where
  "demo_cable_env = demo_env\<lparr>
     io_ret := (\<lambda>h c. if c = Sys_recvmsg 3 then 27 else demo_ret h c),
     io_data := (\<lambda>h c. if c = Sys_recvmsg 3 then ''change@switch/usb_connected''
                       else demo_data h c)\<rparr>"

abbreviation demo_app_state :: usbd where
  "demo_app_state \<equiv> initial_usbd\<lparr>uevent_sock := 3, usb_device_fd := 4, usbd_app_fd := 6\<rparr>"

lemma demo_cable_uevent: "cable_uevent demo_cable_env demo_app_state"
  by (simp add: cable_uevent_def demo_cable_env_def demo_env_def trusted_sender_def Let_def
      fill_def cstr_def strcasestr_def tolower_def)

theorem cable_change_notifies_witness:
  "last (history (exec (do { ev \<leftarrow> process_usb_uevent_message demo_cable_env;
      if ev then usbd_handle_cable_status_change demo_cfg demo_cable_env else skip })
      demo_app_state)) = Sys_write 6 (USBD_CABLE_ATTACHED @ [NUL])"
  using cable_change_notifies [OF demo_cable_uevent,
      of MOTO_ACCY_TYPE_EMU_CABLE_USB demo_cfg]
  by (simp add: readUsbSwitchState_def demo_cable_env_def demo_env_def cable_of_state_def)

section \<open>Messages of the driver\<close>

text \<open>The message \<open>a:b:c:d\<close> of the driver in the daemon's buffer.\<close>

definition driver_message :: "string \<Rightarrow> string \<Rightarrow> string \<Rightarrow> string \<Rightarrow> string" where
  "driver_message a b c d = a @ '':'' @ b @ '':'' @ c @ '':'' @ d"

definition field_ok :: "nat \<Rightarrow> string \<Rightarrow> bool" where
  "field_ok n f \<longleftrightarrow> f \<noteq> [] \<and> length f < n \<and> CHR '':'' \<notin> set f \<and> NUL \<notin> set f"

lemma scan_field_at:
  assumes "off = length pre" "off < devbuf_size" "f \<noteq> []" "CHR '':'' \<notin> set f" "NUL \<notin> set f"
  shows "scan_field n (pre @ f @ CHR '':'' # rest) off old =
         (if length f < n then Inr f else Inl Buffer_overflow)"
proof -
  have "cstr (f @ CHR '':'' # rest) = f @ CHR '':'' # cstr rest"
    using assms(5) by (induction f) (auto simp: cstr_def)
  moreover have "takeWhile (\<lambda>c. c \<noteq> CHR '':'') (f @ CHR '':'' # cstr rest) = f"
    using assms(4) by (induction f) auto
  ultimately show ?thesis using assms(1-3) by (simp add: scan_field_def)
qed

lemma fill_shorter: "length x \<le> n \<Longrightarrow> fill n x = x @ replicate (n - length x) NUL"
  by (simp add: fill_def min_def)

lemma enum_field_at:
  assumes "NUL \<notin> set (pre @ d)" and "length pre = n + 3" and "length (pre @ d) < k"
  shows "enum_field (fill k (pre @ d)) n = d"
proof -
  obtain z where z: "fill k (pre @ d) = (pre @ d) @ NUL # z"
    using assms(3) by (cases "k - length (pre @ d)") (simp_all add: fill_shorter)
  have "cstr (pre @ d @ NUL # z) = pre @ d" "cstr (d @ [NUL]) = d" "cstr d = d"
    using assms(1) cstr_append_NUL [of "pre @ d" z] by (simp_all add: cstr_append_NUL cstr_id)
  moreover have "nat (1 + int (length d)) - length d = Suc 0" by simp
  ultimately show ?thesis using assms(2) by (simp add: enum_field_def z Let_def)
qed

text \<open>What one read of the driver puts into the buffer.\<close>

definition driver_sends :: "env \<Rightarrow> usbd \<Rightarrow> string \<Rightarrow> bool" where
  "driver_sends e s msg \<longleftrightarrow> (let c = Sys_read (usb_device_fd s) 89 in
     io_ret e (history s) c = int (length msg) \<and> io_data e (history s) c = msg \<and>
     msg \<noteq> [] \<and> length msg < devbuf_size)"

lemma driver_message_scan:
  fixes a b c d :: string
  defines "buf \<equiv> fill devbuf_size (driver_message a b c d)"
  assumes "field_ok 50 a" "field_ok 20 b" "field_ok 20 c" "NUL \<notin> set d"
    and len: "length (driver_message a b c d) < devbuf_size"
  shows "scan_field 50 buf 0 o1 = Inr a" "scan_field 20 buf (length a + 1) o2 = Inr b"
    "scan_field 20 buf (length a + length b + 2) o3 = Inr c"
    "enum_field buf (length a + length b + length c) = d"
proof -
  obtain z where buf: "buf = driver_message a b c d @ z"
    unfolding buf_def using len by (metis fill_shorter less_imp_le)
  show "scan_field 50 buf 0 o1 = Inr a"
    using assms(2) scan_field_at [of 0 "[]" a 50 "b @ '':'' @ c @ '':'' @ d @ z" o1] len
    by (simp add: buf driver_message_def field_ok_def)
  show "scan_field 20 buf (length a + 1) o2 = Inr b"
    using assms(3) scan_field_at [of "length a + 1" "a @ '':''" b 20 "c @ '':'' @ d @ z" o2] len
    by (simp add: buf driver_message_def field_ok_def)
  show "scan_field 20 buf (length a + length b + 2) o3 = Inr c"
    using assms(4) scan_field_at [of "length a + length b + 2" "a @ '':'' @ b @ '':''" c 20 "d @ z" o3]
      len by (simp add: buf driver_message_def field_ok_def)
  show "enum_field buf (length a + length b + length c) = d"
    unfolding buf_def driver_message_def
    using assms(2-5) enum_field_at [of "a @ '':'' @ b @ '':'' @ c @ '':''" d _ devbuf_size] len
    by (simp add: driver_message_def field_ok_def add.assoc)
qed


text \<open>The demo phone whose driver sends \<open>msg\<close>.\<close>

definition demo_driver_env :: "string \<Rightarrow> env" where
  "demo_driver_env msg = demo_env\<lparr>
     io_ret := (\<lambda>h c. if c = Sys_read 4 89 then int (length msg) else demo_ret h c),
     io_data := (\<lambda>h c. if c = Sys_read 4 89 then msg else demo_data h c)\<rparr>"

lemma demo_driver_sends:
  "msg \<noteq> [] \<Longrightarrow> length msg < 90 \<Longrightarrow> driver_sends (demo_driver_env msg) demo_state msg"
  by (simp add: driver_sends_def demo_driver_env_def demo_state_fields devbuf_size_def)

abbreviation demo_message :: string where
  "demo_message \<equiv> driver_message ''none'' ''adb_enable'' ''none'' ''enumerated''"


text \<open>C34: a driver message whose ADB field has twenty characters or more is written past the end of
  the daemon's buffer.\<close>

theorem driver_message_overflow:
  assumes "field_ok 50 a" "20 \<le> length b" "CHR '':'' \<notin> set b" "NUL \<notin> set b"
    and "driver_sends e s (driver_message a b c d)"
  shows "fault (exec (usb_device_event cfg e) s) = Some Buffer_overflow"
proof -
  let ?m = "driver_message a b c d"
  have len: "length ?m < devbuf_size"
    using assms(5) by (simp add: driver_sends_def Let_def)
  then obtain z where buf: "fill devbuf_size ?m = ?m @ z" by (metis fill_shorter less_imp_le)
  have cut: "take (devbuf_size - 1) ?m = ?m" using len by (simp add: devbuf_size_def)
  have a: "scan_field 50 (fill devbuf_size ?m) 0 (pcSwitchbuf s) = Inr a"
    unfolding buf
    using assms(1) scan_field_at [of 0 "[]" a 50 "b @ '':'' @ c @ '':'' @ d @ z"] len
    by (simp add: driver_message_def field_ok_def)
  have bne: "b \<noteq> []" using assms(2) by auto
  have b: "scan_field 20 (fill devbuf_size ?m) (Suc (length a)) (adbEnablebuf s) = Inl Buffer_overflow"
    unfolding buf
    using bne assms(2-4) scan_field_at [of "Suc (length a)" "a @ '':''" b 20 "c @ '':'' @ d @ z"] len
    by (simp add: driver_message_def field_ok_def)
  show ?thesis
    using assms(5) a b cut by (simp add: usb_device_event_def driver_sends_def Let_def devbuf_size_def)
qed

abbreviation long_message :: string where
  "long_message \<equiv> driver_message ''none'' (replicate 20 (CHR ''x'')) ''none'' ''enumerated''"

theorem driver_message_overflow_witness:
  "fault (exec (usb_device_event demo_cfg (demo_driver_env long_message)) demo_state) =
   Some Buffer_overflow"
  by (rule driver_message_overflow [of "''none''" "replicate 20 (CHR ''x'')" _ _ "''none''" "''enumerated''"])
     (simp_all add: field_ok_def demo_driver_sends driver_message_def)

section \<open>Disks\<close>

text \<open>Announcing the disks to a new application never does anything for the names the SCSI bus
  uses (\<open>host0\<close>, \<open>target0:0:0\<close>, \<open>0:0:0:0\<close>): only an entry named exactly \<open>host\<close> would be found.\<close>

theorem flashdrive_scan_only_host:
  assumes "''host'' \<notin> set names"
  shows "exec (flashdrive_scan e names) s = s"
  using assms
proof (induction names)
  case (Cons d ds)
  have "strncmp0 ''host'' d 5 \<Longrightarrow> d = ''host''" using strncmp0_length [of "''host''" d 5] by simp
  with Cons show ?case by auto
qed simp

text \<open>The two halves of the backward scan: counting slashes, then looking for a dash.\<close>

lemma find_device_slashes:
  assumes "pre \<noteq> []"
  shows "path = pre @ CHR ''/'' # r @ tail \<Longrightarrow>
    find_device path (length pre + length r) (Suc (count_list r (CHR ''/''))) tmp =
    find_device path (length pre - 1) 0 (length pre)"
proof (induction r arbitrary: tail tmp rule: rev_induct)
  case Nil
  then show ?case using assms by (cases "length pre") (simp_all add: nth_append)
next
  case (snoc x r)
  then have "path = pre @ CHR ''/'' # r @ (x # tail)" by simp
  note IH = snoc.IH [OF this]
  have "(path @ [NUL]) ! Suc (length pre + length r) = x" using snoc.prems by (simp add: nth_append)
  with IH show ?case by (simp add: Let_def)
qed

lemma find_device_dash:
  assumes "pre \<noteq> []" and "CHR ''-'' \<notin> set w"
  shows "path = pre @ CHR ''-'' # w @ tail \<Longrightarrow> find_device path (length pre + length w) 0 tmp =
    Some (snprintf (tmp - length pre) (drop (Suc (length pre)) path))"
  using assms(2)
proof (induction w arbitrary: tail rule: rev_induct)
  case Nil
  then show ?case using assms(1) by (cases "length pre") (simp_all add: nth_append)
next
  case (snoc x w)
  then have "path = pre @ CHR ''-'' # w @ (x # tail)" by simp
  note IH = snoc.IH [OF this]
  have "(path @ [NUL]) ! Suc (length pre + length w) = x" using snoc.prems by (simp add: nth_append)
  with IH snoc.prems show ?case by (auto simp: Let_def)
qed

text \<open>Of a SCSI device path with six components after the USB device, the backward scan extracts
  exactly the device's port path: what follows the bus number and its dash.\<close>

theorem find_device_extracts:
  assumes "path = pre @ ''-'' @ dev @ ''/'' @ r" and "pre \<noteq> []" and "CHR ''-'' \<notin> set dev"
    and "count_list r (CHR ''/'') = 5"
  shows "find_device path (length path) 6 0 = Some dev"
proof -
  let ?q = "pre @ CHR ''-'' # dev"
  have path: "path = ?q @ CHR ''/'' # r @ []" using assms(1) by simp
  have "find_device path (length path) 6 0 =
        find_device path (length ?q + length r) (Suc (count_list r (CHR ''/''))) 0"
    using assms(1,4) by (simp add: nth_append Let_def add.assoc)
  also have "\<dots> = find_device path (length pre + length dev) 0 (length ?q)"
    using find_device_slashes [OF _ path, of 0] by simp
  also have "\<dots> = Some (snprintf (Suc (length dev)) (dev @ CHR ''/'' # r))"
    using find_device_dash [OF assms(2,3), of path "CHR ''/'' # r" "length ?q"] assms(1) by simp
  finally show ?thesis by (simp add: snprintf_def)
qed

abbreviation demo_disk_path :: string where
  "demo_disk_path \<equiv>
     ''/devices/usb1/1-1/1-1.2/1-1.2:1.0/host0/target0:0:0/0:0:0:0/scsi_disk/0:0:0:0''"

section \<open>The CD-ROM image\<close>

text \<open>C31: binding the image to a loop device closes every descriptor it opens, on every path, and a
  success leaves the full path of a loop device within the searched range.\<close>

theorem loop_create_no_leak:
  "open_fds e (history (exec (loop_create e f) s)) = open_fds e (history s) \<and>
   (result (loop_create e f) s = -1 \<or>
    (\<exists>i < LOOP_MAX. curr_loop_dev (exec (loop_create e f) s) = loop_path i))"
proof -
  have "result (loop_create e f) s \<in> {-1, 0}"
    by (auto simp: loop_create_def split: loop_scan.split)
  then show ?thesis
    using loop_create_fds [of e f s] by (auto elim!: loop_create_ok [of e f s])
qed

text \<open>Exporting the image leaks the descriptor of the driver node whenever no loop device can be
  bound: every failed attempt leaves one more descriptor open.\<close>

theorem cdrom_mount_leaks:
  assumes "0 \<le> io_ret e (history s) (Sys_open (CDROMIO_DEVNODE cfg) O_WRONLY)"
    and "io_ret e (history s @ [Sys_open (CDROMIO_DEVNODE cfg) O_WRONLY])
           (Sys_access (CDROM_BLOCK_DEVICE cfg)) \<noteq> 0"
    and "\<not> cdrom_mounted s"
    and "result (loop_create e ''/cdrom/cdrom_vfat.bin'')
           (s\<lparr>history := history s @ [Sys_open (CDROMIO_DEVNODE cfg) O_WRONLY,
              Sys_access (CDROM_BLOCK_DEVICE cfg)]\<rparr>) \<noteq> 0"
  shows "open_fds e (history (exec (cdrom_partition_mount cfg e True) s)) =
    add_mset (io_ret e (history s) (Sys_open (CDROMIO_DEVNODE cfg) O_WRONLY)) (open_fds e (history s))"
  using assms by (simp add: cdrom_partition_mount_def cdrom_bind_loop_def loop_create_fds)

text \<open>The version message sent to the driver always fits its buffer of 255 bytes, even when the
  size of the version file cannot be determined.\<close>

lemma version_message_fits:
  "\<exists>h. history (exec (cdrom_read_version_key e) s) = history s @ h \<and>
     list_all (\<lambda>c. case c of Sys_write fd msg \<Rightarrow> length msg \<le> MAX_VERSION_SIZE \<and> fd = usb_device_fd s
                   | _ \<Rightarrow> True) h"
  by (simp add: cdrom_read_version_key_def version_len_def)

text \<open>A phone on which no loop device can be created.\<close>

definition demo_noloop_env :: env where
  "demo_noloop_env = demo_env\<lparr>
     io_ret := (\<lambda>h c. case c of Sys_access _ \<Rightarrow> -1 | Sys_mknod _ _ \<Rightarrow> -1 | _ \<Rightarrow> demo_ret h c)\<rparr>"

lemma demo_noloop:
  "io_ret demo_noloop_env h (Sys_access p) = -1" "io_ret demo_noloop_env h (Sys_open p f) = 4"
  by (simp_all add: demo_noloop_env_def)

lemma cdrom_unmounted_initially: "\<not> cdrom_mounted initial_usbd"
  by (simp add: initial_usbd_def)

lemma demo_noloop_create: "result (loop_create demo_noloop_env f) s = -1"
proof -
  have "result (loop_search demo_noloop_env (Suc n) i) s = Loop_error" for n i
    by (simp add: demo_noloop_env_def demo_env_def)
  from this [of 4095 0] show ?thesis by (simp add: loop_create_def del: loop_search.simps)
qed

end
