(* ===== verification/Edid.thy ===== *)
theory Edid
  imports Prelude
begin

text \<open>
  The EDID parser (\<^verbatim>\<open>edid/lib/edid_parser.c\<close>): the data blocks of the CEA extension, the short
  video descriptors and the stereoscopic (3D) formats of the HDMI vendor block.

  The raw EDID is a list of bytes (256 of them, \<open>EDID_SIZE\<close>).  A function that reads memory
  returns a sum: \<open>Inl\<close> is undefined behaviour of the C code (a read outside of the EDID or of
  the table, a write past the end of an array, a read of memory that was never written, a null
  pointer, a loop that never ends).  \<open>uint8_t\<close> and \<open>uint16_t\<close> variables are words, so that
  their wrap-around is that of the code; \<open>unsigned int\<close> offsets are naturals, since they start
  below 256 and are only incremented before they leave the EDID.
\<close>

unbundle bit_operations_syntax

section \<open>Data\<close>

datatype edid_fault =
    Edid_overread
  | Table_overread
  | Svd_list_overread
  | Uninitialised_format
  | Vic_info_overflow
  | Null_pointer
  | Endless_loop

datatype hdmi_scan_type = HDMI_SCAN_PROGRESSIVE | HDMI_SCAN_INTERLACED

datatype datablock_id =
    DATABLOCK_AUDIO | DATABLOCK_VIDEO | DATABLOCK_VENDOR | DATABLOCK_SPEAKERS

primrec datablock_tag :: "datablock_id \<Rightarrow> byte" where
  "datablock_tag DATABLOCK_AUDIO = 1"
| "datablock_tag DATABLOCK_VIDEO = 2"
| "datablock_tag DATABLOCK_VENDOR = 3"
| "datablock_tag DATABLOCK_SPEAKERS = 4"

text \<open>
  The enumerations \<open>hdmi_3d_format\<close> and \<open>hdmi_3d_subsampling\<close> are used as integers in the code
  (a four-bit field is cast to them), so they are naturals with named values.
\<close>

abbreviation (input) HDMI_TOPBOTTOM :: nat where "HDMI_TOPBOTTOM \<equiv> 6"
abbreviation (input) HDMI_SIDE_BY_SIDE_HALF :: nat where "HDMI_SIDE_BY_SIDE_HALF \<equiv> 8"
abbreviation (input) HDMI_SIDE_BY_SIDE_HALF_BIT :: "16 word" where "HDMI_SIDE_BY_SIDE_HALF_BIT \<equiv> 0x0100"
abbreviation (input) HDMI_SIDE_BY_SIDE_HALF_QUINCUNX_BIT :: "16 word" where
  "HDMI_SIDE_BY_SIDE_HALF_QUINCUNX_BIT \<equiv> 0x8000"
abbreviation (input) HDMI_SS_HORZANDQUINCUNX :: nat where "HDMI_SS_HORZANDQUINCUNX \<equiv> 0"
abbreviation (input) HDMI_SS_HORIZONTAL :: nat where "HDMI_SS_HORIZONTAL \<equiv> 1"
abbreviation (input) HDMI_SS_QUINCUNX_ALL :: nat where "HDMI_SS_QUINCUNX_ALL \<equiv> 6"
abbreviation (input) HDMI_SS_VERTICAL :: nat where "HDMI_SS_VERTICAL \<equiv> 0xF0000"
abbreviation (input) HDMI_SS_NONE :: nat where "HDMI_SS_NONE \<equiv> 0xF0001"
abbreviation (input) MAX_VIC_CODES_PER_3D_FORMAT :: nat where "MAX_VIC_CODES_PER_3D_FORMAT \<equiv> 16"
abbreviation (input) EDID_SIZE :: nat where "EDID_SIZE \<equiv> 256"

record svd_info_t =
  xres :: nat
  yres :: nat
  hz :: nat
  scan_type :: hdmi_scan_type
  svd_name :: string

record svd_t =
  code :: byte
  native :: bool
  info :: svd_info_t

record hdmi_s3d_format_vic_info_t =
  vic_pos :: nat
  subsampling :: nat

text \<open>
  A format entry: \<open>format\<close> is \<open>None\<close> while the memory from \<open>malloc\<close> has not been written;
  \<open>vic_info\<close> holds the first \<open>num_valid_vic\<close> entries of the array.
\<close>

record hdmi_s3d_format_info_t =
  format :: "nat option"
  vic_info :: "hdmi_s3d_format_vic_info_t list"

definition num_valid_vic :: "hdmi_s3d_format_info_t \<Rightarrow> nat" where
  "num_valid_vic f = length (vic_info f)"

record edid_t =
  s3d_capable :: bool
  num_s3d_formats :: nat
  s3d_format_list :: "hdmi_s3d_format_info_t list"
  num_svds :: nat
  svd_list :: "svd_t list"

section \<open>Faults\<close>

type_synonym 'a edid_res = "edid_fault + 'a"

text \<open>One byte of the EDID.\<close>

definition rd :: "byte list \<Rightarrow> nat \<Rightarrow> byte edid_res" where
  "rd d off = (if off < length d then Inr (d ! off) else Inl Edid_overread)"

section \<open>The table of video formats\<close>

definition svd :: "nat \<Rightarrow> nat \<Rightarrow> nat \<Rightarrow> hdmi_scan_type \<Rightarrow> string \<Rightarrow> svd_info_t" where
  "svd x y h t n = \<lparr>xres = x, yres = y, hz = h, scan_type = t, svd_name = n\<rparr>"

definition svd_table :: "svd_info_t list" where
  "svd_table = [
     svd 0 0 0 HDMI_SCAN_PROGRESSIVE ''reserved'',
     svd 640 480 60 HDMI_SCAN_PROGRESSIVE ''DMT0659'',
     svd 720 480 60 HDMI_SCAN_PROGRESSIVE ''480p'',
     svd 720 480 60 HDMI_SCAN_PROGRESSIVE ''480pH'',
     svd 1280 720 60 HDMI_SCAN_PROGRESSIVE ''720p'',
     svd 1920 1080 60 HDMI_SCAN_INTERLACED ''1080i'',
     svd 720 480 60 HDMI_SCAN_INTERLACED ''480i'',
     svd 720 480 60 HDMI_SCAN_INTERLACED ''480iH'',
     svd 720 240 60 HDMI_SCAN_PROGRESSIVE ''240p'',
     svd 1280 720 60 HDMI_SCAN_PROGRESSIVE ''240pH'',
     svd 720 480 60 HDMI_SCAN_INTERLACED ''480i4x'',
     svd 720 480 60 HDMI_SCAN_INTERLACED ''480i4xH'',
     svd 720 240 60 HDMI_SCAN_PROGRESSIVE ''240p4x'',
     svd 720 240 60 HDMI_SCAN_PROGRESSIVE ''240p4xH'',
     svd 720 480 60 HDMI_SCAN_PROGRESSIVE ''480p2x'',
     svd 720 480 60 HDMI_SCAN_PROGRESSIVE ''480p2xH'',
     svd 1920 1080 60 HDMI_SCAN_PROGRESSIVE ''1080p'',
     svd 720 576 50 HDMI_SCAN_PROGRESSIVE ''576p'',
     svd 720 576 50 HDMI_SCAN_PROGRESSIVE ''576pH'',
     svd 1280 720 50 HDMI_SCAN_PROGRESSIVE ''720p50'',
     svd 1920 1080 50 HDMI_SCAN_INTERLACED ''1080i25'',
     svd 720 576 50 HDMI_SCAN_INTERLACED ''576i'',
     svd 720 576 50 HDMI_SCAN_INTERLACED ''576iH'',
     svd 720 288 50 HDMI_SCAN_PROGRESSIVE ''288p'',
     svd 720 288 50 HDMI_SCAN_PROGRESSIVE ''288pH'',
     svd 720 576 50 HDMI_SCAN_INTERLACED ''576i4x'',
     svd 720 576 50 HDMI_SCAN_INTERLACED ''576i4xH'',
     svd 720 288 50 HDMI_SCAN_PROGRESSIVE ''288p4x'',
     svd 720 288 50 HDMI_SCAN_PROGRESSIVE ''288p4xH'',
     svd 720 576 50 HDMI_SCAN_PROGRESSIVE ''576p2x'',
     svd 720 576 50 HDMI_SCAN_PROGRESSIVE ''576p2xH'',
     svd 1920 1080 50 HDMI_SCAN_PROGRESSIVE ''1080p50'',
     svd 1920 1080 24 HDMI_SCAN_PROGRESSIVE ''1080p24'',
     svd 1920 1080 25 HDMI_SCAN_PROGRESSIVE ''1080p25'',
     svd 1920 1080 30 HDMI_SCAN_PROGRESSIVE ''1080p30'',
     svd 720 480 60 HDMI_SCAN_PROGRESSIVE ''480p4x'',
     svd 720 480 60 HDMI_SCAN_PROGRESSIVE ''480p4xH'',
     svd 720 576 50 HDMI_SCAN_PROGRESSIVE ''576p4x'',
     svd 720 576 50 HDMI_SCAN_PROGRESSIVE ''576p4xH'',
     svd 1920 1080 50 HDMI_SCAN_INTERLACED ''1080i25'',
     svd 1920 1080 100 HDMI_SCAN_INTERLACED ''1080i50'',
     svd 1280 720 100 HDMI_SCAN_PROGRESSIVE ''720p100'',
     svd 720 576 100 HDMI_SCAN_PROGRESSIVE ''576p100'',
     svd 720 576 100 HDMI_SCAN_PROGRESSIVE ''576p100H'',
     svd 720 576 100 HDMI_SCAN_INTERLACED ''576i50'',
     svd 720 576 100 HDMI_SCAN_INTERLACED ''576i50H'',
     svd 1920 1080 120 HDMI_SCAN_INTERLACED ''1080i60'',
     svd 1280 720 120 HDMI_SCAN_PROGRESSIVE ''720p120'',
     svd 720 480 120 HDMI_SCAN_PROGRESSIVE ''480p120'',
     svd 720 480 120 HDMI_SCAN_PROGRESSIVE ''480p120H'',
     svd 720 480 120 HDMI_SCAN_INTERLACED ''480i60'',
     svd 720 480 120 HDMI_SCAN_INTERLACED ''480i60H'',
     svd 720 576 200 HDMI_SCAN_PROGRESSIVE ''576p200'',
     svd 720 576 200 HDMI_SCAN_PROGRESSIVE ''576p200H'',
     svd 720 576 200 HDMI_SCAN_INTERLACED ''576i100'',
     svd 720 576 200 HDMI_SCAN_INTERLACED ''576i100H'',
     svd 720 480 240 HDMI_SCAN_PROGRESSIVE ''480p240'',
     svd 720 480 240 HDMI_SCAN_PROGRESSIVE ''480p240H'',
     svd 720 480 240 HDMI_SCAN_INTERLACED ''480i120'',
     svd 720 480 240 HDMI_SCAN_INTERLACED ''480i120H'',
     svd 1280 720 24 HDMI_SCAN_PROGRESSIVE ''720p24'',
     svd 1280 720 25 HDMI_SCAN_PROGRESSIVE ''720p25'',
     svd 1280 720 30 HDMI_SCAN_PROGRESSIVE ''720p30'',
     svd 1920 1080 120 HDMI_SCAN_PROGRESSIVE ''1080p120'']"

definition NUM_SVD_ENTRIES :: nat where
  "NUM_SVD_ENTRIES = length svd_table"

lemma length_svd_table [simp]: "length svd_table = 64"
  by (simp add: svd_table_def)

section \<open>Bit masks\<close>

function count_set_bits :: "16 word \<Rightarrow> nat" where
  "count_set_bits value = (if value = 0 then 0 else Suc (count_set_bits (value AND (value - 1))))"
  by pat_completeness auto

lemma and_pred_less:
  fixes v :: "16 word"
  assumes "v \<noteq> 0"
  shows "unat (v AND (v - 1)) < unat v"
proof -
  have "unat (v AND (v - 1)) \<le> unat (v - 1)" by (metis word_le_nat_alt word_and_le1)
  also have "unat (v - 1) < unat v" using assms by (simp add: unat_minus_one unat_gt_0)
  finally show ?thesis .
qed

termination count_set_bits
  by (relation "measure unat") (auto simp: and_pred_less)

declare count_set_bits.simps [simp del]

text \<open>
  \<open>set_s3d_format_bits\<close>: the formats listed per video descriptor, as bits; a structure of 8 or
  more is followed by a detail byte.
\<close>

function set_s3d_format_bits :: "byte list \<Rightarrow> nat \<Rightarrow> nat \<Rightarrow> 16 word \<Rightarrow> (16 word) edid_res" where
  "set_s3d_format_bits d off hdmi_3d_len bits =
     (if hdmi_3d_len = 0 then Inr bits
      else andThen (rd d off) (\<lambda>b.
        let val = unat (b AND 0x0F); bits = bits OR push_bit val 1 in
        if HDMI_SIDE_BY_SIDE_HALF \<le> val
        then set_s3d_format_bits d (off + 2) (hdmi_3d_len - 2) bits
        else set_s3d_format_bits d (off + 1) (hdmi_3d_len - 1) bits))"
  by pat_completeness auto
termination
  by (relation "measure (\<lambda>(d, off, n, b). n)") auto

declare set_s3d_format_bits.simps [simp del]

section \<open>Data blocks\<close>

text \<open>
  The loop of \<open>edid_get_datablock_offset\<close>: \<open>offset\<close> is a \<open>uint8_t\<close> and wraps, the limit
  \<open>0x80 + ext_length\<close> is an \<open>int\<close> and does not.  The loop's state is the byte \<open>offset\<close> alone, so a
  run of more than 256 steps has come back to an earlier state and never ends: 257 units of fuel
  decide whether it does (\<open>datablock_scan_fuel\<close> below).
\<close>

fun datablock_scan :: "nat \<Rightarrow> byte list \<Rightarrow> byte \<Rightarrow> nat \<Rightarrow> byte \<Rightarrow> (nat option) edid_res" where
  "datablock_scan 0 d tag limit offset = Inl Endless_loop"
| "datablock_scan (Suc n) d tag limit offset =
     (if unat offset < limit then
        andThen (rd d (unat offset)) (\<lambda>val.
          if drop_bit 5 val = tag then Inr (Some (unat offset))
          else datablock_scan n d tag limit (offset + ((val AND 0x1F) + 1)))
      else Inr None)"

text \<open>\<open>None\<close> is the return value 1: there is no such block.\<close>

definition edid_get_datablock_offset :: "byte list \<Rightarrow> datablock_id \<Rightarrow> (nat option) edid_res" where
  "edid_get_datablock_offset d type =
     andThen (rd d 0x7e) (\<lambda>ext.
       if ext = 0 then Inr None
       else andThen (rd d 0x82) (\<lambda>ext_length.
         if ext_length = 4 then Inr None
         else datablock_scan 257 d (datablock_tag type) (0x80 + unat ext_length) 0x84))"

section \<open>Short video descriptors\<close>

definition edid_fill_svd_info :: "byte \<Rightarrow> svd_info_t edid_res" where
  "edid_fill_svd_info c =
     (let i = (if NUM_SVD_ENTRIES < unat c then 0 else unat c) in
      if i < length svd_table then Inr (svd_table ! i) else Inl Table_overread)"

text \<open>The loop of \<open>edid_parse_svds\<close> over the \<open>n\<close> entries from index \<open>i\<close> on.\<close>

fun svd_entries :: "byte list \<Rightarrow> nat \<Rightarrow> nat \<Rightarrow> nat \<Rightarrow> (svd_t list) edid_res" where
  "svd_entries d offset i 0 = Inr []"
| "svd_entries d offset i (Suc n) =
     andThen (rd d (offset + i)) (\<lambda>b.
     andThen (edid_fill_svd_info (b AND 0x7F)) (\<lambda>inf.
     andThen (svd_entries d offset (Suc i) n) (\<lambda>rest.
       Inr (\<lparr>code = b AND 0x7F, native = (b AND 0x80 = 0x80), info = inf\<rparr> # rest))))"

text \<open>\<open>alloc k\<close> tells whether the \<open>k\<close>th call of \<open>malloc\<close> (from 0) succeeds.\<close>

definition edid_parse_svds :: "(nat \<Rightarrow> bool) \<Rightarrow> edid_t \<Rightarrow> byte list \<Rightarrow> edid_t edid_res" where
  "edid_parse_svds alloc edid d =
     andThen (edid_get_datablock_offset d DATABLOCK_VIDEO) (\<lambda>found.
       case found of
         None \<Rightarrow> Inr (edid\<lparr>num_svds := 0, svd_list := []\<rparr>)
       | Some offset \<Rightarrow>
           andThen (rd d offset) (\<lambda>b.
             let n = unat (b AND 0x1F) in
             if \<not> alloc 1 \<and> 0 < n then Inl Null_pointer
             else andThen (svd_entries d offset 0 n) (\<lambda>l.
               Inr (edid\<lparr>num_svds := n, svd_list := l\<rparr>))))"

section \<open>Stereoscopic formats\<close>

text \<open>The search for an entry by its format; memory that was never written must not be read.\<close>

fun find_format :: "hdmi_s3d_format_info_t list \<Rightarrow> nat \<Rightarrow> nat \<Rightarrow> (nat option) edid_res" where
  "find_format [] f i = Inr None"
| "find_format (x # xs) f i =
     (case format x of
        None \<Rightarrow> Inl Uninitialised_format
      | Some g \<Rightarrow> if g = f then Inr (Some i) else find_format xs f (Suc i))"

fun find_vic :: "hdmi_s3d_format_vic_info_t list \<Rightarrow> nat \<Rightarrow> nat \<Rightarrow> nat" where
  "find_vic [] p i = i"
| "find_vic (v # vs) p i = (if vic_pos v = p then i else find_vic vs p (Suc i))"

text \<open>The entry with one descriptor position added, or updated when it was there already.\<close>

definition set_vic :: "hdmi_s3d_format_info_t \<Rightarrow> nat \<Rightarrow> nat \<Rightarrow> hdmi_s3d_format_info_t edid_res" where
  "set_vic x p subsamp =
     (let i = find_vic (vic_info x) p 0; v = \<lparr>vic_pos = p, subsampling = subsamp\<rparr> in
      if i < num_valid_vic x then Inr (x\<lparr>vic_info := (vic_info x)[i := v]\<rparr>)
      else if i < MAX_VIC_CODES_PER_3D_FORMAT then Inr (x\<lparr>vic_info := vic_info x @ [v]\<rparr>)
      else Inl Vic_info_overflow)"

definition update_s3d_format :: "edid_t \<Rightarrow> nat \<Rightarrow> nat \<Rightarrow> nat \<Rightarrow> edid_t edid_res" where
  "update_s3d_format edid f p subsamp =
     (if num_svds edid < p then Inr edid
      else andThen (find_format (s3d_format_list edid) f 0) (\<lambda>found.
        case found of
          None \<Rightarrow> Inr edid
        | Some i \<Rightarrow>
            andThen (set_vic (s3d_format_list edid ! i) p subsamp) (\<lambda>x.
              Inr (edid\<lparr>s3d_format_list := (s3d_format_list edid)[i := x]\<rparr>))))"

text \<open>The entries the first loop writes: one per bit 0 to 8, in order; the others stay unwritten.\<close>

definition fill_formats :: "16 word \<Rightarrow> hdmi_s3d_format_info_t list" where
  "fill_formats bits =
     (let n = count_set_bits bits;
          filled = map (\<lambda>i. \<lparr>format = Some i, vic_info = []\<rparr>)
                     (filter (\<lambda>i. bit bits i) [0..<Suc HDMI_SIDE_BY_SIDE_HALF])
      in filled @ replicate (n - length filled) \<lparr>format = None, vic_info = []\<rparr>)"

definition format_subsampling :: "16 word \<Rightarrow> nat \<Rightarrow> nat" where
  "format_subsampling s3d_struct_all f =
     (if f = HDMI_SIDE_BY_SIDE_HALF then
        (let bitmask = HDMI_SIDE_BY_SIDE_HALF_QUINCUNX_BIT OR HDMI_SIDE_BY_SIDE_HALF_BIT in
         if s3d_struct_all AND bitmask = bitmask then HDMI_SS_HORZANDQUINCUNX
         else if s3d_struct_all AND bitmask = HDMI_SIDE_BY_SIDE_HALF_QUINCUNX_BIT
         then HDMI_SS_QUINCUNX_ALL
         else HDMI_SS_HORIZONTAL)
      else if f = HDMI_TOPBOTTOM then HDMI_SS_VERTICAL
      else HDMI_SS_NONE)"

text \<open>
  The second loop: the descriptor positions of each format.  (Where the C code leaves its local
  \<open>subsampling\<close> unset, no position is added, so the value of \<open>format_subsampling\<close> is not used.)
\<close>

fun fill_vics :: "16 word \<Rightarrow> 16 word \<Rightarrow> hdmi_s3d_format_info_t list \<Rightarrow>
    (hdmi_s3d_format_info_t list) edid_res" where
  "fill_vics s3d_struct_all hdmi_vic_pos_bits [] = Inr []"
| "fill_vics s3d_struct_all hdmi_vic_pos_bits (x # xs) =
     (case format x of
        None \<Rightarrow> Inl Uninitialised_format
      | Some f \<Rightarrow>
          andThen (fill_vics s3d_struct_all hdmi_vic_pos_bits xs) (\<lambda>ys.
            Inr (x\<lparr>vic_info :=
                   map (\<lambda>j. \<lparr>vic_pos = j, subsampling = format_subsampling s3d_struct_all f\<rparr>)
                     (filter (\<lambda>j. bit s3d_struct_all f \<and> bit hdmi_vic_pos_bits j) [0..<16])\<rparr>
                 # ys)))"

text \<open>
  The last loop; \<open>hdmi_3d_len\<close> is a \<open>uint8_t\<close> and is decremented twice for a structure with a
  detail byte.  Every iteration advances \<open>off\<close>, so the loop leaves the EDID if nothing else stops it.
\<close>

function s3d_vic_loop :: "byte list \<Rightarrow> nat \<Rightarrow> byte \<Rightarrow> edid_t \<Rightarrow> edid_t edid_res" where
  "s3d_vic_loop d off hdmi_3d_len edid =
     (if hdmi_3d_len = 0 then Inr edid
      else if length d \<le> off then Inl Edid_overread
      else
        (let b = d ! off; p = unat (drop_bit 4 (b AND 0xF0)); f = unat (b AND 0x0F) in
         if HDMI_SIDE_BY_SIDE_HALF \<le> f then
           andThen (rd d (off + 1)) (\<lambda>b2.
             andThen (update_s3d_format edid f p (unat (drop_bit 4 (b2 AND 0xF0)))) (\<lambda>edid.
               s3d_vic_loop d (off + 2) (hdmi_3d_len - 1 - 1) edid))
         else
           andThen (update_s3d_format edid f p
                      (if f = HDMI_TOPBOTTOM then HDMI_SS_VERTICAL else HDMI_SS_NONE)) (\<lambda>edid.
             s3d_vic_loop d (off + 1) (hdmi_3d_len - 1) edid)))"
  by pat_completeness auto
termination
  by (relation "measure (\<lambda>(d, off, n, e). length d - off)") (auto simp: rd_def)

declare s3d_vic_loop.simps [simp del]

text \<open>Two bytes as a big-endian 16-bit mask.\<close>

definition rd16 :: "byte list \<Rightarrow> nat \<Rightarrow> (16 word) edid_res" where
  "rd16 d off = andThen (rd d off) (\<lambda>hi. andThen (rd d (off + 1)) (\<lambda>lo.
     Inr (push_bit 8 (ucast hi) OR ucast lo)))"

text \<open>
  The masks that may precede the per-descriptor list: the formats (\<open>s3d_struct_all\<close>), the
  positions they apply to, what is left of \<open>hdmi_3d_len\<close> and the offset after them.
\<close>

definition s3d_masks :: "byte list \<Rightarrow> nat \<Rightarrow> byte \<Rightarrow> byte \<Rightarrow>
    (16 word \<times> 16 word \<times> byte \<times> nat) edid_res" where
  "s3d_masks d off s3d_multi_present hdmi_3d_len =
     (if s3d_multi_present = 1 then
        andThen (rd16 d off) (\<lambda>a. Inr (a, 0xFFFF, hdmi_3d_len - 2, off + 2))
      else if s3d_multi_present = 2 then
        andThen (rd16 d off) (\<lambda>a. andThen (rd16 d (off + 2)) (\<lambda>m.
          Inr (a, m, hdmi_3d_len - 2 - 2, off + 4)))
      else Inr (0, 0, hdmi_3d_len, off))"

text \<open>The second half of \<open>edid_parse_s3d_support\<close>: building the format list.\<close>

definition s3d_build :: "(nat \<Rightarrow> bool) \<Rightarrow> edid_t \<Rightarrow> byte list \<Rightarrow> 16 word \<Rightarrow> 16 word \<Rightarrow> byte \<Rightarrow> nat \<Rightarrow>
    edid_t edid_res" where
  "s3d_build alloc edid d s3d_struct_all hdmi_vic_pos_bits hdmi_3d_len off =
     andThen (set_s3d_format_bits d off (unat hdmi_3d_len) (s3d_struct_all AND 0x7FFF)) (\<lambda>bits.
       if \<not> alloc 2 \<and> bits \<noteq> 0 then Inl Null_pointer
       else andThen (fill_vics s3d_struct_all hdmi_vic_pos_bits (fill_formats bits)) (\<lambda>l.
         s3d_vic_loop d off hdmi_3d_len
           (edid\<lparr>num_s3d_formats := count_set_bits bits, s3d_format_list := l\<rparr>)))"

definition edid_parse_s3d_support :: "(nat \<Rightarrow> bool) \<Rightarrow> edid_t \<Rightarrow> byte list \<Rightarrow> edid_t edid_res" where
  "edid_parse_s3d_support alloc edid d =
     andThen (edid_get_datablock_offset d DATABLOCK_VENDOR) (\<lambda>found.
       case found of
         None \<Rightarrow> Inr edid
       | Some off \<Rightarrow>
           andThen (rd d (off + 8)) (\<lambda>val.
             if val AND 0x20 = 0 then Inr edid
             else
               let off = off + 9 + (if val AND 0x80 \<noteq> 0 then 2 else 0)
                         + (if val AND 0x40 \<noteq> 0 then 2 else 0)
               in andThen (rd d off) (\<lambda>val.
                    if val AND 0x80 = 0 then Inr edid
                    else
                      andThen (rd d (off + 1)) (\<lambda>len.
                      andThen (s3d_masks d (off + 2 + unat (drop_bit 5 (len AND 0xE0)))
                                 (drop_bit 5 (val AND 0x60)) (len AND 0x1F))
                        (\<lambda>(s3d_struct_all, hdmi_vic_pos_bits, hdmi_3d_len, off).
                          s3d_build alloc (edid\<lparr>s3d_capable := True\<rparr>) d s3d_struct_all
                            hdmi_vic_pos_bits hdmi_3d_len off)))))"

section \<open>The interface of the library\<close>

definition blank_edid :: edid_t where
  "blank_edid = \<lparr>s3d_capable = False, num_s3d_formats = 0, s3d_format_list = [], num_svds = 0,
     svd_list = []\<rparr>"

text \<open>\<open>None\<close> is the return value -1; \<open>handle_null\<close> stands for \<open>edid_handle == NULL\<close>.\<close>

definition edid_parser_init :: "bool \<Rightarrow> (nat \<Rightarrow> bool) \<Rightarrow> byte list \<Rightarrow> (edid_t option) edid_res" where
  "edid_parser_init handle_null alloc raw_edid_data =
     (if handle_null then Inr None
      else if \<not> alloc 0 then Inr None
      else andThen (edid_parse_svds alloc blank_edid raw_edid_data) (\<lambda>edid.
           andThen (edid_parse_s3d_support alloc edid raw_edid_data) (\<lambda>edid. Inr (Some edid))))"

definition edid_s3d_capable :: "edid_t \<Rightarrow> bool" where
  "edid_s3d_capable edid = s3d_capable edid"

definition edid_supports_s3d_format :: "edid_t \<Rightarrow> nat \<Rightarrow> bool edid_res" where
  "edid_supports_s3d_format edid f =
     andThen (find_format (s3d_format_list edid) f 0) (\<lambda>r. Inr (r \<noteq> None))"

definition edid_get_s3d_format_info :: "edid_t \<Rightarrow> nat \<Rightarrow> (hdmi_s3d_format_info_t option) edid_res" where
  "edid_get_s3d_format_info edid f =
     andThen (find_format (s3d_format_list edid) f 0) (\<lambda>r.
       Inr (case r of None \<Rightarrow> None | Some i \<Rightarrow> Some (s3d_format_list edid ! i)))"

text \<open>Both outputs of \<open>edid_get_svd_list\<close>; the null-pointer check returns without writing them.\<close>

definition edid_get_svd_list :: "edid_t \<Rightarrow> bool \<Rightarrow> (svd_t list \<times> nat) option" where
  "edid_get_svd_list edid out_null = (if out_null then None else Some (svd_list edid, num_svds edid))"

definition edid_get_svd_descriptor :: "edid_t \<Rightarrow> nat \<Rightarrow> (svd_t option) edid_res" where
  "edid_get_svd_descriptor edid p =
     (if num_svds edid < p then Inr None
      else if p < length (svd_list edid) then Inr (Some (svd_list edid ! p))
      else Inl Svd_list_overread)"

end
