(* ===== verification/Edid_Properties.thy ===== *)
theory Edid_Properties
  imports Edid
begin

text \<open>
  The properties of the EDID parser: the bit counter, the walk over the data blocks, the list of
  video descriptors and the list of stereoscopic formats.
\<close>

section \<open>Counting bits\<close>

lemma nat_and_pred:
  "0 < n \<Longrightarrow> \<exists>k. bit n k \<and> (\<forall>i. bit (n AND (n - 1)) i \<longleftrightarrow> bit n i \<and> i \<noteq> k)" for n :: nat
proof (induction n rule: less_induct)
  case (less n)
  show ?case
  proof (cases "odd n")
    case True
    then obtain q where n: "n = 2 * q + 1" by (elim oddE)
    have "bit (n AND (n - 1)) i \<longleftrightarrow> bit n i \<and> i \<noteq> 0" for i
      unfolding bit_and_iff by (cases i) (simp_all add: n bit_Suc bit_0)
    moreover have "bit n 0" using True by (simp add: bit_0)
    ultimately show ?thesis by blast
  next
    case False
    with less.prems obtain q where n: "n = 2 * q" "0 < q" by auto
    then have "q < n" by simp
    then obtain k where k: "bit q k" "\<And>i. bit (q AND (q - 1)) i \<longleftrightarrow> bit q i \<and> i \<noteq> k"
      using less.IH n(2) by blast
    have p: "n - 1 = 2 * (q - 1) + 1" using n by simp
    have "bit (n AND (n - 1)) i \<longleftrightarrow> bit n i \<and> i \<noteq> Suc k" for i
    proof (cases i)
      case 0
      then show ?thesis unfolding bit_and_iff by (simp add: n bit_0)
    next
      case (Suc j)
      then show ?thesis using k(2) [of j] unfolding p bit_and_iff by (simp add: n bit_Suc)
    qed
    moreover have "bit n (Suc k)" using k(1) by (simp add: n bit_Suc)
    ultimately show ?thesis by blast
  qed
qed

lemma word_and_pred:
  fixes v :: "16 word"
  assumes "v \<noteq> 0"
  shows "\<exists>k. bit v k \<and> {i. bit (v AND (v - 1)) i} = {i. bit v i} - {k}"
proof -
  have u: "bit v i \<longleftrightarrow> bit (unat v) i" for i and v :: "16 word"
    by (auto simp: bit_unsigned_iff dest: bit_imp_le_length)
  have "unat (v AND (v - 1)) = unat v AND (unat v - 1)"
    using assms by (simp add: unsigned_and_eq unat_minus_one)
  then show ?thesis using nat_and_pred [of "unat v"] assms by (auto simp: u unat_gt_0)
qed

lemma count_set_bits_eq: "count_set_bits v = card {i. bit v i}"
proof (induction v rule: count_set_bits.induct)
  case (1 v)
  show ?case
  proof (cases "v = 0")
    case True
    then show ?thesis by (subst count_set_bits.simps) (simp add: bot_fun_def)
  next
    case False
    then obtain k where k: "bit v k" "{i. bit (v AND (v - 1)) i} = {i. bit v i} - {k}"
      using word_and_pred by blast
    have "finite {i. bit v i}"
      by (rule finite_subset [of _ "{..<16}"]) (auto dest: bit_imp_le_length)
    with k have "card {i. bit v i} = Suc (card {i. bit (v AND (v - 1)) i})"
      using card_Suc_Diff1 [of "{i. bit v i}" k] by simp
    moreover have "count_set_bits v = Suc (count_set_bits (v AND (v - 1)))"
      using False by (subst count_set_bits.simps) simp
    ultimately show ?thesis using 1 False by simp
  qed
qed

text \<open>The bit-clearing loop counts exactly the bits that are set.\<close>

theorem count_set_bits_card: "count_set_bits v = card {i. bit v i}"
  by (rule count_set_bits_eq)

section \<open>The walk over the data blocks\<close>

text \<open>One step of the walk, and the states from which it goes on.\<close>

definition scan_next :: "byte list \<Rightarrow> byte \<Rightarrow> byte" where
  "scan_next d x = x + ((d ! unat x AND 0x1F) + 1)"

definition scan_goes_on :: "byte list \<Rightarrow> byte \<Rightarrow> nat \<Rightarrow> byte \<Rightarrow> bool" where
  "scan_goes_on d tag limit x \<longleftrightarrow>
     unat x < limit \<and> unat x < length d \<and> drop_bit 5 (d ! unat x) \<noteq> tag"

lemma datablock_scan_step:
  "datablock_scan (Suc n) d tag limit x = Inl Endless_loop \<longleftrightarrow>
   scan_goes_on d tag limit x \<and> datablock_scan n d tag limit (scan_next d x) = Inl Endless_loop"
  by (auto simp: scan_goes_on_def scan_next_def rd_def)

lemma datablock_scan_endless_iff:
  "datablock_scan n d tag limit x = Inl Endless_loop \<longleftrightarrow>
   (\<forall>k < n. scan_goes_on d tag limit ((scan_next d ^^ k) x))"
proof (induction n arbitrary: x)
  case (Suc n)
  have "(\<forall>k < Suc n. P k) \<longleftrightarrow> P 0 \<and> (\<forall>k < n. P (Suc k))" for P
    by (auto simp: less_Suc_eq_0_disj)
  then show ?case unfolding datablock_scan_step Suc.IH by (simp add: funpow_swap1)
qed simp

text \<open>An orbit in the 256 bytes that stays in a set for 257 steps stays in it forever.\<close>

lemma funpow_cycle:
  fixes f :: "'a \<Rightarrow> 'a"
  assumes "(f ^^ i) x = (f ^^ j) x" and "i < j"
  shows "\<exists>l < j. (f ^^ k) x = (f ^^ l) x"
proof (induction k rule: less_induct)
  case (less k)
  show ?case
  proof (cases "k < j")
    case False
    then obtain m where k: "k = m + j" by (metis add.commute le_Suc_ex not_less)
    have "(f ^^ k) x = (f ^^ (m + i)) x" using assms(1) by (simp only: k funpow_add o_apply)
    moreover have "m + i < k" using assms(2) k by simp
    ultimately show ?thesis using less.IH by metis
  qed blast
qed

lemma byte_orbit:
  fixes x :: byte and f :: "byte \<Rightarrow> byte"
  assumes "\<forall>k < 257. P ((f ^^ k) x)"
  shows "P ((f ^^ n) x)"
proof -
  have "card (UNIV :: byte set) = 256" by (simp add: card_word)
  then have "\<not> inj_on (\<lambda>k. (f ^^ k) x) {..<257}"
    using card_inj_on_le [of "\<lambda>k. (f ^^ k) x" "{..<257 :: nat}" UNIV] by auto
  then obtain i j where "(f ^^ i) x = (f ^^ j) x" "i < j" "j < 257"
    by (metis (no_types, lifting) inj_onI lessThan_iff linorder_neqE_nat)
  then obtain l where "l < j" "(f ^^ n) x = (f ^^ l) x" using funpow_cycle by metis
  with assms \<open>j < 257\<close> show ?thesis by simp
qed

lemma datablock_scan_more:
  "datablock_scan n d tag limit x \<noteq> Inl Endless_loop \<Longrightarrow>
   datablock_scan (n + m) d tag limit x = datablock_scan n d tag limit x"
  by (induction n arbitrary: x) (auto simp: rd_def)

text \<open>The fuel of the model decides the loop of the code: if 257 steps do not end the walk no
  number of steps does, and otherwise more steps never change the result.\<close>

theorem datablock_scan_fuel:
  "if datablock_scan 257 d tag limit x = Inl Endless_loop
   then \<forall>n. datablock_scan n d tag limit x = Inl Endless_loop
   else \<forall>m. datablock_scan (257 + m) d tag limit x = datablock_scan 257 d tag limit x"
proof (cases "datablock_scan 257 d tag limit x = Inl Endless_loop")
  case True
  then have "\<forall>k < 257. scan_goes_on d tag limit ((scan_next d ^^ k) x)"
    by (simp only: datablock_scan_endless_iff)
  then have "scan_goes_on d tag limit ((scan_next d ^^ k) x)" for k by (rule byte_orbit)
  with True show ?thesis by (simp add: datablock_scan_endless_iff)
next
  case False
  then show ?thesis by (simp add: datablock_scan_more)
qed

text \<open>
  The format the standard gives the extension: a sequence of blocks, each a header byte with the
  tag in its upper three and the length in its lower five bits, followed by the payload.
\<close>

definition encode_block :: "nat \<times> byte list \<Rightarrow> byte list" where
  "encode_block b = word_of_nat (32 * fst b + length (snd b)) # snd b"

definition block_ok :: "nat \<times> byte list \<Rightarrow> bool" where
  "block_ok b \<longleftrightarrow> fst b < 8 \<and> length (snd b) < 32"

fun first_block :: "nat \<Rightarrow> nat \<Rightarrow> (nat \<times> byte list) list \<Rightarrow> nat option" where
  "first_block tag off [] = None"
| "first_block tag off (b # bs) =
     (if fst b = tag then Some off else first_block tag (off + 1 + length (snd b)) bs)"

lemma block_header:
  assumes "block_ok b"
  shows "unat (drop_bit 5 (encode_block b ! 0)) = fst b"
    "unat (encode_block b ! 0 AND 0x1F) = length (snd b)"
proof -
  have h: "unat (word_of_nat (32 * fst b + length (snd b)) :: byte) = 32 * fst b + length (snd b)"
    unfolding unat_of_nat using assms by (simp add: block_ok_def)
  have e: "encode_block b ! 0 = word_of_nat (32 * fst b + length (snd b))"
    by (simp add: encode_block_def)
  have "drop_bit 5 (32 * fst b + length (snd b)) = fst b"
    using assms by (simp add: block_ok_def drop_bit_eq_div)
  then show "unat (drop_bit 5 (encode_block b ! 0)) = fst b"
    by (simp only: e unat_drop_bit_eq h)
  have "(0x1F :: byte) = mask 5" by (simp add: mask_eq_exp_minus_1)
  moreover have "take_bit 5 (32 * fst b + length (snd b)) = length (snd b)"
    using assms by (simp add: block_ok_def take_bit_eq_mod)
  ultimately show "unat (encode_block b ! 0 AND 0x1F) = length (snd b)"
    by (simp only: e unsigned_take_bit_eq h flip: take_bit_eq_mask)
qed

lemma datablock_scan_encoded:
  assumes "list_all block_ok bs" and "length pre + length (concat (map encode_block bs)) \<le> 224"
    and "length bs < n"
  shows "datablock_scan n (pre @ concat (map encode_block bs) @ post) tag
           (length pre + length (concat (map encode_block bs))) (word_of_nat (length pre)) =
         Inr (first_block (unat tag) (length pre) bs)"
  using assms
proof (induction bs arbitrary: pre n)
  case Nil
  then obtain m where n: "n = Suc m" by (cases n) auto
  have "unat (word_of_nat (length pre) :: byte) = length pre"
    unfolding unat_of_nat using Nil by simp
  then show ?case by (simp add: n)
next
  case (Cons b bs)
  obtain m where n: "n = Suc m" and m: "length bs < m" using Cons.prems(3) by (cases n) auto
  let ?h = "encode_block b ! 0" and ?pre = "pre @ encode_block b"
  have b: "block_ok b" and bs: "list_all block_ok bs" using Cons.prems(1) by simp_all
  have [simp]: "encode_block b \<noteq> []" by (simp add: encode_block_def)
  have enc: "encode_block b = ?h # snd b" by (simp add: encode_block_def)
  have len: "length ?pre = length pre + 1 + length (snd b)" by (simp add: encode_block_def)
  have off: "unat (word_of_nat (length pre) :: byte) = length pre"
    unfolding unat_of_nat using Cons.prems(2) by simp
  have get: "(pre @ (encode_block b @ concat (map encode_block bs)) @ post) ! length pre = ?h"
    by (subst enc) simp
  have "?h AND 0x1F = word_of_nat (length (snd b))"
    using block_header(2) [OF b] b by (simp add: word_unat_eq_iff unat_of_nat block_ok_def)
  then have nxt: "word_of_nat (length pre) + ((?h AND 0x1F) + 1) = (word_of_nat (length ?pre) :: byte)"
    unfolding len by simp
  have tag: "drop_bit 5 ?h = tag \<longleftrightarrow> fst b = unat tag"
    using block_header(1) [OF b] by (metis word_unat_eq_iff)
  show ?case
    using Cons.IH [OF bs _ m, of ?pre] Cons.prems(2) off get nxt tag len
    by (simp add: n rd_def ac_simps)
qed

text \<open>A 256-byte EDID whose extension holds the blocks \<open>bs\<close>.\<close>

definition edid_with_blocks :: "byte list \<Rightarrow> (nat \<times> byte list) list \<Rightarrow> bool" where
  "edid_with_blocks d bs \<longleftrightarrow>
     (let body = concat (map encode_block bs) in
      length d = EDID_SIZE \<and> d ! 0x7e \<noteq> 0 \<and> bs \<noteq> [] \<and> list_all block_ok bs \<and>
      length body \<le> 92 \<and> unat (d ! 0x82) = 4 + length body \<and>
      take (length body) (drop 0x84 d) = body)"

lemma blocks_length: "length bs \<le> length (concat (map encode_block bs))"
  by (induction bs) (simp_all add: encode_block_def)

lemma edid_with_blocks_split:
  assumes "edid_with_blocks d bs"
  obtains pre post where "d = pre @ concat (map encode_block bs) @ post" "length pre = 0x84"
proof -
  let ?b = "concat (map encode_block bs)"
  have "d = take 0x84 d @ ?b @ drop (length ?b) (drop 0x84 d)"
    using assms by (metis append_take_drop_id edid_with_blocks_def)
  moreover have "length (take 0x84 d) = 0x84" using assms by (simp add: edid_with_blocks_def Let_def)
  ultimately show thesis using that by blast
qed

lemma unat_numeral_4: "unat (4 :: byte) = 4"
  by simp

lemma datablock_offset_blocks:
  assumes "edid_with_blocks d bs"
  shows "edid_get_datablock_offset d type =
         Inr (first_block (unat (datablock_tag type)) 0x84 bs)"
proof -
  let ?b = "concat (map encode_block bs)"
  obtain pre post where d: "d = pre @ ?b @ post" and pre: "length pre = 0x84"
    using edid_with_blocks_split [OF assms] .
  have ok: "list_all block_ok bs" "length ?b \<le> 92" "unat (d ! 0x82) = 4 + length ?b"
    "length bs < 257" "length d = 256" "d ! 0x7e \<noteq> 0" "0 < length bs"
    using assms blocks_length [of bs] by (simp_all add: edid_with_blocks_def Let_def)
  have "0 < length ?b" using ok(7) blocks_length [of bs] by linarith
  then have "d ! 0x82 \<noteq> 4" using ok(3) by (metis add_cancel_left_right less_irrefl unat_numeral_4)
  moreover have "datablock_scan 257 d (datablock_tag type) (0x80 + unat (d ! 0x82)) 0x84 =
      Inr (first_block (unat (datablock_tag type)) 0x84 bs)"
    using datablock_scan_encoded [of bs pre 257 post "datablock_tag type"] ok pre
    by (simp add: d [symmetric])
  ultimately show ?thesis using ok by (simp add: edid_get_datablock_offset_def rd_def)
qed

text \<open>C27: of an extension that fits before the last 32 bytes of the EDID, the walk finds the first
  data block with the requested tag at exactly its offset, or reports that there is none.\<close>

theorem datablock_offset_encoded:
  assumes "edid_with_blocks d bs"
  shows "edid_get_datablock_offset d type =
         Inr (first_block (unat (datablock_tag type)) 0x84 bs)"
  using assms by (rule datablock_offset_blocks)

text \<open>An EDID with the given blocks, everything else zero.\<close>

definition demo_edid :: "(nat \<times> byte list) list \<Rightarrow> byte list" where
  "demo_edid bs =
     (let body = concat (map encode_block bs) in
      replicate 126 0 @ [1, 0, 0, 0, word_of_nat (4 + length body), 0] @ body
      @ replicate (124 - length body) 0)"

lemma demo_edid_ok:
  assumes "list_all block_ok bs" "bs \<noteq> []" "length (concat (map encode_block bs)) \<le> 92"
  shows "edid_with_blocks (demo_edid bs) bs"
proof -
  let ?b = "concat (map encode_block bs)"
  have h: "unat (word_of_nat (4 + length ?b) :: byte) = 4 + length ?b"
    unfolding unat_of_nat using assms(3) by simp
  show ?thesis
    using assms h by (simp add: edid_with_blocks_def demo_edid_def Let_def nth_append
        del: of_nat_add length_concat)
qed

abbreviation demo_blocks :: "(nat \<times> byte list) list" where
  "demo_blocks \<equiv> [(1, [9, 7, 7]), (2, [16, 4]), (3, [3, 12, 0, 16, 0])]"

lemma demo_blocks_edid: "edid_with_blocks (demo_edid demo_blocks) demo_blocks"
  by (rule demo_edid_ok) (simp_all add: block_ok_def encode_block_def)

theorem datablock_offset_encoded_witness:
  "edid_get_datablock_offset (demo_edid demo_blocks) DATABLOCK_VENDOR = Inr (Some 0x8b)"
  using datablock_offset_encoded [OF demo_blocks_edid, of DATABLOCK_VENDOR] by simp

lemma scan_next_nowrap:
  assumes "unat x < 224"
  shows "unat x < unat (scan_next d x)"
proof -
  have "d ! unat x AND 0x1F \<le> 0x1F" by (rule word_and_le1)
  then have "unat (d ! unat x AND 0x1F) \<le> 31" by (simp add: word_le_nat_alt)
  then show ?thesis using assms by (simp add: scan_next_def unat_word_ariths)
qed

lemma datablock_scan_returns:
  assumes "limit \<le> 224" and "length d = 256"
  shows "limit - unat x < n \<Longrightarrow> \<exists>r. datablock_scan n d tag limit x = Inr r"
proof (induction n arbitrary: x)
  case (Suc n)
  show ?case
  proof (cases "unat x < limit")
    case True
    then have "limit - unat (scan_next d x) < n"
      using scan_next_nowrap [of x d] Suc.prems assms(1) by linarith
    from Suc.IH [OF this] show ?thesis using True assms by (auto simp: rd_def scan_next_def)
  qed simp
qed simp

text \<open>C28: on a 256-byte EDID whose extension declares at most 96 bytes of data blocks the walk always
  returns, without reading outside of the EDID, and a block it reports has the requested tag.\<close>

theorem datablock_walk_returns:
  assumes "length d = EDID_SIZE" and "unat (d ! 0x82) \<le> 0x60"
  shows "\<exists>r. edid_get_datablock_offset d type = Inr r \<and>
     (case r of None \<Rightarrow> True
      | Some off \<Rightarrow> off < 0x80 + unat (d ! 0x82) \<and> drop_bit 5 (d ! off) = datablock_tag type)"
proof -
  have found: "off < limit \<and> drop_bit 5 (d ! off) = tag"
    if "datablock_scan n d tag limit x = Inr (Some off)" for n tag limit x off
    using that by (induction n arbitrary: x) (auto simp: rd_def assms split: if_splits)
  have "\<exists>r. datablock_scan 257 d (datablock_tag type) (0x80 + unat (d ! 0x82)) 0x84 = Inr r"
    by (rule datablock_scan_returns) (use assms in simp_all)
  then obtain r where
    "datablock_scan 257 d (datablock_tag type) (0x80 + unat (d ! 0x82)) 0x84 = Inr r" ..
  with found [of 257 "datablock_tag type" "0x80 + unat (d ! 0x82)" "0x84"] show ?thesis
    using assms by (cases r) (auto simp: edid_get_datablock_offset_def rd_def simp del: datablock_scan.simps)
qed

theorem datablock_walk_returns_witness:
  "\<exists>r. edid_get_datablock_offset (replicate 256 0) DATABLOCK_VIDEO = Inr r"
  using datablock_walk_returns [of "replicate 256 0" DATABLOCK_VIDEO] by auto



section \<open>Video descriptors\<close>

lemma unat_numeral_64: "unat (64 :: byte) = 64"
  by simp

lemma fill_svd_info_cases:
  "edid_fill_svd_info c =
     (if c = 64 then Inl Table_overread
      else Inr (svd_table ! (if unat c < 64 then unat c else 0)))"
proof (cases "c = 64")
  case False
  then have "unat c \<noteq> 64" by (metis unat_numeral_64 word_unat_eq_iff)
  with False show ?thesis by (simp add: edid_fill_svd_info_def NUM_SVD_ENTRIES_def)
qed (simp add: edid_fill_svd_info_def NUM_SVD_ENTRIES_def)

text \<open>Every seven-bit video code is looked up safely except 64: it passes the range check but lies
  one entry past the end of the table.\<close>

theorem fill_svd_info_code:
  "edid_fill_svd_info c =
     (if c = 64 then Inl Table_overread
      else Inr (svd_table ! (if unat c < 64 then unat c else 0)))"
  by (rule fill_svd_info_cases)

lemma svd_entries_spec:
  "svd_entries d off i n = Inr l \<Longrightarrow>
     length l = n \<and> off + i + n \<le> max (off + i) (length d) \<and>
     (\<forall>k < n. code (l ! k) = d ! (off + i + k) AND 0x7F \<and>
              native (l ! k) = (d ! (off + i + k) AND 0x80 = 0x80) \<and>
              Inr (info (l ! k)) = edid_fill_svd_info (code (l ! k)))"
proof (induction n arbitrary: i l)
  case (Suc n)
  from Suc.prems obtain inf rest where
    r: "off + i < length d" "edid_fill_svd_info (d ! (off + i) AND 0x7F) = Inr inf"
      "svd_entries d off (Suc i) n = Inr rest"
    and l: "l = \<lparr>code = d ! (off + i) AND 0x7F, native = (d ! (off + i) AND 0x80 = 0x80),
             info = inf\<rparr> # rest"
    by (auto simp: andThen_eq_Inr rd_def split: if_splits)
  from Suc.IH [OF r(3)] r show ?case
    by (auto simp: l nth_Cons less_Suc_eq_0_disj split: nat.split)
qed simp

lemma parse_svds_spec:
  assumes "edid_get_datablock_offset d DATABLOCK_VIDEO = Inr (Some off)"
    and "edid_parse_svds alloc e d = Inr e'"
  shows "num_svds e' = unat (d ! off AND 0x1F) \<and> num_svds e' \<le> 31 \<and>
     length (svd_list e') = num_svds e' \<and>
     (\<forall>i < num_svds e'. code (svd_list e' ! i) = d ! (off + i) AND 0x7F \<and>
        native (svd_list e' ! i) = (d ! (off + i) AND 0x80 = 0x80))"
proof -
  have "d ! off AND 0x1F \<le> 0x1F" by (rule word_and_le1)
  then have "unat (d ! off AND 0x1F) \<le> 31" by (simp add: word_le_nat_alt)
  moreover obtain l where "svd_entries d off 0 (unat (d ! off AND 0x1F)) = Inr l"
    "e' = e\<lparr>num_svds := unat (d ! off AND 0x1F), svd_list := l\<rparr>"
    using assms by (auto simp: edid_parse_svds_def andThen_eq_Inr rd_def Let_def split: if_splits)
  ultimately show ?thesis using svd_entries_spec [of d off 0] by auto
qed

text \<open>A successful parse of the video block yields at most 31 descriptors, one per byte starting
  with the block's own header: entry \<open>i\<close> decodes the byte at the block's offset plus \<open>i\<close>, so that the
  header is taken for a video code and the last code of the block is never read.\<close>

theorem parse_svds_entries:
  assumes "edid_get_datablock_offset d DATABLOCK_VIDEO = Inr (Some off)"
    and "edid_parse_svds alloc e d = Inr e'"
  shows "num_svds e' = unat (d ! off AND 0x1F) \<and> num_svds e' \<le> 31 \<and>
     length (svd_list e') = num_svds e' \<and>
     (\<forall>i < num_svds e'. code (svd_list e' ! i) = d ! (off + i) AND 0x7F \<and>
        native (svd_list e' ! i) = (d ! (off + i) AND 0x80 = 0x80))"
  using assms by (rule parse_svds_spec)

lemma demo_svds:
  "\<exists>e. edid_parse_svds (\<lambda>_. True) blank_edid (demo_edid demo_blocks) = Inr e"
proof -
  let ?d = "demo_edid demo_blocks"
  have b: "?d ! 0x88 = 0x42" "?d ! 0x89 = 0x10" "length ?d = 256"
    by (simp_all add: demo_edid_def encode_block_def nth_append)
  have "edid_get_datablock_offset ?d DATABLOCK_VIDEO = Inr (Some 0x88)"
    using datablock_offset_blocks [OF demo_blocks_edid, of DATABLOCK_VIDEO] by simp
  moreover have "\<exists>l. svd_entries ?d 0x88 0 (Suc (Suc 0)) = Inr l"
    using b by (simp add: rd_def fill_svd_info_cases)
  then have "\<exists>l. svd_entries ?d 0x88 0 2 = Inr l" by (metis numeral_2_eq_2)
  ultimately show ?thesis using b by (auto simp: edid_parse_svds_def rd_def simp del: svd_entries.simps)
qed

section \<open>Stereoscopic formats\<close>

definition vics_ok :: "hdmi_s3d_format_info_t \<Rightarrow> bool" where
  "vics_ok x \<longleftrightarrow> distinct (map vic_pos (vic_info x)) \<and> list_all (\<lambda>v. vic_pos v < 16) (vic_info x)"

definition formats_ok :: "edid_t \<Rightarrow> bool" where
  "formats_ok e \<longleftrightarrow>
     length (s3d_format_list e) = num_s3d_formats e \<and> list_all vics_ok (s3d_format_list e)"

lemma find_vic_shift: "find_vic vs p i = i + find_vic vs p 0"
proof (induction vs arbitrary: i)
  case (Cons v vs)
  from Cons.IH [of "Suc i"] Cons.IH [of "Suc 0"] show ?case by simp
qed simp

lemma find_vic_hit: "find_vic vs p 0 < length vs \<Longrightarrow> vic_pos (vs ! find_vic vs p 0) = p"
proof (induction vs)
  case (Cons v vs)
  then show ?case by (cases "vic_pos v = p") (simp_all add: find_vic_shift [of vs p "Suc 0"])
qed simp

lemma find_vic_miss:
  "\<not> find_vic vs p 0 < length vs \<Longrightarrow> find_vic vs p 0 = length vs \<and> p \<notin> set (map vic_pos vs)"
proof (induction vs)
  case (Cons v vs)
  then show ?case by (auto simp: find_vic_shift [of vs p "Suc 0"] split: if_splits)
qed simp

lemma set_vic_ok:
  assumes "vics_ok x" and "p < 16"
  shows "\<exists>x'. set_vic x p ss = Inr x' \<and> vics_ok x' \<and> format x' = format x"
proof (cases "find_vic (vic_info x) p 0 < length (vic_info x)")
  case True
  let ?i = "find_vic (vic_info x) p 0" and ?v = "\<lparr>vic_pos = p, subsampling = ss\<rparr>"
  have "map vic_pos ((vic_info x)[?i := ?v]) = map vic_pos (vic_info x)"
    using find_vic_hit [OF True] True by (simp add: map_update list_update_same_conv)
  moreover have "list_all (\<lambda>v. vic_pos v < 16) ((vic_info x)[?i := ?v])"
    using assms by (auto simp: vics_ok_def list_all_iff dest!: set_update_subset_insert [THEN subsetD])
  ultimately show ?thesis
    using assms True by (simp add: set_vic_def num_valid_vic_def vics_ok_def)
next
  case False
  have m: "find_vic (vic_info x) p 0 = length (vic_info x)" "p \<notin> set (map vic_pos (vic_info x))"
    using find_vic_miss [OF False] by simp_all
  have d: "distinct (map vic_pos (vic_info x))" and s: "set (map vic_pos (vic_info x)) \<subseteq> {..<16} - {p}"
    using assms(1) m(2) by (auto simp: vics_ok_def list_all_iff)
  have "length (vic_info x) = card (set (map vic_pos (vic_info x)))"
    using distinct_card [OF d] by simp
  also have "\<dots> \<le> card ({..<16} - {p})" by (rule card_mono [OF _ s]) simp
  also have "\<dots> < 16" using assms(2) by simp
  finally show ?thesis
    using assms m d False by (simp add: set_vic_def num_valid_vic_def vics_ok_def)
qed

lemma find_format_index: "find_format xs f i = Inr (Some k) \<Longrightarrow> i \<le> k \<and> k < i + length xs"
  by (induction xs arbitrary: i) (fastforce split: option.splits if_splits)+

lemma find_format_fault: "find_format xs f i = Inl x \<Longrightarrow> x = Uninitialised_format"
  by (induction xs arbitrary: i) (auto split: option.splits if_splits)

text \<open>What updates of the list keep: the formats, in order, and the descriptors' part.\<close>

definition same_formats :: "edid_t \<Rightarrow> edid_t \<Rightarrow> bool" where
  "same_formats e e' \<longleftrightarrow>
     map format (s3d_format_list e') = map format (s3d_format_list e) \<and>
     num_s3d_formats e' = num_s3d_formats e \<and> num_svds e' = num_svds e \<and>
     svd_list e' = svd_list e \<and> s3d_capable e' = s3d_capable e"

lemma same_formats_refl [simp]: "same_formats e e"
  and same_formats_trans: "same_formats e e' \<Longrightarrow> same_formats e' e'' \<Longrightarrow> same_formats e e''"
  by (simp_all add: same_formats_def)

lemma update_s3d_format_ok:
  assumes "formats_ok e" and "p < 16"
  shows "case update_s3d_format e f p ss of
           Inl x \<Rightarrow> x = Uninitialised_format
         | Inr e' \<Rightarrow> formats_ok e' \<and> same_formats e e'"
proof (cases "num_svds e < p")
  case False
  show ?thesis
  proof (cases "find_format (s3d_format_list e) f 0")
    case (Inl x)
    with False show ?thesis by (simp add: update_s3d_format_def find_format_fault [OF Inl])
  next
    case (Inr r)
    show ?thesis
    proof (cases r)
      case None
      with False Inr assms show ?thesis by (simp add: update_s3d_format_def)
    next
      case (Some i)
      let ?l = "s3d_format_list e"
      have i: "i < length ?l" using find_format_index Inr Some by fastforce
      then have "vics_ok (?l ! i)" using assms(1) by (simp add: formats_ok_def list_all_length)
      then obtain x' where x': "set_vic (?l ! i) p ss = Inr x'" "vics_ok x'" "format x' = format (?l ! i)"
        using set_vic_ok assms(2) by blast
      have "map format (?l[i := x']) = map format ?l"
        using i x'(3) by (simp add: map_update list_update_same_conv)
      moreover have "list_all vics_ok (?l[i := x'])"
        using assms(1) x'(2)
        by (auto simp: formats_ok_def list_all_iff dest!: set_update_subset_insert [THEN subsetD])
      ultimately show ?thesis
        using False Inr Some x'(1) assms(1)
        by (simp add: update_s3d_format_def formats_ok_def same_formats_def)
    qed
  qed
qed (use assms in \<open>simp add: update_s3d_format_def\<close>)

lemma nibbles:
  fixes b :: byte
  shows "unat (drop_bit 4 (b AND 0xF0)) < 16" "unat (b AND 0x0F) < 16"
proof -
  have "unat (drop_bit 4 (b AND 0xF0)) = unat (b AND 0xF0) div 16"
    unfolding unat_drop_bit_eq by (simp add: drop_bit_eq_div)
  moreover have "unat (b AND 0xF0) < 2 ^ LENGTH(8)" by (rule unsigned_less)
  ultimately show "unat (drop_bit 4 (b AND 0xF0)) < 16" by simp
  have "b AND 0x0F \<le> 0x0F" by (rule word_and_le1)
  then show "unat (b AND 0x0F) < 16" by (simp add: word_le_nat_alt)
qed

lemma andThen_case:
  assumes "case m of Inl x \<Rightarrow> Q x | Inr y \<Rightarrow> R y"
    and "\<And>y. R y \<Longrightarrow> case f y of Inl x \<Rightarrow> Q' x | Inr z \<Rightarrow> S z" and "\<And>x. Q x \<Longrightarrow> Q' x"
  shows "case andThen m f of Inl x \<Rightarrow> Q' x | Inr z \<Rightarrow> S z"
  using assms by (cases m) auto

text \<open>The two kinds of iterations of the last loop.\<close>

lemma s3d_vic_loop_unfold:
  assumes "hdmi_3d_len \<noteq> 0" and "off < length d"
  shows "s3d_vic_loop d off hdmi_3d_len e =
    (let b = d ! off; p = unat (drop_bit 4 (b AND 0xF0)); f = unat (b AND 0x0F) in
     if 8 \<le> f then andThen (rd d (off + 1)) (\<lambda>b2.
       andThen (update_s3d_format e f p (unat (drop_bit 4 (b2 AND 0xF0)))) (\<lambda>e.
         s3d_vic_loop d (off + 2) (hdmi_3d_len - 2) e))
     else andThen (update_s3d_format e f p (if f = 6 then HDMI_SS_VERTICAL else HDMI_SS_NONE)) (\<lambda>e.
       s3d_vic_loop d (off + 1) (hdmi_3d_len - 1) e))"
  using assms by (subst s3d_vic_loop.simps) (simp add: Let_def)

lemma s3d_vic_loop_stop:
  "s3d_vic_loop d off 0 e = Inr e"
  "hdmi_3d_len \<noteq> 0 \<Longrightarrow> length d \<le> off \<Longrightarrow> s3d_vic_loop d off hdmi_3d_len e = Inl Edid_overread"
  by (subst s3d_vic_loop.simps, simp)+

lemma s3d_vic_loop_induct [case_names stop over step]:
  assumes "\<And>off e. P off 0 e" and "\<And>off n e. n \<noteq> 0 \<Longrightarrow> length d \<le> off \<Longrightarrow> P off n e"
    and "\<And>off n e. n \<noteq> 0 \<Longrightarrow> off < length d \<Longrightarrow> (\<And>e. P (off + 1) (n - 1) e) \<Longrightarrow>
           (\<And>e. P (off + 2) (n - 2) e) \<Longrightarrow> P off n e"
  shows "P off (n :: byte) (e :: edid_t)"
proof (induction "length d - off" arbitrary: off n e rule: less_induct)
  case less
  show ?case
  proof (cases "n = 0 \<or> length d \<le> off")
    case True
    then show ?thesis using assms(1,2) by (cases "n = 0") auto
  next
    case False
    then have lt: "length d - (off + 1) < length d - off" "length d - (off + 2) < length d - off"
      by auto
    show ?thesis by (rule assms(3)) (use False less [OF lt(1)] less [OF lt(2)] in simp_all)
  qed
qed

lemma s3d_vic_loop_ok:
  "formats_ok e \<Longrightarrow> case s3d_vic_loop d off n e of
     Inl x \<Rightarrow> x = Uninitialised_format \<or> x = Edid_overread
   | Inr e' \<Rightarrow> formats_ok e' \<and> same_formats e e'"
proof (induction off n e rule: s3d_vic_loop_induct [where d = d])
  case (step off n e)
  let ?b = "d ! off"
  let ?p = "unat (drop_bit 4 (?b AND 0xF0))" and ?f = "unat (?b AND 0x0F)"
  have u: "case update_s3d_format e ?f ?p ss of Inl x \<Rightarrow> x = Uninitialised_format
           | Inr e' \<Rightarrow> formats_ok e' \<and> same_formats e e'" for ss
    by (rule update_s3d_format_ok [OF step.prems nibbles(1)])
  have go: "case andThen (update_s3d_format e ?f ?p ss) (s3d_vic_loop d o' n') of
      Inl x \<Rightarrow> x = Uninitialised_format \<or> x = Edid_overread
    | Inr e' \<Rightarrow> formats_ok e' \<and> same_formats e e'"
    if "\<And>e'. formats_ok e' \<Longrightarrow> case s3d_vic_loop d o' n' e' of
      Inl x \<Rightarrow> x = Uninitialised_format \<or> x = Edid_overread
    | Inr e'' \<Rightarrow> formats_ok e'' \<and> same_formats e' e''" for ss o' n'
  proof (rule andThen_case [OF u])
    fix e'
    assume "formats_ok e' \<and> same_formats e e'"
    then show "case s3d_vic_loop d o' n' e' of Inl x \<Rightarrow> x = Uninitialised_format \<or> x = Edid_overread
      | Inr e'' \<Rightarrow> formats_ok e'' \<and> same_formats e e''"
      using that [of e'] by (auto split: sum.splits intro: same_formats_trans)
  qed simp
  show ?case
    using step.hyps go [OF step.IH(1)] go [OF step.IH(2)]
    by (simp add: s3d_vic_loop_unfold Let_def rd_def)
qed (simp_all add: s3d_vic_loop_stop)

text \<open>The per-descriptor list is consumed exactly: whenever the loop returns, all the bytes it was
  told to read lie inside the EDID, so the 8-bit counter never wraps past zero unnoticed.\<close>

theorem s3d_vic_loop_exact:
  "length d \<le> 256 \<Longrightarrow> s3d_vic_loop d off n e = Inr e' \<Longrightarrow> n = 0 \<or> off + unat n \<le> length d"
proof (induction off n e rule: s3d_vic_loop_induct [where d = d])
  case (step off n e)
  have "unat n < 2 ^ LENGTH(8)" by (rule unsigned_less)
  then have n: "unat n \<noteq> 0" "unat n < 256" using step.hyps(1) by (simp_all add: unat_eq_0)
  have one: "unat (n - 1) = unat n - 1" using step.hyps(1) by (simp add: unat_minus_one)
  have two: "unat (n - 2) = (if unat n = 1 then 255 else unat n - 2)"
    using n by (auto simp: unat_sub_if')
  from step.prems(2) consider e1 where "s3d_vic_loop d (off + 1) (n - 1) e1 = Inr e'"
    | e1 where "s3d_vic_loop d (off + 2) (n - 2) e1 = Inr e'" "off + 1 < length d"
    unfolding s3d_vic_loop_unfold [OF step.hyps(1,2)]
    by (auto simp: Let_def andThen_eq_Inr rd_def split: if_splits)
  then show ?case
  proof cases
    case 1
    from step.IH(1) [OF step.prems(1) 1] have "unat (n - 1) = 0 \<or> off + 1 + unat (n - 1) \<le> length d"
      by auto
    with one n step.hyps(2) have "off + unat n \<le> length d" by linarith
    then show ?thesis by simp
  next
    case 2
    from step.IH(2) [OF step.prems(1) 2(1)] have "unat (n - 2) = 0 \<or> off + 2 + unat (n - 2) \<le> length d"
      by auto
    with two n 2(2) step.prems(1) have "off + unat n \<le> length d"
      by (auto split: if_splits)
    then show ?thesis by simp
  qed
qed (simp_all add: s3d_vic_loop_stop)

text \<open>The format entries after the two filling loops.\<close>

lemma fill_vics_ok:
  "case fill_vics all msk xs of Inl x \<Rightarrow> x = Uninitialised_format
   | Inr ys \<Rightarrow> list_all vics_ok ys \<and> map format ys = map format xs \<and> None \<notin> set (map format xs)"
proof (induction xs)
  case (Cons x xs)
  show ?case
  proof (cases "format x")
    case (Some f)
    have "vics_ok (x\<lparr>vic_info := map (\<lambda>j. \<lparr>vic_pos = j, subsampling = ss\<rparr>) (filter P [0..<16])\<rparr>)"
      for ss P by (auto simp: vics_ok_def o_def list_all_iff)
    with Some Cons show ?thesis by (auto simp: andThen_def split: sum.splits)
  qed simp
qed simp

lemma fill_formats_length: "length (fill_formats bits) = count_set_bits bits"
proof -
  have fin: "finite {i. bit bits i}"
    by (rule finite_subset [of _ "{..<16}"]) (auto dest: bit_imp_le_length)
  have "length (filter (bit bits) [0..<9]) = card (set (filter (bit bits) [0..<9]))"
    by (rule distinct_card [symmetric]) simp
  also have "\<dots> \<le> card {i. bit bits i}" by (rule card_mono [OF fin]) auto
  finally show ?thesis
    by (simp add: fill_formats_def Let_def count_set_bits_eq del: upt_Suc)
qed

lemma find_format_map:
  "map format xs = map Some fs \<Longrightarrow> \<exists>r. find_format xs f i = Inr r \<and> (r \<noteq> None \<longleftrightarrow> f \<in> set fs)"
proof (induction xs arbitrary: fs i)
  case (Cons x xs)
  then obtain g gs where fs: "fs = g # gs" "format x = Some g" "map format xs = map Some gs"
    by (cases fs) auto
  from Cons.IH [OF fs(3), of "Suc i"] fs show ?case by auto
qed simp

lemma s3d_build_ok:
  "case s3d_build alloc e d all msk len off of
     Inl x \<Rightarrow> x \<in> {Uninitialised_format, Edid_overread, Null_pointer}
   | Inr e' \<Rightarrow> formats_ok e' \<and> svd_list e' = svd_list e \<and> num_svds e' = num_svds e"
proof -
  have bits: "case set_s3d_format_bits d o' n b of Inl x \<Rightarrow> x = Edid_overread | Inr y \<Rightarrow> True" for o' n b
    by (induction d o' n b rule: set_s3d_format_bits.induct)
       (subst set_s3d_format_bits.simps, auto simp: rd_def Let_def split: sum.splits)
  show ?thesis
    unfolding s3d_build_def
  proof (rule andThen_case [OF bits])
    fix b :: "16 word"
    let ?e = "\<lambda>l. e\<lparr>num_s3d_formats := count_set_bits b, s3d_format_list := l\<rparr>"
    have "case andThen (fill_vics all msk (fill_formats b)) (\<lambda>l. s3d_vic_loop d off len (?e l)) of
        Inl x \<Rightarrow> x \<in> {Uninitialised_format, Edid_overread, Null_pointer} | Inr e' \<Rightarrow> formats_ok e' \<and> svd_list e' = svd_list e \<and> num_svds e' = num_svds e"
    proof (rule andThen_case [OF fill_vics_ok])
      fix l
      assume l: "list_all vics_ok l \<and> map format l = map format (fill_formats b) \<and>
                 None \<notin> set (map format (fill_formats b))"
      then have "length l = count_set_bits b" using fill_formats_length map_eq_imp_length_eq by metis
      with l have "formats_ok (?e l)" by (simp add: formats_ok_def)
      from s3d_vic_loop_ok [OF this, of d off len]
      show "case s3d_vic_loop d off len (?e l) of
        Inl x \<Rightarrow> x \<in> {Uninitialised_format, Edid_overread, Null_pointer} | Inr e' \<Rightarrow> formats_ok e' \<and> svd_list e' = svd_list e \<and> num_svds e' = num_svds e"
        by (auto simp: same_formats_def split: sum.splits)
    qed simp
    then show "case (if \<not> alloc 2 \<and> b \<noteq> 0 then Inl Null_pointer
        else andThen (fill_vics all msk (fill_formats b)) (\<lambda>l. s3d_vic_loop d off len (?e l))) of
        Inl x \<Rightarrow> x \<in> {Uninitialised_format, Edid_overread, Null_pointer} | Inr e' \<Rightarrow> formats_ok e' \<and> svd_list e' = svd_list e \<and> num_svds e' = num_svds e"
      by simp
  qed simp
qed

lemma rd_fault: "rd d i = Inl x \<Longrightarrow> x = Edid_overread"
  by (simp add: rd_def split: if_splits)

lemma rd16_fault: "rd16 d i = Inl x \<Longrightarrow> x = Edid_overread"
  by (auto simp: rd16_def andThen_eq_Inl dest: rd_fault)

lemma datablock_offset_fault:
  "edid_get_datablock_offset d type = Inl x \<Longrightarrow> x = Edid_overread \<or> x = Endless_loop"
proof -
  have scan: "datablock_scan n d tag limit y = Inl x \<Longrightarrow> x = Edid_overread \<or> x = Endless_loop"
    for n tag limit y
    by (induction n arbitrary: y) (auto simp: andThen_eq_Inl dest: rd_fault split: if_splits)
  show "edid_get_datablock_offset d type = Inl x \<Longrightarrow> ?thesis"
    by (auto simp: edid_get_datablock_offset_def andThen_eq_Inl simp del: datablock_scan.simps
        dest: rd_fault scan split: if_splits)
qed

lemma svd_entries_fault: "svd_entries d off i n = Inl x \<Longrightarrow> x = Edid_overread \<or> x = Table_overread"
  by (induction n arbitrary: i)
     (auto simp: andThen_eq_Inl fill_svd_info_cases dest: rd_fault split: if_splits)

lemma parse_svds_ok:
  "case edid_parse_svds alloc blank_edid d of Inl x \<Rightarrow> x \<noteq> Vic_info_overflow
   | Inr e \<Rightarrow> formats_ok e \<and> s3d_format_list e = [] \<and>
             length (svd_list e) = num_svds e \<and> num_svds e \<le> 31"
proof (cases "edid_parse_svds alloc blank_edid d")
  case (Inl x)
  then show ?thesis
    by (auto simp: edid_parse_svds_def andThen_eq_Inl Let_def split: option.splits if_splits
        dest: rd_fault datablock_offset_fault svd_entries_fault)
next
  case (Inr e)
  then obtain r where r: "edid_get_datablock_offset d DATABLOCK_VIDEO = Inr r"
    by (auto simp: edid_parse_svds_def andThen_eq_Inr)
  have fields: "num_s3d_formats e = 0 \<and> s3d_format_list e = []"
    using Inr by (auto simp: edid_parse_svds_def andThen_eq_Inr Let_def blank_edid_def
        split: option.splits if_splits)
  show ?thesis
  proof (cases r)
    case None
    with r Inr show ?thesis by (auto simp: edid_parse_svds_def formats_ok_def blank_edid_def)
  next
    case (Some off)
    with parse_svds_spec [of d off alloc blank_edid e] r Inr fields show ?thesis
      by (simp add: formats_ok_def)
  qed
qed

lemma s3d_masks_fault: "s3d_masks d off mp len = Inl x \<Longrightarrow> x = Edid_overread"
  by (auto simp: s3d_masks_def andThen_eq_Inl dest: rd16_fault split: if_splits)

text \<open>A step that keeps the well-formedness of the result and never overflows.\<close>

definition safe_step :: "edid_t \<Rightarrow> edid_t edid_res \<Rightarrow> bool" where
  "safe_step e m \<longleftrightarrow> (case m of Inl x \<Rightarrow> x \<noteq> Vic_info_overflow
     | Inr e' \<Rightarrow> formats_ok e' \<and> svd_list e' = svd_list e \<and> num_svds e' = num_svds e)"

lemma safe_step_andThen:
  "(\<And>x. m = Inl x \<Longrightarrow> x \<noteq> Vic_info_overflow) \<Longrightarrow> (\<And>y. safe_step e (f y)) \<Longrightarrow>
   safe_step e (andThen m f)"
  by (cases m) (simp_all add: safe_step_def)

lemma safe_step_if: "safe_step e m \<Longrightarrow> safe_step e n \<Longrightarrow> safe_step e (if b then m else n)"
  by simp

lemma safe_step_build: "safe_step e (s3d_build alloc (e\<lparr>s3d_capable := True\<rparr>) d all msk len off)"
  unfolding safe_step_def
  using s3d_build_ok [of "e\<lparr>s3d_capable := True\<rparr>" alloc d all msk len off]
  by (auto split: sum.splits)

lemma parse_s3d_ok:
  assumes "formats_ok e"
  shows "safe_step e (edid_parse_s3d_support alloc e d)"
proof -
  have same: "safe_step e (Inr e)" using assms by (simp add: safe_step_def)
  have rd: "rd d i = Inl x \<Longrightarrow> x \<noteq> Vic_info_overflow" for i x by (auto dest: rd_fault)
  have off: "edid_get_datablock_offset d t = Inl x \<Longrightarrow> x \<noteq> Vic_info_overflow" for t x
    by (auto dest: datablock_offset_fault)
  have masks: "s3d_masks d off mp len = Inl x \<Longrightarrow> x \<noteq> Vic_info_overflow" for off mp len x
    by (auto dest: s3d_masks_fault)
  have build: "safe_step e (case y of (all, msk, len, off) \<Rightarrow>
      s3d_build alloc (e\<lparr>s3d_capable := True\<rparr>) d all msk len off)" for y
    by (cases y) (simp add: safe_step_build)
  have rest: "safe_step e (case found of None \<Rightarrow> Inr e | Some off \<Rightarrow> f off)"
    if "\<And>off. safe_step e (f off)" for found f
    using that same by (cases found) simp_all
  show ?thesis
    unfolding edid_parse_s3d_support_def Let_def
    by (intro safe_step_andThen rest safe_step_if same build; erule off rd masks)
qed

text \<open>C15: whatever the EDID holds, the parser never writes past the sixteen positions of a format
  entry, and what it returns is well formed: as many formats and descriptors as it counts, and in
  every format distinct positions below sixteen.\<close>

theorem edid_parser_wellformed:
  "case edid_parser_init handle_null alloc d of
     Inl x \<Rightarrow> x \<noteq> Vic_info_overflow
   | Inr None \<Rightarrow> (handle_null, alloc 0) \<noteq> (False, True)
   | Inr (Some e) \<Rightarrow> formats_ok e \<and> length (svd_list e) = num_svds e \<and> num_svds e \<le> 31"
proof -
  have "case andThen (edid_parse_svds alloc blank_edid d)
      (\<lambda>e. andThen (edid_parse_s3d_support alloc e d) (\<lambda>e. Inr (Some e))) of
      Inl x \<Rightarrow> x \<noteq> Vic_info_overflow
    | Inr r \<Rightarrow> \<exists>e. r = Some e \<and> formats_ok e \<and> length (svd_list e) = num_svds e \<and> num_svds e \<le> 31"
  proof (rule andThen_case [OF parse_svds_ok])
    fix e
    assume e: "formats_ok e \<and> s3d_format_list e = [] \<and> length (svd_list e) = num_svds e \<and> num_svds e \<le> 31"
    then have "safe_step e (edid_parse_s3d_support alloc e d)" by (simp add: parse_s3d_ok)
    with e show "case andThen (edid_parse_s3d_support alloc e d) (\<lambda>e. Inr (Some e)) of
        Inl x \<Rightarrow> x \<noteq> Vic_info_overflow
      | Inr r \<Rightarrow> \<exists>e. r = Some e \<and> formats_ok e \<and> length (svd_list e) = num_svds e \<and> num_svds e \<le> 31"
      by (auto simp: safe_step_def andThen_def split: sum.splits)
  qed simp
  then show ?thesis by (auto simp: edid_parser_init_def split: sum.splits)
qed

text \<open>C29: after the format list has been built, a format is reported as supported exactly if its bit
  is set in the mask the EDID signals (the common mask together with the per-descriptor list).\<close>

theorem supports_iff_signalled:
  assumes "set_s3d_format_bits d off (unat len) (all AND 0x7FFF) = Inr bits"
    and "s3d_build alloc e d all msk len off = Inr e'"
  shows "edid_supports_s3d_format e' f = Inr (bit bits f)"
proof -
  obtain l where l: "fill_vics all msk (fill_formats bits) = Inr l"
    and run: "s3d_vic_loop d off len (e\<lparr>num_s3d_formats := count_set_bits bits, s3d_format_list := l\<rparr>) = Inr e'"
    using assms by (auto simp: s3d_build_def andThen_eq_Inr split: if_splits)
  let ?fs = "filter (bit bits) [0..<9]"
  from fill_vics_ok [where all = all and msk = msk and xs = "fill_formats bits"] l
  have fmt: "list_all vics_ok l" "map format l = map format (fill_formats bits)"
    "None \<notin> set (map format (fill_formats bits))" by simp_all
  then have none: "count_set_bits bits = length ?fs" and fs: "map format (fill_formats bits) = map Some ?fs"
    using fill_formats_length [of bits] by (auto simp: fill_formats_def Let_def o_def simp del: upt_Suc)
  have fin: "finite {i. bit bits i}"
    by (rule finite_subset [of _ "{..<16}"]) (auto dest: bit_imp_le_length)
  have "card (set ?fs) = card {i. bit bits i}"
    using none distinct_card [of ?fs] by (simp add: count_set_bits_eq)
  then have set: "set ?fs = {i. bit bits i}"
    by (intro card_subset_eq [OF fin]) auto
  have "length l = count_set_bits bits" using fmt(2) fill_formats_length map_eq_imp_length_eq by metis
  then have "same_formats (e\<lparr>num_s3d_formats := count_set_bits bits, s3d_format_list := l\<rparr>) e'"
    using s3d_vic_loop_ok [of "e\<lparr>num_s3d_formats := count_set_bits bits, s3d_format_list := l\<rparr>" d off len]
      run fmt(1) by (simp add: formats_ok_def)
  then have "map format (s3d_format_list e') = map Some ?fs"
    using fmt(2) fs by (simp add: same_formats_def)
  from find_format_map [OF this, of f 0] set show ?thesis
    by (auto simp: edid_supports_s3d_format_def simp del: set_filter)
qed

lemma demo_fill_formats:
  "fill_formats 0x140 = [\<lparr>format = Some 6, vic_info = []\<rparr>, \<lparr>format = Some 8, vic_info = []\<rparr>]"
proof -
  have "count_set_bits 0x140 = 2" by code_simp
  then show ?thesis by (simp add: fill_formats_def upt_rec)
qed

theorem supports_iff_signalled_witness:
  "\<exists>e'. s3d_build (\<lambda>_. True) blank_edid [] 0x0140 0xFFFF 0 0 = Inr e' \<and>
        edid_supports_s3d_format e' 6 = Inr True \<and> edid_supports_s3d_format e' 0 = Inr False"
proof -
  have bits: "set_s3d_format_bits [] 0 (unat (0 :: byte)) (0x0140 AND 0x7FFF) = Inr 0x0140"
    by (simp add: set_s3d_format_bits.simps)
  obtain e' where e': "s3d_build (\<lambda>_. True) blank_edid [] 0x0140 0xFFFF 0 0 = Inr e'"
    by (simp add: s3d_build_def s3d_vic_loop_stop set_s3d_format_bits.simps demo_fill_formats)
  from supports_iff_signalled [OF bits e', of 6] supports_iff_signalled [OF bits e', of 0] e'
  show ?thesis by simp
qed

text \<open>A format code the list has no entry for (9 to 15, reserved by the standard) makes the parser
  read format entries it never wrote: they are counted and allocated but not filled.\<close>

theorem reserved_format_uninitialised:
  assumes "set_s3d_format_bits d off (unat len) (all AND 0x7FFF) = Inr bits"
    and "bit bits i" and "9 \<le> i" and "alloc 2"
  shows "s3d_build alloc e d all msk len off = Inl Uninitialised_format"
proof -
  have fin: "finite {i. bit bits i}"
    by (rule finite_subset [of _ "{..<16}"]) (auto dest: bit_imp_le_length)
  let ?fs = "filter (bit bits) [0..<9]"
  have "length ?fs = card (set ?fs)" by (rule distinct_card [symmetric]) simp
  also have "\<dots> < card {i. bit bits i}"
  proof (rule psubset_card_mono [OF fin])
    have "set ?fs = {k. k < 9 \<and> bit bits k}" by auto
    then show "set ?fs \<subset> {i. bit bits i}" using assms(2,3) by (metis (mono_tags, lifting)
      linorder_not_less mem_Collect_eq psubsetI subsetI)
  qed
  finally have "None \<in> set (map format (fill_formats bits))"
    by (simp add: fill_formats_def Let_def count_set_bits_eq del: upt_Suc)
  then have "fill_vics all msk (fill_formats bits) = Inl Uninitialised_format"
    using fill_vics_ok [where all = all and msk = msk and xs = "fill_formats bits"]
    by (auto split: sum.splits)
  with assms(1,4) show ?thesis by (simp add: s3d_build_def)
qed

text \<open>Looking up the descriptor at a position is safe except at the position equal to their
  number: it is accepted, one entry past the end of the list.\<close>

lemma svd_descriptor_bound:
  assumes "length (svd_list e) = num_svds e"
  shows "edid_get_svd_descriptor e p =
    (if p < num_svds e then Inr (Some (svd_list e ! p))
     else if p = num_svds e then Inl Svd_list_overread else Inr None)"
  using assms by (simp add: edid_get_svd_descriptor_def)

text \<open>The per-descriptor list as the standard encodes it.\<close>

definition encode_s3d :: "nat \<times> nat \<times> nat \<Rightarrow> byte list" where
  "encode_s3d en = (case en of (p, f, dt) \<Rightarrow>
     if 8 \<le> f then [word_of_nat (16 * p + f), word_of_nat (16 * dt)] else [word_of_nat (16 * p + f)])"

lemma low_nibble:
  assumes "p < 16" "f < 16"
  shows "unat ((word_of_nat (16 * p + f) :: byte) AND 0x0F) = f"
proof -
  have "unat (word_of_nat (16 * p + f) :: byte) = 16 * p + f"
    unfolding unat_of_nat using assms by simp
  moreover have "(0x0F :: byte) = mask 4" by (simp add: mask_eq_exp_minus_1)
  moreover have "take_bit 4 (16 * p + f) = f" using assms by (simp add: take_bit_eq_mod)
  ultimately show ?thesis by (simp only: unsigned_take_bit_eq flip: take_bit_eq_mask)
qed

text \<open>The scan of a well-formed per-descriptor list adds to the mask exactly the formats the list
  names, stepping over the detail bytes.\<close>

theorem s3d_bits_encoded:
  assumes "list_all (\<lambda>(p, f, dt). p < 16 \<and> f < 16 \<and> dt < 16) es"
  shows "\<exists>bits. set_s3d_format_bits (pre @ concat (map encode_s3d es) @ post) (length pre)
            (length (concat (map encode_s3d es))) bits0 = Inr bits \<and>
          (\<forall>i. bit bits i = (bit bits0 i \<or> i \<in> (fst \<circ> snd) ` set es))"
  using assms
proof (induction es arbitrary: pre bits0)
  case Nil
  show ?case by (subst set_s3d_format_bits.simps) simp
next
  case (Cons en es)
  obtain p f dt where en: "en = (p, f, dt)" by (cases en)
  let ?c = "concat (map encode_s3d es)" and ?b = "word_of_nat (16 * p + f) :: byte"
  have lt: "p < 16" "f < 16" using Cons.prems by (simp_all add: en)
  have h: "unat (?b AND 0x0F) = f" by (rule low_nibble [OF lt])
  have b1: "bit (bits0 OR push_bit f 1) i = (bit bits0 i \<or> i = f)" for i
    using lt(2) by (auto simp: bit_or_iff bit_exp_iff)
  have IH: "\<exists>bits. set_s3d_format_bits ((pre @ encode_s3d en) @ ?c @ post) (length (pre @ encode_s3d en))
      (length ?c) (bits0 OR push_bit f 1) = Inr bits \<and>
      (\<forall>i. bit bits i = (bit (bits0 OR push_bit f 1) i \<or> i \<in> (fst \<circ> snd) ` set es))"
    using Cons.prems by (intro Cons.IH) simp
  have step: "set_s3d_format_bits (pre @ (encode_s3d en @ ?c) @ post) (length pre)
      (length (encode_s3d en @ ?c)) bits0 =
    set_s3d_format_bits ((pre @ encode_s3d en) @ ?c @ post) (length (pre @ encode_s3d en))
      (length ?c) (bits0 OR push_bit f 1)"
    using h by (subst set_s3d_format_bits.simps)
      (simp add: en encode_s3d_def rd_def Let_def nth_append del: of_nat_add of_nat_mult)
  from IH b1 step show ?case by (simp add: en)
qed

end
