(* ===== verification/Rgz_Layers.thy ===== *)
theory Rgz_Layers
  imports Prelude
begin

text \<open>
  The data of the regionizer (\<^verbatim>\<open>hwc/rgz_2d.h\<close>, \<^verbatim>\<open>hwc/rgz_2d.c\<close>): rectangles, layers, their
  rotation and the part of a source buffer a subregion shows.

  Coordinates are \<open>int\<close>: the code only compares, adds and subtracts positions and sizes of
  layers on a screen, far from the limits of a 32-bit integer.  A buffer handle is the address of
  a structure of the graphics allocator; \<open>mem\<close> gives the structure at an address.  The null
  pointer is 0 and the regionizer's dummy handle is 1: neither may be followed.
\<close>

section \<open>Rectangles\<close>

record blit_rect_t =
  left :: int
  top :: int
  right :: int
  bottom :: int

definition zero_rect :: blit_rect_t where
  "zero_rect = \<lparr>left = 0, top = 0, right = 0, bottom = 0\<rparr>"

definition WIDTH :: "blit_rect_t \<Rightarrow> int" where
  "WIDTH r = right r - left r"

definition HEIGHT :: "blit_rect_t \<Rightarrow> int" where
  "HEIGHT r = bottom r - top r"

definition RECT_INTERSECTS :: "blit_rect_t \<Rightarrow> blit_rect_t \<Rightarrow> bool" where
  "RECT_INTERSECTS a b \<longleftrightarrow> bottom a > top b \<and> top a < bottom b \<and> right a > left b \<and> left a < right b"

definition empty_rect :: "blit_rect_t \<Rightarrow> bool" where
  "empty_rect r \<longleftrightarrow> left r = 0 \<and> top r = 0 \<and> right r = 0 \<and> bottom r = 0"

lemma empty_zero_rect [simp]: "empty_rect zero_rect"
  by (simp add: empty_rect_def zero_rect_def)

text \<open>The pixels of a rectangle: half-open in both directions.\<close>

definition in_rect :: "int \<Rightarrow> int \<Rightarrow> blit_rect_t \<Rightarrow> bool" where
  "in_rect x y r \<longleftrightarrow> left r \<le> x \<and> x < right r \<and> top r \<le> y \<and> y < bottom r"

lemma in_both_intersects: "in_rect x y a \<Longrightarrow> in_rect x y b \<Longrightarrow> RECT_INTERSECTS a b"
  by (auto simp: in_rect_def RECT_INTERSECTS_def)

lemma in_rect_not_empty: "in_rect x y r \<Longrightarrow> \<not> empty_rect r"
  by (auto simp: in_rect_def empty_rect_def)

section \<open>Layers\<close>

datatype pixel_format =
    BGRA_8888 | BGRX_8888 | RGB_565 | RGBA_8888 | RGBX_8888 | TI_NV12 | TI_NV12_PADDED | TI_NV12_1D
  | YV12 | Other_format

definition is_NV12 :: "pixel_format \<Rightarrow> bool" where
  "is_NV12 f \<longleftrightarrow> f = TI_NV12 \<or> f = TI_NV12_PADDED"

definition is_OPAQUE :: "pixel_format \<Rightarrow> bool" where
  "is_OPAQUE f \<longleftrightarrow> f = RGB_565 \<or> f = RGBX_8888 \<or> f = BGRX_8888"

record IMG_native_handle_t =
  iWidth :: int
  iHeight :: int
  iFormat :: pixel_format
  usage_protected :: bool
  usage_external_disp :: bool

type_synonym heap = "nat \<Rightarrow> IMG_native_handle_t"

datatype composition = HWC_FRAMEBUFFER | HWC_OVERLAY | HWC_BACKGROUND

datatype blend = HWC_BLENDING_UNSET | HWC_BLENDING_NONE | HWC_BLENDING_PREMULT | HWC_BLENDING_COVERAGE

record hwc_layer_1_t =
  compositionType :: composition
  hint_clear_fb :: bool
  hint_triple_buffer :: bool
  skip_layer :: bool
  handle :: nat
  transform :: "32 word"
  blending :: blend
  sourceCrop :: blit_rect_t
  displayFrame :: blit_rect_t

unbundle bit_operations_syntax

abbreviation (input) HWC_TRANSFORM_FLIP_H :: "32 word" where "HWC_TRANSFORM_FLIP_H \<equiv> 1"
abbreviation (input) HWC_TRANSFORM_FLIP_V :: "32 word" where "HWC_TRANSFORM_FLIP_V \<equiv> 2"
abbreviation (input) HWC_TRANSFORM_ROT_90 :: "32 word" where "HWC_TRANSFORM_ROT_90 \<equiv> 4"

definition has_flag :: "32 word \<Rightarrow> 32 word \<Rightarrow> bool" where
  "has_flag tr f \<longleftrightarrow> tr AND f \<noteq> 0"

definition rgz_get_displayframe_rect :: "hwc_layer_1_t \<Rightarrow> blit_rect_t" where
  "rgz_get_displayframe_rect layer =
     \<lparr>left = left (displayFrame layer), top = top (displayFrame layer),
      right = right (displayFrame layer), bottom = bottom (displayFrame layer)\<rparr>"

lemma displayframe_rect [simp]: "rgz_get_displayframe_rect layer = displayFrame layer"
  by (simp add: rgz_get_displayframe_rect_def)

definition rgz_hwc_scaled :: "hwc_layer_1_t \<Rightarrow> bool" where
  "rgz_hwc_scaled layer =
     (let w = WIDTH (sourceCrop layer); h = HEIGHT (sourceCrop layer);
          (w, h) = (if has_flag (transform layer) HWC_TRANSFORM_ROT_90 then (h, w) else (w, h))
      in WIDTH (displayFrame layer) \<noteq> w \<or> HEIGHT (displayFrame layer) \<noteq> h)"

text \<open>A layer the blitter can handle; \<open>mem\<close> is read only after the null check.\<close>

definition rgz_in_valid_hwc_layer :: "heap \<Rightarrow> hwc_layer_1_t \<Rightarrow> bool" where
  "rgz_in_valid_hwc_layer mem layer =
     (if skip_layer layer \<or> handle layer = 0 then False
      else let h = mem (handle layer) in
        if is_NV12 (iFormat h) then iFormat h = TI_NV12
        else if transform layer \<noteq> 0 \<and>
                has_flag (transform layer) HWC_TRANSFORM_FLIP_H \<noteq>
                has_flag (transform layer) HWC_TRANSFORM_FLIP_V
        then False
        else iFormat h \<in> {BGRX_8888, RGBX_8888, RGB_565, RGBA_8888, BGRA_8888})"

section \<open>Rotation\<close>

definition rgz_get_orientation :: "32 word \<Rightarrow> int" where
  "rgz_get_orientation tr =
     (if has_flag tr HWC_TRANSFORM_FLIP_H \<and> has_flag tr HWC_TRANSFORM_FLIP_V then 180 else 0)
     + (if has_flag tr HWC_TRANSFORM_ROT_90 then 90 else 0)"

datatype flip_flags = No_flip | Horz_flip_src1 | Horz_flip_src2 | Vert_flip_src1 | Vert_flip_src2

definition rgz_get_flip_flags :: "32 word \<Rightarrow> bool \<Rightarrow> flip_flags" where
  "rgz_get_flip_flags tr use_src2_flags =
     (let f = (if has_flag tr HWC_TRANSFORM_FLIP_H
               then (if use_src2_flags then Horz_flip_src2 else Horz_flip_src1) else No_flip)
      in if has_flag tr HWC_TRANSFORM_FLIP_V
         then (if f \<noteq> No_flip then No_flip
               else if use_src2_flags then Vert_flip_src2 else Vert_flip_src1)
         else f)"

text \<open>
  The clock-wise rotated view of an inner rectangle; \<open>None\<close> is an angle that is not a multiple of
  90 degrees, for which the C code leaves the position of the result unset.  C's remainder keeps
  the sign, but the sum \<open>(o % 360) + 360\<close> is positive, so the angle is \<open>o mod 360\<close>.
\<close>

definition rgz_get_rotated_view :: "blit_rect_t \<Rightarrow> blit_rect_t \<Rightarrow> int \<Rightarrow> blit_rect_t option" where
  "rgz_get_rotated_view outer inner orientation =
     (let ow = WIDTH outer; oh = HEIGHT outer; iw = WIDTH inner; ih = HEIGHT inner;
          delta_top = top inner - top outer; delta_left = left inner - left outer;
          angle = orientation mod 360;
          mk = (\<lambda>l t w h. Some \<lparr>left = l, top = t, right = l + w, bottom = t + h\<rparr>)
      in if angle = 0 then mk delta_left delta_top iw ih
         else if angle = 180 then mk (ow - iw - delta_left) (oh - ih - delta_top) iw ih
         else if angle = 90 then mk (oh - ih - delta_top) delta_left ih iw
         else if angle = 270 then mk delta_top (ow - iw - delta_left) ih iw
         else None)"

definition rgz_get_src_rect :: "hwc_layer_1_t \<Rightarrow> blit_rect_t \<Rightarrow> blit_rect_t option" where
  "rgz_get_src_rect layer subregion_rect =
     (if rgz_hwc_scaled layer then Some (sourceCrop layer)
      else case rgz_get_rotated_view (rgz_get_displayframe_rect layer) subregion_rect
                  (0 - rgz_get_orientation (transform layer)) of
        None \<Rightarrow> None
      | Some r \<Rightarrow> Some \<lparr>left = left r + left (sourceCrop layer),
                        top = top r + top (sourceCrop layer),
                        right = right r + left (sourceCrop layer),
                        bottom = bottom r + top (sourceCrop layer)\<rparr>)"

section \<open>Pixel formats\<close>

datatype ocdformat =
    OCDFMT_BGRA24 | OCDFMT_BGR124 | OCDFMT_RGB16 | OCDFMT_RGBA24 | OCDFMT_RGB124 | OCDFMT_NV12
  | OCDFMT_YV12 | OCDFMT_UNKNOWN

fun hal_to_ocd :: "pixel_format \<Rightarrow> ocdformat" where
  "hal_to_ocd BGRA_8888 = OCDFMT_BGRA24"
| "hal_to_ocd BGRX_8888 = OCDFMT_BGR124"
| "hal_to_ocd RGB_565 = OCDFMT_RGB16"
| "hal_to_ocd RGBA_8888 = OCDFMT_RGBA24"
| "hal_to_ocd RGBX_8888 = OCDFMT_RGB124"
| "hal_to_ocd TI_NV12 = OCDFMT_NV12"
| "hal_to_ocd YV12 = OCDFMT_YV12"
| "hal_to_ocd _ = OCDFMT_UNKNOWN"

text \<open>The stride of a buffer; widths are aligned to 32 pixels (\<open>HW_ALIGN\<close>), NV12 has stride 0.\<close>

definition rgz_handle_to_stride :: "IMG_native_handle_t \<Rightarrow> int" where
  "rgz_handle_to_stride h =
     (let bpp = (if is_NV12 (iFormat h) then 0 else if iFormat h = RGB_565 then 2 else 4)
      in (iWidth h + 31) div 32 * 32 * bpp)"

text \<open>Whether two layers may be blended in one blit.\<close>

definition rgz_can_blend_together :: "heap \<Rightarrow> hwc_layer_1_t \<Rightarrow> hwc_layer_1_t \<Rightarrow> bool" where
  "rgz_can_blend_together mem src1_layer src2_layer =
     (if rgz_hwc_scaled src1_layer \<or> rgz_hwc_scaled src2_layer then False
      else if is_NV12 (iFormat (mem (handle src1_layer))) \<or> is_NV12 (iFormat (mem (handle src2_layer)))
      then False
      else True)"

section \<open>Properties of the geometry\<close>

definition rect_inside :: "blit_rect_t \<Rightarrow> blit_rect_t \<Rightarrow> bool" where
  "rect_inside a b \<longleftrightarrow> left b \<le> left a \<and> right a \<le> right b \<and> top b \<le> top a \<and> bottom a \<le> bottom b"

text \<open>The outer rectangle as the rotated view sees it: at the origin, turned with the view.\<close>

definition turned_outer :: "blit_rect_t \<Rightarrow> int \<Rightarrow> blit_rect_t" where
  "turned_outer outer orientation =
     (if orientation mod 180 = 0
      then \<lparr>left = 0, top = 0, right = WIDTH outer, bottom = HEIGHT outer\<rparr>
      else \<lparr>left = 0, top = 0, right = HEIGHT outer, bottom = WIDTH outer\<rparr>)"

lemma quarter_turns:
  fixes o' :: int
  assumes "o' mod 90 = 0"
  shows "o' mod 360 = 0 \<and> o' mod 180 = 0 \<and> (- o') mod 360 = 0 \<or>
         o' mod 360 = 90 \<and> o' mod 180 = 90 \<and> (- o') mod 360 = 270 \<or>
         o' mod 360 = 180 \<and> o' mod 180 = 0 \<and> (- o') mod 360 = 180 \<or>
         o' mod 360 = 270 \<and> o' mod 180 = 90 \<and> (- o') mod 360 = 90"
proof -
  let ?x = "o' mod 360"
  have "?x mod 90 = 0" using assms by (simp add: mod_mod_cancel)
  moreover have "0 \<le> ?x" "?x < 360" by simp_all
  ultimately have x: "?x \<in> {0, 90, 180, 270}" by auto
  have half: "o' mod 180 = ?x mod 180" by (simp add: mod_mod_cancel)
  have neg: "(- o') mod 360 = (- ?x) mod 360" by (simp add: mod_minus_eq)
  from x show ?thesis by (elim insertE; simp add: half neg)
qed

lemma rotated_view_turns_back:
  assumes "orientation mod 90 = 0"
  shows "\<exists>r. rgz_get_rotated_view outer inner orientation = Some r \<and>
     rgz_get_rotated_view (turned_outer outer orientation) r (- orientation) =
       Some \<lparr>left = left inner - left outer, top = top inner - top outer,
             right = right inner - left outer, bottom = bottom inner - top outer\<rparr> \<and>
     rect_inside r (turned_outer outer orientation) = rect_inside inner outer \<and>
     {WIDTH r, HEIGHT r} = {WIDTH inner, HEIGHT inner}"
  using quarter_turns [OF assms]
  by (elim disjE)
     (auto simp: rgz_get_rotated_view_def turned_outer_def rect_inside_def WIDTH_def HEIGHT_def Let_def)

text \<open>Rotating a rectangle by a multiple of a quarter turn and back gives the rectangle again (at
  the origin of the outer one), and a rectangle inside of the outer one stays inside of the
  turned outer one.\<close>

theorem rotated_view_roundtrip:
  assumes "orientation mod 90 = 0"
  shows "\<exists>r. rgz_get_rotated_view outer inner orientation = Some r \<and>
     rgz_get_rotated_view (turned_outer outer orientation) r (- orientation) =
       Some \<lparr>left = left inner - left outer, top = top inner - top outer,
             right = right inner - left outer, bottom = bottom inner - top outer\<rparr> \<and>
     rect_inside r (turned_outer outer orientation) = rect_inside inner outer"
  using rotated_view_turns_back [OF assms, of outer inner] by blast

lemma orientation_cases: "rgz_get_orientation tr \<in> {0, 90, 180, 270}"
  by (simp add: rgz_get_orientation_def)

lemma orientation_rot90:
  "has_flag tr HWC_TRANSFORM_ROT_90 \<longleftrightarrow> rgz_get_orientation tr \<in> {90, 270}"
  by (simp add: rgz_get_orientation_def)

text \<open>For a layer that is not scaled, a subregion of its frame shows a part of the source buffer
  that lies inside of the cropping rectangle and has the size of the subregion (turned with the
  layer): a blit never reads pixels outside of the crop.\<close>

theorem src_rect_inside_crop:
  assumes "\<not> rgz_hwc_scaled layer" and "rect_inside sub (displayFrame layer)"
  shows "\<exists>r. rgz_get_src_rect layer sub = Some r \<and> rect_inside r (sourceCrop layer) \<and>
     (if has_flag (transform layer) HWC_TRANSFORM_ROT_90
      then WIDTH r = HEIGHT sub \<and> HEIGHT r = WIDTH sub
      else WIDTH r = WIDTH sub \<and> HEIGHT r = HEIGHT sub)"
  using assms orientation_cases [of "transform layer"]
  by (auto simp: rgz_get_src_rect_def rgz_get_rotated_view_def rgz_hwc_scaled_def rect_inside_def
      orientation_rot90 WIDTH_def HEIGHT_def Let_def)

definition demo_layer :: hwc_layer_1_t where
  "demo_layer = \<lparr>compositionType = HWC_FRAMEBUFFER, hint_clear_fb = False, hint_triple_buffer = False, skip_layer = False,
     handle = 7, transform = 4, blending = HWC_BLENDING_PREMULT,
     sourceCrop = \<lparr>left = 0, top = 0, right = 200, bottom = 100\<rparr>,
     displayFrame = \<lparr>left = 40, top = 50, right = 140, bottom = 250\<rparr>\<rparr>"

end
