(* ===== verification/Rgz_Damage.thy ===== *)
theory Rgz_Damage
  imports Rgz_Layers
begin

text \<open>
  The dirty-region tracking of the regionizer (\<^verbatim>\<open>hwc/rgz_2d.c\<close>): the layers of a frame are
  compared with those of the previous frame and with those shown by the framebuffer that will be
  drawn next (the target); the damaged area is the bounding box of what has to be redrawn.
\<close>

section \<open>State\<close>

abbreviation (input) RGZ_MAXLAYERS :: nat where "RGZ_MAXLAYERS \<equiv> 13"
abbreviation (input) RGZ_INPUT_MAXLAYERS :: nat where "RGZ_INPUT_MAXLAYERS \<equiv> 11"
abbreviation (input) RGZ_NUM_FB :: nat where "RGZ_NUM_FB \<equiv> 2"
abbreviation (input) RGZ_SUBREGIONMAX :: nat where "RGZ_SUBREGIONMAX \<equiv> 25"
abbreviation (input) RGZ_BACKGROUND_BUFFIDX :: int where "RGZ_BACKGROUND_BUFFIDX \<equiv> -2"
abbreviation (input) RGZ_CLEARHINT_BUFFIDX :: int where "RGZ_CLEARHINT_BUFFIDX \<equiv> -1"

record rgz_layer_t =
  hwc_layer :: hwc_layer_1_t
  identity :: nat
  buffidx :: int
  dirty_count :: nat

text \<open>The array has \<open>RGZ_MAXLAYERS\<close> entries; the first \<open>rgz_layerno\<close> are in use.\<close>

record rgz_fb_state_t =
  rgz_layerno :: nat
  rgz_layers :: "rgz_layer_t list"

text \<open>
  A horizontal region; \<open>hr_layers\<close> holds the indices of its layers in the current frame (the C
  code keeps pointers to them) and \<open>nlayers\<close> is its length.
\<close>

record blit_hregion_t =
  hr_rect :: blit_rect_t
  hr_layers :: "nat list"
  nsubregions :: nat
  blitrects :: "blit_rect_t list list"

record rgz_t =
  hregions :: "blit_hregion_t list"
  nhregions :: nat
  state_init :: bool
  region_data :: bool
  cur_fb_state :: rgz_fb_state_t
  fb_state_idx :: nat
  fb_states :: "rgz_fb_state_t list"
  damaged_area :: blit_rect_t

record screen =
  scr_width :: int
  scr_height :: int

definition screen_rect :: "screen \<Rightarrow> blit_rect_t" where
  "screen_rect scr = \<lparr>left = 0, top = 0, right = scr_width scr, bottom = scr_height scr\<rparr>"

text \<open>The background layer that \<open>rgz_get_screengeometry\<close> sets up: all zero but for its frame.\<close>

definition bg_layer :: "screen \<Rightarrow> hwc_layer_1_t" where
  "bg_layer scr = \<lparr>compositionType = HWC_FRAMEBUFFER, hint_clear_fb = False, hint_triple_buffer = False, skip_layer = False,
     handle = 0, transform = 0, blending = HWC_BLENDING_UNSET, sourceCrop = zero_rect,
     displayFrame = screen_rect scr\<rparr>"

section \<open>The damaged area\<close>

text \<open>The frame of a layer cut to the screen.\<close>

definition clip_frame :: "screen \<Rightarrow> hwc_layer_1_t \<Rightarrow> blit_rect_t" where
  "clip_frame scr layer =
     (let r = rgz_get_displayframe_rect layer in
      \<lparr>left = max 0 (left r), top = max 0 (top r),
       right = min (scr_width scr) (right r), bottom = min (scr_height scr) (bottom r)\<rparr>)"

definition rgz_add_to_damaged_area :: "screen \<Rightarrow> rgz_layer_t \<Rightarrow> blit_rect_t \<Rightarrow> blit_rect_t" where
  "rgz_add_to_damaged_area scr l area =
     (if \<not> RECT_INTERSECTS (screen_rect scr) (displayFrame (hwc_layer l)) then area
      else let r = clip_frame scr (hwc_layer l) in
        if empty_rect area then r
        else \<lparr>left = min (left area) (left r), top = min (top area) (top r),
              right = max (right area) (right r), bottom = max (bottom area) (bottom r)\<rparr>)"

fun rgz_find_layer :: "rgz_layer_t list \<Rightarrow> nat \<Rightarrow> rgz_layer_t option" where
  "rgz_find_layer [] ident = None"
| "rgz_find_layer (l # ls) ident =
     (if buffidx l = RGZ_BACKGROUND_BUFFIDX then rgz_find_layer ls ident
      else if identity l = ident then Some l
      else rgz_find_layer ls ident)"

definition rgz_has_layer_content_changed :: "rgz_layer_t \<Rightarrow> rgz_layer_t \<Rightarrow> bool" where
  "rgz_has_layer_content_changed cur prev =
     (if buffidx cur = RGZ_BACKGROUND_BUFFIDX \<and> buffidx prev = RGZ_BACKGROUND_BUFFIDX then False
      else if identity cur \<noteq> identity prev then True
      else if buffidx cur = RGZ_CLEARHINT_BUFFIDX \<and> buffidx prev = RGZ_CLEARHINT_BUFFIDX then False
      else handle (hwc_layer cur) \<noteq> handle (hwc_layer prev) \<or>
           transform (hwc_layer cur) \<noteq> transform (hwc_layer prev) \<or>
           top (sourceCrop (hwc_layer cur)) \<noteq> top (sourceCrop (hwc_layer prev)) \<or>
           left (sourceCrop (hwc_layer cur)) \<noteq> left (sourceCrop (hwc_layer prev)) \<or>
           bottom (sourceCrop (hwc_layer cur)) \<noteq> bottom (sourceCrop (hwc_layer prev)) \<or>
           right (sourceCrop (hwc_layer cur)) \<noteq> right (sourceCrop (hwc_layer prev)))"

definition rgz_has_layer_frame_moved :: "rgz_layer_t \<Rightarrow> rgz_layer_t \<Rightarrow> bool" where
  "rgz_has_layer_frame_moved cur target =
     (if identity cur \<noteq> identity target then True
      else top (displayFrame (hwc_layer cur)) \<noteq> top (displayFrame (hwc_layer target)) \<or>
           left (displayFrame (hwc_layer cur)) \<noteq> left (displayFrame (hwc_layer target)) \<or>
           bottom (displayFrame (hwc_layer cur)) \<noteq> bottom (displayFrame (hwc_layer target)) \<or>
           right (displayFrame (hwc_layer cur)) \<noteq> right (displayFrame (hwc_layer target)))"

text \<open>The layers in use of a frame.\<close>

definition active :: "rgz_fb_state_t \<Rightarrow> rgz_layer_t list" where
  "active fb = take (rgz_layerno fb) (rgz_layers fb)"

text \<open>The previous layer the loop of \<open>rgz_handle_dirty_region\<close> compares with.\<close>

definition prev_layer :: "rgz_fb_state_t \<Rightarrow> nat \<Rightarrow> rgz_layer_t \<Rightarrow> rgz_layer_t option" where
  "prev_layer prev i cur =
     (if i = 0 then (if rgz_layerno prev \<noteq> 0 then Some (rgz_layers prev ! 0) else None)
      else rgz_find_layer (active prev) (identity cur))"

text \<open>One iteration: the layer with its dirty count and the damaged area.\<close>

definition dirty_layer :: "screen \<Rightarrow> rgz_fb_state_t \<Rightarrow> rgz_fb_state_t \<Rightarrow> nat \<Rightarrow>
    rgz_layer_t \<times> blit_rect_t \<Rightarrow> rgz_layer_t \<times> blit_rect_t" where
  "dirty_layer scr prev target i la =
     (case la of (cur, area) \<Rightarrow>
        (let p = prev_layer prev i cur;
             cur = cur\<lparr>dirty_count :=
               (case p of
                  Some pl \<Rightarrow> if \<not> rgz_has_layer_content_changed cur pl
                             then dirty_count pl - (if dirty_count pl \<noteq> 0 then 1 else 0)
                             else RGZ_NUM_FB
                | None \<Rightarrow> RGZ_NUM_FB)\<rparr>
         in if p = None then (cur, rgz_add_to_damaged_area scr cur area)
            else if i = 0 then (cur, area)
            else case rgz_find_layer (active target) (identity cur) of
                Some t \<Rightarrow>
                  if rgz_has_layer_frame_moved cur t
                  then (cur\<lparr>dirty_count := RGZ_NUM_FB\<rparr>,
                        rgz_add_to_damaged_area scr t (rgz_add_to_damaged_area scr cur area))
                  else (cur, area)
              | None \<Rightarrow> (cur, rgz_add_to_damaged_area scr cur area)))"

text \<open>The first loop, over the layers of the current frame, from index \<open>i\<close> on.\<close>

fun dirty_current :: "screen \<Rightarrow> rgz_fb_state_t \<Rightarrow> rgz_fb_state_t \<Rightarrow> nat \<Rightarrow> rgz_layer_t list \<Rightarrow>
    blit_rect_t \<Rightarrow> rgz_layer_t list \<times> blit_rect_t" where
  "dirty_current scr prev target i [] area = ([], area)"
| "dirty_current scr prev target i (l # ls) area =
     (case dirty_layer scr prev target i (l, area) of
        (l', area') \<Rightarrow> (case dirty_current scr prev target (Suc i) ls area' of
                         (ls', area'') \<Rightarrow> (l' # ls', area'')))"

text \<open>The second loop, over the layers of the target frame but its background.\<close>

fun dirty_target :: "screen \<Rightarrow> rgz_layer_t list \<Rightarrow> rgz_layer_t list \<Rightarrow> blit_rect_t \<Rightarrow> blit_rect_t" where
  "dirty_target scr cur [] area = area"
| "dirty_target scr cur (t # ts) area =
     dirty_target scr cur ts
       (if rgz_find_layer cur (identity t) \<noteq> None then area
        else rgz_add_to_damaged_area scr t area)"

definition rgz_handle_dirty_region :: "screen \<Rightarrow> rgz_fb_state_t \<Rightarrow> rgz_fb_state_t \<Rightarrow>
    rgz_fb_state_t \<Rightarrow> rgz_fb_state_t \<times> blit_rect_t" where
  "rgz_handle_dirty_region scr prev target cur =
     (case dirty_current scr prev target 0 (active cur) zero_rect of
        (ls, area) \<Rightarrow>
          (cur\<lparr>rgz_layers := ls @ drop (rgz_layerno cur) (rgz_layers cur)\<rparr>,
           dirty_target scr ls (drop 1 (active target)) area))"

section \<open>Accepting a layer list\<close>

text \<open>The background layer keeps its identity and dirty count; its handle is the dummy 1.\<close>

definition rgz_add_background_layer :: "screen \<Rightarrow> rgz_fb_state_t \<Rightarrow> rgz_fb_state_t" where
  "rgz_add_background_layer scr fb =
     fb\<lparr>rgz_layers := (rgz_layers fb)[0 := (rgz_layers fb ! 0)
          \<lparr>hwc_layer := (bg_layer scr)\<lparr>handle := 1\<rparr>, buffidx := RGZ_BACKGROUND_BUFFIDX\<rparr>]\<rparr>"

text \<open>The counters of the loop of \<open>rgz_in_hwccheck\<close> and the array it fills.\<close>

record check_state =
  memidx :: int
  possible_blit :: nat
  candidates :: nat
  chk_layers :: "rgz_layer_t list"

definition set_layer :: "hwc_layer_1_t \<Rightarrow> nat \<Rightarrow> int \<Rightarrow> check_state \<Rightarrow> check_state" where
  "set_layer layer ident bidx c =
     (let i = possible_blit c + 1 in
      c\<lparr>chk_layers := (chk_layers c)[i := (chk_layers c ! i)
            \<lparr>hwc_layer := layer, identity := ident, buffidx := bidx\<rparr>],
        possible_blit := possible_blit c + 1\<rparr>)"

definition check_layer :: "heap \<Rightarrow> hwc_layer_1_t \<Rightarrow> nat \<Rightarrow> check_state \<Rightarrow> check_state" where
  "check_layer mem layer ident c =
     (if compositionType layer = HWC_FRAMEBUFFER then
        (let c = c\<lparr>candidates := candidates c + 1\<rparr> in
         if rgz_in_valid_hwc_layer mem layer \<and> possible_blit c < RGZ_INPUT_MAXLAYERS
         then (set_layer layer ident (memidx c) c)\<lparr>memidx := memidx c + 1\<rparr>
         else c)
      else if hint_clear_fb layer then
        (let c = c\<lparr>candidates := candidates c + 1\<rparr> in
         if possible_blit c < RGZ_INPUT_MAXLAYERS
         then set_layer (layer\<lparr>handle := 1\<rparr>) ident RGZ_CLEARHINT_BUFFIDX c
         else c)
      else c)"

definition check_layers :: "heap \<Rightarrow> (hwc_layer_1_t \<times> nat) list \<Rightarrow> check_state \<Rightarrow> check_state" where
  "check_layers mem ls c = fold (\<lambda>(l, ident) c. check_layer mem l ident c) ls c"

text \<open>
  \<open>rgz_in_hwccheck\<close>; the layers come with the identities of the extended list, \<open>None\<close> is a null
  layer array.  The second component is \<open>True\<close> for \<open>RGZ_ALL\<close> and \<open>False\<close> for -1.
\<close>

definition rgz_in_hwccheck :: "heap \<Rightarrow> screen \<Rightarrow> (hwc_layer_1_t \<times> nat) list option \<Rightarrow> rgz_t \<Rightarrow>
    rgz_t \<times> bool" where
  "rgz_in_hwccheck mem scr layers rgz =
     (let rgz = rgz\<lparr>state_init := False\<rparr> in
      case layers of
        None \<Rightarrow> (rgz, False)
      | Some ls \<Rightarrow>
          (let overlays = length (filter (\<lambda>(l, _). compositionType l = HWC_OVERLAY) ls);
               cur = rgz_add_background_layer scr (cur_fb_state rgz);
               c = check_layers mem ls \<lparr>memidx = int overlays, possible_blit = 0, candidates = 0,
                     chk_layers = rgz_layers cur\<rparr>;
               cur = cur\<lparr>rgz_layers := chk_layers c\<rparr>
           in if possible_blit c = 0 \<or> possible_blit c \<noteq> candidates c
              then (rgz\<lparr>cur_fb_state := cur\<rparr>, False)
              else
                (let cur = cur\<lparr>rgz_layerno := possible_blit c + 1\<rparr>;
                     prev = fb_states rgz ! fb_state_idx rgz;
                     idx = (fb_state_idx rgz + 1) mod RGZ_NUM_FB;
                     target = fb_states rgz ! idx
                 in case rgz_handle_dirty_region scr prev target cur of
                      (cur, area) \<Rightarrow>
                        (rgz\<lparr>state_init := True, cur_fb_state := cur, fb_state_idx := idx,
                             damaged_area := area,
                             fb_states := (fb_states rgz)[idx := target\<lparr>
                               rgz_layers := take (rgz_layerno cur) (rgz_layers cur)
                                             @ drop (rgz_layerno cur) (rgz_layers target),
                               rgz_layerno := rgz_layerno cur\<rparr>]\<rparr>, True))))"


section \<open>What the damaged area covers\<close>

text \<open>A pixel of the screen that a layer covers.\<close>

definition covers :: "screen \<Rightarrow> rgz_layer_t \<Rightarrow> int \<Rightarrow> int \<Rightarrow> bool" where
  "covers scr l x y \<longleftrightarrow> in_rect x y (screen_rect scr) \<and> in_rect x y (displayFrame (hwc_layer l))"

lemma add_covers: "covers scr l x y \<Longrightarrow> in_rect x y (rgz_add_to_damaged_area scr l area)"
  by (auto simp: covers_def rgz_add_to_damaged_area_def clip_frame_def in_rect_def screen_rect_def
      RECT_INTERSECTS_def Let_def)

lemma add_mono: "in_rect x y area \<Longrightarrow> in_rect x y (rgz_add_to_damaged_area scr l area)"
  by (auto simp: rgz_add_to_damaged_area_def clip_frame_def in_rect_def empty_rect_def Let_def)

lemma add_dirty_count [simp]:
  "rgz_add_to_damaged_area scr (l\<lparr>dirty_count := n\<rparr>) area = rgz_add_to_damaged_area scr l area"
  by (simp add: rgz_add_to_damaged_area_def)

lemma covers_dirty_count [simp]: "covers scr (l\<lparr>dirty_count := n\<rparr>) x y = covers scr l x y"
  by (simp add: covers_def)

definition area_on_screen :: "screen \<Rightarrow> blit_rect_t \<Rightarrow> bool" where
  "area_on_screen scr area \<longleftrightarrow>
     {left area, right area} \<subseteq> {0..scr_width scr} \<and> {top area, bottom area} \<subseteq> {0..scr_height scr}"

lemma add_on_screen:
  "area_on_screen scr area \<Longrightarrow> area_on_screen scr (rgz_add_to_damaged_area scr l area)"
  by (auto simp: rgz_add_to_damaged_area_def clip_frame_def area_on_screen_def screen_rect_def
      RECT_INTERSECTS_def Let_def)

text \<open>What requires a layer's area to be redrawn: it is new, missing in the target, or has moved.\<close>

definition must_redraw :: "rgz_fb_state_t \<Rightarrow> rgz_fb_state_t \<Rightarrow> nat \<Rightarrow> rgz_layer_t \<Rightarrow> bool" where
  "must_redraw prev target i cur \<longleftrightarrow> prev_layer prev i cur = None \<or>
     i \<noteq> 0 \<and> (case rgz_find_layer (active target) (identity cur) of
                None \<Rightarrow> True | Some t \<Rightarrow> rgz_has_layer_frame_moved cur t)"

lemma moved_dirty_count [simp]:
  "rgz_has_layer_frame_moved (l\<lparr>dirty_count := n\<rparr>) t = rgz_has_layer_frame_moved l t"
  by (simp add: rgz_has_layer_frame_moved_def)

text \<open>One iteration of the first loop: what it adds, and what it leaves alone.\<close>

lemma dirty_layer_area:
  assumes "dirty_layer scr prev target i (l, area) = (l', area')"
  shows "in_rect x y area \<Longrightarrow> in_rect x y area'"
    "must_redraw prev target i l \<Longrightarrow> covers scr l x y \<Longrightarrow> in_rect x y area'"
    "prev_layer prev i l \<noteq> None \<Longrightarrow> i \<noteq> 0 \<Longrightarrow> rgz_find_layer (active target) (identity l) = Some t \<Longrightarrow>
       rgz_has_layer_frame_moved l t \<Longrightarrow> covers scr t x y \<Longrightarrow> in_rect x y area'"
    "\<not> must_redraw prev target i l \<Longrightarrow> area' = area"
    "area_on_screen scr area \<Longrightarrow> area_on_screen scr area'"
  using assms
  by (auto simp: dirty_layer_def Let_def must_redraw_def split: if_splits option.splits
      intro: add_covers add_mono add_on_screen)

lemma dirty_layer_keeps:
  assumes "dirty_layer scr prev target i (l, area) = (l', area')"
  shows "\<exists>n. l' = l\<lparr>dirty_count := n\<rparr>"
  using assms by (auto simp: dirty_layer_def Let_def split: if_splits option.splits)

lemma dirty_current_ConsE:
  assumes "dirty_current scr prev target i (l # ls) area = (ls', area')"
  obtains l1 a1 ls1 where "dirty_layer scr prev target i (l, area) = (l1, a1)"
    "dirty_current scr prev target (Suc i) ls a1 = (ls1, area')" "ls' = l1 # ls1"
  using assms by (auto split: prod.splits)

lemma dirty_current_mono:
  "dirty_current scr prev target i ls area = (ls', area') \<Longrightarrow> in_rect x y area \<Longrightarrow> in_rect x y area'"
  by (induction ls arbitrary: i area ls') (auto elim!: dirty_current_ConsE dest: dirty_layer_area(1)
      simp del: dirty_current.simps(2))

lemma dirty_current_covers:
  "dirty_current scr prev target i ls area = (ls', area') \<Longrightarrow> k < length ls \<Longrightarrow>
   must_redraw prev target (i + k) (ls ! k) \<Longrightarrow> covers scr (ls ! k) x y \<Longrightarrow> in_rect x y area'"
proof (induction ls arbitrary: i area ls' k)
  case (Cons l ls)
  from Cons.prems(1) obtain l1 a1 ls1 where
    s: "dirty_layer scr prev target i (l, area) = (l1, a1)"
      "dirty_current scr prev target (Suc i) ls a1 = (ls1, area')" by (rule dirty_current_ConsE)
  show ?case
  proof (cases k)
    case 0
    then have "in_rect x y a1" using dirty_layer_area(2) [OF s(1)] Cons.prems by simp
    then show ?thesis by (rule dirty_current_mono [OF s(2)])
  next
    case (Suc j)
    then show ?thesis using Cons.IH [OF s(2), of j] Cons.prems by simp
  qed
qed simp

lemma dirty_current_moved:
  "dirty_current scr prev target i ls area = (ls', area') \<Longrightarrow> k < length ls \<Longrightarrow>
   prev_layer prev (i + k) (ls ! k) \<noteq> None \<Longrightarrow> i + k \<noteq> 0 \<Longrightarrow>
   rgz_find_layer (active target) (identity (ls ! k)) = Some t \<Longrightarrow>
   rgz_has_layer_frame_moved (ls ! k) t \<Longrightarrow> covers scr t x y \<Longrightarrow> in_rect x y area'"
proof (induction ls arbitrary: i area ls' k)
  case (Cons l ls)
  from Cons.prems(1) obtain l1 a1 ls1 where
    s: "dirty_layer scr prev target i (l, area) = (l1, a1)"
      "dirty_current scr prev target (Suc i) ls a1 = (ls1, area')" by (rule dirty_current_ConsE)
  show ?case
  proof (cases k)
    case 0
    then have "in_rect x y a1" using dirty_layer_area(3) [OF s(1)] Cons.prems by simp
    then show ?thesis by (rule dirty_current_mono [OF s(2)])
  next
    case (Suc j)
    then show ?thesis using Cons.IH [OF s(2), of j] Cons.prems by simp
  qed
qed simp

lemma dirty_current_same:
  "dirty_current scr prev target i ls area = (ls', area') \<Longrightarrow>
   (\<And>k. k < length ls \<Longrightarrow> \<not> must_redraw prev target (i + k) (ls ! k)) \<Longrightarrow> area' = area"
proof (induction ls arbitrary: i area ls')
  case (Cons l ls)
  from Cons.prems(1) obtain l1 a1 ls1 where
    s: "dirty_layer scr prev target i (l, area) = (l1, a1)"
      "dirty_current scr prev target (Suc i) ls a1 = (ls1, area')" by (rule dirty_current_ConsE)
  have "a1 = area" using dirty_layer_area(4) [OF s(1)] Cons.prems(2) [of 0] by simp
  moreover have "area' = a1" using Cons.prems(2) [of "Suc _"] by (intro Cons.IH [OF s(2)]) simp
  ultimately show ?case by simp
qed simp

lemma dirty_current_on_screen:
  "dirty_current scr prev target i ls area = (ls', area') \<Longrightarrow> area_on_screen scr area \<Longrightarrow>
   area_on_screen scr area'"
  by (induction ls arbitrary: i area ls') (auto elim!: dirty_current_ConsE dest: dirty_layer_area(5)
      simp del: dirty_current.simps(2))

lemma dirty_current_find:
  "dirty_current scr prev target i ls area = (ls', area') \<Longrightarrow>
   rgz_find_layer ls' ident = None \<longleftrightarrow> rgz_find_layer ls ident = None"
proof (induction ls arbitrary: i area ls')
  case (Cons l ls)
  from Cons.prems(1) obtain l1 a1 ls1 where
    s: "dirty_layer scr prev target i (l, area) = (l1, a1)"
      "dirty_current scr prev target (Suc i) ls a1 = (ls1, area')" "ls' = l1 # ls1"
    by (rule dirty_current_ConsE)
  from dirty_layer_keeps [OF s(1)] obtain n where "l1 = l\<lparr>dirty_count := n\<rparr>" ..
  then have "identity l1 = identity l" "buffidx l1 = buffidx l" by simp_all
  with Cons.IH [OF s(2)] show ?case by (simp add: s(3))
qed simp

lemma dirty_target_area:
  "in_rect x y area \<Longrightarrow> in_rect x y (dirty_target scr cur ts area)"
  "t \<in> set ts \<Longrightarrow> rgz_find_layer cur (identity t) = None \<Longrightarrow> covers scr t x y \<Longrightarrow>
   in_rect x y (dirty_target scr cur ts area)"
  "area_on_screen scr area \<Longrightarrow> area_on_screen scr (dirty_target scr cur ts area)"
  "list_all (\<lambda>t. rgz_find_layer cur (identity t) \<noteq> None) ts \<Longrightarrow> dirty_target scr cur ts area = area"
proof -
  show mono: "in_rect x y area \<Longrightarrow> in_rect x y (dirty_target scr cur ts area)" for area ts
    by (induction ts arbitrary: area) (auto intro: add_mono)
  show "t \<in> set ts \<Longrightarrow> rgz_find_layer cur (identity t) = None \<Longrightarrow> covers scr t x y \<Longrightarrow>
    in_rect x y (dirty_target scr cur ts area)"
    by (induction ts arbitrary: area) (auto intro: mono add_covers)
  show "area_on_screen scr area \<Longrightarrow> area_on_screen scr (dirty_target scr cur ts area)"
    by (induction ts arbitrary: area) (auto intro: add_on_screen)
  show "list_all (\<lambda>t. rgz_find_layer cur (identity t) \<noteq> None) ts \<Longrightarrow>
    dirty_target scr cur ts area = area"
    by (induction ts arbitrary: area) auto
qed

text \<open>
  The pixels a frame changes with respect to the target: those of a layer that is new, missing in
  the target or has moved, those where a moved layer was, and those of a layer that has gone.
\<close>

definition changed_pixel :: "screen \<Rightarrow> rgz_fb_state_t \<Rightarrow> rgz_fb_state_t \<Rightarrow> rgz_fb_state_t \<Rightarrow>
    int \<Rightarrow> int \<Rightarrow> bool" where
  "changed_pixel scr prev target cur x y \<longleftrightarrow>
     (\<exists>i < length (active cur). let l = active cur ! i in
        must_redraw prev target i l \<and> covers scr l x y \<or>
        i \<noteq> 0 \<and> prev_layer prev i l \<noteq> None \<and>
        (\<exists>t. rgz_find_layer (active target) (identity l) = Some t \<and>
             rgz_has_layer_frame_moved l t \<and> covers scr t x y)) \<or>
     (\<exists>t \<in> set (drop 1 (active target)).
        rgz_find_layer (active cur) (identity t) = None \<and> covers scr t x y)"


text \<open>A frame in which every layer was there before and is where the target shows it, and from
  which no layer of the target has gone, damages nothing.\<close>

theorem damage_empty_if_unchanged:
  assumes "rgz_handle_dirty_region scr prev target cur = (cur', area)"
    and "\<forall>i < length (active cur). \<not> must_redraw prev target i (active cur ! i)"
    and "\<forall>t \<in> set (drop 1 (active target)). rgz_find_layer (active cur) (identity t) \<noteq> None"
  shows "empty_rect area"
proof -
  obtain ls a where d: "dirty_current scr prev target 0 (active cur) zero_rect = (ls, a)"
    and area: "area = dirty_target scr ls (drop 1 (active target)) a"
    using assms(1) by (auto simp: rgz_handle_dirty_region_def split: prod.splits)
  have "a = zero_rect" using dirty_current_same [OF d] assms(2) by simp
  moreover have "area = a"
    unfolding area using assms(3) dirty_current_find [OF d]
    by (intro dirty_target_area(4)) (simp add: list_all_iff)
  ultimately show ?thesis by simp
qed

section \<open>Concrete frames\<close>

definition demo_screen :: screen where
  "demo_screen = \<lparr>scr_width = 540, scr_height = 960\<rparr>"

definition demo_bg :: rgz_layer_t where
  "demo_bg = \<lparr>hwc_layer = (bg_layer demo_screen)\<lparr>handle := 1\<rparr>, identity = 0, buffidx = -2,
     dirty_count = 0\<rparr>"

definition demo_window :: "int \<Rightarrow> rgz_layer_t" where
  "demo_window x = \<lparr>hwc_layer = (bg_layer demo_screen)\<lparr>handle := 7,
       displayFrame := \<lparr>left = x, top = 0, right = x + 100, bottom = 100\<rparr>\<rparr>,
     identity = 42, buffidx = 0, dirty_count = 0\<rparr>"

definition demo_frame :: "rgz_layer_t list \<Rightarrow> rgz_fb_state_t" where
  "demo_frame ls = \<lparr>rgz_layerno = length ls, rgz_layers = ls\<rparr>"

lemmas demo_frame_defs = demo_frame_def demo_window_def demo_bg_def demo_screen_def bg_layer_def
  screen_rect_def active_def prev_layer_def

lemma demo_moved_pixel:
  "changed_pixel demo_screen (demo_frame [demo_bg, demo_window 0]) (demo_frame [demo_bg, demo_window 0])
     (demo_frame [demo_bg, demo_window 300]) 50 50"
  unfolding changed_pixel_def
  by (rule disjI1, rule exI [of _ 1])
     (simp add: demo_frame_defs covers_def in_rect_def rgz_has_layer_frame_moved_def must_redraw_def)



section \<open>Accepted layer lists\<close>

definition candidate :: "hwc_layer_1_t \<Rightarrow> bool" where
  "candidate l \<longleftrightarrow> compositionType l = HWC_FRAMEBUFFER \<or> hint_clear_fb l"

definition usable :: "heap \<Rightarrow> hwc_layer_1_t \<Rightarrow> bool" where
  "usable mem l \<longleftrightarrow> (if compositionType l = HWC_FRAMEBUFFER then rgz_in_valid_hwc_layer mem l
                   else hint_clear_fb l)"

lemma check_layers_counts:
  "possible_blit c \<le> 11 \<Longrightarrow>
   candidates (check_layers mem ls c) = candidates c + length (filter (candidate \<circ> fst) ls) \<and>
   possible_blit (check_layers mem ls c) =
     min 11 (possible_blit c + length (filter (usable mem \<circ> fst) ls))"
proof (induction ls arbitrary: c)
  case Nil
  then show ?case by (simp add: check_layers_def)
next
  case (Cons p ls)
  obtain l ident where p: "p = (l, ident)" by (cases p)
  let ?c = "check_layer mem l ident c"
  have rest: "check_layers mem (p # ls) c = check_layers mem ls ?c"
    by (simp add: check_layers_def p)
  have "candidates ?c = candidates c + (if candidate l then 1 else 0)"
    "possible_blit ?c = min 11 (possible_blit c + (if usable mem l then 1 else 0))"
    using Cons.prems
    by (auto simp: check_layer_def set_layer_def candidate_def usable_def Let_def)
  with Cons.IH [of ?c] show ?case unfolding rest by (auto simp: p min_def)
qed

lemma usable_candidate: "usable mem l \<Longrightarrow> candidate l"
  by (auto simp: usable_def candidate_def split: if_splits)

lemma filter_all_iff:
  assumes "\<And>x. P x \<Longrightarrow> Q x"
  shows "length (filter P xs) \<le> length (filter Q xs) \<and>
    (length (filter P xs) = length (filter Q xs) \<longleftrightarrow> list_all P (filter Q xs))"
proof -
  have "filter P xs = filter P (filter Q xs)" using assms by (induction xs) auto
  then show ?thesis
    by (metis filter_id_conv length_filter_le length_filter_less linorder_less_linear list_all_iff
        not_less_iff_gr_or_eq)
qed

text \<open>A layer list is accepted exactly if it has at least one and at most eleven layers to compose
  (framebuffer layers and layers with the clear hint) and the blitter can handle every one of
  them; the state says so exactly then.\<close>

theorem hwccheck_accepts_iff:
  "(case rgz_in_hwccheck mem scr layers rgz of (rgz', ok) \<Rightarrow>
      ok = (\<exists>ls. layers = Some ls \<and>
              (let cs = filter (candidate \<circ> fst) ls in
               cs \<noteq> [] \<and> length cs \<le> RGZ_INPUT_MAXLAYERS \<and> list_all (usable mem \<circ> fst) cs)) \<and>
      state_init rgz' = ok)"
proof (cases layers)
  case None
  then show ?thesis by (simp add: rgz_in_hwccheck_def)
next
  case (Some ls)
  let ?cs = "filter (candidate \<circ> fst) ls"
  let ?c = "check_layers mem ls \<lparr>memidx = int (length (filter (\<lambda>(l, _). compositionType l = HWC_OVERLAY) ls)),
      possible_blit = 0, candidates = 0,
      chk_layers = rgz_layers (rgz_add_background_layer scr (cur_fb_state rgz))\<rparr>"
  have n: "candidates ?c = length ?cs"
    "possible_blit ?c = min 11 (length (filter (usable mem \<circ> fst) ls))"
    using check_layers_counts by simp_all
  have u: "length (filter (usable mem \<circ> fst) ls) \<le> length ?cs"
    "length (filter (usable mem \<circ> fst) ls) = length ?cs \<longleftrightarrow> list_all (usable mem \<circ> fst) ?cs"
    using filter_all_iff [of "usable mem \<circ> fst" "candidate \<circ> fst" ls] usable_candidate by auto
  have ok: "(possible_blit ?c = 0 \<or> possible_blit ?c \<noteq> candidates ?c) =
      (\<not> (?cs \<noteq> [] \<and> length ?cs \<le> 11 \<and> list_all (usable mem \<circ> fst) ?cs))"
    using n u by (auto simp: min_def split: if_splits)
  show ?thesis
    unfolding rgz_in_hwccheck_def Some Let_def
    using ok by (auto simp: Let_def split: prod.splits)
qed

end
