(* ===== verification/Rgz_Sort.thy ===== *)
theory Rgz_Sort
  imports Prelude
begin

text \<open>
  The two array routines of the regionizer (\<^verbatim>\<open>hwc/rgz_2d.c\<close>), \<open>rgz_bsort\<close> and
  \<open>rgz_bunique\<close>, on the list of the first \<open>len\<close> entries of the array, and the interface the
  region code relies on: the locale \<open>cut_points\<close> says what their combination promises and what
  follows for the intervals between consecutive cut points.
\<close>

section \<open>The routines\<close>

text \<open>The body of the inner loop of \<open>rgz_bsort\<close>.\<close>

definition bsort_step :: "nat \<Rightarrow> nat \<Rightarrow> int list \<Rightarrow> int list" where
  "bsort_step i j a = (if a ! i < a ! j then a[i := a ! j, j := a ! i] else a)"

definition rgz_bsort :: "int list \<Rightarrow> int list" where
  "rgz_bsort a = fold (\<lambda>i a. fold (\<lambda>j a. bsort_step i j a) [0..<i] a) [0..<length a] a"

text \<open>The first index after \<open>base\<close> whose entry differs, counted from \<open>base\<close>.\<close>

function run_length :: "int list \<Rightarrow> nat \<Rightarrow> nat \<Rightarrow> nat" where
  "run_length a base run =
     (if base + run < length a \<and> a ! base = a ! (base + run)
      then run_length a base (Suc run) else run)"
  by pat_completeness auto
termination
  by (relation "measure (\<lambda>(a, base, run). length a - (base + run))") auto

declare run_length.simps [simp del]

definition fill_run :: "int list \<Rightarrow> nat \<Rightarrow> nat \<Rightarrow> int list" where
  "fill_run a base run = fold (\<lambda>i a. a[base + 1 + i := a ! (base + run)]) [0..<run - 1] a"

lemma length_fold_update [simp]: "length (fold (\<lambda>i a. a[f i := g i a]) is a) = length a"
  by (induction "is" arbitrary: a) simp_all

lemma length_fill_run [simp]: "length (fill_run a base run) = length a"
  by (simp add: fill_run_def)

text \<open>The loop of \<open>rgz_bunique\<close>; the result is the array and the number of unique entries.\<close>

function bunique_loop :: "int list \<Rightarrow> nat \<Rightarrow> nat \<Rightarrow> int list \<times> nat" where
  "bunique_loop a base unique =
     (if base + 1 < length a then
        (if a ! base = a ! (base + 1) then
           (let run = run_length a base 1 in
            if base + run = length a then (a, unique)
            else bunique_loop (fill_run a base run) (base + 1) (unique + 1))
         else bunique_loop a (base + 1) (unique + 1))
      else (a, unique))"
  by pat_completeness auto
termination
  by (relation "measure (\<lambda>(a, base, unique). length a - base)") auto

declare bunique_loop.simps [simp del]

definition rgz_bunique :: "int list \<Rightarrow> int list \<times> nat" where
  "rgz_bunique a = bunique_loop a 0 1"

text \<open>Both routines in sequence, as the region code calls them: the entries that are left.\<close>

definition rgz_cuts :: "int list \<Rightarrow> int list" where
  "rgz_cuts a = (case rgz_bunique (rgz_bsort a) of (a', n) \<Rightarrow> take n a')"

section \<open>The sort\<close>

lemma length_bsort_step [simp]: "length (bsort_step i j a) = length a"
  by (simp add: bsort_step_def)

lemma mset_bsort_step: "i < length a \<Longrightarrow> j < length a \<Longrightarrow> mset (bsort_step i j a) = mset a"
  by (simp add: bsort_step_def mset_swap)

text \<open>The entries below \<open>n\<close> are in order.\<close>

definition sorted_upto :: "int list \<Rightarrow> nat \<Rightarrow> bool" where
  "sorted_upto a n \<longleftrightarrow> (\<forall>p q. p < q \<and> q < n \<longrightarrow> a ! p \<le> a ! q)"

lemma bsort_inner:
  assumes "i < length a" and "sorted_upto a i" and "k \<le> i"
  defines "b \<equiv> fold (\<lambda>j a. bsort_step i j a) [0..<k] a"
  shows "length b = length a \<and> mset b = mset a \<and> sorted_upto b i \<and> (\<forall>p < k. b ! p \<le> b ! i)"
  using assms(3) unfolding b_def
proof (induction k)
  case 0
  then show ?case using assms(2) by simp
next
  case (Suc k)
  let ?b = "fold (\<lambda>j a. bsort_step i j a) [0..<k] a"
  have IH: "length ?b = length a" "mset ?b = mset a" "sorted_upto ?b i" "\<forall>p < k. ?b ! p \<le> ?b ! i"
    using Suc by simp_all
  have k: "k < i" "k < length a" using Suc.prems assms(1) by simp_all
  have m: "mset (bsort_step i k ?b) = mset a" using IH k assms(1) by (simp add: mset_bsort_step)
  have "sorted_upto (bsort_step i k ?b) i \<and> (\<forall>p < Suc k. bsort_step i k ?b ! p \<le> bsort_step i k ?b ! i)"
  proof (cases "?b ! i < ?b ! k")
    case False
    then show ?thesis using IH by (auto simp: bsort_step_def less_Suc_eq)
  next
    case True
    let ?c = "bsort_step i k ?b"
    have c: "?c ! k = ?b ! i" "?c ! i = ?b ! k" "\<And>p. p \<noteq> i \<Longrightarrow> p \<noteq> k \<Longrightarrow> ?c ! p = ?b ! p"
      using True k IH(1) assms(1) by (simp_all add: bsort_step_def nth_list_update)
    have "?c ! p \<le> ?c ! q" if "p < q" "q < i" for p q
      using that IH(3,4) True k c unfolding sorted_upto_def
      by (cases "p = k"; cases "q = k") (auto intro: order_trans less_imp_le)
    moreover have "?c ! p \<le> ?c ! i" if "p < Suc k" for p
      using that IH(4) True k c by (cases "p = k") (auto dest!: spec [of _ p])
    ultimately show ?thesis by (simp add: sorted_upto_def)
  qed
  with m IH(1) show ?case by simp
qed

lemma bsort_outer:
  assumes "k \<le> length a"
  defines "b \<equiv> fold (\<lambda>i a. fold (\<lambda>j a. bsort_step i j a) [0..<i] a) [0..<k] a"
  shows "length b = length a \<and> mset b = mset a \<and> sorted_upto b k"
  using assms(1) unfolding b_def
proof (induction k)
  case 0
  then show ?case by (simp add: sorted_upto_def)
next
  case (Suc k)
  let ?b = "fold (\<lambda>i a. fold (\<lambda>j a. bsort_step i j a) [0..<i] a) [0..<k] a"
  have IH: "length ?b = length a" "mset ?b = mset a" "sorted_upto ?b k" using Suc by simp_all
  from bsort_inner [of k ?b k] IH Suc.prems show ?case
    by (auto simp: sorted_upto_def less_Suc_eq)
qed

lemma rgz_bsort_spec: "mset (rgz_bsort a) = mset a \<and> sorted (rgz_bsort a)"
  using bsort_outer [of "length a" a]
  by (auto simp: rgz_bsort_def sorted_upto_def sorted_iff_nth_mono_less)

section \<open>Removing duplicates\<close>

lemma run_length_spec:
  "base + k \<le> length a \<Longrightarrow> \<forall>j. base < j \<and> j < base + k \<longrightarrow> a ! j = a ! base \<Longrightarrow>
   k \<le> run_length a base k \<and> base + run_length a base k \<le> length a \<and>
   (\<forall>j. base < j \<and> j < base + run_length a base k \<longrightarrow> a ! j = a ! base) \<and>
   (base + run_length a base k = length a \<or> a ! (base + run_length a base k) \<noteq> a ! base)"
proof (induction a base k rule: run_length.induct)
  case (1 a base k)
  show ?case
  proof (cases "base + k < length a \<and> a ! base = a ! (base + k)")
    case True
    then have eq: "run_length a base k = run_length a base (Suc k)"
      by (subst run_length.simps) (simp only: if_True simp_thms)
    have all: "\<forall>j. base < j \<and> j < base + Suc k \<longrightarrow> a ! j = a ! base"
      using "1.prems"(2) True by (metis add_Suc_right less_antisym)
    have "base + Suc k \<le> length a" using True by linarith
    from "1.IH" [OF True this all] show ?thesis unfolding eq by (blast intro: Suc_leD)
  next
    case False
    then have "run_length a base k = k" by (subst run_length.simps) auto
    with "1.prems" False show ?thesis by (auto simp: le_less)
  qed
qed

lemma fill_run_nth:
  assumes "base + run < length a" and "k < length a"
  shows "fill_run a base run ! k = (if base < k \<and> k < base + run then a ! (base + run) else a ! k)"
proof -
  have "m \<le> run - 1 \<Longrightarrow>
    (let b = fold (\<lambda>i a. a[base + 1 + i := a ! (base + run)]) [0..<m] a in
     b ! (base + run) = a ! (base + run) \<and>
     (\<forall>k < length a. b ! k = (if base < k \<and> k < base + 1 + m then a ! (base + run) else a ! k)))" for m
  proof (induction m)
    case 0
    then show ?case by simp
  next
    case (Suc m)
    then show ?case using assms(1) by (auto simp: Let_def nth_list_update)
  qed
  from this [of "run - 1"] assms show ?thesis by (cases run) (auto simp: fill_run_def Let_def)
qed

text \<open>The loop invariant: the array is sorted and strictly ascending up to \<open>base\<close>.\<close>

definition ascending_to :: "int list \<Rightarrow> nat \<Rightarrow> bool" where
  "ascending_to a base \<longleftrightarrow> (\<forall>p q. p < q \<and> q \<le> base \<longrightarrow> a ! p < a ! q)"

lemma fill_run_inv:
  assumes "sorted a" "ascending_to a base" "base + run < length a" "0 < run"
    and "\<forall>j. base < j \<and> j < base + run \<longrightarrow> a ! j = a ! base" "a ! (base + run) \<noteq> a ! base"
  defines "b \<equiv> fill_run a base run"
  shows "sorted b \<and> ascending_to b (base + 1) \<and> set b = set a"
proof -
  have len: "length b = length a" by (simp add: b_def)
  have nth: "b ! k = (if base < k \<and> k < base + run then a ! (base + run) else a ! k)" if "k < length a" for k
    using fill_run_nth [OF assms(3) that] by (simp add: b_def)
  have le: "a ! p \<le> a ! q" if "p \<le> q" "q < length a" for p q
    using that assms(1) by (auto simp: sorted_iff_nth_mono)
  have gt: "a ! base < a ! (base + run)" using le [of base "base + run"] assms(3,6) by simp
  have "b ! p \<le> b ! q" if "p < q" "q < length a" for p q
    using that assms(3) by (auto simp: nth intro!: le)
  then have "sorted b" by (simp add: sorted_iff_nth_mono_less len)
  moreover have "b ! p < b ! q" if "p < q" "q \<le> base + 1" for p q
  proof (cases "q = base + 1")
    case True
    then have "b ! q = a ! (base + run)" using assms(3,4) by (cases "run = 1") (auto simp: nth)
    moreover have "b ! p \<le> a ! base" using that True assms(3) by (auto simp: nth intro!: le)
    ultimately show ?thesis using gt by simp
  next
    case False
    then show ?thesis using that assms(2,3) by (auto simp: nth ascending_to_def)
  qed
  then have "ascending_to b (base + 1)" by (simp add: ascending_to_def)
  moreover have "set b = set a"
  proof
    show "set b \<subseteq> set a" using assms(3) by (auto simp: set_conv_nth len nth)
    show "set a \<subseteq> set b"
    proof
      fix x
      assume "x \<in> set a"
      then obtain k where k: "k < length a" "x = a ! k" by (auto simp: in_set_conv_nth)
      show "x \<in> set b"
      proof (cases "base < k \<and> k < base + run")
        case True
        then have "x = b ! base" using k assms(3,5) by (simp add: nth)
        then show ?thesis using assms(3) len by simp
      next
        case False
        then have "x = b ! k" using k nth by auto
        then show ?thesis using k len by simp
      qed
    qed
  qed
  ultimately show ?thesis by blast
qed

lemma bunique_loop_spec:
  "sorted a \<Longrightarrow> ascending_to a base \<Longrightarrow> base < length a \<Longrightarrow>
   case bunique_loop a base (Suc base) of (b, n) \<Rightarrow>
     0 < n \<and> n \<le> length a \<and> length b = length a \<and> sorted_wrt (<) (take n b) \<and> set (take n b) = set a"
proof (induction "length a - base" arbitrary: a base rule: less_induct)
  case less
  have sorted: "a ! p \<le> a ! q" if "p \<le> q" "q < length a" for p q
    using that less.prems(1) by (auto simp: sorted_iff_nth_mono)
  have asc: "sorted_wrt (<) (take (Suc base) a)" "Suc base \<le> length a"
    using less.prems by (auto simp: sorted_wrt_iff_nth_less ascending_to_def)
  show ?case
  proof (cases "base + 1 < length a")
    case False
    then have "take (Suc base) a = a" by simp
    with asc False less.prems(3) show ?thesis by (auto simp: bunique_loop.simps [of a base])
  next
    case True
    show ?thesis
    proof (cases "a ! base = a ! (base + 1)")
      case False
      have "ascending_to a (base + 1)"
        using less.prems(2) False True sorted
        by (auto simp: ascending_to_def le_Suc_eq) (metis (no_types, lifting) less_le order_le_less_trans
            Suc_lessD le_less_Suc_eq less_Suc_eq_le less_or_eq_imp_le)
      from less.hyps [OF _ less.prems(1) this] True False show ?thesis
        by (simp add: bunique_loop.simps [of a base])
    next
      case eq: True
      let ?r = "run_length a base 1"
      have r: "0 < ?r" "base + ?r \<le> length a" "\<forall>j. base < j \<and> j < base + ?r \<longrightarrow> a ! j = a ! base"
        "base + ?r = length a \<or> a ! (base + ?r) \<noteq> a ! base"
        using run_length_spec [of base 1 a] less.prems(3) by auto
      show ?thesis
      proof (cases "base + ?r = length a")
        case whole: True
        have "set a \<subseteq> set (take (Suc base) a)"
        proof
          fix x
          assume "x \<in> set a"
          then obtain k where k: "k < length a" "x = a ! k" by (auto simp: in_set_conv_nth)
          then have "x = a ! min k base" using r(3) whole by (cases "k \<le> base") (auto simp: min_def)
          moreover have "a ! min k base \<in> set (take (Suc base) a)"
            using asc(2) by (auto simp: in_set_conv_nth intro!: exI [of _ "min k base"])
          ultimately show "x \<in> set (take (Suc base) a)" by simp
        qed
        then have "set (take (Suc base) a) = set a" using set_take_subset by fast
        with asc whole eq True show ?thesis by (simp add: bunique_loop.simps [of a base] Let_def)
      next
        case more: False
        then have inv: "sorted (fill_run a base ?r) \<and> ascending_to (fill_run a base ?r) (base + 1) \<and>
            set (fill_run a base ?r) = set a"
          using fill_run_inv [OF less.prems(1,2) _ r(1) r(3)] r by simp
        have "length (fill_run a base ?r) - (base + 1) < length a - base" using less.prems(3) by simp
        from less.hyps [OF this] inv True more eq show ?thesis
          by (simp add: bunique_loop.simps [of a base] Let_def)
      qed
    qed
  qed
qed

lemma rgz_cuts_spec:
  assumes "a \<noteq> []"
  shows "sorted_wrt (<) (rgz_cuts a) \<and> set (rgz_cuts a) = set a"
proof -
  have s: "sorted (rgz_bsort a)" "set (rgz_bsort a) = set a"
    using rgz_bsort_spec [of a] by (auto dest: mset_eq_setD)
  then have "0 < length (rgz_bsort a)" using assms by auto
  moreover have "ascending_to (rgz_bsort a) 0" by (simp add: ascending_to_def)
  ultimately show ?thesis
    using bunique_loop_spec [OF s(1), of 0] s(2)
    by (auto simp: rgz_cuts_def rgz_bunique_def split: prod.splits)
qed

section \<open>Cut points\<close>

text \<open>
  What the region code relies on: the cut points of a list are its values in strictly ascending
  order.  The intervals between consecutive cut points then tile the range from the least to the
  greatest value, and no value of the list lies inside of one.
\<close>

locale cut_points =
  fixes cuts :: "int list \<Rightarrow> int list"
  assumes cuts_ascending: "xs \<noteq> [] \<Longrightarrow> sorted_wrt (<) (cuts xs)"
    and cuts_set: "xs \<noteq> [] \<Longrightarrow> set (cuts xs) = set xs"
begin

lemma cuts_distinct: "xs \<noteq> [] \<Longrightarrow> distinct (cuts xs)"
  using cuts_ascending by (simp add: strict_sorted_iff)

lemma cuts_eq: "xs \<noteq> [] \<Longrightarrow> cuts xs = sorted_list_of_set (set xs)"
  using cuts_ascending [of xs] cuts_set [of xs]
  by (metis List.finite_set sorted_list_of_set.idem_if_sorted_distinct strict_sorted_iff)

lemma cuts_length: "xs \<noteq> [] \<Longrightarrow> 0 < length (cuts xs) \<and> length (cuts xs) \<le> length xs"
  using cuts_set [of xs] cuts_distinct [of xs]
  by (metis card_length distinct_card length_greater_0_conv set_empty2)

lemma cuts_mono: "xs \<noteq> [] \<Longrightarrow> i < j \<Longrightarrow> j < length (cuts xs) \<Longrightarrow> cuts xs ! i < cuts xs ! j"
  using cuts_ascending by (simp add: sorted_wrt_iff_nth_less)

lemma cuts_mono_le:
  "xs \<noteq> [] \<Longrightarrow> i \<le> j \<Longrightarrow> j < length (cuts xs) \<Longrightarrow> cuts xs ! i \<le> cuts xs ! j"
  using cuts_mono [of xs i j] by (cases "i = j") auto

lemma cuts_nth_mem: "xs \<noteq> [] \<Longrightarrow> i < length (cuts xs) \<Longrightarrow> cuts xs ! i \<in> set xs"
  using cuts_set by (metis nth_mem)

lemma no_cut_inside:
  assumes "c \<in> set xs" and "Suc i < length (cuts xs)"
  shows "c \<le> cuts xs ! i \<or> cuts xs ! Suc i \<le> c"
proof -
  have ne: "xs \<noteq> []" using assms(1) by auto
  then obtain j where j: "j < length (cuts xs)" "c = cuts xs ! j"
    using assms(1) cuts_set by (metis in_set_conv_nth)
  show ?thesis
  proof (cases "j \<le> i")
    case True
    then show ?thesis using cuts_mono_le [OF ne True] assms(2) j by auto
  next
    case False
    then show ?thesis using cuts_mono_le [OF ne, of "Suc i" j] j by auto
  qed
qed

lemma interval_unique:
  assumes "xs \<noteq> []" "Suc i < length (cuts xs)" "Suc j < length (cuts xs)"
    and "cuts xs ! i \<le> x" "x < cuts xs ! Suc i" "cuts xs ! j \<le> x" "x < cuts xs ! Suc j"
  shows "i = j"
proof (rule ccontr)
  assume "i \<noteq> j"
  then consider "Suc i \<le> j" | "Suc j \<le> i" by linarith
  then show False
    using assms cuts_mono_le [OF assms(1), of "Suc i" j] cuts_mono_le [OF assms(1), of "Suc j" i]
    by cases auto
qed

lemma interval_exists:
  assumes "lo \<in> set xs" "hi \<in> set xs" "lo \<le> x" "x < hi"
  shows "\<exists>i. Suc i < length (cuts xs) \<and> cuts xs ! i \<le> x \<and> x < cuts xs ! Suc i"
proof -
  have ne: "xs \<noteq> []" using assms(1) by auto
  let ?P = "\<lambda>k. k < length (cuts xs) \<and> x < cuts xs ! k"
  obtain m where m: "?P m" using assms(2,4) cuts_set [OF ne] by (metis in_set_conv_nth)
  define k where "k = (LEAST k. ?P k)"
  have k: "?P k" "\<And>j. ?P j \<Longrightarrow> k \<le> j" unfolding k_def using LeastI [of ?P, OF m] Least_le [of ?P] by blast+
  obtain l where l: "l < length (cuts xs)" "cuts xs ! l = lo"
    using assms(1) cuts_set [OF ne] by (metis in_set_conv_nth)
  have "cuts xs ! 0 \<le> x" using l assms(3) cuts_mono_le [OF ne, of 0 l] by auto
  then have "k \<noteq> 0" using k(1) by (metis not_less)
  then obtain i where i: "k = Suc i" by (cases k) auto
  then have "\<not> x < cuts xs ! i" using k(2) [of i] k(1) by auto
  then show ?thesis using k(1) i by auto
qed

end

interpretation rgz_cut: cut_points rgz_cuts
  by unfold_locales (simp_all add: rgz_cuts_spec)

section \<open>Properties\<close>

text \<open>The exchange sort returns the entries of the array in ascending order, keeping every one.\<close>

lemma rgz_bsort_sorts: "sorted (rgz_bsort a) \<and> mset (rgz_bsort a) = mset a"
  using rgz_bsort_spec by blast

text \<open>C33: after sorting and removing duplicates in place, the entries counted as unique are the values
  of the array in strictly ascending order, each once.\<close>

theorem rgz_cuts_unique:
  assumes "a \<noteq> []"
  shows "rgz_cuts a = sorted_list_of_set (set a)"
  using assms by (rule rgz_cut.cuts_eq)

theorem rgz_cuts_unique_witness: "rgz_cuts [5, 0, 5, 3] = sorted_list_of_set {0, 3, 5}"
proof -
  have "{0, 3, 5} = set [5, 0, 5, 3 :: int]" by auto
  then show ?thesis using rgz_cuts_unique [of "[5, 0, 5, 3]"] by simp
qed

end
