(* ===== verification/Rgz_Regions.thy ===== *)
theory Rgz_Regions
  imports Rgz_Damage Rgz_Sort
begin

text \<open>
  The regionizer proper (\<^verbatim>\<open>hwc/rgz_2d.c\<close>): \<open>rgz_in_hwc\<close> cuts the screen into horizontal
  regions at the upper and lower edges of the layers, \<open>rgz_gen_blitregions\<close> cuts each of them at
  the left and right edges, and every subregion records which layers show in it.  The lemmas use
  the cut points only through the locale \<open>cut_points\<close>.
\<close>

section \<open>The operations\<close>

definition frame_of :: "rgz_fb_state_t \<Rightarrow> nat \<Rightarrow> blit_rect_t" where
  "frame_of fb j = displayFrame (hwc_layer (rgz_layers fb ! j))"

text \<open>The offsets of a horizontal region: the damaged area's, then those of its layers.\<close>

definition x_offsets :: "screen \<Rightarrow> blit_rect_t \<Rightarrow> rgz_fb_state_t \<Rightarrow> nat list \<Rightarrow> int list" where
  "x_offsets scr area fb js =
     [left area, right area]
     @ concat (map (\<lambda>j. [max 0 (left (frame_of fb j)), min (right (frame_of fb j)) (scr_width scr)]) js)"

text \<open>The subregion between two consecutive offsets.\<close>

definition subregion_rect :: "blit_rect_t \<Rightarrow> int list \<Rightarrow> nat \<Rightarrow> blit_rect_t" where
  "subregion_rect r offsets i =
     \<lparr>left = offsets ! i, top = top r, right = offsets ! Suc i, bottom = bottom r\<rparr>"

text \<open>The inner loop of \<open>rgz_gen_blitregions\<close> for subregion \<open>r\<close>, then the loop over subregions.\<close>

definition set_blitrects :: "rgz_fb_state_t \<Rightarrow> nat list \<Rightarrow> nat \<Rightarrow> blit_rect_t \<Rightarrow>
    blit_rect_t list list \<Rightarrow> blit_rect_t list list" where
  "set_blitrects fb js r sub br =
     fold (\<lambda>l br. if RECT_INTERSECTS sub (frame_of fb (js ! l))
                  then br[l := (br ! l)[r := sub]] else br) [0..<length js] br"

definition zero_blitrects :: "blit_rect_t list list" where
  "zero_blitrects = replicate RGZ_MAXLAYERS (replicate RGZ_SUBREGIONMAX zero_rect)"

definition rgz_gen_blitregions :: "screen \<Rightarrow> blit_rect_t \<Rightarrow> rgz_fb_state_t \<Rightarrow> blit_hregion_t \<Rightarrow>
    blit_hregion_t" where
  "rgz_gen_blitregions scr area fb hr =
     (let offsets = rgz_cuts (x_offsets scr area fb (hr_layers hr)) in
      hr\<lparr>nsubregions := length offsets - 1,
         blitrects := fold (\<lambda>r br. set_blitrects fb (hr_layers hr) r
                               (subregion_rect (hr_rect hr) offsets r) br)
                        [0..<length offsets - 1] zero_blitrects\<rparr>)"

text \<open>The top and bottom coordinates, and the widest right edge.\<close>

definition y_entries :: "screen \<Rightarrow> blit_rect_t \<Rightarrow> rgz_fb_state_t \<Rightarrow> int list" where
  "y_entries scr area fb =
     [top area, bottom area]
     @ concat (map (\<lambda>j. [max 0 (top (frame_of fb j)), min (bottom (frame_of fb j)) (scr_height scr)])
                 [0..<rgz_layerno fb])"

definition disp_width :: "blit_rect_t \<Rightarrow> rgz_fb_state_t \<Rightarrow> int" where
  "disp_width area fb =
     fold (\<lambda>j w. if w > right (frame_of fb j) then w else right (frame_of fb j))
       [0..<rgz_layerno fb] (right area)"

text \<open>The \<open>i\<close>th horizontal region before its subregions are generated.\<close>

definition hregion_at :: "screen \<Rightarrow> rgz_fb_state_t \<Rightarrow> int \<Rightarrow> int list \<Rightarrow> nat \<Rightarrow> blit_hregion_t" where
  "hregion_at scr fb dispw ys i =
     (let r = \<lparr>left = 0, top = ys ! i,
               right = (if dispw > scr_width scr then scr_width scr else dispw), bottom = ys ! Suc i\<rparr>
      in \<lparr>hr_rect = r,
          hr_layers = filter (\<lambda>j. RECT_INTERSECTS r (frame_of fb j)) [0..<rgz_layerno fb],
          nsubregions = 0, blitrects = zero_blitrects\<rparr>)"

definition rgz_delete_region_data :: "rgz_t \<Rightarrow> rgz_t" where
  "rgz_delete_region_data rgz = rgz\<lparr>hregions := [], nhregions := 0, region_data := False\<rparr>"

definition make_hregions :: "screen \<Rightarrow> blit_rect_t \<Rightarrow> rgz_fb_state_t \<Rightarrow> blit_hregion_t list" where
  "make_hregions scr area fb =
     (let ys = rgz_cuts (y_entries scr area fb) in
      map (\<lambda>i. rgz_gen_blitregions scr area fb (hregion_at scr fb (disp_width area fb) ys i))
        [0..<length ys - 1])"

text \<open>
  \<open>rgz_in_hwc\<close>; \<open>alloc\<close> tells whether \<open>calloc\<close> succeeds.  The second component is \<open>True\<close> for the
  return value 0 and \<open>False\<close> for -1.  A failed allocation leaves the number of regions set, without any region.
\<close>

definition rgz_in_hwc :: "bool \<Rightarrow> screen \<Rightarrow> rgz_t \<Rightarrow> rgz_t \<times> bool" where
  "rgz_in_hwc alloc scr rgz =
     (if \<not> state_init rgz then (rgz, False)
      else if (rgz_layerno (cur_fb_state rgz) + 1) * 2 > RGZ_SUBREGIONMAX then (rgz, False)
      else
        (let rgz = rgz_delete_region_data rgz;
             hs = make_hregions scr (damaged_area rgz) (cur_fb_state rgz);
             rgz = rgz\<lparr>nhregions := length hs\<rparr>
         in if \<not> alloc then (rgz, False)
            else (rgz\<lparr>hregions := hs, region_data := True\<rparr>, True)))"

datatype rgz_in_op = RGZ_IN_HWC | RGZ_IN_HWCCHK | RGZ_IN_other

definition blank_layer :: rgz_layer_t where
  "blank_layer = \<lparr>hwc_layer = \<lparr>compositionType = HWC_FRAMEBUFFER, hint_clear_fb = False, hint_triple_buffer = False,
     skip_layer = False, handle = 0, transform = 0, blending = HWC_BLENDING_UNSET,
     sourceCrop = zero_rect, displayFrame = zero_rect\<rparr>, identity = 0, buffidx = 0, dirty_count = 0\<rparr>"

definition blank_fb :: rgz_fb_state_t where
  "blank_fb = \<lparr>rgz_layerno = 0, rgz_layers = replicate RGZ_MAXLAYERS blank_layer\<rparr>"

definition blank_rgz :: rgz_t where
  "blank_rgz = \<lparr>hregions = [], nhregions = 0, state_init = False, region_data = False, cur_fb_state = blank_fb,
     fb_state_idx = 0, fb_states = replicate RGZ_NUM_FB blank_fb, damaged_area = zero_rect\<rparr>"

text \<open>\<open>True\<close> is \<open>RGZ_ALL\<close>; a failure of \<open>rgz_in_hwc\<close> is the return value 0, an error is -1.\<close>

definition rgz_in :: "heap \<Rightarrow> bool \<Rightarrow> screen \<Rightarrow> rgz_in_op \<Rightarrow> (hwc_layer_1_t \<times> nat) list option \<Rightarrow>
    rgz_t \<Rightarrow> rgz_t \<times> bool" where
  "rgz_in mem alloc scr op layers rgz =
     (case op of
        RGZ_IN_HWC \<Rightarrow>
          (case rgz_in_hwccheck mem scr layers rgz of
             (rgz, ok) \<Rightarrow> if ok then rgz_in_hwc alloc scr rgz else (rgz, False))
      | RGZ_IN_HWCCHK \<Rightarrow> rgz_in_hwccheck mem scr layers blank_rgz
      | RGZ_IN_other \<Rightarrow> (rgz, False))"

definition rgz_release :: "rgz_t \<Rightarrow> rgz_t" where
  "rgz_release rgz = blank_rgz"

section \<open>The array of blit rectangles\<close>

text \<open>The shape of the array: it is kept by every write.\<close>

definition blit_shape :: "blit_rect_t list list \<Rightarrow> bool" where
  "blit_shape br \<longleftrightarrow> length br = 13 \<and> list_all (\<lambda>row. length row = 25) br"

lemma blit_shape_row: "blit_shape br \<Longrightarrow> l < 13 \<Longrightarrow> length (br ! l) = 25"
  by (simp add: blit_shape_def list_all_length)

lemma blit_shape_zero: "blit_shape zero_blitrects"
  by (simp add: blit_shape_def zero_blitrects_def list_all_iff)

lemma blit_shape_update:
  "blit_shape br \<Longrightarrow> blit_shape (br[l := (br ! l)[r := x]])"
  by (cases "l < 13") (auto simp: blit_shape_def list_all_length nth_list_update)

lemma set_blitrects_upto:
  fixes sub :: blit_rect_t and fb :: rgz_fb_state_t and js :: "nat list"
  assumes "blit_shape br" and "m \<le> 13" and "r < 25"
  defines "b \<equiv> fold (\<lambda>l br. if RECT_INTERSECTS sub (frame_of fb (js ! l))
                  then br[l := (br ! l)[r := sub]] else br) [0..<m] br"
  shows "blit_shape b \<and> (\<forall>l < 13. \<forall>c < 25. b ! l ! c =
    (if l < m \<and> c = r \<and> RECT_INTERSECTS sub (frame_of fb (js ! l)) then sub else br ! l ! c))"
  using assms(2) unfolding b_def
proof (induction m)
  case 0
  then show ?case using assms(1) by simp
next
  case (Suc m)
  let ?b = "fold (\<lambda>l br. if RECT_INTERSECTS sub (frame_of fb (js ! l))
                  then br[l := (br ! l)[r := sub]] else br) [0..<m] br"
  have IH: "blit_shape ?b" "\<And>l c. l < 13 \<Longrightarrow> c < 25 \<Longrightarrow> ?b ! l ! c =
    (if l < m \<and> c = r \<and> RECT_INTERSECTS sub (frame_of fb (js ! l)) then sub else br ! l ! c)"
    using Suc by simp_all
  have m: "m < length ?b" "length (?b ! m) = 25"
    using IH(1) Suc.prems by (simp_all add: blit_shape_def blit_shape_row list_all_length)
  show ?case
  proof (cases "RECT_INTERSECTS sub (frame_of fb (js ! m))")
    case True
    then have step: "fold (\<lambda>l br. if RECT_INTERSECTS sub (frame_of fb (js ! l))
        then br[l := (br ! l)[r := sub]] else br) [0..<Suc m] br = ?b[m := (?b ! m)[r := sub]]" by simp
    show ?thesis
      unfolding step using blit_shape_update [OF IH(1), of m r sub] IH(2) m True assms(3) Suc.prems
      by (auto simp: nth_list_update less_Suc_eq simp del: upt_Suc)
  next
    case False
    then show ?thesis using IH by (auto simp: less_Suc_eq)
  qed
qed

lemma set_blitrects_nth:
  assumes "blit_shape br" and "length js \<le> 13" and "r < 25"
  shows "blit_shape (set_blitrects fb js r sub br)"
    "l < 13 \<Longrightarrow> c < 25 \<Longrightarrow> set_blitrects fb js r sub br ! l ! c =
      (if l < length js \<and> c = r \<and> RECT_INTERSECTS sub (frame_of fb (js ! l)) then sub else br ! l ! c)"
  using set_blitrects_upto [OF assms(1) assms(2) assms(3), of sub fb js]
  by (simp_all add: set_blitrects_def)

lemma gen_blitrects_nth:
  fixes sub :: "nat \<Rightarrow> blit_rect_t" and fb :: rgz_fb_state_t and js :: "nat list"
  assumes "length js \<le> 13" and "n \<le> 25"
  defines "b \<equiv> fold (\<lambda>r br. set_blitrects fb js r (sub r) br) [0..<n] zero_blitrects"
  shows "blit_shape b \<and> (\<forall>l < 13. \<forall>c < 25. b ! l ! c =
    (if l < length js \<and> c < n \<and> RECT_INTERSECTS (sub c) (frame_of fb (js ! l)) then sub c else zero_rect))"
  using assms(2) unfolding b_def
proof (induction n)
  case 0
  show ?case using blit_shape_zero by (simp add: zero_blitrects_def)
next
  case (Suc n)
  let ?b = "fold (\<lambda>r br. set_blitrects fb js r (sub r) br) [0..<n] zero_blitrects"
  have IH: "blit_shape ?b" "\<And>l c. l < 13 \<Longrightarrow> c < 25 \<Longrightarrow> ?b ! l ! c =
    (if l < length js \<and> c < n \<and> RECT_INTERSECTS (sub c) (frame_of fb (js ! l)) then sub c else zero_rect)"
    using Suc by simp_all
  have n: "n < 25" using Suc.prems by simp
  show ?case
    using set_blitrects_nth(1) [OF IH(1) assms(1) n] set_blitrects_nth(2) [OF IH(1) assms(1) n] IH(2)
    by (auto simp: less_Suc_eq)
qed

section \<open>Subregions\<close>

text \<open>What \<open>rgz_in_hwc\<close> checks before it cuts: the coordinates fit the arrays.\<close>

definition fits_arrays :: "rgz_fb_state_t \<Rightarrow> bool" where
  "fits_arrays fb \<longleftrightarrow> (rgz_layerno fb + 1) * 2 \<le> RGZ_SUBREGIONMAX"

lemma length_x_offsets: "length (x_offsets scr area fb js) = 2 + 2 * length js"
  by (induction js) (simp_all add: x_offsets_def)

lemma length_y_entries: "length (y_entries scr area fb) = 2 + 2 * rgz_layerno fb"
  by (simp add: y_entries_def length_concat o_def sum_list_triv)

lemma x_offsets_ne [simp]: "x_offsets scr area fb js \<noteq> []"
  by (simp add: x_offsets_def)

lemma y_entries_ne [simp]: "y_entries scr area fb \<noteq> []"
  by (simp add: y_entries_def)

lemma x_offsets_edges:
  "j \<in> set js \<Longrightarrow> max 0 (left (frame_of fb j)) \<in> set (x_offsets scr area fb js)"
  "j \<in> set js \<Longrightarrow> min (right (frame_of fb j)) (scr_width scr) \<in> set (x_offsets scr area fb js)"
  by (auto simp: x_offsets_def)

lemma y_entries_edges:
  "j < rgz_layerno fb \<Longrightarrow> max 0 (top (frame_of fb j)) \<in> set (y_entries scr area fb)"
  "j < rgz_layerno fb \<Longrightarrow> min (bottom (frame_of fb j)) (scr_height scr) \<in> set (y_entries scr area fb)"
  by (auto simp: y_entries_def)

abbreviation xs_of :: "screen \<Rightarrow> blit_rect_t \<Rightarrow> rgz_fb_state_t \<Rightarrow> nat list \<Rightarrow> int list" where
  "xs_of scr area fb js \<equiv> rgz_cuts (x_offsets scr area fb js)"

abbreviation ys_of :: "screen \<Rightarrow> blit_rect_t \<Rightarrow> rgz_fb_state_t \<Rightarrow> int list" where
  "ys_of scr area fb \<equiv> rgz_cuts (y_entries scr area fb)"

lemma hregion_layers_length: "length (hr_layers (hregion_at scr fb w ys i)) \<le> rgz_layerno fb"
  by (simp add: hregion_at_def Let_def) (metis diff_zero length_filter_le length_upt)

text \<open>What a generated region holds, entry by entry.\<close>

lemma gen_blitregions_spec:
  fixes scr :: screen and area :: blit_rect_t and fb :: rgz_fb_state_t and hr :: blit_hregion_t
  assumes "length (hr_layers hr) \<le> 11"
  defines "xs \<equiv> xs_of scr area fb (hr_layers hr)" and "g \<equiv> rgz_gen_blitregions scr area fb hr"
  shows "hr_rect g = hr_rect hr" "hr_layers g = hr_layers hr" "nsubregions g = length xs - 1"
    "length xs \<le> 24" "blit_shape (blitrects g)"
    "l < length (hr_layers hr) \<Longrightarrow> r < nsubregions g \<Longrightarrow>
       blitrects g ! l ! r =
         (let sub = subregion_rect (hr_rect hr) xs r in
          if RECT_INTERSECTS sub (frame_of fb (hr_layers hr ! l)) then sub else zero_rect)"
proof -
  show n: "length xs \<le> 24"
    using rgz_cut.cuts_length [of "x_offsets scr area fb (hr_layers hr)"] assms(1)
    by (simp add: xs_def length_x_offsets)
  show "hr_rect g = hr_rect hr" "hr_layers g = hr_layers hr" and ns: "nsubregions g = length xs - 1"
    by (simp_all add: g_def rgz_gen_blitregions_def Let_def xs_def)
  have js: "length (hr_layers hr) \<le> 13" and n25: "length xs - 1 \<le> 25" using assms(1) n by simp_all
  note b = gen_blitrects_nth [OF js n25, of fb "subregion_rect (hr_rect hr) xs"]
  have g: "blitrects g = fold (\<lambda>r br. set_blitrects fb (hr_layers hr) r (subregion_rect (hr_rect hr) xs r) br)
      [0..<length xs - 1] zero_blitrects"
    by (simp add: g_def rgz_gen_blitregions_def Let_def xs_def)
  show "blit_shape (blitrects g)" unfolding g using b by blast
  show "blitrects g ! l ! r = (let sub = subregion_rect (hr_rect hr) xs r in
      if RECT_INTERSECTS sub (frame_of fb (hr_layers hr ! l)) then sub else zero_rect)"
    if "l < length (hr_layers hr)" "r < nsubregions g"
    unfolding g using b that assms(1) n ns by (auto simp: Let_def)
qed

text \<open>
  The horizontal regions of a frame, by index: their edges, their layers and their blit rectangles.
\<close>

lemma make_hregions_nth:
  assumes "i < length (make_hregions scr area fb)"
  shows "make_hregions scr area fb ! i =
    rgz_gen_blitregions scr area fb (hregion_at scr fb (disp_width area fb) (ys_of scr area fb) i)"
  using assms by (simp add: make_hregions_def Let_def)

lemma length_make_hregions: "length (make_hregions scr area fb) = length (ys_of scr area fb) - 1"
  by (simp add: make_hregions_def Let_def)

lemma fits_layers: "fits_arrays fb \<Longrightarrow> rgz_layerno fb \<le> 11"
  by (simp add: fits_arrays_def)

lemma disp_width_ge:
  "right area \<le> disp_width area fb" "j < rgz_layerno fb \<Longrightarrow> right (frame_of fb j) \<le> disp_width area fb"
proof -
  have mono: "w \<le> fold (\<lambda>j w. if w > right (frame_of fb j) then w else right (frame_of fb j)) js w" for js w
  proof (induction js arbitrary: w)
    case (Cons j js)
    from Cons.IH [of w] Cons.IH [of "right (frame_of fb j)"] show ?case by auto
  qed simp
  then show "right area \<le> disp_width area fb" by (simp add: disp_width_def)
  have "j \<in> set js \<Longrightarrow> right (frame_of fb j) \<le>
      fold (\<lambda>j w. if w > right (frame_of fb j) then w else right (frame_of fb j)) js w" for js w
    by (induction js arbitrary: w) (auto intro: order_trans [OF _ mono])
  then show "j < rgz_layerno fb \<Longrightarrow> right (frame_of fb j) \<le> disp_width area fb"
    by (simp add: disp_width_def)
qed

lemma hregion_at_simps:
  "hr_rect (hregion_at scr fb w ys i) = \<lparr>left = 0, top = ys ! i, right = min w (scr_width scr), bottom = ys ! Suc i\<rparr>"
  "hr_layers (hregion_at scr fb w ys i) =
     filter (\<lambda>j. RECT_INTERSECTS (hr_rect (hregion_at scr fb w ys i)) (frame_of fb j)) [0..<rgz_layerno fb]"
  by (auto simp: hregion_at_def Let_def)

text \<open>Everything a proof about one region needs.\<close>

lemma hregion_facts:
  fixes scr :: screen and area :: blit_rect_t and fb :: rgz_fb_state_t and i :: nat
  assumes "fits_arrays fb" and "i < length (make_hregions scr area fb)"
  defines "g \<equiv> make_hregions scr area fb ! i" and "ys \<equiv> ys_of scr area fb"
  shows "Suc i < length ys" "top (hr_rect g) = ys ! i" "bottom (hr_rect g) = ys ! Suc i"
    "left (hr_rect g) = 0" "right (hr_rect g) = min (disp_width area fb) (scr_width scr)"
    "hr_layers g = filter (\<lambda>j. RECT_INTERSECTS (hr_rect g) (frame_of fb j)) [0..<rgz_layerno fb]"
    "length (hr_layers g) \<le> 11" "nsubregions g = length (xs_of scr area fb (hr_layers g)) - 1"
    "blit_shape (blitrects g)" "length (xs_of scr area fb (hr_layers g)) \<le> 24"
    "l < length (hr_layers g) \<Longrightarrow> r < nsubregions g \<Longrightarrow> blitrects g ! l ! r =
       (let sub = subregion_rect (hr_rect g) (xs_of scr area fb (hr_layers g)) r in
        if RECT_INTERSECTS sub (frame_of fb (hr_layers g ! l)) then sub else zero_rect)"
proof -
  let ?h = "hregion_at scr fb (disp_width area fb) ys i"
  have g: "g = rgz_gen_blitregions scr area fb ?h"
    by (simp add: g_def ys_def make_hregions_nth [OF assms(2)])
  have n: "length (hr_layers ?h) \<le> 11"
    using hregion_layers_length [of scr fb "disp_width area fb" ys i] fits_layers [OF assms(1)] by simp
  note spec = gen_blitregions_spec [OF n, where scr = scr and area = area and fb = fb, folded g]
  show "Suc i < length ys" using assms(2) by (simp add: length_make_hregions ys_def)
  show "top (hr_rect g) = ys ! i" "bottom (hr_rect g) = ys ! Suc i" "left (hr_rect g) = 0"
    "right (hr_rect g) = min (disp_width area fb) (scr_width scr)"
    by (simp_all add: spec(1) hregion_at_simps(1))
  show "hr_layers g = filter (\<lambda>j. RECT_INTERSECTS (hr_rect g) (frame_of fb j)) [0..<rgz_layerno fb]"
    unfolding spec(1,2) by (rule hregion_at_simps(2))
  show "length (hr_layers g) \<le> 11" using n by (simp add: spec(2))
  show "nsubregions g = length (xs_of scr area fb (hr_layers g)) - 1"
    "length (xs_of scr area fb (hr_layers g)) \<le> 24" "blit_shape (blitrects g)"
    using spec(3-5) by (simp_all add: spec(2))
  show "blitrects g ! l ! r = (let sub = subregion_rect (hr_rect g) (xs_of scr area fb (hr_layers g)) r in
      if RECT_INTERSECTS sub (frame_of fb (hr_layers g ! l)) then sub else zero_rect)"
    if "l < length (hr_layers g)" "r < nsubregions g"
    using spec(6) [of l r] that by (simp add: spec(1,2))
qed

section \<open>Covering the screen\<close>

text \<open>A blit rectangle that shows a pixel is the subregion itself.\<close>

lemma blitrect_in:
  assumes "fits_arrays fb" "i < length (make_hregions scr area fb)"
    and "l < length (hr_layers (make_hregions scr area fb ! i))"
    and "r < nsubregions (make_hregions scr area fb ! i)"
    and "in_rect x y (blitrects (make_hregions scr area fb ! i) ! l ! r)"
  defines "g \<equiv> make_hregions scr area fb ! i"
  shows "ys_of scr area fb ! i \<le> y" "y < ys_of scr area fb ! Suc i"
    "xs_of scr area fb (hr_layers g) ! r \<le> x" "x < xs_of scr area fb (hr_layers g) ! Suc r"
    "Suc r < length (xs_of scr area fb (hr_layers g))"
    "RECT_INTERSECTS (subregion_rect (hr_rect g) (xs_of scr area fb (hr_layers g)) r)
       (frame_of fb (hr_layers g ! l))"
proof -
  note f = hregion_facts [OF assms(1,2), folded g_def]
  let ?sub = "subregion_rect (hr_rect g) (xs_of scr area fb (hr_layers g)) r"
  have b: "blitrects g ! l ! r = (if RECT_INTERSECTS ?sub (frame_of fb (hr_layers g ! l)) then ?sub else zero_rect)"
    using f(11) [of l r] assms(3,4) by (simp add: g_def Let_def)
  have z: "\<not> in_rect x y zero_rect" using in_rect_not_empty [of x y zero_rect] by auto
  show "RECT_INTERSECTS ?sub (frame_of fb (hr_layers g ! l))"
    using b z assms(5) by (auto simp: g_def split: if_splits)
  then have "in_rect x y ?sub" using b assms(5) by (simp add: g_def)
  then show "ys_of scr area fb ! i \<le> y" "y < ys_of scr area fb ! Suc i"
    "xs_of scr area fb (hr_layers g) ! r \<le> x" "x < xs_of scr area fb (hr_layers g) ! Suc r"
    using f(2,3) by (simp_all add: in_rect_def subregion_rect_def)
  show "Suc r < length (xs_of scr area fb (hr_layers g))" using f(8) assms(4) by (simp add: g_def)
qed

lemma regions_cover:
  assumes "fits_arrays fb" "j < rgz_layerno fb" "covers scr (rgz_layers fb ! j) x y"
  shows "\<exists>i l r. i < length (make_hregions scr area fb) \<and>
     l < length (hr_layers (make_hregions scr area fb ! i)) \<and>
     hr_layers (make_hregions scr area fb ! i) ! l = j \<and>
     r < nsubregions (make_hregions scr area fb ! i) \<and>
     in_rect x y (blitrects (make_hregions scr area fb ! i) ! l ! r)"
proof -
  have px: "0 \<le> x" "x < scr_width scr" "0 \<le> y" "y < scr_height scr" "in_rect x y (frame_of fb j)"
    using assms(3) by (auto simp: covers_def frame_of_def in_rect_def screen_rect_def)
  obtain i where i: "Suc i < length (ys_of scr area fb)" "ys_of scr area fb ! i \<le> y"
    "y < ys_of scr area fb ! Suc i"
    using rgz_cut.interval_exists [OF y_entries_edges [OF assms(2), of scr area], where x = y] px
    by (auto simp: in_rect_def)
  have iH: "i < length (make_hregions scr area fb)" using i by (simp add: length_make_hregions)
  let ?g = "make_hregions scr area fb ! i"
  note f = hregion_facts [OF assms(1) iH]
  have "in_rect x y (hr_rect ?g)"
    using f(2-5) i px disp_width_ge(2) [OF assms(2), of area] by (auto simp: in_rect_def)
  then have "j \<in> set (hr_layers ?g)"
    unfolding f(6) using in_both_intersects px(5) assms(2) by auto
  then obtain l where l: "l < length (hr_layers ?g)" "hr_layers ?g ! l = j" by (metis in_set_conv_nth)
  then have j: "j \<in> set (hr_layers ?g)" by (metis nth_mem)
  obtain r where r: "Suc r < length (xs_of scr area fb (hr_layers ?g))"
    "xs_of scr area fb (hr_layers ?g) ! r \<le> x" "x < xs_of scr area fb (hr_layers ?g) ! Suc r"
    using rgz_cut.interval_exists [OF x_offsets_edges [OF j, of fb scr area], where x = x] px
    by (auto simp: in_rect_def)
  let ?sub = "subregion_rect (hr_rect ?g) (xs_of scr area fb (hr_layers ?g)) r"
  have sub: "in_rect x y ?sub" using f(2,3) i r by (simp add: in_rect_def subregion_rect_def)
  have rn: "r < nsubregions ?g" using r f(8) by simp
  have "blitrects ?g ! l ! r = ?sub"
    using f(11) [OF l(1) rn] l(2) in_both_intersects [OF sub px(5)] by (simp add: Let_def)
  with sub have "in_rect x y (blitrects ?g ! l ! r)" by simp
  with iH l rn show ?thesis by blast
qed

lemma regions_disjoint:
  assumes "fits_arrays fb"
    and "i < length (make_hregions scr area fb)" "l < length (hr_layers (make_hregions scr area fb ! i))"
    "r < nsubregions (make_hregions scr area fb ! i)"
    "in_rect x y (blitrects (make_hregions scr area fb ! i) ! l ! r)"
    and "i' < length (make_hregions scr area fb)" "l' < length (hr_layers (make_hregions scr area fb ! i'))"
    "r' < nsubregions (make_hregions scr area fb ! i')"
    "in_rect x y (blitrects (make_hregions scr area fb ! i') ! l' ! r')"
  shows "i = i' \<and> r = r'"
proof -
  note b = blitrect_in [OF assms(1-5)] and b' = blitrect_in [OF assms(1) assms(6-9)]
  have "i = i'"
    using rgz_cut.interval_unique [of "y_entries scr area fb" i i' y] b(1,2) b'(1,2) assms(2,6)
    by (simp add: length_make_hregions)
  moreover have "r = r'"
    using rgz_cut.interval_unique [of "x_offsets scr area fb (hr_layers (make_hregions scr area fb ! i))" r r' x]
      b(3-5) b'(3-5) \<open>i = i'\<close> by simp
  ultimately show ?thesis ..
qed

text \<open>The vertical cuts of a region lie on the screen.\<close>

lemma x_offsets_range:
  assumes "fits_arrays fb" "area_on_screen scr area" "i < length (make_hregions scr area fb)"
    and "c \<in> set (x_offsets scr area fb (hr_layers (make_hregions scr area fb ! i)))"
  shows "0 \<le> c \<and> c \<le> scr_width scr"
proof -
  let ?g = "make_hregions scr area fb ! i"
  note f = hregion_facts [OF assms(1,3)]
  have "left (frame_of fb k) \<le> scr_width scr \<and> 0 \<le> right (frame_of fb k)" if "k \<in> set (hr_layers ?g)" for k
  proof -
    have "RECT_INTERSECTS (hr_rect ?g) (frame_of fb k)" using that unfolding f(6) by simp
    then show ?thesis using f(4,5) by (auto simp: RECT_INTERSECTS_def)
  qed
  moreover have "0 \<le> scr_width scr" using assms(2) by (auto simp: area_on_screen_def)
  ultimately show ?thesis using assms(2,4) by (auto simp: x_offsets_def area_on_screen_def)
qed

lemma regions_inside:
  assumes "fits_arrays fb" "area_on_screen scr area" "0 \<le> y" "y < scr_height scr"
    and "i < length (make_hregions scr area fb)" "l < length (hr_layers (make_hregions scr area fb ! i))"
    "r < nsubregions (make_hregions scr area fb ! i)"
    "in_rect x y (blitrects (make_hregions scr area fb ! i) ! l ! r)"
  shows "covers scr (rgz_layers fb ! (hr_layers (make_hregions scr area fb ! i) ! l)) x y"
proof -
  let ?g = "make_hregions scr area fb ! i"
  let ?j = "hr_layers ?g ! l" and ?xs = "xs_of scr area fb (hr_layers ?g)" and ?ys = "ys_of scr area fb"
  note f = hregion_facts [OF assms(1,5)] and b = blitrect_in [OF assms(1,5-8)]
  have j: "?j \<in> set (hr_layers ?g)" using assms(6) by simp
  then have jn: "?j < rgz_layerno fb" unfolding f(6) by simp
  have hit: "RECT_INTERSECTS (hr_rect ?g) (frame_of fb ?j)" using j unfolding f(6) by simp
  have scr: "0 \<le> scr_width scr" "0 \<le> scr_height scr" using assms(2) by (auto simp: area_on_screen_def)
  note range = x_offsets_range [OF assms(1,2,5)]
  have mem: "?xs ! r \<in> set (x_offsets scr area fb (hr_layers ?g))"
    "?xs ! Suc r \<in> set (x_offsets scr area fb (hr_layers ?g))"
    using b(5) by (auto intro!: rgz_cut.cuts_nth_mem)
  have x: "0 \<le> x" "x < scr_width scr" using range [OF mem(1)] range [OF mem(2)] b(3,4) by auto
  have "left (frame_of fb ?j) \<le> x" "x < right (frame_of fb ?j)"
    using rgz_cut.no_cut_inside [OF x_offsets_edges(1) [OF j, of fb scr area] b(5)]
      rgz_cut.no_cut_inside [OF x_offsets_edges(2) [OF j, of fb scr area] b(5)] b(3,4,6) x
    by (auto simp: RECT_INTERSECTS_def subregion_rect_def)
  moreover have "top (frame_of fb ?j) \<le> y" "y < bottom (frame_of fb ?j)"
    using rgz_cut.no_cut_inside [OF y_entries_edges(1) [OF jn, of scr area] f(1)]
      rgz_cut.no_cut_inside [OF y_entries_edges(2) [OF jn, of scr area] f(1)] b(1,2) hit f(2,3) assms(3,4)
    by (auto simp: RECT_INTERSECTS_def)
  ultimately show ?thesis
    using x assms(3,4) by (simp add: covers_def in_rect_def screen_rect_def frame_of_def)
qed

section \<open>Properties\<close>

lemma in_hwc_result:
  assumes "rgz_in_hwc alloc scr rgz = (rgz', True)"
  shows "fits_arrays (cur_fb_state rgz)"
    "hregions rgz' = make_hregions scr (damaged_area rgz) (cur_fb_state rgz)"
    "cur_fb_state rgz' = cur_fb_state rgz" "region_data rgz'"
  using assms
  by (auto simp: rgz_in_hwc_def rgz_delete_region_data_def fits_arrays_def Let_def split: if_splits)

text \<open>A pixel is shown for layer \<open>j\<close> by subregion \<open>r\<close> of horizontal region \<open>i\<close>.\<close>

definition blits_pixel :: "rgz_t \<Rightarrow> nat \<Rightarrow> nat \<Rightarrow> nat \<Rightarrow> int \<Rightarrow> int \<Rightarrow> bool" where
  "blits_pixel rgz j i r x y \<longleftrightarrow>
     i < length (hregions rgz) \<and> r < nsubregions (hregions rgz ! i) \<and>
     (\<exists>l < length (hr_layers (hregions rgz ! i)). hr_layers (hregions rgz ! i) ! l = j \<and>
        in_rect x y (blitrects (hregions rgz ! i) ! l ! r))"

text \<open>A frame with a background and one window, ready to be cut.\<close>

definition demo_rgz :: rgz_t where
  "demo_rgz = blank_rgz\<lparr>state_init := True, cur_fb_state := demo_frame [demo_bg, demo_window 0]\<rparr>"

definition demo_regions :: rgz_t where
  "demo_regions = fst (rgz_in_hwc True demo_screen demo_rgz)"

lemma demo_in_hwc: "rgz_in_hwc True demo_screen demo_rgz = (demo_regions, True)"
  by (simp add: demo_regions_def rgz_in_hwc_def demo_rgz_def demo_frame_def Let_def)

lemma demo_rgz_area: "area_on_screen demo_screen (damaged_area demo_rgz)"
  by (simp add: demo_rgz_def blank_rgz_def area_on_screen_def zero_rect_def demo_screen_def)

lemma demo_rgz_layer:
  "Suc 0 < rgz_layerno (cur_fb_state demo_rgz)"
  "covers demo_screen (rgz_layers (cur_fb_state demo_rgz) ! Suc 0) 50 50"
  by (simp_all add: demo_rgz_def demo_frame_defs covers_def in_rect_def)

lemma demo_blits: "\<exists>i r. blits_pixel demo_regions (Suc 0) i r 50 50"
  using regions_cover [OF in_hwc_result(1) [OF demo_in_hwc] demo_rgz_layer, of "damaged_area demo_rgz"]
  unfolding blits_pixel_def in_hwc_result(2) [OF demo_in_hwc] by blast

text \<open>C13: regionizing is exact: a pixel of the screen is shown for a layer in exactly one subregion if
  the layer covers it, and in none if it does not.\<close>

theorem regions_exact:
  assumes "rgz_in_hwc alloc scr rgz = (rgz', True)" and "area_on_screen scr (damaged_area rgz)"
    and "j < rgz_layerno (cur_fb_state rgz)" and "in_rect x y (screen_rect scr)"
  shows "if covers scr (rgz_layers (cur_fb_state rgz) ! j) x y
         then \<exists>!(i, r). blits_pixel rgz' j i r x y else \<forall>i r. \<not> blits_pixel rgz' j i r x y"
proof -
  note h = in_hwc_result [OF assms(1)]
  have y: "0 \<le> y" "y < scr_height scr" using assms(4) by (simp_all add: in_rect_def screen_rect_def)
  show ?thesis
  proof (cases "covers scr (rgz_layers (cur_fb_state rgz) ! j) x y")
    case True
    obtain i r where e: "blits_pixel rgz' j i r x y"
      using regions_cover [OF h(1) assms(3) True, of "damaged_area rgz"]
      unfolding blits_pixel_def h(2) by blast
    have "i' = i \<and> r' = r" if "blits_pixel rgz' j i' r' x y" for i' r'
      using e that regions_disjoint [OF h(1)] unfolding blits_pixel_def h(2) by metis
    with e True show ?thesis by auto
  next
    case False
    have "\<not> blits_pixel rgz' j i r x y" for i r
      using False regions_inside [OF h(1) assms(2) y] unfolding blits_pixel_def h(2) by metis
    with False show ?thesis by simp
  qed
qed

theorem regions_exact_witness: "\<exists>!(i, r). blits_pixel demo_regions (Suc 0) i r 50 50"
  using regions_exact [OF demo_in_hwc demo_rgz_area demo_rgz_layer(1), of 50 50] demo_rgz_layer(2)
  by (simp add: covers_def)

text \<open>Two subregions never show the same pixel, whatever the layers: every pixel of the screen
  belongs to at most one subregion.\<close>

lemma regions_no_overlap:
  assumes "rgz_in_hwc alloc scr rgz = (rgz', True)"
    and "blits_pixel rgz' j i r x y" and "blits_pixel rgz' j' i' r' x y"
  shows "i = i' \<and> r = r'"
  using assms(2,3) regions_disjoint [OF in_hwc_result(1) [OF assms(1)]]
  unfolding blits_pixel_def in_hwc_result(2) [OF assms(1)] by metis

text \<open>The region data fits its arrays: at most 23 subregions per horizontal region (of 25), at
  most eleven layers (of 13), and the rectangle array keeps its shape.\<close>

theorem regions_fit:
  assumes "rgz_in_hwc alloc scr rgz = (rgz', True)" and "i < length (hregions rgz')"
  shows "nsubregions (hregions rgz' ! i) \<le> 23 \<and> length (hr_layers (hregions rgz' ! i)) \<le> 11 \<and>
         blit_shape (blitrects (hregions rgz' ! i)) \<and> length (hregions rgz') \<le> 23"
proof -
  note h = in_hwc_result [OF assms(1)]
  have i: "i < length (make_hregions scr (damaged_area rgz) (cur_fb_state rgz))"
    using assms(2) h(2) by simp
  note f = hregion_facts [OF h(1) i]
  have "length (ys_of scr (damaged_area rgz) (cur_fb_state rgz)) \<le> 24"
    using rgz_cut.cuts_length [of "y_entries scr (damaged_area rgz) (cur_fb_state rgz)"]
      fits_layers [OF h(1)] by (simp add: length_y_entries)
  then have "length (make_hregions scr (damaged_area rgz) (cur_fb_state rgz)) \<le> 23"
    by (simp add: length_make_hregions)
  then show ?thesis unfolding h(2) using f(7-10) by auto
qed

text \<open>The layer check accepts eleven layers, but with the background the regionizer then has too
  many coordinates for its arrays: it refuses every frame with eleven layers.\<close>

lemma eleven_layers_refused:
  assumes "rgz_layerno (cur_fb_state rgz) = RGZ_INPUT_MAXLAYERS + 1"
  shows "rgz_in_hwc alloc scr rgz = (rgz, False)"
  using assms by (simp add: rgz_in_hwc_def)

end
