(* ===== verification/Rgz_Blit.thy ===== *)
theory Rgz_Blit
  imports Rgz_Regions
begin

text \<open>
  The output half of the regionizer (\<^verbatim>\<open>hwc/rgz_2d.c\<close>): the blit entries that
  \<open>rgz_out_region\<close> (and the painting variants) hand to the 2D core, one batch per dirty subregion.

  An entry of the array \<open>blts.bvcmds\<close> is a record with the fields the code sets
  (\<^verbatim>\<open>kernel-headers/linux/bltsville.h\<close>, \<^verbatim>\<open>video/omap_hwc.h\<close>); the sizes of rectangles and
  surfaces are unsigned, so they are 32-bit words, and flags are words with the values of the
  headers.  The list \<open>bvcmds\<close> holds the first \<open>idx\<close> entries, the others are zero.  Following
  the null or the dummy handle, using an index -1 and using a rectangle that was never set are
  faults.
\<close>

section \<open>Blit entries\<close>

datatype rgz_fault = Bad_handle | Bad_index | Unset_rect

record bvrect =
  br_left :: int
  br_top :: int
  br_width :: "32 word"
  br_height :: "32 word"

record bvsurfgeom =
  g_format :: ocdformat
  g_width :: "32 word"
  g_height :: "32 word"
  g_orientation :: int
  g_virtstride :: int

record bvbuffdesc =
  bd_length :: int
  bd_auxptr :: "32 word"

datatype bvop = Op_unset | Rop_SRCCOPY | BVBLEND_SRC1OVER

datatype bvscalemode = Scale_unset | BVSCALE_9x9_TAP | BVSCALE_BILINEAR

record rgz_blt_entry =
  bp_flags :: "32 word"
  bp_op :: bvop
  bp_scalemode :: bvscalemode
  bp_dstrect :: bvrect
  bp_src1rect :: bvrect
  bp_src2rect :: bvrect
  bp_cliprect :: bvrect
  bp_batchflags :: "32 word"
  bp_batch :: nat
  dstgeom :: bvsurfgeom
  src1geom :: bvsurfgeom
  src1desc :: bvbuffdesc
  src2geom :: bvsurfgeom
  src2desc :: bvbuffdesc

definition zero_bvrect :: bvrect where
  "zero_bvrect = \<lparr>br_left = 0, br_top = 0, br_width = 0, br_height = 0\<rparr>"

definition zero_geom :: bvsurfgeom where
  "zero_geom = \<lparr>g_format = OCDFMT_UNKNOWN, g_width = 0, g_height = 0, g_orientation = 0, g_virtstride = 0\<rparr>"

definition zero_desc :: bvbuffdesc where
  "zero_desc = \<lparr>bd_length = 0, bd_auxptr = 0\<rparr>"

definition zero_entry :: rgz_blt_entry where
  "zero_entry = \<lparr>bp_flags = 0, bp_op = Op_unset, bp_scalemode = Scale_unset, bp_dstrect = zero_bvrect,
     bp_src1rect = zero_bvrect, bp_src2rect = zero_bvrect, bp_cliprect = zero_bvrect,
     bp_batchflags = 0, bp_batch = 0, dstgeom = zero_geom, src1geom = zero_geom,
     src1desc = zero_desc, src2geom = zero_geom, src2desc = zero_desc\<rparr>"

abbreviation (input) BVFLAG_ROP :: "32 word" where "BVFLAG_ROP \<equiv> 0x1"
abbreviation (input) BVFLAG_BLEND :: "32 word" where "BVFLAG_BLEND \<equiv> 0x2"
abbreviation (input) BVFLAG_CLIP :: "32 word" where "BVFLAG_CLIP \<equiv> 0x40"
abbreviation (input) BVFLAG_ASYNC :: "32 word" where "BVFLAG_ASYNC \<equiv> 0x100"
abbreviation (input) BVFLAG_BATCH_MASK :: "32 word" where "BVFLAG_BATCH_MASK \<equiv> 0x3000"
abbreviation (input) BVFLAG_BATCH_BEGIN :: "32 word" where "BVFLAG_BATCH_BEGIN \<equiv> 0x1000"
abbreviation (input) BVFLAG_BATCH_CONTINUE :: "32 word" where "BVFLAG_BATCH_CONTINUE \<equiv> 0x2000"
abbreviation (input) BVFLAG_BATCH_END :: "32 word" where "BVFLAG_BATCH_END \<equiv> 0x3000"

abbreviation (input) BVBATCH_OP :: "32 word" where "BVBATCH_OP \<equiv> 0x1"
abbreviation (input) BVBATCH_SCALE :: "32 word" where "BVBATCH_SCALE \<equiv> 0x20"
abbreviation (input) BVBATCH_DST :: "32 word" where "BVBATCH_DST \<equiv> 0x100"
abbreviation (input) BVBATCH_SRC1 :: "32 word" where "BVBATCH_SRC1 \<equiv> 0x200"
abbreviation (input) BVBATCH_SRC2 :: "32 word" where "BVBATCH_SRC2 \<equiv> 0x400"
abbreviation (input) BVBATCH_DSTRECT :: "32 word" where "BVBATCH_DSTRECT \<equiv> 0x3000"
abbreviation (input) BVBATCH_SRC1RECT :: "32 word" where "BVBATCH_SRC1RECT \<equiv> 0xC000"
abbreviation (input) BVBATCH_SRC2RECT :: "32 word" where "BVBATCH_SRC2RECT \<equiv> 0x30000"
abbreviation (input) BVBATCH_CLIPRECT :: "32 word" where "BVBATCH_CLIPRECT \<equiv> 0x300000"

abbreviation (input) HWC_BLT_DESC_FB_FN0 :: "32 word" where "HWC_BLT_DESC_FB_FN0 \<equiv> 0xC0000000"
abbreviation (input) RGZ_MAX_BLITS :: nat where "RGZ_MAX_BLITS \<equiv> 625"

fun flip_bits :: "flip_flags \<Rightarrow> 32 word" where
  "flip_bits No_flip = 0"
| "flip_bits Horz_flip_src1 = 0x4000"
| "flip_bits Vert_flip_src1 = 0x8000"
| "flip_bits Horz_flip_src2 = 0x10000"
| "flip_bits Vert_flip_src2 = 0x20000"

text \<open>
  The parameters of \<open>rgz_out\<close> it reads; the command variants count their blits.  The output
  state is the array of entries in use and the counter \<open>out_blits\<close>.
\<close>

datatype rgz_out_op = RGZ_OUT_SVG | RGZ_OUT_BVCMD_PAINT | RGZ_OUT_BVCMD_REGION
  | RGZ_OUT_BVDIRECT_PAINT | RGZ_OUT_BVDIRECT_REGION | RGZ_OUT_other

record rgz_out_params_t =
  out_op :: rgz_out_op
  screen_geom :: bvsurfgeom
  noblend :: bool

record out_state =
  bvcmds :: "rgz_blt_entry list"
  out_blits :: nat

definition IS_BVCMD :: "rgz_out_params_t \<Rightarrow> bool" where
  "IS_BVCMD p \<longleftrightarrow> out_op p = RGZ_OUT_BVCMD_REGION \<or> out_op p = RGZ_OUT_BVCMD_PAINT"

section \<open>The pool of entries\<close>

definition rgz_blts_get :: "rgz_out_params_t \<Rightarrow> out_state \<Rightarrow> out_state \<times> nat" where
  "rgz_blts_get p st =
     (if length (bvcmds st) < RGZ_MAX_BLITS
      then (st\<lparr>bvcmds := bvcmds st @ [zero_entry],
               out_blits := out_blits st + (if IS_BVCMD p then 1 else 0)\<rparr>, length (bvcmds st))
      else (st, length (bvcmds st) - 1))"

text \<open>Filling the entry at an index.\<close>

definition put_entry :: "nat \<Rightarrow> (rgz_blt_entry \<Rightarrow> rgz_fault + rgz_blt_entry) \<Rightarrow> out_state \<Rightarrow>
    rgz_fault + out_state" where
  "put_entry i f st = andThen (f (bvcmds st ! i)) (\<lambda>e. Inr (st\<lparr>bvcmds := (bvcmds st)[i := e]\<rparr>))"

definition rgz_set_async :: "bool \<Rightarrow> rgz_blt_entry \<Rightarrow> rgz_blt_entry" where
  "rgz_set_async on e =
     e\<lparr>bp_flags := (if on then bp_flags e OR BVFLAG_ASYNC else bp_flags e AND NOT BVFLAG_ASYNC)\<rparr>"

definition rgz_batch_entry :: "32 word \<Rightarrow> 32 word \<Rightarrow> rgz_blt_entry \<Rightarrow> rgz_blt_entry" where
  "rgz_batch_entry flag bits e =
     e\<lparr>bp_flags := (bp_flags e AND NOT BVFLAG_BATCH_MASK) OR flag,
       bp_batchflags := bp_batchflags e OR bits\<rparr>"

section \<open>Filling an entry\<close>

definition to_bvrect :: "blit_rect_t \<Rightarrow> bvrect" where
  "to_bvrect r = \<lparr>br_left = left r, br_top = top r, br_width = word_of_int (WIDTH r),
                  br_height = word_of_int (HEIGHT r)\<rparr>"

text \<open>The corner of a rectangle is computed in unsigned arithmetic and stored in an \<open>int\<close>.\<close>

definition of_bvrect :: "bvrect \<Rightarrow> blit_rect_t" where
  "of_bvrect b = \<lparr>left = br_left b, top = br_top b,
                  right = sint (word_of_int (br_left b) + br_width b),
                  bottom = sint (word_of_int (br_top b) + br_height b)\<rparr>"

definition geom_rect :: "bvsurfgeom \<Rightarrow> blit_rect_t" where
  "geom_rect g = \<lparr>left = 0, top = 0, right = sint (g_width g), bottom = sint (g_height g)\<rparr>"

definition turn_geom :: "int \<Rightarrow> bvsurfgeom \<Rightarrow> bvsurfgeom" where
  "turn_geom orient g =
     (if orient mod 180 \<noteq> 0 then g\<lparr>g_width := g_height g, g_height := g_width g\<rparr> else g)"

definition rotate_bvrect :: "bvsurfgeom \<Rightarrow> int \<Rightarrow> bvrect \<Rightarrow> rgz_fault + bvrect" where
  "rotate_bvrect g orient b =
     (case rgz_get_rotated_view (geom_rect g) (of_bvrect b) orient of
        None \<Rightarrow> Inl Unset_rect | Some r \<Rightarrow> Inr (to_bvrect r))"

definition rgz_rotate_dst :: "int \<Rightarrow> rgz_blt_entry \<Rightarrow> rgz_fault + rgz_blt_entry" where
  "rgz_rotate_dst orient e =
     andThen (rotate_bvrect (dstgeom e) orient (bp_dstrect e)) (\<lambda>d.
     andThen (rotate_bvrect (dstgeom e) orient (bp_cliprect e)) (\<lambda>c.
       Inr (e\<lparr>bp_dstrect := d, bp_cliprect := c, dstgeom := turn_geom orient (dstgeom e)\<rparr>)))"

definition rgz_set_dst_data :: "rgz_out_params_t \<Rightarrow> blit_rect_t \<Rightarrow> int \<Rightarrow> rgz_blt_entry \<Rightarrow>
    rgz_fault + rgz_blt_entry" where
  "rgz_set_dst_data p rect orient e =
     (let g = screen_geom p;
          e = e\<lparr>dstgeom := \<lparr>g_format = g_format g, g_width = g_width g, g_height = g_height g,
                  g_orientation = orient, g_virtstride = g_virtstride g\<rparr>,
                bp_dstrect := to_bvrect rect\<rparr>
      in if orient \<noteq> 0 then rgz_rotate_dst orient e else Inr e)"

text \<open>
  The source of an entry, \<open>src1\<close> or \<open>src2\<close>: its geometry, the part of the buffer to use and the
  index of the buffer.
\<close>

definition src_geom :: "IMG_native_handle_t \<Rightarrow> bvsurfgeom" where
  "src_geom h = \<lparr>g_format = hal_to_ocd (iFormat h), g_width = word_of_int (iWidth h),
     g_height = word_of_int (iHeight h), g_orientation = 0, g_virtstride = rgz_handle_to_stride h\<rparr>"

definition rgz_rotate_src :: "int \<Rightarrow> bvsurfgeom \<times> bvrect \<Rightarrow> rgz_fault + bvsurfgeom \<times> bvrect" where
  "rgz_rotate_src orient gr =
     (case gr of (g, r) \<Rightarrow>
        andThen (rotate_bvrect g orient r) (\<lambda>r. Inr (turn_geom orient g, r)))"

definition rgz_set_src_data :: "heap \<Rightarrow> rgz_layer_t \<Rightarrow> blit_rect_t \<Rightarrow> int \<Rightarrow> bool \<Rightarrow> rgz_blt_entry \<Rightarrow>
    rgz_fault + rgz_blt_entry" where
  "rgz_set_src_data mem rl rect orient is_src2 e =
     (let l = hwc_layer rl; h = mem (handle l);
          desc = \<lparr>bd_length = iHeight h * rgz_handle_to_stride h, bd_auxptr = word_of_int (buffidx rl)\<rparr>
      in case rgz_get_src_rect l rect of
           None \<Rightarrow> Inl Unset_rect
         | Some r \<Rightarrow>
             andThen (if orient \<noteq> 0
                      then rgz_rotate_src orient ((src_geom h)\<lparr>g_orientation := orient\<rparr>, to_bvrect r)
                      else Inr (src_geom h, to_bvrect r))
               (\<lambda>(g, sr). Inr (if is_src2
                  then e\<lparr>src2desc := desc, src2geom := g, bp_src2rect := sr\<rparr>
                  else e\<lparr>src1desc := desc, src1geom := g, bp_src1rect := sr\<rparr>)))"

text \<open>
  The bounds of the screen are unsigned, so \<open>min\<close> compares and converts as unsigned: a negative
  coordinate is larger than any bound.
\<close>

definition umin :: "32 word \<Rightarrow> int \<Rightarrow> int" where
  "umin w v = sint (min w (word_of_int v))"

definition screen_clip :: "rgz_out_params_t \<Rightarrow> blit_rect_t \<Rightarrow> blit_rect_t" where
  "screen_clip p r =
     \<lparr>left = max 0 (left r), top = max 0 (top r),
      right = umin (g_width (screen_geom p)) (right r),
      bottom = umin (g_height (screen_geom p)) (bottom r)\<rparr>"

definition rgz_set_clip_rect :: "rgz_out_params_t \<Rightarrow> blit_rect_t \<Rightarrow> rgz_blt_entry \<Rightarrow> rgz_blt_entry" where
  "rgz_set_clip_rect p rect e = e\<lparr>bp_cliprect := to_bvrect (screen_clip p rect)\<rparr>"

definition rgz_set_src2_is_dst :: "rgz_blt_entry \<Rightarrow> rgz_blt_entry" where
  "rgz_set_src2_is_dst e =
     e\<lparr>src2geom := dstgeom e, src2desc := (src2desc e)\<lparr>bd_auxptr := HWC_BLT_DESC_FB_FN0\<rparr>,
       bp_src2rect := bp_dstrect e\<rparr>"

definition rgz_is_layer_nv12 :: "heap \<Rightarrow> hwc_layer_1_t \<Rightarrow> bool" where
  "rgz_is_layer_nv12 mem l = is_NV12 (iFormat (mem (handle l)))"

definition rgz_cfg_scale_mode :: "heap \<Rightarrow> hwc_layer_1_t \<Rightarrow> rgz_blt_entry \<Rightarrow> rgz_blt_entry" where
  "rgz_cfg_scale_mode mem l e =
     e\<lparr>bp_scalemode := (if rgz_is_layer_nv12 mem l then BVSCALE_9x9_TAP else BVSCALE_BILINEAR)\<rparr>"

section \<open>Copy, blend and clear\<close>

text \<open>
  The part \<open>rgz_hwc_subregion_copy\<close> and \<open>rgz_hwc_subregion_blend\<close> share: a scaled layer is drawn
  as a whole and cut by the clipping rectangle; for NV12 the destination is turned instead of the
  source.
\<close>

definition src1_entry :: "heap \<Rightarrow> rgz_out_params_t \<Rightarrow> blit_rect_t \<Rightarrow> rgz_layer_t \<Rightarrow> rgz_blt_entry \<Rightarrow>
    rgz_fault + rgz_blt_entry" where
  "src1_entry mem p rect rl e =
     (let l = hwc_layer rl;
          e = rgz_set_async True (e\<lparr>bp_flags := bp_flags e OR flip_bits (rgz_get_flip_flags (transform l) False)\<rparr>);
          tmp = (if rgz_hwc_scaled l then rgz_get_displayframe_rect l else rect);
          e = (if rgz_hwc_scaled l then rgz_cfg_scale_mode mem l e else e);
          orient = rgz_get_orientation (transform l);
          dst_orient = (if rgz_is_layer_nv12 mem l then 360 - orient else 0);
          src_orient = (if rgz_is_layer_nv12 mem l then 0 else orient)
      in andThen (rgz_set_src_data mem rl tmp src_orient False e) (\<lambda>e.
           rgz_set_dst_data p tmp dst_orient (rgz_set_clip_rect p rect e)))"

definition copy_entry :: "heap \<Rightarrow> rgz_out_params_t \<Rightarrow> blit_rect_t \<Rightarrow> rgz_layer_t \<Rightarrow> rgz_blt_entry \<Rightarrow>
    rgz_fault + rgz_blt_entry" where
  "copy_entry mem p rect rl e =
     andThen (src1_entry mem p rect rl (e\<lparr>bp_op := Rop_SRCCOPY, bp_flags := BVFLAG_CLIP OR BVFLAG_ROP\<rparr>))
       (\<lambda>e. Inr (if g_format (src1geom e) \<in> {OCDFMT_BGR124, OCDFMT_RGB124, OCDFMT_RGB16}
                 then e\<lparr>dstgeom := (dstgeom e)\<lparr>g_format := OCDFMT_BGR124\<rparr>\<rparr> else e))"

definition blend_entry :: "heap \<Rightarrow> rgz_out_params_t \<Rightarrow> blit_rect_t \<Rightarrow> rgz_layer_t \<Rightarrow>
    rgz_layer_t option \<Rightarrow> rgz_blt_entry \<Rightarrow> rgz_fault + rgz_blt_entry" where
  "blend_entry mem p rect rl src2 e =
     andThen (src1_entry mem p rect rl (e\<lparr>bp_op := BVBLEND_SRC1OVER, bp_flags := BVFLAG_CLIP OR BVFLAG_BLEND\<rparr>))
       (\<lambda>e. case src2 of
          Some r2 \<Rightarrow>
            rgz_set_src_data mem r2 rect (rgz_get_orientation (transform (hwc_layer r2))) True
              (e\<lparr>bp_flags := bp_flags e OR flip_bits (rgz_get_flip_flags (transform (hwc_layer r2)) True)\<rparr>)
        | None \<Rightarrow> Inr (rgz_set_src2_is_dst e))"

text \<open>The clearing entry: its source is one transparent pixel that the kernel provides (index -1).\<close>

definition clear_entry :: "rgz_out_params_t \<Rightarrow> blit_rect_t \<Rightarrow> rgz_blt_entry \<Rightarrow> rgz_fault + rgz_blt_entry" where
  "clear_entry p rect e =
     rgz_set_dst_data p rect 0 (rgz_set_clip_rect p rect
       ((rgz_set_async True (e\<lparr>bp_op := Rop_SRCCOPY, bp_flags := BVFLAG_CLIP OR BVFLAG_ROP\<rparr>))
        \<lparr>src1desc := \<lparr>bd_length = 4, bd_auxptr = -1\<rparr>,
         src1geom := (src1geom e)\<lparr>g_format := OCDFMT_RGBA24, g_orientation := 0, g_width := 1, g_height := 1\<rparr>,
         bp_src1rect := \<lparr>br_left = 0, br_top = 0, br_width = 1, br_height = 1\<rparr>\<rparr>))"

text \<open>The three operations on the pool; the first two return the index of their entry.\<close>

definition live_handle :: "rgz_layer_t \<Rightarrow> bool" where
  "live_handle rl \<longleftrightarrow> 1 < handle (hwc_layer rl)"

definition rgz_hwc_subregion_copy :: "heap \<Rightarrow> rgz_out_params_t \<Rightarrow> blit_rect_t \<Rightarrow> rgz_layer_t \<Rightarrow>
    out_state \<Rightarrow> rgz_fault + out_state \<times> nat" where
  "rgz_hwc_subregion_copy mem p rect src1 st =
     (if \<not> live_handle src1 then Inl Bad_handle
      else case rgz_blts_get p st of
        (st, i) \<Rightarrow> andThen (put_entry i (copy_entry mem p rect src1) st) (\<lambda>st. Inr (st, i)))"

definition rgz_hwc_subregion_blend :: "heap \<Rightarrow> rgz_out_params_t \<Rightarrow> blit_rect_t \<Rightarrow> rgz_layer_t \<Rightarrow>
    rgz_layer_t option \<Rightarrow> out_state \<Rightarrow> rgz_fault + out_state \<times> nat" where
  "rgz_hwc_subregion_blend mem p rect src1 src2 st =
     (if \<not> live_handle src1 \<or> \<not> pred_option live_handle src2 then Inl Bad_handle
      else case rgz_blts_get p st of
        (st, i) \<Rightarrow> andThen (put_entry i (blend_entry mem p rect src1 src2) st) (\<lambda>st. Inr (st, i)))"

text \<open>\<open>None\<close> clears the whole screen.\<close>

definition rgz_out_clrdst :: "rgz_out_params_t \<Rightarrow> blit_rect_t option \<Rightarrow> out_state \<Rightarrow>
    rgz_fault + out_state" where
  "rgz_out_clrdst p rect st =
     (case rgz_blts_get p st of
        (st, i) \<Rightarrow> put_entry i (clear_entry p
          (case rect of Some r \<Rightarrow> r | None \<Rightarrow> geom_rect (screen_geom p))) st)"

section \<open>The layers of a subregion\<close>

text \<open>The layer at an index of a horizontal region, and its rectangle in a subregion.\<close>

definition layer_at :: "rgz_fb_state_t \<Rightarrow> blit_hregion_t \<Rightarrow> nat \<Rightarrow> rgz_layer_t" where
  "layer_at fb hr l = rgz_layers fb ! (hr_layers hr ! l)"

definition rect_at :: "blit_hregion_t \<Rightarrow> nat \<Rightarrow> nat \<Rightarrow> blit_rect_t" where
  "rect_at hr s l = blitrects hr ! l ! s"

definition nlayers :: "blit_hregion_t \<Rightarrow> nat" where
  "nlayers hr = length (hr_layers hr)"

text \<open>\<open>get_top_rect\<close>: the loop over the first \<open>n\<close> layers, from the front; \<open>r\<close> is \<open>*routp\<close>.\<close>

fun top_rect_loop :: "blit_hregion_t \<Rightarrow> nat \<Rightarrow> nat \<Rightarrow> blit_rect_t \<Rightarrow> nat option \<times> blit_rect_t" where
  "top_rect_loop hr s 0 r = (None, r)"
| "top_rect_loop hr s (Suc l) r =
     (if \<not> empty_rect (rect_at hr s l) then (Some l, rect_at hr s l)
      else top_rect_loop hr s l (rect_at hr s l))"

definition get_top_rect :: "blit_hregion_t \<Rightarrow> nat \<Rightarrow> nat option \<times> blit_rect_t" where
  "get_top_rect hr s = top_rect_loop hr s (nlayers hr) zero_rect"

text \<open>
  \<open>get_layer_ops\<close>: the loop over the first \<open>n\<close> layers, from the front, until the first layer that
  needs no blending; the result is the number of operations and the index of the bottom layer.
\<close>

fun layer_ops_loop :: "heap \<Rightarrow> rgz_fb_state_t \<Rightarrow> blit_hregion_t \<Rightarrow> nat \<Rightarrow> nat \<Rightarrow> nat \<Rightarrow> nat option \<Rightarrow>
    rgz_fault + nat \<times> nat option" where
  "layer_ops_loop mem fb hr s 0 ops btm = Inr (ops, btm)"
| "layer_ops_loop mem fb hr s (Suc l) ops btm =
     (if \<not> empty_rect (rect_at hr s l) then
        (let rl = layer_at fb hr l in
         if blending (hwc_layer rl) \<noteq> HWC_BLENDING_PREMULT then Inr (Suc ops, Some l)
         else if \<not> live_handle rl then Inl Bad_handle
         else if is_OPAQUE (iFormat (mem (handle (hwc_layer rl)))) then Inr (Suc ops, Some l)
         else layer_ops_loop mem fb hr s l (Suc ops) (Some l))
      else layer_ops_loop mem fb hr s l ops btm)"

definition get_layer_ops :: "heap \<Rightarrow> rgz_fb_state_t \<Rightarrow> blit_hregion_t \<Rightarrow> nat \<Rightarrow>
    rgz_fault + nat \<times> nat option" where
  "get_layer_ops mem fb hr s =
     (if nlayers hr = 0 then Inl Bad_index else layer_ops_loop mem fb hr s (nlayers hr) 0 None)"

definition get_layer_ops_next :: "blit_hregion_t \<Rightarrow> nat \<Rightarrow> nat \<Rightarrow> nat option" where
  "get_layer_ops_next hr s l = find (\<lambda>k. \<not> empty_rect (rect_at hr s k)) [Suc l..<nlayers hr]"

lemma get_layer_ops_next_bounds: "get_layer_ops_next hr s l = Some k \<Longrightarrow> l < k \<and> k < nlayers hr"
  by (auto simp: get_layer_ops_next_def find_Some_iff)

section \<open>The blits of a subregion\<close>

text \<open>Whether the bottom layer or one above it is dirty.\<close>

function dirty_scan :: "rgz_fb_state_t \<Rightarrow> blit_hregion_t \<Rightarrow> nat \<Rightarrow> nat \<Rightarrow> bool" where
  "dirty_scan fb hr s l =
     (if dirty_count (layer_at fb hr l) \<noteq> 0 then True
      else case get_layer_ops_next hr s l of None \<Rightarrow> False | Some k \<Rightarrow> dirty_scan fb hr s k)"
  by pat_completeness auto
termination
  by (relation "measure (\<lambda>(fb, hr, s, l). nlayers hr - l)") (auto dest: get_layer_ops_next_bounds)

declare dirty_scan.simps [simp del]

definition subregion_dirty :: "rgz_fb_state_t \<Rightarrow> blit_hregion_t \<Rightarrow> nat \<Rightarrow> blit_rect_t \<Rightarrow> nat \<Rightarrow> bool" where
  "subregion_dirty fb hr s area lix =
     (if RECT_INTERSECTS area (rect_at hr s lix) then True else dirty_scan fb hr s lix)"

text \<open>The flags that tell the 2D core what changed since the previous blit of the batch.\<close>

definition batch_changes :: "32 word \<Rightarrow> bool \<Rightarrow> bool \<Rightarrow> 32 word" where
  "batch_changes first scaled nv12 =
     first OR BVBATCH_SRC1 OR BVBATCH_SRC1RECT
     OR (if scaled then BVBATCH_DSTRECT OR BVBATCH_SRC2RECT OR BVBATCH_SCALE else 0)
     OR (if nv12 then BVBATCH_DST OR BVBATCH_DSTRECT OR BVBATCH_SRC2 OR BVBATCH_SRC2RECT OR BVBATCH_CLIPRECT
         else 0)"

text \<open>The rest of the layers, blended with the framebuffer; the result has the index of the last entry.\<close>

function blend_rest :: "heap \<Rightarrow> rgz_out_params_t \<Rightarrow> rgz_fb_state_t \<Rightarrow> blit_hregion_t \<Rightarrow> nat \<Rightarrow>
    blit_rect_t \<Rightarrow> 32 word \<Rightarrow> bool \<Rightarrow> bool \<Rightarrow> nat \<Rightarrow> out_state \<times> nat \<Rightarrow> rgz_fault + out_state \<times> nat" where
  "blend_rest mem p fb hr s rect first prev_scaled prev_nv12 lix si =
     (case get_layer_ops_next hr s lix of
        None \<Rightarrow> Inr si
      | Some k \<Rightarrow>
          (let src1 = layer_at fb hr k; scaled = rgz_hwc_scaled (hwc_layer src1);
               nv12 = rgz_is_layer_nv12 mem (hwc_layer src1)
           in andThen (rgz_hwc_subregion_blend mem p rect src1 None (fst si)) (\<lambda>(st, i).
              andThen (put_entry i (Inr \<circ> rgz_batch_entry BVFLAG_BATCH_CONTINUE
                         (batch_changes first (scaled \<or> prev_scaled) (nv12 \<or> prev_nv12))) st) (\<lambda>st.
                blend_rest mem p fb hr s rect 0 scaled nv12 k (st, i)))))"
  by pat_completeness auto
termination
  by (relation "measure (\<lambda>(mem, p, fb, hr, s, rect, first, ps, pn, lix, si). nlayers hr - lix)")
     (auto dest: get_layer_ops_next_bounds)

declare blend_rest.simps [simp del]

text \<open>The first blit of a blended subregion: the two lowest layers together, or a copy of the lowest.\<close>

definition first_blit :: "heap \<Rightarrow> rgz_out_params_t \<Rightarrow> rgz_fb_state_t \<Rightarrow> blit_hregion_t \<Rightarrow> nat \<Rightarrow> nat \<Rightarrow> nat \<Rightarrow>
    blit_rect_t \<Rightarrow> out_state \<Rightarrow> rgz_fault + (out_state \<times> nat) \<times> nat \<times> 32 word \<times> bool \<times> bool" where
  "first_blit mem p fb hr s s2lix lix rect st =
     (let src1 = layer_at fb hr lix; src2 = layer_at fb hr s2lix;
          scaled = rgz_hwc_scaled (hwc_layer src1) \<or> rgz_hwc_scaled (hwc_layer src2)
      in if \<not> scaled \<and> (\<not> live_handle src1 \<or> \<not> live_handle src2) then Inl Bad_handle
         else if rgz_can_blend_together mem (hwc_layer src1) (hwc_layer src2)
         then andThen (rgz_hwc_subregion_blend mem p rect src1 (Some src2) st) (\<lambda>si.
                Inr (si, lix, 0, False, False))
         else andThen (rgz_hwc_subregion_copy mem p rect src2 st) (\<lambda>si.
                Inr (si, s2lix, BVBATCH_OP, rgz_is_layer_nv12 mem (hwc_layer src2),
                     rgz_hwc_scaled (hwc_layer src2))))"

definition blend_subregion :: "heap \<Rightarrow> rgz_out_params_t \<Rightarrow> rgz_fb_state_t \<Rightarrow> blit_hregion_t \<Rightarrow> nat \<Rightarrow> nat \<Rightarrow>
    out_state \<Rightarrow> rgz_fault + out_state" where
  "blend_subregion mem p fb hr s s2lix st =
     (case get_layer_ops_next hr s s2lix of
        None \<Rightarrow> Inl Bad_index
      | Some lix \<Rightarrow>
          andThen (first_blit mem p fb hr s s2lix lix (rect_at hr s s2lix) st)
            (\<lambda>((st, i), lix, first, prev_nv12, prev_scaled).
          andThen (put_entry i (Inr \<circ> rgz_batch_entry BVFLAG_BATCH_BEGIN 0) st) (\<lambda>st.
          andThen (blend_rest mem p fb hr s (rect_at hr s s2lix)
                     (first OR BVBATCH_SRC2 OR BVBATCH_SRC2RECT) prev_scaled prev_nv12 lix (st, i))
            (\<lambda>(st, i).
              put_entry i (\<lambda>e. Inr (if bp_flags e AND BVFLAG_BATCH_BEGIN \<noteq> 0
                                    then rgz_batch_entry 0 0 e
                                    else rgz_batch_entry BVFLAG_BATCH_END 0 e)) st))))"

text \<open>A copy of the bottom layer, or without blending of the top one.\<close>

definition copy_subregion :: "heap \<Rightarrow> rgz_out_params_t \<Rightarrow> rgz_fb_state_t \<Rightarrow> blit_hregion_t \<Rightarrow> nat \<Rightarrow> nat \<Rightarrow>
    out_state \<Rightarrow> rgz_fault + out_state" where
  "copy_subregion mem p fb hr s lix st =
     (case (if noblend p then get_top_rect hr s else (Some lix, rect_at hr s lix)) of
        (None, rect) \<Rightarrow> Inl Bad_index
      | (Some lix, rect) \<Rightarrow>
          andThen (rgz_hwc_subregion_copy mem p rect (layer_at fb hr lix) st) (\<lambda>(st, i). Inr st))"

text \<open>
  A layer that is only there to clear (the background, then a layer with the clear hint) is dropped
  from the bottom, or clears the subregion when it is alone.
\<close>

definition draw_subregion :: "heap \<Rightarrow> rgz_out_params_t \<Rightarrow> rgz_fb_state_t \<Rightarrow> blit_hregion_t \<Rightarrow> nat \<Rightarrow> nat \<Rightarrow> nat \<Rightarrow>
    out_state \<Rightarrow> rgz_fault + out_state" where
  "draw_subregion mem p fb hr s ldepth lix st =
     (if \<not> noblend p \<and> 1 < ldepth then blend_subregion mem p fb hr s lix st
      else copy_subregion mem p fb hr s lix st)"

definition draw_above_clear :: "heap \<Rightarrow> rgz_out_params_t \<Rightarrow> rgz_fb_state_t \<Rightarrow> blit_hregion_t \<Rightarrow> nat \<Rightarrow> nat \<Rightarrow> nat \<Rightarrow>
    out_state \<Rightarrow> rgz_fault + out_state" where
  "draw_above_clear mem p fb hr s ldepth lix st =
     (if buffidx (layer_at fb hr lix) = RGZ_CLEARHINT_BUFFIDX then
        (if ldepth - 1 = 0 then rgz_out_clrdst p (Some (rect_at hr s lix)) st
         else case get_layer_ops_next hr s lix of
           None \<Rightarrow> Inl Bad_index
         | Some lix \<Rightarrow> draw_subregion mem p fb hr s (ldepth - 1) lix st)
      else draw_subregion mem p fb hr s ldepth lix st)"

definition draw_above_background :: "heap \<Rightarrow> rgz_out_params_t \<Rightarrow> rgz_fb_state_t \<Rightarrow> blit_hregion_t \<Rightarrow> nat \<Rightarrow>
    nat \<Rightarrow> nat \<Rightarrow> out_state \<Rightarrow> rgz_fault + out_state" where
  "draw_above_background mem p fb hr s ldepth lix st =
     (if buffidx (layer_at fb hr lix) = RGZ_BACKGROUND_BUFFIDX then
        (if ldepth = 1 then rgz_out_clrdst p (Some (rect_at hr s lix)) st
         else case get_layer_ops_next hr s lix of
           None \<Rightarrow> Inl Bad_index
         | Some lix \<Rightarrow> draw_above_clear mem p fb hr s (ldepth - 1) lix st)
      else draw_above_clear mem p fb hr s ldepth lix st)"

text \<open>The second component is \<open>True\<close> for the return value 0 and \<open>False\<close> for -1.\<close>

definition rgz_hwc_subregion_blit :: "heap \<Rightarrow> rgz_out_params_t \<Rightarrow> rgz_fb_state_t \<Rightarrow> blit_rect_t \<Rightarrow>
    blit_hregion_t \<Rightarrow> nat \<Rightarrow> out_state \<Rightarrow> rgz_fault + out_state \<times> bool" where
  "rgz_hwc_subregion_blit mem p fb area hr s st =
     andThen (get_layer_ops mem fb hr s) (\<lambda>(ldepth, lix).
       case lix of
         None \<Rightarrow> Inr (st, False)
       | Some lix \<Rightarrow>
           if \<not> subregion_dirty fb hr s area lix then Inr (st, True)
           else andThen (draw_above_background mem p fb hr s ldepth lix st) (\<lambda>st. Inr (st, True)))"

section \<open>The output functions\<close>

definition blank_out :: out_state where
  "blank_out = \<lparr>bvcmds = [], out_blits = 0\<rparr>"

fun blit_subregions :: "heap \<Rightarrow> rgz_out_params_t \<Rightarrow> rgz_fb_state_t \<Rightarrow> blit_rect_t \<Rightarrow> blit_hregion_t \<Rightarrow>
    nat list \<Rightarrow> out_state \<Rightarrow> rgz_fault + out_state \<times> bool" where
  "blit_subregions mem p fb area hr [] st = Inr (st, True)"
| "blit_subregions mem p fb area hr (s # ss) st =
     andThen (rgz_hwc_subregion_blit mem p fb area hr s st) (\<lambda>(st, ok).
       if ok then blit_subregions mem p fb area hr ss st else Inr (st, False))"

fun blit_hregions :: "heap \<Rightarrow> rgz_out_params_t \<Rightarrow> rgz_fb_state_t \<Rightarrow> blit_rect_t \<Rightarrow> blit_hregion_t list \<Rightarrow>
    out_state \<Rightarrow> rgz_fault + out_state \<times> bool" where
  "blit_hregions mem p fb area [] st = Inr (st, True)"
| "blit_hregions mem p fb area (hr # hrs) st =
     (if nlayers hr = 0 then Inr (st, False)
      else andThen (blit_subregions mem p fb area hr [0..<nsubregions hr] st) (\<lambda>(st, ok).
        if ok then blit_hregions mem p fb area hrs st else Inr (st, False)))"

text \<open>The handles of the layers to post, without the background and the layers with the clear hint.\<close>

definition out_handles :: "rgz_fb_state_t \<Rightarrow> nat list" where
  "out_handles fb = map (handle \<circ> hwc_layer) (filter (\<lambda>l. buffidx l \<noteq> -1) (drop 1 (active fb)))"

text \<open>The last blit is made synchronous.\<close>

definition sync_last :: "out_state \<Rightarrow> out_state" where
  "sync_last st = (if bvcmds st = [] then st
     else st\<lparr>bvcmds := butlast (bvcmds st) @ [rgz_set_async False (last (bvcmds st))]\<rparr>)"

text \<open>
  \<open>bv_blt\<close> is the blit function of the bltsville library: given the entries submitted before and
  the entry to draw, its return value and the batch handle it leaves in the entry.  The result is
  the return value and the entries submitted.
\<close>

fun rgz_blts_bvdirect :: "(rgz_blt_entry list \<Rightarrow> rgz_blt_entry \<Rightarrow> int \<times> nat) \<Rightarrow> nat \<Rightarrow> int \<Rightarrow>
    rgz_blt_entry list \<Rightarrow> rgz_blt_entry list \<Rightarrow> int \<times> rgz_blt_entry list" where
  "rgz_blts_bvdirect bv_blt batch rv sent [] = (rv, sent)"
| "rgz_blts_bvdirect bv_blt batch rv sent (e # es) =
     (let e = (if bp_flags e AND BVFLAG_BATCH_MASK \<noteq> 0 then e\<lparr>bp_batch := batch\<rparr> else e)
      in case bv_blt sent e of
           (rv, b) \<Rightarrow>
             if rv \<noteq> 0 then (-1, sent @ [e])
             else rgz_blts_bvdirect bv_blt (if bp_flags e AND BVFLAG_BATCH_BEGIN \<noteq> 0 then b else batch)
                    rv (sent @ [e]) es)"

text \<open>What an output function leaves: the return value, the entries, their number and the handles.\<close>

record rgz_out_result =
  out_rv :: int
  out_cmds :: "rgz_blt_entry list"
  out_nblits :: nat
  out_hndls :: "nat list"

definition out_error :: rgz_out_result where
  "out_error = \<lparr>out_rv = -1, out_cmds = [], out_nblits = 0, out_hndls = []\<rparr>"

definition rgz_out_region :: "heap \<Rightarrow> (rgz_blt_entry list \<Rightarrow> rgz_blt_entry \<Rightarrow> int \<times> nat) \<Rightarrow>
    rgz_out_params_t \<Rightarrow> rgz_t \<Rightarrow> rgz_fault + rgz_out_result" where
  "rgz_out_region mem bv_blt p rgz =
     (if \<not> region_data rgz then Inr out_error
      else andThen (blit_hregions mem p (cur_fb_state rgz) (damaged_area rgz)
                      (take (nhregions rgz) (hregions rgz)) blank_out) (\<lambda>(st, ok).
        if \<not> ok then Inr (out_error\<lparr>out_nblits := out_blits st\<rparr>)
        else if IS_BVCMD p then
          (let st = sync_last st in
           Inr \<lparr>out_rv = (if RGZ_MAX_BLITS \<le> out_blits st then -1 else 0), out_cmds = bvcmds st,
                out_nblits = out_blits st, out_hndls = out_handles (cur_fb_state rgz)\<rparr>)
        else
          (case rgz_blts_bvdirect bv_blt 0 (-1) [] (bvcmds st) of
             (rv, sent) \<Rightarrow> Inr \<lparr>out_rv = rv, out_cmds = sent, out_nblits = out_blits st, out_hndls = []\<rparr>)))"

text \<open>Painting layer by layer: the whole frame of each layer, from back to front.\<close>

definition rgz_hwc_layer_blit :: "heap \<Rightarrow> rgz_out_params_t \<Rightarrow> rgz_layer_t \<Rightarrow> out_state \<Rightarrow>
    rgz_fault + out_state" where
  "rgz_hwc_layer_blit mem p rl st =
     (let srcregion = rgz_get_displayframe_rect (hwc_layer rl) in
      andThen (if \<not> noblend p \<and> blending (hwc_layer rl) = HWC_BLENDING_PREMULT
               then rgz_hwc_subregion_blend mem p srcregion rl None st
               else rgz_hwc_subregion_copy mem p srcregion rl st) (\<lambda>(st, i). Inr st))"

fun paint_layers :: "heap \<Rightarrow> rgz_out_params_t \<Rightarrow> bool \<Rightarrow> rgz_layer_t list \<Rightarrow> out_state \<Rightarrow>
    rgz_fault + out_state" where
  "paint_layers mem p clears [] st = Inr st"
| "paint_layers mem p clears (rl # rls) st =
     andThen (if clears \<and> buffidx rl = -1
              then rgz_out_clrdst p (Some (screen_clip p (displayFrame (hwc_layer rl)))) st
              else rgz_hwc_layer_blit mem p rl st) (paint_layers mem p clears rls)"

definition rgz_out_bvcmd_paint :: "heap \<Rightarrow> rgz_out_params_t \<Rightarrow> rgz_t \<Rightarrow> rgz_fault + rgz_out_result" where
  "rgz_out_bvcmd_paint mem p rgz =
     andThen (rgz_out_clrdst p None blank_out) (\<lambda>st.
     andThen (paint_layers mem p True (drop 1 (active (cur_fb_state rgz))) st) (\<lambda>st.
       let st = sync_last st in
       Inr \<lparr>out_rv = (if RGZ_MAX_BLITS \<le> out_blits st then -1 else 0), out_cmds = bvcmds st,
            out_nblits = out_blits st, out_hndls = out_handles (cur_fb_state rgz)\<rparr>))"

definition rgz_out_bvdirect_paint :: "heap \<Rightarrow> (rgz_blt_entry list \<Rightarrow> rgz_blt_entry \<Rightarrow> int \<times> nat) \<Rightarrow>
    rgz_out_params_t \<Rightarrow> rgz_t \<Rightarrow> rgz_fault + rgz_out_result" where
  "rgz_out_bvdirect_paint mem bv_blt p rgz =
     andThen (paint_layers mem p False (drop 1 (active (cur_fb_state rgz))) blank_out) (\<lambda>st.
       Inr \<lparr>out_rv = 0, out_cmds = snd (rgz_blts_bvdirect bv_blt 0 (-1) [] (bvcmds st)),
            out_nblits = out_blits st, out_hndls = []\<rparr>)"

text \<open>\<open>rgz_out\<close>; the SVG variant only prints the regions.\<close>

definition rgz_out :: "heap \<Rightarrow> (rgz_blt_entry list \<Rightarrow> rgz_blt_entry \<Rightarrow> int \<times> nat) \<Rightarrow>
    rgz_out_params_t \<Rightarrow> rgz_t \<Rightarrow> rgz_fault + rgz_out_result" where
  "rgz_out mem bv_blt p rgz =
     (case out_op p of
        RGZ_OUT_SVG \<Rightarrow> Inr (out_error\<lparr>out_rv := 0\<rparr>)
      | RGZ_OUT_BVDIRECT_PAINT \<Rightarrow> rgz_out_bvdirect_paint mem bv_blt p rgz
      | RGZ_OUT_BVCMD_PAINT \<Rightarrow> rgz_out_bvcmd_paint mem p rgz
      | RGZ_OUT_BVDIRECT_REGION \<Rightarrow> rgz_out_region mem bv_blt p rgz
      | RGZ_OUT_BVCMD_REGION \<Rightarrow> rgz_out_region mem bv_blt p rgz
      | RGZ_OUT_other \<Rightarrow> Inr out_error)"

text \<open>
  \<open>rgz_get_screengeometry\<close>: the framebuffer's geometry and the background layer, from what the two
  \<open>ioctl\<close> calls report (\<open>None\<close>: the call fails).
\<close>

definition rgz_get_screengeometry :: "int option \<Rightarrow> (int \<times> int) option \<Rightarrow> pixel_format \<Rightarrow>
    (bvsurfgeom \<times> hwc_layer_1_t) option" where
  "rgz_get_screengeometry line_length res fmt =
     (case (line_length, res) of
        (Some ll, Some (xres, yres)) \<Rightarrow>
          Some (\<lparr>g_format = hal_to_ocd fmt, g_width = word_of_int xres, g_height = word_of_int yres,
                 g_orientation = 0, g_virtstride = ll\<rparr>,
                bg_layer \<lparr>scr_width = xres, scr_height = yres\<rparr>)
      | _ \<Rightarrow> None)"

end
