(* ===== verification/Rgz_Draw.thy ===== *)
theory Rgz_Draw
  imports Rgz_Blit
begin

text \<open>
  What the blit entries of \<open>Rgz_Blit\<close> mean for the pixels of the framebuffer: the content of a
  pixel, the area of an entry in screen coordinates, and the lemmas that the entries of copy, blend
  and clear draw their subregion, whatever the orientation of the layer.
\<close>

section \<open>What an entry draws\<close>

text \<open>
  The content of a pixel is the list of the buffers blended there, from the bottom; the cleared
  pixel is the empty list.  A blend with the framebuffer (\<open>src2\<close> is the destination) adds its
  source on top, every other operation replaces the content.
\<close>

definition draw_content :: "rgz_blt_entry \<Rightarrow> 32 word list \<Rightarrow> 32 word list" where
  "draw_content e c =
     (let a = bd_auxptr (src1desc e); b = bd_auxptr (src2desc e) in
      if bp_op e = BVBLEND_SRC1OVER then (if b = HWC_BLT_DESC_FB_FN0 then c else [b]) @ [a]
      else if a = -1 then [] else [a])"

text \<open>The clipping rectangle in the coordinates of the screen: turned back with the destination.\<close>

definition entry_area :: "rgz_blt_entry \<Rightarrow> blit_rect_t option" where
  "entry_area e = rgz_get_rotated_view (geom_rect (dstgeom e)) (of_bvrect (bp_cliprect e))
     (- g_orientation (dstgeom e))"

definition draw_pixel :: "int \<Rightarrow> int \<Rightarrow> rgz_blt_entry \<Rightarrow> 32 word list \<Rightarrow> 32 word list" where
  "draw_pixel x y e c =
     (case entry_area e of Some r \<Rightarrow> if in_rect x y r then draw_content e c else c | None \<Rightarrow> c)"

definition draw_pixels :: "int \<Rightarrow> int \<Rightarrow> rgz_blt_entry list \<Rightarrow> 32 word list \<Rightarrow> 32 word list" where
  "draw_pixels x y es c = fold (draw_pixel x y) es c"

lemma draw_pixels_append: "draw_pixels x y (es @ fs) c = draw_pixels x y fs (draw_pixels x y es c)"
  by (simp add: draw_pixels_def)

text \<open>Neither the batch flags nor the asynchronous flag changes what is drawn.\<close>

definition same_drawing :: "rgz_blt_entry \<Rightarrow> rgz_blt_entry \<Rightarrow> bool" where
  "same_drawing e f \<longleftrightarrow> entry_area e = entry_area f \<and> draw_content e = draw_content f"

lemma same_drawing_batch: "same_drawing (rgz_batch_entry flag bits e) e"
  by (simp add: same_drawing_def rgz_batch_entry_def entry_area_def draw_content_def fun_eq_iff)

lemma same_drawing_async: "same_drawing (rgz_set_async on e) e"
  by (simp add: same_drawing_def rgz_set_async_def entry_area_def draw_content_def fun_eq_iff)

section \<open>The geometry of an entry\<close>

text \<open>The parameters describe the screen.\<close>

definition shows_screen :: "rgz_out_params_t \<Rightarrow> screen \<Rightarrow> bool" where
  "shows_screen p scr \<longleftrightarrow>
     0 < scr_width scr \<and> scr_width scr < 2 ^ 31 \<and> 0 < scr_height scr \<and> scr_height scr < 2 ^ 31 \<and>
     g_width (screen_geom p) = word_of_int (scr_width scr) \<and>
     g_height (screen_geom p) = word_of_int (scr_height scr)"

lemma umin_small:
  "0 \<le> w \<Longrightarrow> w < 2 ^ 31 \<Longrightarrow> 0 \<le> v \<Longrightarrow> v < 2 ^ 31 \<Longrightarrow> umin (word_of_int w) v = min w v"
  by (simp add: umin_def min_def word_le_def uint_small sint_small)

text \<open>A negative coordinate counts as beyond every bound.\<close>

lemma umin_negative:
  assumes "0 \<le> w" "w < 2 ^ 31" "- (2 ^ 31) \<le> v" "v < 0"
  shows "umin (word_of_int w) v = w"
proof -
  have "v mod 2 ^ 32 = (v + 2 ^ 32) mod 2 ^ 32" by simp
  also have "\<dots> = v + 2 ^ 32" using assms(3,4) by (intro mod_pos_pos_trivial) simp_all
  finally have "uint (word_of_int v :: 32 word) = v + 2 ^ 32"
    by (simp add: uint_word_of_int_eq take_bit_eq_mod)
  then show ?thesis using assms by (simp add: umin_def min_def word_le_def uint_small sint_small)
qed

lemma of_to_bvrect:
  assumes "- (2 ^ 31) \<le> right r" "right r < 2 ^ 31" "- (2 ^ 31) \<le> bottom r" "bottom r < 2 ^ 31"
  shows "of_bvrect (to_bvrect r) = r"
  using assms
  by (cases r) (simp add: of_bvrect_def to_bvrect_def WIDTH_def HEIGHT_def wi_hom_add sint_small)

text \<open>A proper rectangle of the screen.\<close>

definition on_screen :: "screen \<Rightarrow> blit_rect_t \<Rightarrow> bool" where
  "on_screen scr r \<longleftrightarrow> 0 \<le> left r \<and> left r < right r \<and> right r \<le> scr_width scr \<and>
     0 \<le> top r \<and> top r < bottom r \<and> bottom r \<le> scr_height scr"

lemma screen_clip_id: "shows_screen p scr \<Longrightarrow> on_screen scr r \<Longrightarrow> screen_clip p r = r"
  by (cases r) (simp add: screen_clip_def shows_screen_def on_screen_def umin_small)

lemma geom_rect_screen:
  "shows_screen p scr \<Longrightarrow> g_width g = g_width (screen_geom p) \<Longrightarrow> g_height g = g_height (screen_geom p) \<Longrightarrow>
     geom_rect g = screen_rect scr"
  by (simp add: geom_rect_def screen_rect_def shows_screen_def sint_small)

text \<open>The area of an entry whose clipping rectangle is a rectangle of the screen, turned or not.\<close>

lemma rotated_back:
  assumes "shows_screen p scr" "on_screen scr r" "orient mod 90 = 0"
    and "g_width g = g_width (screen_geom p)" "g_height g = g_height (screen_geom p)"
  shows "\<exists>c. rotate_bvrect g orient (to_bvrect r) = Inr c \<and>
     rgz_get_rotated_view (geom_rect (turn_geom orient g)) (of_bvrect c) (- orient) = Some r"
proof -
  have scr: "0 < scr_width scr" "scr_width scr < 2 ^ 31" "0 < scr_height scr" "scr_height scr < 2 ^ 31"
    "g_width g = word_of_int (scr_width scr)" "g_height g = word_of_int (scr_height scr)"
    using assms(1,4,5) by (simp_all add: shows_screen_def)
  have r: "0 \<le> left r" "left r < right r" "right r \<le> scr_width scr" "0 \<le> top r" "top r < bottom r"
    "bottom r \<le> scr_height scr" using assms(2) by (simp_all add: on_screen_def)
  have id: "of_bvrect (to_bvrect r) = r" using scr r by (intro of_to_bvrect) auto
  have g: "geom_rect g = screen_rect scr" using assms(1,4,5) by (rule geom_rect_screen)
  have gt: "geom_rect (turn_geom orient g) = turned_outer (screen_rect scr) orient"
    using scr by (auto simp: turn_geom_def geom_rect_def turned_outer_def screen_rect_def sint_small WIDTH_def HEIGHT_def)
  obtain q where q: "rgz_get_rotated_view (screen_rect scr) r orient = Some q"
    "rgz_get_rotated_view (turned_outer (screen_rect scr) orient) q (- orient) =
       Some \<lparr>left = left r - 0, top = top r - 0, right = right r - 0, bottom = bottom r - 0\<rparr>"
    "rect_inside q (turned_outer (screen_rect scr) orient)" "{WIDTH q, HEIGHT q} = {WIDTH r, HEIGHT r}"
    using rotated_view_turns_back [OF assms(3), of "screen_rect scr" r] r
    by (auto simp: screen_rect_def rect_inside_def)
  have "0 < WIDTH q" "0 < HEIGHT q" using q(4) r by (auto simp: doubleton_eq_iff WIDTH_def HEIGHT_def)
  then have "of_bvrect (to_bvrect q) = q"
    using q(3) scr
    by (intro of_to_bvrect) (auto simp: rect_inside_def turned_outer_def screen_rect_def WIDTH_def HEIGHT_def split: if_splits)
  then show ?thesis using q by (simp add: rotate_bvrect_def g gt id)
qed


lemma rotated_view_some:
  "orient mod 90 = 0 \<Longrightarrow> \<exists>r. rgz_get_rotated_view outer inner orient = Some r"
  by (drule rotated_view_turns_back [of orient outer inner]) (elim exE conjE, rule exI)

lemma rotate_bvrect_ok: "orient mod 90 = 0 \<Longrightarrow> \<exists>q. rotate_bvrect g orient b = Inr q"
  using rotated_view_some [of orient "geom_rect g" "of_bvrect b"] by (auto simp: rotate_bvrect_def)

lemma orientation_mod: "rgz_get_orientation tr mod 90 = 0" "(- rgz_get_orientation tr) mod 90 = 0"
  "(360 - rgz_get_orientation tr) mod 90 = 0"
  using orientation_cases [of tr] by auto

lemma src_rect_some: "\<exists>r. rgz_get_src_rect l rect = Some r"
  using rotated_view_some [OF orientation_mod(2), of "displayFrame l" rect "transform l"]
  by (auto simp: rgz_get_src_rect_def)

text \<open>The entries of the three operations: they always succeed, with the subregion as their area.\<close>

lemma set_dst_data_area:
  assumes "shows_screen p scr" "on_screen scr rect" "orient mod 90 = 0"
  shows "\<exists>e'. rgz_set_dst_data p tmp orient (rgz_set_clip_rect p rect e) = Inr e' \<and>
     entry_area e' = Some rect \<and> bp_op e' = bp_op e \<and> src1desc e' = src1desc e \<and> src2desc e' = src2desc e \<and>
     src1geom e' = src1geom e \<and> bp_flags e' = bp_flags e \<and> bp_batchflags e' = bp_batchflags e"
proof (cases "orient = 0")
  case True
  have "of_bvrect (to_bvrect rect) = rect"
    using assms(1,2) by (intro of_to_bvrect) (auto simp: shows_screen_def on_screen_def)
  then have "rgz_get_rotated_view (screen_rect scr) (of_bvrect (to_bvrect rect)) 0 = Some rect"
    by (cases rect) (simp add: rgz_get_rotated_view_def screen_rect_def WIDTH_def HEIGHT_def Let_def)
  with True show ?thesis
    using geom_rect_screen [OF assms(1)]
    by (simp add: rgz_set_dst_data_def rgz_set_clip_rect_def screen_clip_id [OF assms(1,2)] entry_area_def Let_def)
next
  case False
  let ?g = "\<lparr>g_format = g_format (screen_geom p), g_width = g_width (screen_geom p),
    g_height = g_height (screen_geom p), g_orientation = orient, g_virtstride = g_virtstride (screen_geom p)\<rparr>"
  obtain c where c: "rotate_bvrect ?g orient (to_bvrect rect) = Inr c"
    "rgz_get_rotated_view (geom_rect (turn_geom orient ?g)) (of_bvrect c) (- orient) = Some rect"
    using rotated_back [OF assms, of ?g] by auto
  obtain d where d: "rotate_bvrect ?g orient (to_bvrect tmp) = Inr d"
    using rotate_bvrect_ok [OF assms(3)] by blast
  have o: "g_orientation (turn_geom orient ?g) = orient" by (simp add: turn_geom_def)
  show ?thesis
    using False c d o
    by (simp add: rgz_set_dst_data_def rgz_set_clip_rect_def rgz_rotate_dst_def screen_clip_id [OF assms(1,2)]
        entry_area_def Let_def)
qed

lemma set_src_data_ok:
  assumes "orient mod 90 = 0"
  shows "\<exists>e'. rgz_set_src_data mem rl rect orient is_src2 e = Inr e' \<and> entry_area e' = entry_area e \<and>
     bp_op e' = bp_op e \<and> bp_flags e' = bp_flags e \<and> bp_batchflags e' = bp_batchflags e \<and>
     bp_cliprect e' = bp_cliprect e \<and> dstgeom e' = dstgeom e \<and>
     bd_auxptr (if is_src2 then src2desc e' else src1desc e') = word_of_int (buffidx rl) \<and>
     (if is_src2 then src1desc e' = src1desc e else src2desc e' = src2desc e)"
proof -
  obtain r where r: "rgz_get_src_rect (hwc_layer rl) rect = Some r" using src_rect_some by blast
  obtain q where "rotate_bvrect (src_geom (mem (handle (hwc_layer rl)))\<lparr>g_orientation := orient\<rparr>) orient (to_bvrect r) = Inr q"
    using rotate_bvrect_ok [OF assms] by blast
  then show ?thesis
    using r by (simp add: rgz_set_src_data_def rgz_rotate_src_def entry_area_def Let_def)
qed

lemma flip_bits_cases: "flip_bits f \<in> {0, 0x4000, 0x8000, 0x10000, 0x20000}"
  by (cases f) simp_all

lemma fresh_flags:
  "fl \<in> {BVFLAG_CLIP OR BVFLAG_ROP, BVFLAG_CLIP OR BVFLAG_BLEND} \<Longrightarrow>
     ((fl OR flip_bits f) OR BVFLAG_ASYNC) AND BVFLAG_BATCH_MASK = 0"
  using flip_bits_cases [of f] by auto

lemma src1_entry_ok:
  assumes "shows_screen p scr" "on_screen scr rect"
  shows "\<exists>e'. src1_entry mem p rect rl e = Inr e' \<and> entry_area e' = Some rect \<and> bp_op e' = bp_op e \<and>
     bd_auxptr (src1desc e') = word_of_int (buffidx rl) \<and> src2desc e' = src2desc e \<and>
     bp_flags e' = (bp_flags e OR flip_bits (rgz_get_flip_flags (transform (hwc_layer rl)) False)) OR BVFLAG_ASYNC \<and>
     bp_batchflags e' = bp_batchflags e"
proof -
  let ?l = "hwc_layer rl"
  let ?o = "rgz_get_orientation (transform ?l)"
  let ?so = "if rgz_is_layer_nv12 mem ?l then 0 else ?o" and ?do = "if rgz_is_layer_nv12 mem ?l then 360 - ?o else 0"
  let ?tmp = "if rgz_hwc_scaled ?l then displayFrame ?l else rect"
  let ?e = "rgz_set_async True (e\<lparr>bp_flags := bp_flags e OR flip_bits (rgz_get_flip_flags (transform ?l) False)\<rparr>)"
  let ?e1 = "if rgz_hwc_scaled ?l then rgz_cfg_scale_mode mem ?l ?e else ?e"
  have e1: "bp_op ?e1 = bp_op e" "src2desc ?e1 = src2desc e" "bp_batchflags ?e1 = bp_batchflags e"
    "bp_flags ?e1 = (bp_flags e OR flip_bits (rgz_get_flip_flags (transform ?l) False)) OR BVFLAG_ASYNC"
    by (simp_all add: rgz_cfg_scale_mode_def rgz_set_async_def)
  have o: "?so mod 90 = 0" "?do mod 90 = 0" by (simp_all add: orientation_mod)
  obtain e2 where e2: "rgz_set_src_data mem rl ?tmp ?so False ?e1 = Inr e2" "bp_op e2 = bp_op ?e1"
    "bp_flags e2 = bp_flags ?e1" "bp_batchflags e2 = bp_batchflags ?e1"
    "bd_auxptr (src1desc e2) = word_of_int (buffidx rl)" "src2desc e2 = src2desc ?e1"
    using set_src_data_ok [OF o(1), of mem rl ?tmp False ?e1] by auto
  obtain e3 where e3: "rgz_set_dst_data p ?tmp ?do (rgz_set_clip_rect p rect e2) = Inr e3"
    "entry_area e3 = Some rect" "bp_op e3 = bp_op e2" "src1desc e3 = src1desc e2" "src2desc e3 = src2desc e2"
    "bp_flags e3 = bp_flags e2" "bp_batchflags e3 = bp_batchflags e2"
    using set_dst_data_area [OF assms o(2), of ?tmp e2] by auto
  have "src1_entry mem p rect rl e = Inr e3"
    unfolding src1_entry_def Let_def displayframe_rect e2(1) andThen_simps by (rule e3(1))
  then show ?thesis using e1 e2 e3 by simp
qed

text \<open>What the entries of the operations draw; they carry no batch flags yet.\<close>

definition draws :: "blit_rect_t \<Rightarrow> (32 word list \<Rightarrow> 32 word list) \<Rightarrow> rgz_blt_entry \<Rightarrow> bool" where
  "draws rect f e \<longleftrightarrow> entry_area e = Some rect \<and> draw_content e = f"

abbreviation buf :: "rgz_layer_t \<Rightarrow> 32 word" where
  "buf rl \<equiv> word_of_int (buffidx rl)"

definition real_layer :: "rgz_layer_t \<Rightarrow> bool" where
  "real_layer rl \<longleftrightarrow> 0 \<le> buffidx rl \<and> buffidx rl < 2 ^ 30"

lemma real_layer_buf: "real_layer rl \<Longrightarrow> buf rl \<noteq> -1 \<and> buf rl \<noteq> HWC_BLT_DESC_FB_FN0"
proof -
  assume "real_layer rl"
  then have "uint (buf rl) = buffidx rl" "buffidx rl < 2 ^ 30" by (simp_all add: real_layer_def uint_small)
  moreover have "uint (-1 :: 32 word) = 4294967295"
    by (simp add: unsigned_minus_1_eq_mask mask_eq_exp_minus_1)
  moreover have "uint (0xC0000000 :: 32 word) = 3221225472" by simp
  ultimately show ?thesis by (intro conjI notI) simp_all
qed

lemma copy_entry_draws:
  assumes "shows_screen p scr" "on_screen scr rect" "real_layer rl"
  shows "\<exists>e'. copy_entry mem p rect rl e = Inr e' \<and> draws rect (\<lambda>_. [buf rl]) e' \<and>
     bp_flags e' AND BVFLAG_BATCH_MASK = 0"
proof -
  let ?e = "e\<lparr>bp_op := Rop_SRCCOPY, bp_flags := BVFLAG_CLIP OR BVFLAG_ROP\<rparr>"
  obtain e' where e': "src1_entry mem p rect rl ?e = Inr e'" "entry_area e' = Some rect" "bp_op e' = Rop_SRCCOPY"
    "bd_auxptr (src1desc e') = buf rl"
    "bp_flags e' = ((BVFLAG_CLIP OR BVFLAG_ROP) OR flip_bits (rgz_get_flip_flags (transform (hwc_layer rl)) False)) OR BVFLAG_ASYNC"
    using src1_entry_ok [OF assms(1,2), of mem rl ?e] by auto
  have "bp_flags e' AND BVFLAG_BATCH_MASK = 0" unfolding e'(5) by (rule fresh_flags) simp
  then show ?thesis
    using e' real_layer_buf [OF assms(3)]
    by (simp add: copy_entry_def draws_def draw_content_def entry_area_def geom_rect_def fun_eq_iff Let_def)
qed

lemma blend_entry_draws:
  assumes "shows_screen p scr" "on_screen scr rect" "pred_option real_layer src2"
  shows "\<exists>e'. blend_entry mem p rect rl src2 e = Inr e' \<and>
     draws rect (\<lambda>c. (case src2 of None \<Rightarrow> c | Some r2 \<Rightarrow> [buf r2]) @ [buf rl]) e' \<and>
     bp_flags e' AND BVFLAG_BATCH_MASK = 0"
proof -
  let ?e = "e\<lparr>bp_op := BVBLEND_SRC1OVER, bp_flags := BVFLAG_CLIP OR BVFLAG_BLEND\<rparr>"
  obtain e' where e': "src1_entry mem p rect rl ?e = Inr e'" "entry_area e' = Some rect" "bp_op e' = BVBLEND_SRC1OVER"
    "bd_auxptr (src1desc e') = buf rl"
    "bp_flags e' = ((BVFLAG_CLIP OR BVFLAG_BLEND) OR flip_bits (rgz_get_flip_flags (transform (hwc_layer rl)) False)) OR BVFLAG_ASYNC"
    using src1_entry_ok [OF assms(1,2), of mem rl ?e] by auto
  have fl: "bp_flags e' AND BVFLAG_BATCH_MASK = 0" unfolding e'(5) by (rule fresh_flags) simp
  show ?thesis
  proof (cases src2)
    case None
    then show ?thesis
      using e' fl
      by (simp add: blend_entry_def rgz_set_src2_is_dst_def draws_def draw_content_def entry_area_def fun_eq_iff Let_def)
  next
    case (Some r2)
    let ?fl = "bp_flags e' OR flip_bits (rgz_get_flip_flags (transform (hwc_layer r2)) True)"
    obtain e2 where "rgz_set_src_data mem r2 rect (rgz_get_orientation (transform (hwc_layer r2))) True (e'\<lparr>bp_flags := ?fl\<rparr>) = Inr e2"
      "entry_area e2 = entry_area (e'\<lparr>bp_flags := ?fl\<rparr>)" "bp_op e2 = bp_op e'" "bp_flags e2 = ?fl"
      "bd_auxptr (src2desc e2) = buf r2" "src1desc e2 = src1desc e'"
      using set_src_data_ok [OF orientation_mod(1), of mem r2 rect "transform (hwc_layer r2)" True "e'\<lparr>bp_flags := ?fl\<rparr>"] by auto
    moreover have "?fl AND BVFLAG_BATCH_MASK = 0"
      using fl flip_bits_cases [of "rgz_get_flip_flags (transform (hwc_layer r2)) True"]
      by (auto simp: bit.conj_disj_distrib2)
    ultimately show ?thesis
      using Some e' real_layer_buf [of r2] assms(3)
      by (simp add: blend_entry_def draws_def draw_content_def entry_area_def fun_eq_iff Let_def)
  qed
qed

lemma clear_entry_draws:
  assumes "shows_screen p scr" "on_screen scr rect"
  shows "\<exists>e'. clear_entry p rect e = Inr e' \<and> draws rect (\<lambda>_. []) e' \<and> bp_flags e' AND BVFLAG_BATCH_MASK = 0"
proof -
  let ?e = "(rgz_set_async True (e\<lparr>bp_op := Rop_SRCCOPY, bp_flags := BVFLAG_CLIP OR BVFLAG_ROP\<rparr>))
        \<lparr>src1desc := \<lparr>bd_length = 4, bd_auxptr = -1\<rparr>,
         src1geom := (src1geom e)\<lparr>g_format := OCDFMT_RGBA24, g_orientation := 0, g_width := 1, g_height := 1\<rparr>,
         bp_src1rect := \<lparr>br_left = 0, br_top = 0, br_width = 1, br_height = 1\<rparr>\<rparr>"
  obtain e' where "rgz_set_dst_data p rect 0 (rgz_set_clip_rect p rect ?e) = Inr e'" "entry_area e' = Some rect"
    "bp_op e' = Rop_SRCCOPY" "bd_auxptr (src1desc e') = -1" "bp_flags e' = (BVFLAG_CLIP OR BVFLAG_ROP) OR BVFLAG_ASYNC"
    using set_dst_data_area [OF assms, of 0 rect ?e] by (auto simp: rgz_set_async_def)
  then show ?thesis by (simp add: clear_entry_def draws_def draw_content_def fun_eq_iff)
qed

end
