(* ===== verification/Rgz_Subregion.thy ===== *)
theory Rgz_Subregion
  imports Rgz_Draw
begin

text \<open>
  The blits of one subregion: the entries that \<open>rgz_hwc_subregion_blit\<close> adds to the pool blend
  exactly the visible part of the subregion's stack of layers.
\<close>

lemma copy_entry_drawn:
  "shows_screen p scr \<Longrightarrow> on_screen scr rect \<Longrightarrow> real_layer rl \<Longrightarrow>
   \<exists>e'. copy_entry mem p rect rl e = Inr e' \<and> draws rect (\<lambda>_. [buf rl]) e'"
  using copy_entry_draws by blast

lemma blend_entry_drawn:
  "shows_screen p scr \<Longrightarrow> on_screen scr rect \<Longrightarrow> pred_option real_layer src2 \<Longrightarrow>
   \<exists>e'. blend_entry mem p rect rl src2 e = Inr e' \<and>
     draws rect (\<lambda>c. (case src2 of None \<Rightarrow> c | Some r2 \<Rightarrow> [buf r2]) @ [buf rl]) e'"
  using blend_entry_draws by blast

lemma clear_entry_drawn:
  "shows_screen p scr \<Longrightarrow> on_screen scr rect \<Longrightarrow> \<exists>e'. clear_entry p rect e = Inr e' \<and> draws rect (\<lambda>_. []) e'"
  using clear_entry_draws by blast

section \<open>Drawing a list of entries\<close>

text \<open>
  The state after an operation: either the pool ran full, or exactly one group of entries was added,
  all with the same area, which together turn the content \<open>c\<close> of a pixel there into \<open>f c\<close>.
\<close>

definition room :: "out_state \<Rightarrow> bool" where
  "room st \<longleftrightarrow> length (bvcmds st) < RGZ_MAX_BLITS"

definition group_draws :: "blit_rect_t \<Rightarrow> (32 word list \<Rightarrow> 32 word list) \<Rightarrow> rgz_blt_entry list \<Rightarrow> bool" where
  "group_draws rect f es \<longleftrightarrow>
     list_all (\<lambda>e. entry_area e = Some rect) es \<and> fold draw_content es = f"

lemma group_draws_single: "draws rect f e \<Longrightarrow> group_draws rect f [e]"
  by (simp add: group_draws_def draws_def fun_eq_iff)

lemma group_draws_append:
  "group_draws rect f es \<Longrightarrow> group_draws rect g fs \<Longrightarrow> group_draws rect (g \<circ> f) (es @ fs)"
  by (simp add: group_draws_def fun_eq_iff)

lemma group_draws_Nil: "group_draws rect (\<lambda>c. c) []"
  by (simp add: group_draws_def fun_eq_iff)

lemma group_draws_pixel:
  assumes "group_draws rect f es"
  shows "draw_pixels x y es c = (if in_rect x y rect then f c else c)"
proof -
  have "list_all (\<lambda>e. entry_area e = Some rect) es \<Longrightarrow>
      draw_pixels x y es c = (if in_rect x y rect then fold draw_content es c else c)"
    by (induction es arbitrary: c) (simp_all add: draw_pixels_def draw_pixel_def)
  with assms show ?thesis by (simp add: group_draws_def)
qed

definition same_counts :: "rgz_out_params_t \<Rightarrow> out_state \<Rightarrow> bool" where
  "same_counts p st \<longleftrightarrow> length (bvcmds st) \<le> RGZ_MAX_BLITS \<and> (IS_BVCMD p \<longrightarrow> out_blits st = length (bvcmds st))"

text \<open>One step on the pool adds at most one entry.\<close>

definition adds :: "rgz_out_params_t \<Rightarrow> blit_rect_t \<Rightarrow> (32 word list \<Rightarrow> 32 word list) \<Rightarrow> nat \<Rightarrow>
    out_state \<Rightarrow> out_state \<Rightarrow> bool" where
  "adds p rect f n st st' \<longleftrightarrow>
     same_counts p st' \<and> length (bvcmds st) \<le> length (bvcmds st') \<and>
     length (bvcmds st') \<le> length (bvcmds st) + n \<and>
     (room st' \<longrightarrow> (\<exists>es. bvcmds st' = bvcmds st @ es \<and> group_draws rect f es \<and> length es = n))"

lemma adds_refl: "same_counts p st \<Longrightarrow> adds p rect (\<lambda>c. c) 0 st st"
  by (auto simp: adds_def group_draws_Nil)

lemma adds_trans:
  assumes "adds p rect f m st st'" "adds p rect g n st' st''"
  shows "adds p rect (g \<circ> f) (m + n) st st''"
proof -
  have "\<exists>es. bvcmds st'' = bvcmds st @ es \<and> group_draws rect (g \<circ> f) es \<and> length es = m + n" if r: "room st''"
  proof -
    have "room st'" using r assms(2) by (simp add: adds_def room_def)
    then obtain es fs where "bvcmds st' = bvcmds st @ es" "group_draws rect f es" "length es = m"
      "bvcmds st'' = bvcmds st' @ fs" "group_draws rect g fs" "length fs = n"
      using assms r by (auto simp: adds_def)
    then show ?thesis by (intro exI [of _ "es @ fs"]) (simp add: group_draws_append)
  qed
  then show ?thesis using assms by (simp add: adds_def)
qed

text \<open>Taking an entry and filling it.\<close>

lemma put_get:
  assumes "same_counts p st" "rgz_blts_get p st = (st1, i)"
    and "\<And>e. \<exists>e'. f e = Inr e' \<and> draws rect g e'"
  shows "\<exists>st'. put_entry i f st1 = Inr st' \<and> adds p rect g 1 st st' \<and>
     Suc i = length (bvcmds st')"
proof -
  obtain e' where e': "f (bvcmds st1 ! i) = Inr e'" "draws rect g e'" using assms(3) by blast
  have i: "i < length (bvcmds st1)" "Suc i = length (bvcmds st1)" "same_counts p st1"
    using assms(1,2) by (auto simp: rgz_blts_get_def same_counts_def split: if_splits)
  have "(bvcmds st1)[i := e'] = bvcmds st @ [e']" if "room st"
    using assms(2) that by (auto simp: rgz_blts_get_def room_def list_update_append)
  moreover have "\<not> room st1" "length (bvcmds st1) = length (bvcmds st)" if "\<not> room st"
    using assms(2) that by (auto simp: rgz_blts_get_def room_def split: if_splits)
  moreover have "length (bvcmds st1) = length (bvcmds st) + 1" if "room st"
    using assms(2) that by (auto simp: rgz_blts_get_def room_def split: if_splits)
  ultimately have "adds p rect g 1 st (st1\<lparr>bvcmds := (bvcmds st1)[i := e']\<rparr>)"
    using e'(2) i(3) by (cases "room st") (auto simp: adds_def room_def same_counts_def intro!: group_draws_single)
  then show ?thesis using e' i by (simp add: put_entry_def)
qed

lemma subregion_copy_adds:
  assumes "shows_screen p scr" "on_screen scr rect" "real_layer rl" "live_handle rl" "same_counts p st"
  shows "\<exists>st' i. rgz_hwc_subregion_copy mem p rect rl st = Inr (st', i) \<and>
     adds p rect (\<lambda>_. [buf rl]) 1 st st' \<and> Suc i = length (bvcmds st')"
proof -
  obtain st1 i where g: "rgz_blts_get p st = (st1, i)" by force
  show ?thesis
    using put_get [OF assms(5) g, of "copy_entry mem p rect rl" rect "\<lambda>_. [buf rl]"]
      copy_entry_drawn [OF assms(1-3)] assms(4)
    by (auto simp: rgz_hwc_subregion_copy_def g)
qed

lemma subregion_blend_adds:
  assumes "shows_screen p scr" "on_screen scr rect" "pred_option real_layer src2" "live_handle rl"
    "pred_option live_handle src2" "same_counts p st"
  shows "\<exists>st' i. rgz_hwc_subregion_blend mem p rect rl src2 st = Inr (st', i) \<and>
     adds p rect (\<lambda>c. (case src2 of None \<Rightarrow> c | Some r2 \<Rightarrow> [buf r2]) @ [buf rl]) 1 st st' \<and>
     Suc i = length (bvcmds st')"
proof -
  obtain st1 i where g: "rgz_blts_get p st = (st1, i)" by force
  show ?thesis
    using put_get [OF assms(6) g, of "blend_entry mem p rect rl src2" rect
        "\<lambda>c. (case src2 of None \<Rightarrow> c | Some r2 \<Rightarrow> [buf r2]) @ [buf rl]"]
      blend_entry_drawn [OF assms(1-3)] assms(4,5)
    by (auto simp: rgz_hwc_subregion_blend_def g)
qed

lemma clrdst_adds:
  assumes "shows_screen p scr" "on_screen scr rect" "same_counts p st"
  shows "\<exists>st'. rgz_out_clrdst p (Some rect) st = Inr st' \<and> adds p rect (\<lambda>_. []) 1 st st'"
proof -
  obtain st1 i where g: "rgz_blts_get p st = (st1, i)" by force
  show ?thesis
    using put_get [OF assms(3) g, of "clear_entry p rect" rect "\<lambda>_. []"]
      clear_entry_drawn [OF assms(1,2)]
    by (auto simp: rgz_out_clrdst_def g)
qed

text \<open>Setting the batch flags of the last entry changes nothing that is drawn.\<close>

lemma batch_last_adds:
  assumes "adds p rect f n st st'" "0 < n" "Suc i = length (bvcmds st')" "\<And>e. \<exists>e'. g e = Inr e' \<and> same_drawing e' e"
  shows "\<exists>st''. put_entry i g st' = Inr st'' \<and> adds p rect f n st st'' \<and> length (bvcmds st'') = length (bvcmds st')"
proof -
  obtain e' where e': "g (bvcmds st' ! i) = Inr e'" "same_drawing e' (bvcmds st' ! i)" using assms(4) by blast
  let ?st = "st'\<lparr>bvcmds := (bvcmds st')[i := e']\<rparr>"
  have "\<exists>es. bvcmds ?st = bvcmds st @ es \<and> group_draws rect f es \<and> length es = n" if r: "room st'"
  proof -
    obtain es where es: "bvcmds st' = bvcmds st @ es" "group_draws rect f es" "length es = n"
      using assms(1) r by (auto simp: adds_def)
    have ne: "es \<noteq> []" using es(3) assms(2) by auto
    have last: "bvcmds st' ! i = last es" using es(1) ne assms(3) by (metis last_appendR last_conv_nth diff_Suc_1 append_is_Nil_conv)
    have "bvcmds ?st = bvcmds st @ butlast es @ [e']"
      using es(1) ne assms(3) by (cases es rule: rev_cases) (simp_all add: list_update_append)
    moreover have "group_draws rect f (butlast es @ [e'])"
      using es(2) e'(2) last ne by (cases es rule: rev_cases) (simp_all add: group_draws_def same_drawing_def)
    ultimately show ?thesis using es(3) assms(2) by (intro exI [of _ "butlast es @ [e']"]) simp
  qed
  then have "adds p rect f n st ?st" using assms(1) by (simp add: adds_def room_def same_counts_def)
  then show ?thesis using e' by (simp add: put_entry_def)
qed

section \<open>The layers of a subregion\<close>

text \<open>The part of a stack of layers that shows: from the topmost one that hides what is below it.\<close>

fun visible :: "('a \<Rightarrow> bool) \<Rightarrow> 'a list \<Rightarrow> 'a list" where
  "visible P [] = []"
| "visible P (x # xs) = (if list_ex P xs then visible P xs else x # xs)"

lemma visible_snoc: "visible P (xs @ [x]) = (if P x then [x] else visible P xs @ [x])"
  by (induction xs) auto

lemma visible_map: "visible P (map f xs) = map f (visible (P \<circ> f) xs)"
  by (induction xs) (auto simp: list_ex_iff)

lemma visible_suffix: "\<exists>ys. xs = ys @ visible P xs"
proof (induction xs)
  case (Cons x xs)
  then obtain ys where "xs = ys @ visible P xs" ..
  then show ?case by (auto intro: exI [of _ "x # ys"])
qed simp

lemma visible_Nil [simp]: "visible P xs = [] \<longleftrightarrow> xs = []"
  by (induction xs) auto

lemma visible_tail: "visible P xs = y # ys \<Longrightarrow> \<not> list_ex P ys"
  by (induction xs) (auto split: if_splits)

lemma visible_subset: "set (visible P xs) \<subseteq> set xs"
  by (induction xs) auto

definition above :: "blit_hregion_t \<Rightarrow> nat \<Rightarrow> nat \<Rightarrow> nat list" where
  "above hr s l = filter (\<lambda>k. \<not> empty_rect (rect_at hr s k)) [Suc l..<nlayers hr]"

definition stack :: "blit_hregion_t \<Rightarrow> nat \<Rightarrow> nat list" where
  "stack hr s = filter (\<lambda>k. \<not> empty_rect (rect_at hr s k)) [0..<nlayers hr]"

lemma find_hd_filter: "find P xs = (case filter P xs of [] \<Rightarrow> None | y # _ \<Rightarrow> Some y)"
  by (induction xs) auto

lemma next_above: "get_layer_ops_next hr s l = (case above hr s l of [] \<Rightarrow> None | k # _ \<Rightarrow> Some k)"
  by (simp add: get_layer_ops_next_def above_def find_hd_filter)

lemma filter_upt_tail: "filter P [m..<n] = ys @ k # ks \<Longrightarrow> ks = filter P [Suc k..<n]"
proof (induction "n - m" arbitrary: m ys)
  case (Suc d)
  then have m: "[m..<n] = m # [Suc m..<n]" "d = n - Suc m" by (simp_all add: upt_conv_Cons)
  show ?case
  proof (cases "P m \<and> ys = []")
    case True
    with Suc.prems show ?thesis by (auto simp: m(1))
  next
    case False
    then have "\<exists>ys'. filter P [Suc m..<n] = ys' @ k # ks"
      using Suc.prems by (cases ys) (auto simp: m(1) split: if_splits)
    with Suc.hyps(1) [OF m(2)] show ?thesis by blast
  qed
qed simp

lemma above_next: "above hr s l = k # ks \<Longrightarrow> ks = above hr s k"
  unfolding above_def using filter_upt_tail [of _ _ _ "[]" k ks] by simp

lemma stack_above: "stack hr s = ys @ k # ks \<Longrightarrow> ks = above hr s k"
  unfolding above_def stack_def by (rule filter_upt_tail)

definition opaque :: "heap \<Rightarrow> rgz_layer_t \<Rightarrow> bool" where
  "opaque mem rl \<longleftrightarrow> blending (hwc_layer rl) \<noteq> HWC_BLENDING_PREMULT \<or> is_OPAQUE (iFormat (mem (handle (hwc_layer rl))))"

text \<open>\<open>get_layer_ops\<close> finds the visible part of the stack, as long as it meets no dummy handle.\<close>

lemma layer_ops_loop_spec:
  fixes mem :: heap
  assumes "n \<le> nlayers hr"
    and "\<forall>k < n. \<not> empty_rect (rect_at hr s k) \<longrightarrow> blending (hwc_layer (layer_at fb hr k)) = HWC_BLENDING_PREMULT \<longrightarrow>
           live_handle (layer_at fb hr k)"
  defines "v \<equiv> visible (opaque mem \<circ> layer_at fb hr) (filter (\<lambda>k. \<not> empty_rect (rect_at hr s k)) [0..<n])"
  shows "layer_ops_loop mem fb hr s n ops b = Inr (ops + length v, case v of [] \<Rightarrow> b | k # _ \<Rightarrow> Some k)"
  using assms(1,2) unfolding v_def
proof (induction n arbitrary: ops b)
  case (Suc n)
  then show ?case by (auto simp: visible_snoc opaque_def Let_def split: list.splits)
qed simp

lemma get_layer_ops_spec:
  assumes "\<forall>k \<in> set (stack hr s). blending (hwc_layer (layer_at fb hr k)) = HWC_BLENDING_PREMULT \<longrightarrow>
           live_handle (layer_at fb hr k)" and "stack hr s \<noteq> []"
  shows "\<exists>k ks. visible (opaque mem \<circ> layer_at fb hr) (stack hr s) = k # ks \<and> ks = above hr s k \<and>
     get_layer_ops mem fb hr s = Inr (Suc (length ks), Some k)"
proof -
  obtain k ks where v: "visible (opaque mem \<circ> layer_at fb hr) (stack hr s) = k # ks"
    using assms(2) by (cases "visible (opaque mem \<circ> layer_at fb hr) (stack hr s)") auto
  obtain ys where "stack hr s = ys @ k # ks" using visible_suffix [of "stack hr s" "opaque mem \<circ> layer_at fb hr"] v by auto
  then have "ks = above hr s k" by (rule stack_above)
  moreover have "nlayers hr \<noteq> 0" using assms(2) by (cases "nlayers hr") (simp_all add: stack_def)
  moreover have "layer_ops_loop mem fb hr s (nlayers hr) 0 None = Inr (Suc (length ks), Some k)"
    using layer_ops_loop_spec [of "nlayers hr" hr s fb mem 0 None] assms(1) v by (auto simp: stack_def)
  ultimately show ?thesis using v by (simp add: get_layer_ops_def)
qed

lemma dirty_scan_spec: "dirty_scan fb hr s l \<longleftrightarrow> (\<exists>k \<in> set (l # above hr s l). dirty_count (layer_at fb hr k) \<noteq> 0)"
proof (induction "above hr s l" arbitrary: l)
  case Nil
  then show ?case by (subst dirty_scan.simps) (simp add: next_above)
next
  case (Cons k ks)
  have ks: "ks = above hr s k" using above_next Cons.hyps(2) by metis
  show ?case
    using Cons.hyps(1) [OF ks] Cons.hyps(2) [symmetric] ks
    by (subst dirty_scan.simps) (simp add: next_above)
qed

section \<open>The blits of a subregion\<close>

lemma blend_rest_adds:
  assumes "shows_screen p scr" "on_screen scr rect"
    and "above hr s lix = ks" "list_all (live_handle \<circ> layer_at fb hr) ks"
    and "adds p rect f n st0 st" "0 < n" "Suc i = length (bvcmds st)"
  shows "\<exists>st' i'. blend_rest mem p fb hr s rect first ps pn lix (st, i) = Inr (st', i') \<and>
     adds p rect ((\<lambda>c. c @ map (buf \<circ> layer_at fb hr) ks) \<circ> f) (n + length ks) st0 st' \<and>
     Suc i' = length (bvcmds st')"
  using assms(3-)
proof (induction ks arbitrary: lix first ps pn f n st i)
  case Nil
  then show ?case by (subst blend_rest.simps) (simp add: next_above comp_def)
next
  case (Cons k ks)
  let ?rl = "layer_at fb hr k"
  have ks: "above hr s k = ks" using above_next [OF Cons.prems(1)] by simp
  have sc: "same_counts p st" using Cons.prems(3) by (simp add: adds_def)
  have live: "live_handle ?rl" "list_all (live_handle \<circ> layer_at fb hr) ks" using Cons.prems(2) by (simp_all add: comp_def)
  obtain st1 i1 where b: "rgz_hwc_subregion_blend mem p rect ?rl None st = Inr (st1, i1)"
    "adds p rect (\<lambda>c. c @ [buf ?rl]) 1 st st1" "Suc i1 = length (bvcmds st1)"
    using subregion_blend_adds [OF assms(1,2) _ live(1) _ sc, of None mem] by auto
  have a1: "adds p rect ((\<lambda>c. c @ [buf ?rl]) \<circ> f) (n + 1) st0 st1" using adds_trans [OF Cons.prems(3) b(2)] .
  let ?fl = "batch_changes first (rgz_hwc_scaled (hwc_layer ?rl) \<or> ps) (rgz_is_layer_nv12 mem (hwc_layer ?rl) \<or> pn)"
  obtain st2 where st2: "put_entry i1 (Inr \<circ> rgz_batch_entry BVFLAG_BATCH_CONTINUE ?fl) st1 = Inr st2"
    "adds p rect ((\<lambda>c. c @ [buf ?rl]) \<circ> f) (n + 1) st0 st2" "length (bvcmds st2) = length (bvcmds st1)"
    using batch_last_adds [OF a1 _ b(3), of "Inr \<circ> rgz_batch_entry BVFLAG_BATCH_CONTINUE ?fl"]
    by (auto simp: same_drawing_batch)
  have "Suc i1 = length (bvcmds st2)" using b(3) st2(3) by simp
  from Cons.IH [OF ks live(2) st2(2) _ this, of 0 "rgz_hwc_scaled (hwc_layer ?rl)" "rgz_is_layer_nv12 mem (hwc_layer ?rl)"]
  obtain st' i' where r: "blend_rest mem p fb hr s rect 0 (rgz_hwc_scaled (hwc_layer ?rl))
      (rgz_is_layer_nv12 mem (hwc_layer ?rl)) k (st2, i1) = Inr (st', i')"
    "adds p rect ((\<lambda>c. c @ map (buf \<circ> layer_at fb hr) ks) \<circ> ((\<lambda>c. c @ [buf ?rl]) \<circ> f)) (n + 1 + length ks) st0 st'"
    "Suc i' = length (bvcmds st')" by (auto simp: comp_def)
  have "blend_rest mem p fb hr s rect first ps pn lix (st, i) = Inr (st', i')"
    using Cons.prems(1) r(1) by (subst blend_rest.simps) (simp add: next_above b(1) st2(1) Let_def)
  then show ?case using r(2,3) by (simp add: comp_def)
qed

text \<open>A blended subregion: the layers above \<open>lix\<close>, on top of it.\<close>

lemma blend_subregion_adds:
  assumes "shows_screen p scr" "on_screen scr (rect_at hr s lix)" "same_counts p st"
    and "above hr s lix = k # ks" "list_all (live_handle \<circ> layer_at fb hr) (lix # k # ks)" "real_layer (layer_at fb hr lix)"
  shows "\<exists>st' n. blend_subregion mem p fb hr s lix st = Inr st' \<and> 0 < n \<and> n \<le> Suc (Suc (length ks)) \<and>
     adds p (rect_at hr s lix) (\<lambda>_. map (buf \<circ> layer_at fb hr) (lix # k # ks)) n st st'"
proof -
  let ?rect = "rect_at hr s lix" and ?s2 = "layer_at fb hr lix" and ?s1 = "layer_at fb hr k"
  let ?b = "buf \<circ> layer_at fb hr"
  have live: "live_handle ?s2" "live_handle ?s1" using assms(5) by simp_all
  have ks: "above hr s k = ks" using above_next [OF assms(4)] by simp
  obtain st1 i1 l0 fl ps pn js where first: "first_blit mem p fb hr s lix k ?rect st = Inr ((st1, i1), l0, fl, pn, ps)"
    "adds p ?rect (\<lambda>_. map ?b js) 1 st st1" "Suc i1 = length (bvcmds st1)" "js @ above hr s l0 = lix # k # ks"
    "length (above hr s l0) \<le> Suc (length ks)"
  proof (cases "rgz_can_blend_together mem (hwc_layer ?s1) (hwc_layer ?s2)")
    case True
    then show ?thesis
      using subregion_blend_adds [OF assms(1,2), of "Some ?s2" ?s1 st mem] assms(3,6) live ks
      by (auto simp: first_blit_def Let_def intro!: that [of _ _ k _ _ _ "[lix, k]"])
  next
    case False
    then show ?thesis
      using subregion_copy_adds [OF assms(1,2,6) live(1) assms(3), of mem] assms(4) live
      by (auto simp: first_blit_def Let_def intro!: that [of _ _ lix _ _ _ "[lix]"])
  qed
  obtain st2 where st2: "put_entry i1 (Inr \<circ> rgz_batch_entry BVFLAG_BATCH_BEGIN 0) st1 = Inr st2"
    "adds p ?rect (\<lambda>_. map ?b js) 1 st st2" "length (bvcmds st2) = length (bvcmds st1)"
    using batch_last_adds [OF first(2) _ first(3), of "Inr \<circ> rgz_batch_entry BVFLAG_BATCH_BEGIN 0"]
    by (auto simp: same_drawing_batch)
  have "list_all (live_handle \<circ> layer_at fb hr) (js @ above hr s l0)" using assms(5) first(4) by simp
  then have la: "list_all (live_handle \<circ> layer_at fb hr) (above hr s l0)" by simp
  have i2: "Suc i1 = length (bvcmds st2)" using first(3) st2(3) by simp
  obtain st3 i3 where rest: "blend_rest mem p fb hr s ?rect (fl OR BVBATCH_SRC2 OR BVBATCH_SRC2RECT) ps pn l0 (st2, i1) = Inr (st3, i3)"
    "adds p ?rect ((\<lambda>c. c @ map ?b (above hr s l0)) \<circ> (\<lambda>_. map ?b js)) (1 + length (above hr s l0)) st st3"
    "Suc i3 = length (bvcmds st3)"
    using blend_rest_adds [OF assms(1,2) refl la st2(2) _ i2, of mem "fl OR BVBATCH_SRC2 OR BVBATCH_SRC2RECT" ps pn]
    by auto
  let ?g = "\<lambda>e. Inr (if bp_flags e AND BVFLAG_BATCH_BEGIN \<noteq> 0 then rgz_batch_entry 0 0 e
                     else rgz_batch_entry BVFLAG_BATCH_END 0 e) :: rgz_fault + rgz_blt_entry"
  have g: "\<exists>e'. ?g e = Inr e' \<and> same_drawing e' e" for e by (simp add: same_drawing_batch)
  obtain st4 where st4: "put_entry i3 ?g st3 = Inr st4"
    "adds p ?rect ((\<lambda>c. c @ map ?b (above hr s l0)) \<circ> (\<lambda>_. map ?b js)) (1 + length (above hr s l0)) st st4"
    using batch_last_adds [OF rest(2) _ rest(3) g] by auto
  have "blend_subregion mem p fb hr s lix st = Inr st4"
    using assms(4) rest(1) st4(1) by (simp add: blend_subregion_def next_above first(1) st2(1))
  moreover have eq: "(\<lambda>c. c @ map ?b (above hr s l0)) \<circ> (\<lambda>_. map ?b js) = (\<lambda>_. map ?b (lix # k # ks))"
    by (simp add: fun_eq_iff first(4) [symmetric] map_append [symmetric] del: map_append)
  moreover note st4(2) [unfolded eq]
  ultimately show ?thesis using first(5) by (intro exI [of _ st4] exI [of _ "1 + length (above hr s l0)"]) simp
qed

text \<open>
  A layer of a frame the blitter can handle: a real one with a live handle, or one that only clears,
  with the dummy handle and no blending.
\<close>

definition drawable :: "rgz_layer_t \<Rightarrow> bool" where
  "drawable rl \<longleftrightarrow>
     (if buffidx rl \<in> {RGZ_BACKGROUND_BUFFIDX, RGZ_CLEARHINT_BUFFIDX}
      then handle (hwc_layer rl) = 1 \<and> blending (hwc_layer rl) \<noteq> HWC_BLENDING_PREMULT
      else real_layer rl \<and> live_handle rl)"

lemma drawable_cases:
  assumes "drawable rl"
  shows "real_layer rl \<and> live_handle rl \<or>
         \<not> real_layer rl \<and> buffidx rl \<in> {RGZ_BACKGROUND_BUFFIDX, RGZ_CLEARHINT_BUFFIDX} \<and>
         blending (hwc_layer rl) \<noteq> HWC_BLENDING_PREMULT"
  using assms by (auto simp: drawable_def real_layer_def split: if_splits)

lemma drawable_live: "drawable rl \<Longrightarrow> real_layer rl \<Longrightarrow> live_handle rl"
  by (auto simp: drawable_def real_layer_def split: if_splits)

lemma copy_subregion_adds:
  assumes "shows_screen p scr" "on_screen scr (rect_at hr s lix)" "same_counts p st" "\<not> noblend p"
    and "real_layer (layer_at fb hr lix)" "live_handle (layer_at fb hr lix)"
  shows "\<exists>st'. copy_subregion mem p fb hr s lix st = Inr st' \<and>
     adds p (rect_at hr s lix) (\<lambda>_. [buf (layer_at fb hr lix)]) 1 st st'"
  using subregion_copy_adds [OF assms(1,2,5,6,3), of mem] assms(4) by (auto simp: copy_subregion_def)

text \<open>Drawing from a real layer upwards.\<close>

lemma draw_subregion_adds:
  assumes "shows_screen p scr" "on_screen scr (rect_at hr s lix)" "same_counts p st" "\<not> noblend p"
    and "list_all (live_handle \<circ> layer_at fb hr) (lix # above hr s lix)" "real_layer (layer_at fb hr lix)"
  shows "\<exists>st' n. draw_subregion mem p fb hr s (Suc (length (above hr s lix))) lix st = Inr st' \<and> 0 < n \<and>
     n \<le> Suc (length (above hr s lix)) \<and>
     adds p (rect_at hr s lix) (\<lambda>_. map (buf \<circ> layer_at fb hr) (lix # above hr s lix)) n st st'"
proof (cases "above hr s lix")
  case Nil
  then show ?thesis
    using copy_subregion_adds [OF assms(1-4), of fb mem] assms(5,6)
    by (auto simp: draw_subregion_def intro!: exI [of _ "1 :: nat"])
next
  case (Cons k ks)
  then show ?thesis
    using blend_subregion_adds [OF assms(1-3) Cons, of fb mem] assms(4,5,6)
    by (auto simp: draw_subregion_def)
qed

text \<open>Drawing the visible part of a stack: the layers that only clear leave nothing.\<close>

lemma draw_visible_adds:
  fixes fb :: rgz_fb_state_t and hr :: blit_hregion_t and s lix :: nat
  assumes "shows_screen p scr" "same_counts p st" "\<not> noblend p"
    and "\<forall>k \<in> set (lix # above hr s lix). rect_at hr s k = rect" "on_screen scr rect"
    and "list_all (drawable \<circ> layer_at fb hr) (lix # above hr s lix)"
    and "list_all (real_layer \<circ> layer_at fb hr) (above hr s lix)"
  shows "\<exists>st' n. draw_above_background mem p fb hr s (Suc (length (above hr s lix))) lix st = Inr st' \<and> 0 < n \<and>
     n \<le> Suc (length (above hr s lix)) \<and>
     adds p rect (\<lambda>_. map buf (filter real_layer (map (layer_at fb hr) (lix # above hr s lix)))) n st st'"
proof -
  let ?rl = "layer_at fb hr lix" and ?b = "buf \<circ> layer_at fb hr"
  have live: "list_all (live_handle \<circ> layer_at fb hr) (above hr s lix)"
    using assms(6,7) by (auto simp: list_all_iff intro: drawable_live)
  have top: "filter real_layer (map (layer_at fb hr) (above hr s lix)) = map (layer_at fb hr) (above hr s lix)"
    using assms(7) by (auto simp: list_all_iff intro!: filter_True)
  have next_clear: "draw_above_clear mem p fb hr s n k st = draw_subregion mem p fb hr s n k st"
    if "real_layer (layer_at fb hr k)" for n k st
    using that by (simp add: draw_above_clear_def real_layer_def)
  show ?thesis
  proof (cases "real_layer ?rl")
    case True
    then have "live_handle ?rl" using assms(6) by (auto intro: drawable_live)
    then show ?thesis
      using draw_subregion_adds [OF assms(1) _ assms(2,3), where hr = hr and s = s and lix = lix and fb = fb and mem = mem]
        True live top assms(4,5)
      by (simp add: draw_above_background_def next_clear comp_def) (auto simp: real_layer_def)
  next
    case False
    then have bc: "buffidx ?rl \<in> {RGZ_BACKGROUND_BUFFIDX, RGZ_CLEARHINT_BUFFIDX}"
      using assms(6) by (auto simp: drawable_def split: if_splits)
    show ?thesis
    proof (cases "above hr s lix")
      case Nil
      have "draw_above_background mem p fb hr s (Suc 0) lix st = rgz_out_clrdst p (Some rect) st"
        using bc assms(4) by (auto simp: draw_above_background_def draw_above_clear_def)
      then show ?thesis
        using clrdst_adds [OF assms(1,5,2)] Nil False by (auto intro!: exI [of _ "1 :: nat"])
    next
      case (Cons k ks)
      have ks: "above hr s k = ks" using above_next [OF Cons] by simp
      have "draw_above_background mem p fb hr s (Suc (Suc (length ks))) lix st =
          draw_subregion mem p fb hr s (Suc (length ks)) k st"
        using bc Cons assms(7)
        by (auto simp: draw_above_background_def draw_above_clear_def next_above real_layer_def)
      moreover have "on_screen scr (rect_at hr s k)" "rect_at hr s k = rect" using assms(4,5) Cons by auto
      ultimately obtain st' n where "draw_above_background mem p fb hr s (Suc (Suc (length ks))) lix st = Inr st'"
        "0 < n" "n \<le> Suc (length ks)" "adds p rect (\<lambda>_. map ?b (k # ks)) n st st'"
        using draw_subregion_adds [OF assms(1) _ assms(2,3), where hr = hr and s = s and lix = k and fb = fb and mem = mem]
          live assms(7) Cons ks
        by (auto simp: comp_def)
      then show ?thesis
        using top Cons False by (intro exI [of _ st'] exI [of _ n]) (simp add: comp_def)
    qed
  qed
qed

end
