(* ===== verification/Rgz_Compose.thy ===== *)
theory Rgz_Compose
  imports Rgz_Subregion
begin

text \<open>
  The regionizer as a whole: what \<open>rgz_in\<close> cuts and \<open>rgz_out_region\<close> draws is the picture the layers
  of the frame make, pixel by pixel.  The specification \<open>picture\<close> knows nothing of regions,
  subregions or blit entries.
\<close>

section \<open>The picture a frame should show\<close>

text \<open>
  The specification works on pixels and layers only: at a pixel show the layers that cover it, from
  the topmost opaque one on, in z-order; layers that only clear contribute nothing.
\<close>

definition layers_at :: "screen \<Rightarrow> rgz_fb_state_t \<Rightarrow> int \<Rightarrow> int \<Rightarrow> rgz_layer_t list" where
  "layers_at scr fb x y = filter (\<lambda>l. covers scr l x y) (active fb)"

definition shown :: "heap \<Rightarrow> screen \<Rightarrow> rgz_fb_state_t \<Rightarrow> int \<Rightarrow> int \<Rightarrow> rgz_layer_t list" where
  "shown mem scr fb x y = visible (opaque mem) (layers_at scr fb x y)"

definition picture :: "heap \<Rightarrow> screen \<Rightarrow> rgz_fb_state_t \<Rightarrow> int \<Rightarrow> int \<Rightarrow> 32 word list" where
  "picture mem scr fb x y = map buf (filter real_layer (shown mem scr fb x y))"

text \<open>A pixel is drawn again if it is damaged or one of the layers it shows is dirty.\<close>

definition redrawn :: "heap \<Rightarrow> screen \<Rightarrow> rgz_fb_state_t \<Rightarrow> blit_rect_t \<Rightarrow> int \<Rightarrow> int \<Rightarrow> bool" where
  "redrawn mem scr fb area x y \<longleftrightarrow>
     in_rect x y area \<or> list_ex (\<lambda>l. dirty_count l \<noteq> 0) (shown mem scr fb x y)"

definition new_content :: "heap \<Rightarrow> screen \<Rightarrow> rgz_fb_state_t \<Rightarrow> blit_rect_t \<Rightarrow> int \<Rightarrow> int \<Rightarrow> 32 word list \<Rightarrow> 32 word list" where
  "new_content mem scr fb area x y c = (if redrawn mem scr fb area x y then picture mem scr fb x y else c)"

text \<open>A frame as the layer check leaves it, with every layer reaching the rows of the screen.\<close>

definition frame_ok :: "screen \<Rightarrow> rgz_fb_state_t \<Rightarrow> bool" where
  "frame_ok scr fb \<longleftrightarrow>
     0 < rgz_layerno fb \<and> rgz_layerno fb \<le> length (rgz_layers fb) \<and> frame_of fb 0 = screen_rect scr \<and>
     list_all drawable (active fb) \<and>
     list_all (\<lambda>l. top (displayFrame (hwc_layer l)) \<le> scr_height scr \<and> 0 \<le> bottom (displayFrame (hwc_layer l))) (active fb)"

section \<open>Subregions of a frame\<close>

abbreviation sub_of :: "screen \<Rightarrow> blit_rect_t \<Rightarrow> rgz_fb_state_t \<Rightarrow> blit_hregion_t \<Rightarrow> nat \<Rightarrow> blit_rect_t" where
  "sub_of scr area fb hr r \<equiv> subregion_rect (hr_rect hr) (xs_of scr area fb (hr_layers hr)) r"

text \<open>A horizontal region of a cut frame, with all that is known of it.\<close>

definition region_of :: "screen \<Rightarrow> blit_rect_t \<Rightarrow> rgz_fb_state_t \<Rightarrow> blit_hregion_t \<Rightarrow> bool" where
  "region_of scr area fb hr \<longleftrightarrow> (\<exists>i < length (make_hregions scr area fb). hr = make_hregions scr area fb ! i)"

lemma frame_layer:
  assumes "frame_ok scr fb" "j < rgz_layerno fb"
  shows "active fb ! j = rgz_layers fb ! j" "rgz_layers fb ! j \<in> set (active fb)"
    "top (frame_of fb j) \<le> scr_height scr" "0 \<le> bottom (frame_of fb j)"
proof -
  show a: "active fb ! j = rgz_layers fb ! j" using assms by (simp add: active_def)
  have j: "j < length (active fb)" using assms by (simp add: active_def frame_ok_def)
  then show m: "rgz_layers fb ! j \<in> set (active fb)" using a nth_mem by metis
  show "top (frame_of fb j) \<le> scr_height scr" "0 \<le> bottom (frame_of fb j)"
    using assms(1) m by (auto simp: frame_ok_def list_all_iff frame_of_def)
qed

lemma y_entries_range:
  assumes "frame_ok scr fb" "area_on_screen scr area" "c \<in> set (y_entries scr area fb)"
  shows "0 \<le> c \<and> c \<le> scr_height scr"
proof -
  have "0 \<le> scr_height scr" using assms(2) by (auto simp: area_on_screen_def)
  then show ?thesis
    using assms(2,3) frame_layer(3,4) [OF assms(1)] by (auto simp: y_entries_def area_on_screen_def)
qed

text \<open>The rectangle of a subregion is a proper rectangle of the screen.\<close>

lemma sub_on_screen:
  assumes "fits_arrays fb" "frame_ok scr fb" "area_on_screen scr area"
    and "region_of scr area fb hr" "r < nsubregions hr"
  shows "on_screen scr (sub_of scr area fb hr r)"
proof -
  obtain i where i: "i < length (make_hregions scr area fb)" "hr = make_hregions scr area fb ! i"
    using assms(4) by (auto simp: region_of_def)
  note f = hregion_facts [OF assms(1) i(1), folded i(2)]
  let ?xs = "xs_of scr area fb (hr_layers hr)" and ?ys = "ys_of scr area fb"
  have r: "Suc r < length ?xs" using f(8) assms(5) by simp
  have "?xs ! r \<in> set (x_offsets scr area fb (hr_layers hr))" "?xs ! Suc r \<in> set (x_offsets scr area fb (hr_layers hr))"
    using r by (auto intro!: rgz_cut.cuts_nth_mem)
  then have "0 \<le> ?xs ! r" "?xs ! Suc r \<le> scr_width scr" using x_offsets_range [OF assms(1,3) i(1)] i(2) by auto
  moreover have "?ys ! i \<in> set (y_entries scr area fb)" "?ys ! Suc i \<in> set (y_entries scr area fb)"
    using f(1) by (auto intro!: rgz_cut.cuts_nth_mem)
  then have "0 \<le> ?ys ! i" "?ys ! Suc i \<le> scr_height scr" using y_entries_range [OF assms(2,3)] by auto
  moreover have "?xs ! r < ?xs ! Suc r" "?ys ! i < ?ys ! Suc i" using r f(1) by (auto intro!: rgz_cut.cuts_mono)
  ultimately show ?thesis using f(2,3) by (simp add: on_screen_def subregion_rect_def)
qed

lemma on_screen_not_empty: "on_screen scr r \<Longrightarrow> \<not> empty_rect r"
  by (auto simp: on_screen_def empty_rect_def)

lemma in_on_screen: "on_screen scr r \<Longrightarrow> in_rect x y r \<Longrightarrow> in_rect x y (screen_rect scr)"
  by (auto simp: on_screen_def in_rect_def screen_rect_def)

text \<open>At every pixel of a subregion the stack of the subregion is the stack of the pixel.\<close>

lemma sub_rect_at:
  assumes "fits_arrays fb" "region_of scr area fb hr" "r < nsubregions hr" "l < nlayers hr"
  shows "rect_at hr r l = (if RECT_INTERSECTS (sub_of scr area fb hr r) (frame_of fb (hr_layers hr ! l))
                           then sub_of scr area fb hr r else zero_rect)"
  using assms hregion_facts(11) [OF assms(1)]
  by (auto simp: region_of_def rect_at_def nlayers_def Let_def)

lemma sub_covers:
  assumes "fits_arrays fb" "area_on_screen scr area" "region_of scr area fb hr" "r < nsubregions hr" "l < nlayers hr"
    and "in_rect x y (sub_of scr area fb hr r)" "in_rect x y (screen_rect scr)"
  shows "RECT_INTERSECTS (sub_of scr area fb hr r) (frame_of fb (hr_layers hr ! l)) \<longleftrightarrow>
         covers scr (layer_at fb hr l) x y"
proof
  assume hit: "RECT_INTERSECTS (sub_of scr area fb hr r) (frame_of fb (hr_layers hr ! l))"
  then have "in_rect x y (blitrects hr ! l ! r)" using sub_rect_at [OF assms(1,3-5)] assms(6) by (simp add: rect_at_def)
  then show "covers scr (layer_at fb hr l) x y"
    using regions_inside [OF assms(1,2)] assms(3-5,7)
    by (auto simp: region_of_def layer_at_def nlayers_def in_rect_def screen_rect_def)
next
  assume "covers scr (layer_at fb hr l) x y"
  then show "RECT_INTERSECTS (sub_of scr area fb hr r) (frame_of fb (hr_layers hr ! l))"
    using assms(6) by (auto simp: covers_def layer_at_def frame_of_def intro: in_both_intersects)
qed

lemma map_nth_filter: "map ((!) xs) (filter (\<lambda>k. P (xs ! k)) [0..<length xs]) = filter P xs"
  using filter_map [of P "(!) xs" "[0..<length xs]"] by (simp add: map_nth comp_def)

lemma active_map: "rgz_layerno fb \<le> length (rgz_layers fb) \<Longrightarrow> active fb = map ((!) (rgz_layers fb)) [0..<rgz_layerno fb]"
  by (rule nth_equalityI) (simp_all add: active_def)

text \<open>A subregion lies in its region.\<close>

lemma sub_in_region:
  assumes "fits_arrays fb" "frame_ok scr fb" "region_of scr area fb hr"
    and "in_rect x y (sub_of scr area fb hr r)" "in_rect x y (screen_rect scr)"
  shows "in_rect x y (hr_rect hr)"
proof -
  obtain i where i: "i < length (make_hregions scr area fb)" "hr = make_hregions scr area fb ! i"
    using assms(3) by (auto simp: region_of_def)
  note f = hregion_facts [OF assms(1) i(1), folded i(2)]
  have "scr_width scr \<le> disp_width area fb"
    using disp_width_ge(2) [of 0 fb area] assms(2) by (simp add: frame_ok_def screen_rect_def)
  then show ?thesis using f(4,5) assms(4,5) by (auto simp: in_rect_def subregion_rect_def screen_rect_def)
qed

lemma stack_pixel:
  assumes "fits_arrays fb" "frame_ok scr fb" "area_on_screen scr area" "region_of scr area fb hr" "r < nsubregions hr"
    and "in_rect x y (sub_of scr area fb hr r)"
  shows "map (layer_at fb hr) (stack hr r) = layers_at scr fb x y"
proof -
  have on: "on_screen scr (sub_of scr area fb hr r)" using sub_on_screen [OF assms(1-5)] .
  have px: "in_rect x y (screen_rect scr)" using in_on_screen [OF on assms(6)] .
  have "stack hr r = filter (\<lambda>k. covers scr (rgz_layers fb ! (hr_layers hr ! k)) x y) [0..<length (hr_layers hr)]"
    unfolding stack_def nlayers_def
  proof (rule filter_cong [OF refl])
    fix k assume "k \<in> set [0..<length (hr_layers hr)]"
    then have k: "k < nlayers hr" by (simp add: nlayers_def)
    show "(\<not> empty_rect (rect_at hr r k)) = covers scr (rgz_layers fb ! (hr_layers hr ! k)) x y"
      using sub_rect_at [OF assms(1,4,5) k] sub_covers [OF assms(1,3-5) k assms(6) px] on_screen_not_empty [OF on]
      by (simp add: layer_at_def)
  qed
  then have "map ((!) (hr_layers hr)) (stack hr r) = filter (\<lambda>j. covers scr (rgz_layers fb ! j) x y) (hr_layers hr)"
    using map_nth_filter [of "hr_layers hr" "\<lambda>j. covers scr (rgz_layers fb ! j) x y"] by simp
  also have "\<dots> = filter (\<lambda>j. covers scr (rgz_layers fb ! j) x y) [0..<rgz_layerno fb]"
  proof -
    obtain i where i: "i < length (make_hregions scr area fb)" "hr = make_hregions scr area fb ! i"
      using assms(4) by (auto simp: region_of_def)
    have "RECT_INTERSECTS (hr_rect hr) (frame_of fb j)" if "covers scr (rgz_layers fb ! j) x y" for j
      using that in_both_intersects [OF sub_in_region [OF assms(1,2,4,6) px]] by (auto simp: covers_def frame_of_def)
    then show ?thesis
      by (subst hregion_facts(6) [OF assms(1) i(1), folded i(2)]) (auto intro: filter_cong)
  qed
  finally have "map ((!) (rgz_layers fb)) (map ((!) (hr_layers hr)) (stack hr r)) =
      map ((!) (rgz_layers fb)) (filter (\<lambda>j. covers scr (rgz_layers fb ! j) x y) [0..<rgz_layerno fb])" by simp
  also have "\<dots> = layers_at scr fb x y"
    using assms(2) by (simp add: layers_at_def active_map frame_ok_def filter_map comp_def)
  finally show ?thesis by (simp add: layer_at_def [abs_def] comp_def)
qed

section \<open>Drawing a frame\<close>

text \<open>
  The state after a part of the drawing: unless the pool ran full, the pixels in \<open>Q\<close> have their new
  content and the others are as before.
\<close>

definition paints :: "rgz_out_params_t \<Rightarrow> screen \<Rightarrow> (int \<Rightarrow> int \<Rightarrow> 32 word list \<Rightarrow> 32 word list) \<Rightarrow> (int \<Rightarrow> int \<Rightarrow> bool) \<Rightarrow> nat \<Rightarrow>
    out_state \<Rightarrow> out_state \<Rightarrow> bool" where
  "paints p scr D Q n st st' \<longleftrightarrow>
     same_counts p st' \<and> length (bvcmds st) \<le> length (bvcmds st') \<and> length (bvcmds st') \<le> length (bvcmds st) + n \<and>
     (room st' \<longrightarrow> (\<exists>es. bvcmds st' = bvcmds st @ es \<and>
        (\<forall>x y c. in_rect x y (screen_rect scr) \<longrightarrow> draw_pixels x y es c = (if Q x y then D x y c else c))))"

lemma paints_refl: "same_counts p st \<Longrightarrow> paints p scr D (\<lambda>x y. False) n st st"
  by (auto simp: paints_def draw_pixels_def)

lemma paints_trans:
  assumes "paints p scr D Q m st st'" "paints p scr D R n st' st''" "\<And>x y c. D x y (D x y c) = D x y c"
  shows "paints p scr D (\<lambda>x y. Q x y \<or> R x y) (m + n) st st''"
proof -
  have "\<exists>es. bvcmds st'' = bvcmds st @ es \<and> (\<forall>x y c. in_rect x y (screen_rect scr) \<longrightarrow>
      draw_pixels x y es c = (if Q x y \<or> R x y then D x y c else c))" if r: "room st''"
  proof -
    have "room st'" using r assms(2) by (simp add: paints_def room_def)
    then obtain es fs where "bvcmds st' = bvcmds st @ es" "bvcmds st'' = bvcmds st' @ fs"
      "\<forall>x y c. in_rect x y (screen_rect scr) \<longrightarrow> draw_pixels x y es c = (if Q x y then D x y c else c)"
      "\<forall>x y c. in_rect x y (screen_rect scr) \<longrightarrow> draw_pixels x y fs c = (if R x y then D x y c else c)"
      using assms(1,2) r by (auto simp: paints_def)
    then show ?thesis by (intro exI [of _ "es @ fs"]) (simp add: draw_pixels_append assms(3))
  qed
  then show ?thesis using assms(1,2) by (simp add: paints_def)
qed

lemma new_content_idem: "new_content mem scr fb area x y (new_content mem scr fb area x y c) = new_content mem scr fb area x y c"
  by (simp add: new_content_def)

lemma stack_not_empty:
  assumes "fits_arrays fb" "frame_ok scr fb" "area_on_screen scr area" "region_of scr area fb hr" "r < nsubregions hr"
  shows "stack hr r \<noteq> []"
proof -
  let ?sub = "sub_of scr area fb hr r"
  have on: "on_screen scr ?sub" using sub_on_screen [OF assms] .
  then have px: "in_rect (left ?sub) (top ?sub) ?sub" by (simp add: on_screen_def in_rect_def)
  have "covers scr (rgz_layers fb ! 0) (left ?sub) (top ?sub)"
    using assms(2) in_on_screen [OF on px] by (simp add: covers_def frame_ok_def frame_of_def)
  then have "rgz_layers fb ! 0 \<in> set (layers_at scr fb (left ?sub) (top ?sub))"
    using frame_layer(2) [OF assms(2), of 0] assms(2) by (simp add: layers_at_def frame_ok_def)
  then show ?thesis using stack_pixel [OF assms px] by auto
qed

text \<open>The damaged area is cut out as well: it holds all pixels of a subregion or none.\<close>

lemma area_hit:
  assumes "fits_arrays fb" "region_of scr area fb hr" "r < nsubregions hr" "in_rect x y (sub_of scr area fb hr r)"
  shows "RECT_INTERSECTS area (sub_of scr area fb hr r) \<longleftrightarrow> in_rect x y area"
proof
  obtain i where i: "i < length (make_hregions scr area fb)" "hr = make_hregions scr area fb ! i"
    using assms(2) by (auto simp: region_of_def)
  note f = hregion_facts [OF assms(1) i(1), folded i(2)]
  have r: "Suc r < length (xs_of scr area fb (hr_layers hr))" using f(8) assms(3) by simp
  have e: "left area \<in> set (x_offsets scr area fb (hr_layers hr))" "right area \<in> set (x_offsets scr area fb (hr_layers hr))"
    "top area \<in> set (y_entries scr area fb)" "bottom area \<in> set (y_entries scr area fb)"
    by (simp_all add: x_offsets_def y_entries_def)
  note c = rgz_cut.no_cut_inside [OF e(1) r] rgz_cut.no_cut_inside [OF e(2) r]
    rgz_cut.no_cut_inside [OF e(3) f(1)] rgz_cut.no_cut_inside [OF e(4) f(1)]
  assume "RECT_INTERSECTS area (sub_of scr area fb hr r)"
  then show "in_rect x y area"
    using c assms(4) f(2,3) by (auto simp: RECT_INTERSECTS_def in_rect_def subregion_rect_def)
next
  assume "in_rect x y area"
  then show "RECT_INTERSECTS area (sub_of scr area fb hr r)" using assms(4) by (rule in_both_intersects)
qed

text \<open>Whether a subregion is drawn is whether any of its pixels has to be.\<close>

lemma sub_dirty_pixel:
  assumes "fits_arrays fb" "frame_ok scr fb" "area_on_screen scr area" "region_of scr area fb hr" "r < nsubregions hr"
    and "in_rect x y (sub_of scr area fb hr r)"
    and "visible (opaque mem \<circ> layer_at fb hr) (stack hr r) = k # above hr r k" "rect_at hr r k = sub_of scr area fb hr r"
  shows "subregion_dirty fb hr r area k \<longleftrightarrow> redrawn mem scr fb area x y"
proof -
  let ?sub = "sub_of scr area fb hr r"
  have hit: "RECT_INTERSECTS area ?sub \<longleftrightarrow> in_rect x y area"
    using area_hit [OF assms(1,4-6)] .
  have "shown mem scr fb x y = map (layer_at fb hr) (k # above hr r k)"
    using stack_pixel [OF assms(1-6)] assms(7) by (simp add: shown_def visible_map flip: stack_pixel [OF assms(1-6)])
  then show ?thesis
    by (auto simp: subregion_dirty_def redrawn_def assms(8) hit dirty_scan_spec list_ex_iff)
qed

lemma region_layers:
  assumes "fits_arrays fb" "frame_ok scr fb" "region_of scr area fb hr"
  shows "k < nlayers hr \<Longrightarrow> layer_at fb hr k \<in> set (active fb)" "nlayers hr \<le> rgz_layerno fb"
proof -
  obtain i where i: "i < length (make_hregions scr area fb)" "hr = make_hregions scr area fb ! i"
    using assms(3) by (auto simp: region_of_def)
  note f = hregion_facts(6) [OF assms(1) i(1), folded i(2)]
  show "layer_at fb hr k \<in> set (active fb)" if "k < nlayers hr"
  proof -
    have "hr_layers hr ! k \<in> set (hr_layers hr)" using that by (simp add: nlayers_def)
    then have "hr_layers hr ! k < rgz_layerno fb" by (subst (asm) (2) f) simp
    then show ?thesis using frame_layer(2) [OF assms(2)] by (simp add: layer_at_def)
  qed
  show "nlayers hr \<le> rgz_layerno fb"
    unfolding nlayers_def by (subst f) (metis diff_zero length_filter_le length_upt)
qed

lemma subregion_blit_paints:
  assumes "fits_arrays fb" "frame_ok scr fb" "area_on_screen scr area" "region_of scr area fb hr" "r < nsubregions hr"
    and "shows_screen p scr" "\<not> noblend p" "same_counts p st"
  shows "\<exists>st'. rgz_hwc_subregion_blit mem p fb area hr r st = Inr (st', True) \<and>
     paints p scr (new_content mem scr fb area) (\<lambda>x y. in_rect x y (sub_of scr area fb hr r)) (rgz_layerno fb) st st'"
proof -
  let ?sub = "sub_of scr area fb hr r" and ?D = "new_content mem scr fb area"
  let ?la = "layer_at fb hr"
  have on: "on_screen scr ?sub" using sub_on_screen [OF assms(1-5)] .
  note ne = stack_not_empty [OF assms(1-5)]
  have in_frame: "?la k \<in> set (active fb)" if "k \<in> set (stack hr r)" for k
    using that region_layers(1) [OF assms(1,2,4)] by (simp add: stack_def)
  then have dr: "drawable (?la k)" if "k \<in> set (stack hr r)" for k
    using that assms(2) by (auto simp: frame_ok_def list_all_iff)
  have rects: "rect_at hr r k = ?sub" if "k \<in> set (stack hr r)" for k
    using that sub_rect_at [OF assms(1,4,5), of k] by (auto simp: stack_def split: if_splits)
  have prem: "\<forall>k \<in> set (stack hr r). blending (hwc_layer (?la k)) = HWC_BLENDING_PREMULT \<longrightarrow> live_handle (?la k)"
    using drawable_cases [OF dr] by blast
  obtain k where k: "visible (opaque mem \<circ> ?la) (stack hr r) = k # above hr r k"
    "get_layer_ops mem fb hr r = Inr (Suc (length (above hr r k)), Some k)"
    using get_layer_ops_spec [OF prem ne] by auto
  have vis: "set (k # above hr r k) \<subseteq> set (stack hr r)" using visible_subset [of "opaque mem \<circ> ?la" "stack hr r"] k(1) by simp
  have dirty: "subregion_dirty fb hr r area k = redrawn mem scr fb area x y" if "in_rect x y ?sub" for x y
    using sub_dirty_pixel [OF assms(1-5) that k(1)] rects vis by simp
  have sh: "shown mem scr fb x y = map ?la (k # above hr r k)" if "in_rect x y ?sub" for x y
    using k(1) by (simp add: shown_def visible_map flip: stack_pixel [OF assms(1-5) that])
  show ?thesis
  proof (cases "subregion_dirty fb hr r area k")
    case False
    then have "rgz_hwc_subregion_blit mem p fb area hr r st = Inr (st, True)" using k(2) by (simp add: rgz_hwc_subregion_blit_def)
    moreover have "paints p scr ?D (\<lambda>x y. in_rect x y ?sub) (rgz_layerno fb) st st"
      using assms(8) False dirty by (auto simp: paints_def draw_pixels_def new_content_def)
    ultimately show ?thesis by blast
  next
    case True
    have "\<not> list_ex (opaque mem \<circ> ?la) (above hr r k)" using visible_tail [OF k(1)] .
    then have real: "list_all (real_layer \<circ> ?la) (above hr r k)"
      using drawable_cases [OF dr] vis by (fastforce simp: list_ex_iff list_all_iff opaque_def)
    have vr: "\<forall>j \<in> set (k # above hr r k). rect_at hr r j = ?sub" using rects vis by blast
    have vd: "list_all (drawable \<circ> ?la) (k # above hr r k)" unfolding list_all_iff comp_def using dr vis by blast
    obtain st' n where st': "draw_above_background mem p fb hr r (Suc (length (above hr r k))) k st = Inr st'"
      "n \<le> Suc (length (above hr r k))"
      "adds p ?sub (\<lambda>_. map buf (filter real_layer (map ?la (k # above hr r k)))) n st st'"
      using draw_visible_adds [OF assms(6,8,7) vr on vd real, of mem] by auto
    have "length (k # above hr r k) \<le> length (stack hr r)"
      using visible_suffix [of "stack hr r" "opaque mem \<circ> ?la"] k(1) by (metis length_append le_add2)
    also have "\<dots> \<le> rgz_layerno fb" using region_layers(2) [OF assms(1,2,4)] by (simp add: stack_def) (metis diff_zero length_filter_le length_upt order_trans)
    finally have "Suc (length (above hr r k)) \<le> rgz_layerno fb" by simp
    then have "paints p scr ?D (\<lambda>x y. in_rect x y ?sub) (rgz_layerno fb) st st'"
      using st'(2,3) dirty True sh
      by (auto simp: adds_def paints_def new_content_def picture_def group_draws_pixel)
    then show ?thesis using st'(1) k(2) True by (auto simp: rgz_hwc_subregion_blit_def)
  qed
qed

lemma paints_weaken:
  "paints p scr D Q m st st' \<Longrightarrow> m \<le> n \<Longrightarrow> (\<And>x y. Q x y = R x y) \<Longrightarrow> paints p scr D R n st st'"
  by (auto simp: paints_def)

lemma paints_counts: "paints p scr D Q m st st' \<Longrightarrow> same_counts p st'"
  by (simp add: paints_def)

lemma blit_subregions_paints:
  assumes "fits_arrays fb" "frame_ok scr fb" "area_on_screen scr area" "region_of scr area fb hr"
    and "shows_screen p scr" "\<not> noblend p" "same_counts p st" "\<forall>r \<in> set rs. r < nsubregions hr"
  shows "\<exists>st'. blit_subregions mem p fb area hr rs st = Inr (st', True) \<and>
     paints p scr (new_content mem scr fb area) (\<lambda>x y. \<exists>r \<in> set rs. in_rect x y (sub_of scr area fb hr r))
       (length rs * rgz_layerno fb) st st'"
  using assms(7,8)
proof (induction rs arbitrary: st)
  case Nil
  then show ?case using paints_refl by fastforce
next
  case (Cons r rs)
  have r: "r < nsubregions hr" "\<forall>r \<in> set rs. r < nsubregions hr" using Cons.prems(2) by simp_all
  obtain st1 where st1: "rgz_hwc_subregion_blit mem p fb area hr r st = Inr (st1, True)"
    "paints p scr (new_content mem scr fb area) (\<lambda>x y. in_rect x y (sub_of scr area fb hr r)) (rgz_layerno fb) st st1"
    using subregion_blit_paints [OF assms(1-4) r(1) assms(5,6) Cons.prems(1)] by blast
  obtain st2 where st2: "blit_subregions mem p fb area hr rs st1 = Inr (st2, True)"
    "paints p scr (new_content mem scr fb area) (\<lambda>x y. \<exists>r \<in> set rs. in_rect x y (sub_of scr area fb hr r))
       (length rs * rgz_layerno fb) st1 st2"
    using Cons.IH [OF paints_counts [OF st1(2)] r(2)] by blast
  show ?case
    using st1(1) st2(1) paints_weaken [OF paints_trans [OF st1(2) st2(2) new_content_idem],
        of _ "\<lambda>x y. \<exists>r' \<in> set (r # rs). in_rect x y (sub_of scr area fb hr r')"] by simp
qed

lemma region_has_layers:
  assumes "fits_arrays fb" "frame_ok scr fb" "area_on_screen scr area" "region_of scr area fb hr" "0 < scr_width scr"
  shows "nlayers hr \<noteq> 0"
proof -
  obtain i where i: "i < length (make_hregions scr area fb)" "hr = make_hregions scr area fb ! i"
    using assms(4) by (auto simp: region_of_def)
  note f = hregion_facts [OF assms(1) i(1), folded i(2)]
  let ?ys = "ys_of scr area fb"
  have "?ys ! i \<in> set (y_entries scr area fb)" "?ys ! Suc i \<in> set (y_entries scr area fb)"
    using f(1) by (auto intro!: rgz_cut.cuts_nth_mem)
  then have y: "0 \<le> ?ys ! i" "?ys ! Suc i \<le> scr_height scr" using y_entries_range [OF assms(2,3)] by auto
  have lt: "?ys ! i < ?ys ! Suc i" using f(1) by (auto intro!: rgz_cut.cuts_mono)
  have w: "scr_width scr \<le> disp_width area fb"
    using disp_width_ge(2) [of 0 fb area] assms(2) by (simp add: frame_ok_def screen_rect_def)
  have "RECT_INTERSECTS (hr_rect hr) (frame_of fb 0)"
    using f(2-5) y lt w assms(2,5) by (simp add: RECT_INTERSECTS_def frame_ok_def screen_rect_def)
  then have "0 \<in> set (hr_layers hr)" using assms(2) by (subst f(6)) (simp add: frame_ok_def)
  then show ?thesis by (auto simp: nlayers_def)
qed

lemma blit_hregions_paints:
  assumes "fits_arrays fb" "frame_ok scr fb" "area_on_screen scr area"
    and "shows_screen p scr" "\<not> noblend p" "same_counts p st" "\<forall>hr \<in> set hrs. region_of scr area fb hr"
    and "\<forall>hr \<in> set hrs. nsubregions hr \<le> m"
  shows "\<exists>st'. blit_hregions mem p fb area hrs st = Inr (st', True) \<and>
     paints p scr (new_content mem scr fb area)
       (\<lambda>x y. \<exists>hr \<in> set hrs. \<exists>r < nsubregions hr. in_rect x y (sub_of scr area fb hr r))
       (length hrs * (m * rgz_layerno fb)) st st'"
  using assms(6-8)
proof (induction hrs arbitrary: st)
  case Nil
  then show ?case using paints_refl by fastforce
next
  case (Cons hr hrs)
  have hr: "region_of scr area fb hr" "nsubregions hr \<le> m" using Cons.prems by simp_all
  have rs: "\<forall>r \<in> set [0..<nsubregions hr]. r < nsubregions hr" by simp
  have nz: "nlayers hr \<noteq> 0" using region_has_layers [OF assms(1-3) hr(1)] assms(4) by (simp add: shows_screen_def)
  obtain st1 where st1: "blit_subregions mem p fb area hr [0..<nsubregions hr] st = Inr (st1, True)"
    "paints p scr (new_content mem scr fb area) (\<lambda>x y. \<exists>r \<in> set [0..<nsubregions hr]. in_rect x y (sub_of scr area fb hr r))
       (length [0..<nsubregions hr] * rgz_layerno fb) st st1"
    using blit_subregions_paints [OF assms(1-3) hr(1) assms(4,5) Cons.prems(1) rs] by blast
  obtain st2 where st2: "blit_hregions mem p fb area hrs st1 = Inr (st2, True)"
    "paints p scr (new_content mem scr fb area)
       (\<lambda>x y. \<exists>hr \<in> set hrs. \<exists>r < nsubregions hr. in_rect x y (sub_of scr area fb hr r))
       (length hrs * (m * rgz_layerno fb)) st1 st2"
    using Cons.IH [OF paints_counts [OF st1(2)]] Cons.prems(2,3) by auto
  have "nsubregions hr * rgz_layerno fb \<le> m * rgz_layerno fb" using hr(2) by simp
  then have "paints p scr (new_content mem scr fb area)
      (\<lambda>x y. \<exists>hr \<in> set (hr # hrs). \<exists>r < nsubregions hr. in_rect x y (sub_of scr area fb hr r))
      (length (hr # hrs) * (m * rgz_layerno fb)) st st2"
    by (intro paints_weaken [OF paints_trans [OF st1(2) st2(2) new_content_idem]]) (simp_all add: Bex_def, blast)
  then show ?case using st1(1) st2(1) nz by simp
qed

text \<open>Every pixel of the screen lies in a subregion.\<close>

lemma pixel_in_subregion:
  assumes "fits_arrays fb" "frame_ok scr fb" "in_rect x y (screen_rect scr)"
  shows "\<exists>hr \<in> set (make_hregions scr area fb). \<exists>r < nsubregions hr. in_rect x y (sub_of scr area fb hr r)"
proof -
  have "covers scr (rgz_layers fb ! 0) x y" using assms(2,3) by (simp add: covers_def frame_ok_def frame_of_def)
  then obtain i l r where i: "i < length (make_hregions scr area fb)"
    "l < length (hr_layers (make_hregions scr area fb ! i))" "r < nsubregions (make_hregions scr area fb ! i)"
    "in_rect x y (blitrects (make_hregions scr area fb ! i) ! l ! r)"
    using regions_cover [OF assms(1), of 0 scr x y area] assms(2) by (auto simp: frame_ok_def)
  let ?hr = "make_hregions scr area fb ! i"
  have "in_rect x y (sub_of scr area fb ?hr r)"
    using blitrect_in(1-4) [OF assms(1) i] hregion_facts(2,3) [OF assms(1) i(1)]
    by (simp add: in_rect_def subregion_rect_def)
  then show ?thesis using i(1,3) nth_mem by blast
qed

lemma region_counts:
  assumes "fits_arrays fb" "frame_ok scr fb"
  shows "region_of scr area fb hr \<Longrightarrow> nsubregions hr \<le> 2 * rgz_layerno fb + 1"
    "length (make_hregions scr area fb) \<le> 2 * rgz_layerno fb + 1"
proof -
  show "length (make_hregions scr area fb) \<le> 2 * rgz_layerno fb + 1"
    using rgz_cut.cuts_length [of "y_entries scr area fb"] by (auto simp: length_make_hregions length_y_entries)
  assume r: "region_of scr area fb hr"
  then have "nsubregions hr = length (xs_of scr area fb (hr_layers hr)) - 1"
    using hregion_facts(8) [OF assms(1)] by (auto simp: region_of_def)
  moreover have "length (xs_of scr area fb (hr_layers hr)) \<le> 2 + 2 * rgz_layerno fb"
    using rgz_cut.cuts_length [of "x_offsets scr area fb (hr_layers hr)"] region_layers(2) [OF assms r]
    by (simp add: length_x_offsets nlayers_def)
  ultimately show "nsubregions hr \<le> 2 * rgz_layerno fb + 1" by simp
qed

section \<open>The output of a frame\<close>

lemma sync_last_pixels: "draw_pixels x y (bvcmds (sync_last st)) c = draw_pixels x y (bvcmds st) c"
proof (cases "bvcmds st" rule: rev_cases)
  case (snoc es e)
  then show ?thesis
    using same_drawing_async [of False e]
    by (simp add: sync_last_def draw_pixels_def draw_pixel_def same_drawing_def split: option.split)
qed (simp add: sync_last_def)

lemma sync_last_count [simp]: "length (bvcmds (sync_last st)) = length (bvcmds st)" "out_blits (sync_last st) = out_blits st"
  by (cases "bvcmds st" rule: rev_cases; simp add: sync_last_def)+

lemma region_output:
  assumes "rgz_in_hwc alloc scr rgz = (rgz', True)" "frame_ok scr (cur_fb_state rgz)" "area_on_screen scr (damaged_area rgz)"
    and "shows_screen p scr" "\<not> noblend p" "IS_BVCMD p"
  shows "\<exists>r. rgz_out_region mem bv p rgz' = Inr r \<and> out_nblits r = length (out_cmds r) \<and>
     out_nblits r \<le> RGZ_MAX_BLITS \<and> out_rv r = (if out_nblits r < RGZ_MAX_BLITS then 0 else -1) \<and>
     out_nblits r \<le> (2 * rgz_layerno (cur_fb_state rgz) + 1) ^ 2 * rgz_layerno (cur_fb_state rgz) \<and>
     (out_rv r = 0 \<longrightarrow> (\<forall>x y c. in_rect x y (screen_rect scr) \<longrightarrow> draw_pixels x y (out_cmds r) c =
        new_content mem scr (cur_fb_state rgz) (damaged_area rgz) x y c))"
proof -
  let ?fb = "cur_fb_state rgz" and ?area = "damaged_area rgz"
  let ?hrs = "make_hregions scr ?area ?fb" and ?n = "rgz_layerno ?fb"
  note h = in_hwc_result [OF assms(1)]
  have h': "nhregions rgz' = length ?hrs" "damaged_area rgz' = ?area"
    using assms(1) by (auto simp: rgz_in_hwc_def rgz_delete_region_data_def Let_def split: if_splits)
  have reg: "\<forall>hr \<in> set ?hrs. region_of scr ?area ?fb hr" by (auto simp: region_of_def in_set_conv_nth)
  have sub: "\<forall>hr \<in> set ?hrs. nsubregions hr \<le> 2 * ?n + 1"
    using reg region_counts(1) [OF h(1) assms(2)] by blast
  note hl = region_counts(2) [OF h(1) assms(2), of ?area]
  obtain st where st: "blit_hregions mem p ?fb ?area ?hrs blank_out = Inr (st, True)"
    "paints p scr (new_content mem scr ?fb ?area)
      (\<lambda>x y. \<exists>hr \<in> set ?hrs. \<exists>r < nsubregions hr. in_rect x y (sub_of scr ?area ?fb hr r))
      (length ?hrs * ((2 * ?n + 1) * ?n)) blank_out st"
    using blit_hregions_paints [OF h(1) assms(2-5) _ reg sub, of blank_out mem] by (auto simp: same_counts_def blank_out_def)
  have sc: "length (bvcmds st) \<le> RGZ_MAX_BLITS" "out_blits st = length (bvcmds st)"
    using paints_counts [OF st(2)] assms(6) by (simp_all add: same_counts_def)
  have "length (bvcmds st) \<le> length ?hrs * ((2 * ?n + 1) * ?n)" using st(2) by (simp add: paints_def blank_out_def)
  also have "\<dots> \<le> (2 * ?n + 1) * ((2 * ?n + 1) * ?n)" using hl by (rule mult_le_mono1)
  finally have cnt: "length (bvcmds st) \<le> (2 * ?n + 1) ^ 2 * ?n" by (simp only: power2_eq_square mult.assoc)
  have px: "draw_pixels x y (bvcmds st) c = new_content mem scr ?fb ?area x y c"
    if "room st" "in_rect x y (screen_rect scr)" for x y c
    using st(2) that pixel_in_subregion [OF h(1) assms(2) that(2), of ?area] by (auto simp: paints_def blank_out_def)
  show ?thesis
    using st(1) h h' assms(6) sc cnt px
    by (auto simp: rgz_out_region_def sync_last_pixels room_def Let_def)
qed

end
