(* ===== verification/Rgz_Output.thy ===== *)
theory Rgz_Output
  imports Rgz_Compose
begin

text \<open>
  The properties of the whole regionizer, from the layer list to the blit entries: what the layer
  check establishes of the frame, that the output draws the picture of the frame, and two inputs
  for which it does not.
\<close>

section \<open>Frames the layer check accepts\<close>

text \<open>
  What the blitter needs of the layers to compose: they reach the rows of the screen, their handles
  are addresses of buffers, and a layer with the clear hint asks for no blending.
\<close>

definition layer_ok :: "screen \<Rightarrow> hwc_layer_1_t \<Rightarrow> bool" where
  "layer_ok scr l \<longleftrightarrow>
     top (displayFrame l) \<le> scr_height scr \<and> 0 \<le> bottom (displayFrame l) \<and>
     (if compositionType l = HWC_FRAMEBUFFER then handle l \<noteq> 1 else blending l \<noteq> HWC_BLENDING_PREMULT)"

definition input_ok :: "screen \<Rightarrow> (hwc_layer_1_t \<times> nat) list \<Rightarrow> bool" where
  "input_ok scr ls \<longleftrightarrow> length ls < 2 ^ 29 \<and> list_all (layer_ok scr) (filter candidate (map fst ls))"

definition rows_ok :: "screen \<Rightarrow> rgz_layer_t \<Rightarrow> bool" where
  "rows_ok scr l \<longleftrightarrow> top (displayFrame (hwc_layer l)) \<le> scr_height scr \<and> 0 \<le> bottom (displayFrame (hwc_layer l))"

text \<open>The array while the layers are checked: the background, then drawable layers.\<close>

definition chk_inv :: "screen \<Rightarrow> nat \<Rightarrow> check_state \<Rightarrow> bool" where
  "chk_inv scr n c \<longleftrightarrow>
     length (chk_layers c) = RGZ_MAXLAYERS \<and> possible_blit c \<le> RGZ_INPUT_MAXLAYERS \<and>
     0 \<le> memidx c \<and> memidx c + int n < 2 ^ 30 \<and> displayFrame (hwc_layer (chk_layers c ! 0)) = screen_rect scr \<and>
     (\<forall>i \<le> possible_blit c. drawable (chk_layers c ! i) \<and> rows_ok scr (chk_layers c ! i))"

lemma set_layer_inv:
  assumes "chk_inv scr n c" "possible_blit c < RGZ_INPUT_MAXLAYERS"
    and "\<And>rl. drawable (rl\<lparr>hwc_layer := l, identity := ident, buffidx := b\<rparr>) \<and>
           rows_ok scr (rl\<lparr>hwc_layer := l, identity := ident, buffidx := b\<rparr>)"
  shows "chk_inv scr n (set_layer l ident b c)"
  using assms by (auto simp: chk_inv_def set_layer_def Let_def nth_list_update)

lemma memidx_inv: "chk_inv scr (Suc n) c \<Longrightarrow> chk_inv scr n (c\<lparr>memidx := memidx c + 1\<rparr>)"
  by (simp add: chk_inv_def)

lemma set_layer_memidx [simp]: "memidx (set_layer l ident b c) = memidx c"
  by (simp add: set_layer_def Let_def)

lemma check_layer_inv:
  assumes "chk_inv scr (Suc n) c" "candidate l \<Longrightarrow> layer_ok scr l"
  shows "chk_inv scr n (check_layer mem l ident c)"
proof -
  have dec: "chk_inv scr n c" "chk_inv scr n (c\<lparr>candidates := k\<rparr>)" for k using assms(1) by (auto simp: chk_inv_def)
  consider (fb) "compositionType l = HWC_FRAMEBUFFER" | (clear) "compositionType l \<noteq> HWC_FRAMEBUFFER" "hint_clear_fb l"
    | (other) "compositionType l \<noteq> HWC_FRAMEBUFFER" "\<not> hint_clear_fb l" by blast
  then show ?thesis
  proof cases
    case fb
    have ok: "layer_ok scr l" using assms(2) fb by (simp add: candidate_def)
    have m: "0 \<le> memidx c" "memidx c < 2 ^ 30" using assms(1) by (auto simp: chk_inv_def)
    have "chk_inv scr (Suc n) (set_layer l ident (memidx c) (c\<lparr>candidates := k\<rparr>))"
      if "rgz_in_valid_hwc_layer mem l" "possible_blit c < RGZ_INPUT_MAXLAYERS" for k
      using that ok fb m assms(1)
      by (intro set_layer_inv) (auto simp: chk_inv_def drawable_def real_layer_def live_handle_def rows_ok_def layer_ok_def
          rgz_in_valid_hwc_layer_def split: if_splits)
    from memidx_inv [OF this] show ?thesis using fb dec by (auto simp: check_layer_def Let_def)
  next
    case clear
    have ok: "layer_ok scr l" using assms(2) clear by (simp add: candidate_def)
    have "chk_inv scr n (set_layer (l\<lparr>handle := 1\<rparr>) ident RGZ_CLEARHINT_BUFFIDX (c\<lparr>candidates := k\<rparr>))"
      if "possible_blit c < RGZ_INPUT_MAXLAYERS" for k
      using that ok clear dec by (intro set_layer_inv) (auto simp: drawable_def rows_ok_def layer_ok_def)
    then show ?thesis using clear dec by (auto simp: check_layer_def Let_def)
  qed (simp add: check_layer_def dec)
qed

lemma check_layers_inv:
  "chk_inv scr (length ls) c \<Longrightarrow> list_all (layer_ok scr) (filter candidate (map fst ls)) \<Longrightarrow>
   chk_inv scr 0 (check_layers mem ls c)"
proof (induction ls arbitrary: c)
  case (Cons a ls)
  obtain l ident where a: "a = (l, ident)" by (cases a)
  have "chk_inv scr (length ls) (check_layer mem l ident c)"
    using Cons.prems by (intro check_layer_inv) (auto simp: a)
  then show ?case using Cons.IH Cons.prems(2) by (auto simp: check_layers_def a split: if_splits)
qed (simp add: check_layers_def)

lemma dirty_count_keeps [simp]:
  "drawable (l\<lparr>dirty_count := n\<rparr>) = drawable l" "rows_ok scr (l\<lparr>dirty_count := n\<rparr>) = rows_ok scr l"
  by (simp_all add: drawable_def real_layer_def live_handle_def rows_ok_def)

lemma dirty_current_keeps:
  "dirty_current scr prev target i ls area = (ls', area') \<Longrightarrow>
   list_all2 (\<lambda>l l'. \<exists>n. l' = l\<lparr>dirty_count := n\<rparr>) ls ls'"
  by (induction ls arbitrary: i area ls') (auto elim!: dirty_current_ConsE dest: dirty_layer_keeps
      simp del: dirty_current.simps(2))

lemma area_zero: "0 \<le> scr_width scr \<Longrightarrow> 0 \<le> scr_height scr \<Longrightarrow> area_on_screen scr zero_rect"
  by (simp add: area_on_screen_def zero_rect_def)

text \<open>The arrays of the regionizer have their sizes.\<close>

definition rgz_shape :: "rgz_t \<Rightarrow> bool" where
  "rgz_shape rgz \<longleftrightarrow> length (rgz_layers (cur_fb_state rgz)) = RGZ_MAXLAYERS"

lemma hwccheck_frame:
  assumes "rgz_in_hwccheck mem scr (Some ls) rgz0 = (rgz, True)" "input_ok scr ls" "rgz_shape rgz0"
    and "0 < scr_width scr" "0 < scr_height scr"
  shows "frame_ok scr (cur_fb_state rgz)" "area_on_screen scr (damaged_area rgz)"
proof -
  let ?cur0 = "rgz_add_background_layer scr (cur_fb_state rgz0)"
  let ?ov = "length (filter (\<lambda>(l, _). compositionType l = HWC_OVERLAY) ls)"
  let ?c0 = "\<lparr>memidx = int ?ov, possible_blit = 0, candidates = 0, chk_layers = rgz_layers ?cur0\<rparr>"
  define c where "c = check_layers mem ls ?c0"
  define cur where "cur = ?cur0\<lparr>rgz_layers := chk_layers c, rgz_layerno := possible_blit c + 1\<rparr>"
  let ?prev = "fb_states rgz0 ! fb_state_idx rgz0"
  let ?target = "fb_states rgz0 ! ((fb_state_idx rgz0 + 1) mod RGZ_NUM_FB)"
  have "length ls < 536870912" using assms(2) by (simp add: input_ok_def)
  then have "int ?ov + int (length ls) < 1073741824"
    using length_filter_le [of "\<lambda>(l, _). compositionType l = HWC_OVERLAY" ls] by linarith
  then have "chk_inv scr (length ls) ?c0"
    using assms(2-5)
    by (auto simp: chk_inv_def rgz_shape_def rgz_add_background_layer_def bg_layer_def input_ok_def drawable_def
        rows_ok_def screen_rect_def)
  then have inv: "chk_inv scr 0 c" unfolding c_def using assms(2) by (intro check_layers_inv) (simp_all add: input_ok_def)
  obtain cur' area where d: "rgz_handle_dirty_region scr ?prev ?target cur = (cur', area)" by force
  have res: "cur_fb_state rgz = cur'" "damaged_area rgz = area"
    using assms(1) d unfolding rgz_in_hwccheck_def c_def cur_def
    by (auto simp: Let_def split: if_splits prod.splits)
  obtain ls' a where dc: "dirty_current scr ?prev ?target 0 (active cur) zero_rect = (ls', a)"
    and cur': "cur' = cur\<lparr>rgz_layers := ls' @ drop (rgz_layerno cur) (rgz_layers cur)\<rparr>"
    and area: "area = dirty_target scr ls' (drop 1 (active ?target)) a"
    using d by (auto simp: rgz_handle_dirty_region_def split: prod.splits)
  show "area_on_screen scr (damaged_area rgz)"
    unfolding res area using assms(4,5) dc
    by (intro dirty_target_area(3) dirty_current_on_screen [OF dc] area_zero) simp_all
  note k = dirty_current_keeps [OF dc]
  have len: "length ls' = rgz_layerno cur" "rgz_layerno cur = possible_blit c + 1" "length (rgz_layers cur) = 13"
    using list_all2_lengthD [OF k] inv by (simp_all add: active_def cur_def chk_inv_def)
  have act: "active cur' = ls'" "rgz_layerno cur' = possible_blit c + 1" using len by (simp_all add: active_def cur')
  have nth: "\<exists>n. ls' ! i = (chk_layers c ! i)\<lparr>dirty_count := n\<rparr>" if "i \<le> possible_blit c" for i
    using list_all2_nthD [OF k, of i] that len inv by (simp add: active_def cur_def chk_inv_def)
  have "drawable (ls' ! i) \<and> rows_ok scr (ls' ! i)" if "i \<le> possible_blit c" for i
    using nth [OF that] that inv by (auto simp: chk_inv_def)
  then have all: "list_all drawable ls'" "list_all (rows_ok scr) ls'"
    using len by (auto simp: list_all_length)
  have "ls' \<noteq> []" using len by auto
  then have "frame_of cur' 0 = displayFrame (hwc_layer (ls' ! 0))" by (simp add: frame_of_def cur' nth_append)
  also have "\<dots> = screen_rect scr" using nth [of 0] inv by (auto simp: chk_inv_def)
  finally show "frame_ok scr (cur_fb_state rgz)"
    using all act len unfolding res frame_ok_def by (simp add: rows_ok_def [abs_def] cur')
qed

section \<open>Properties\<close>

lemma rgz_in_hwc_frame:
  assumes "rgz_in mem alloc scr RGZ_IN_HWC (Some ls) rgz0 = (rgz, True)"
  obtains rgz1 where "rgz_in_hwccheck mem scr (Some ls) rgz0 = (rgz1, True)" "rgz_in_hwc alloc scr rgz1 = (rgz, True)"
    "cur_fb_state rgz = cur_fb_state rgz1" "damaged_area rgz = damaged_area rgz1"
proof -
  obtain rgz1 ok where c: "rgz_in_hwccheck mem scr (Some ls) rgz0 = (rgz1, ok)" by force
  with assms have "ok" "rgz_in_hwc alloc scr rgz1 = (rgz, True)" by (auto simp: rgz_in_def split: if_splits)
  then show ?thesis
    using c that [of rgz1] by (auto simp: rgz_in_hwc_def rgz_delete_region_data_def Let_def split: if_splits)
qed

lemma regionized_output:
  assumes "rgz_in mem alloc scr RGZ_IN_HWC (Some ls) rgz0 = (rgz, True)" "rgz_shape rgz0" "input_ok scr ls"
    and "shows_screen p scr" "out_op p = RGZ_OUT_BVCMD_REGION" "\<not> noblend p"
  shows "\<exists>r. rgz_out mem bv p rgz = Inr r \<and> out_nblits r = length (out_cmds r) \<and>
     out_nblits r \<le> RGZ_MAX_BLITS \<and> out_rv r = (if out_nblits r < RGZ_MAX_BLITS then 0 else -1) \<and>
     out_nblits r \<le> (2 * rgz_layerno (cur_fb_state rgz) + 1) ^ 2 * rgz_layerno (cur_fb_state rgz) \<and>
     (out_rv r = 0 \<longrightarrow> (\<forall>x y c. in_rect x y (screen_rect scr) \<longrightarrow> draw_pixels x y (out_cmds r) c =
        new_content mem scr (cur_fb_state rgz) (damaged_area rgz) x y c))"
proof -
  obtain rgz1 where c: "rgz_in_hwccheck mem scr (Some ls) rgz0 = (rgz1, True)" "rgz_in_hwc alloc scr rgz1 = (rgz, True)"
    "cur_fb_state rgz = cur_fb_state rgz1" "damaged_area rgz = damaged_area rgz1"
    using assms(1) by (rule rgz_in_hwc_frame)
  have scr: "0 < scr_width scr" "0 < scr_height scr" using assms(4) by (simp_all add: shows_screen_def)
  note f = hwccheck_frame [OF c(1) assms(3,2) scr]
  have "IS_BVCMD p" using assms(5) by (simp add: IS_BVCMD_def)
  from region_output [OF c(2) f assms(4,6) this, of mem bv] assms(5) show ?thesis
    unfolding c(3,4) rgz_out_def by simp
qed



text \<open>A screen with one opaque window, drawn for the first time.\<close>

definition demo_mem :: heap where
  "demo_mem = (\<lambda>_. \<lparr>iWidth = 100, iHeight = 100, iFormat = RGBA_8888,
     usage_protected = False, usage_external_disp = False\<rparr>)"

definition demo_input :: "(hwc_layer_1_t \<times> nat) list" where
  "demo_input = [(\<lparr>compositionType = HWC_FRAMEBUFFER, hint_clear_fb = False, hint_triple_buffer = False, skip_layer = False, handle = 8,
     transform = 0, blending = HWC_BLENDING_PREMULT,
     sourceCrop = \<lparr>left = 0, top = 0, right = 100, bottom = 100\<rparr>,
     displayFrame = \<lparr>left = 0, top = 0, right = 100, bottom = 100\<rparr>\<rparr>, 3)]"

definition demo_drawn :: rgz_t where
  "demo_drawn = fst (rgz_in demo_mem True demo_screen RGZ_IN_HWC (Some demo_input) blank_rgz)"

definition demo_params :: rgz_out_params_t where
  "demo_params = \<lparr>out_op = RGZ_OUT_BVCMD_REGION,
     screen_geom = \<lparr>g_format = OCDFMT_RGBA24, g_width = word_of_int (scr_width demo_screen),
       g_height = word_of_int (scr_height demo_screen), g_orientation = 0, g_virtstride = 4096\<rparr>, noblend = False\<rparr>"

lemma demo_accepted: "snd (rgz_in demo_mem True demo_screen RGZ_IN_HWC (Some demo_input) blank_rgz)"
  by code_simp

lemma demo_pixel: "picture demo_mem demo_screen (cur_fb_state demo_drawn) 50 50 = [0]"
  by code_simp

lemma demo_in: "rgz_in demo_mem True demo_screen RGZ_IN_HWC (Some demo_input) blank_rgz = (demo_drawn, True)"
  using demo_accepted by (auto simp: demo_drawn_def prod_eq_iff)

lemma demo_ok: "rgz_shape blank_rgz" "input_ok demo_screen demo_input" "shows_screen demo_params demo_screen"
  "out_op demo_params = RGZ_OUT_BVCMD_REGION" "\<not> noblend demo_params"
  by (simp_all add: rgz_shape_def blank_rgz_def blank_fb_def input_ok_def demo_input_def layer_ok_def demo_screen_def
      shows_screen_def demo_params_def)

lemma demo_redrawn: "redrawn demo_mem demo_screen (cur_fb_state demo_drawn) (damaged_area demo_drawn) 50 50"
  by code_simp

lemma demo_layers: "rgz_layerno (cur_fb_state demo_drawn) = 2"
  by code_simp



text \<open>A region without layers stops the output.\<close>

lemma blit_hregions_empty:
  "hr \<in> set hrs \<Longrightarrow> nlayers hr = 0 \<Longrightarrow> blit_hregions mem p fb area hrs st = Inr (st', ok) \<Longrightarrow> \<not> ok"
  by (induction hrs arbitrary: st) (auto simp: andThen_eq_Inr split: if_splits)

text \<open>C36: a layer that lies entirely below the screen makes the output fail, unless another layer
  reaches down to it: the gap between the screen and the layer becomes a horizontal region without
  layers, which the code takes to be impossible.\<close>

theorem layer_below_screen_fails:
  assumes "rgz_in_hwc alloc scr rgz = (rgz', True)" and "frame_of (cur_fb_state rgz) 0 = screen_rect scr"
    and "j < rgz_layerno (cur_fb_state rgz)" and "scr_height scr < top (frame_of (cur_fb_state rgz) j)"
    and "\<forall>k < rgz_layerno (cur_fb_state rgz). bottom (frame_of (cur_fb_state rgz) k) \<le> scr_height scr \<or>
           top (frame_of (cur_fb_state rgz) j) \<le> top (frame_of (cur_fb_state rgz) k)"
    and "0 \<le> scr_height scr" and "rgz_out_region mem bv p rgz' = Inr r"
  shows "out_rv r = -1"
proof -
  let ?fb = "cur_fb_state rgz" and ?area = "damaged_area rgz" and ?h = "scr_height scr"
  let ?ys = "ys_of scr ?area ?fb"
  note h = in_hwc_result [OF assms(1)]
  have h': "nhregions rgz' = length (make_hregions scr ?area ?fb)" "damaged_area rgz' = ?area"
    using assms(1) by (auto simp: rgz_in_hwc_def rgz_delete_region_data_def Let_def split: if_splits)
  have bot: "?h \<in> set (y_entries scr ?area ?fb)"
    using y_entries_edges(2) [of 0 ?fb scr ?area] assms(2,3) by (simp add: screen_rect_def)
  have tp: "top (frame_of ?fb j) \<in> set (y_entries scr ?area ?fb)"
    using y_entries_edges(1) [OF assms(3), of scr ?area] assms(4,6) by simp
  obtain i where i: "Suc i < length ?ys" "?ys ! i \<le> ?h" "?h < ?ys ! Suc i"
    using rgz_cut.interval_exists [OF bot tp order_refl assms(4)] by blast
  have e: "?ys ! i = ?h" "?ys ! Suc i \<le> top (frame_of ?fb j)"
    using rgz_cut.no_cut_inside [OF bot i(1)] rgz_cut.no_cut_inside [OF tp i(1)] i(2,3) assms(4) by linarith+
  have iH: "i < length (make_hregions scr ?area ?fb)" using i(1) by (simp add: length_make_hregions)
  let ?hr = "make_hregions scr ?area ?fb ! i"
  note f = hregion_facts [OF h(1) iH]
  have "\<not> RECT_INTERSECTS (hr_rect ?hr) (frame_of ?fb k)" if "k < rgz_layerno ?fb" for k
    using assms(5) that e f(2,3) by (auto simp: RECT_INTERSECTS_def)
  then have "hr_layers ?hr = []" by (subst f(6)) (simp add: filter_empty_conv)
  then have "nlayers ?hr = 0" by (simp add: nlayers_def)
  then have empty: "\<not> ok" if "blit_hregions mem p ?fb ?area (make_hregions scr ?area ?fb) blank_out = Inr (st, ok)" for st ok
    using blit_hregions_empty [OF nth_mem [OF iH] _ that] by blast
  obtain st ok where b: "blit_hregions mem p ?fb ?area (make_hregions scr ?area ?fb) blank_out = Inr (st, ok)"
    using assms(7) h h' by (auto simp: rgz_out_region_def andThen_eq_Inr)
  with empty [OF b] show ?thesis using assms(7) h h' by (auto simp: rgz_out_region_def out_error_def)
qed

definition demo_below :: rgz_t where
  "demo_below = blank_rgz\<lparr>state_init := True, cur_fb_state := demo_frame [demo_bg,
     (demo_window 0)\<lparr>hwc_layer := (hwc_layer (demo_window 0))\<lparr>displayFrame := \<lparr>left = 0, top = 1000, right = 100, bottom = 1100\<rparr>\<rparr>\<rparr>]\<rparr>"

lemma demo_below_in: "rgz_in_hwc True demo_screen demo_below = (fst (rgz_in_hwc True demo_screen demo_below), True)"
  by (simp add: rgz_in_hwc_def demo_below_def demo_frame_def Let_def)

theorem layer_below_screen_fails_witness:
  "\<exists>r. rgz_out_region demo_mem (\<lambda>_ _. (0, 0)) demo_params (fst (rgz_in_hwc True demo_screen demo_below)) = Inr r \<and> out_rv r = -1"
proof -
  have "isl (rgz_out_region demo_mem (\<lambda>_ _. (0, 0)) demo_params (fst (rgz_in_hwc True demo_screen demo_below))) = False"
    by code_simp
  then obtain r where r: "rgz_out_region demo_mem (\<lambda>_ _. (0, 0)) demo_params (fst (rgz_in_hwc True demo_screen demo_below)) = Inr r"
    by (metis sum.collapse(2))
  from layer_below_screen_fails [OF demo_below_in _ _ _ _ _ r, of 1] show ?thesis
    using r by (auto simp: demo_below_def demo_frame_defs frame_of_def less_Suc_eq)
qed

text \<open>C37: when the layers are painted one by one, a layer with the clear hint that lies entirely above
  the screen clears all rows of its columns: its negative lower edge is compared as an unsigned
  number and counts as beyond the lower edge of the screen.\<close>

theorem paint_clears_above_screen:
  assumes "shows_screen p scr" and "buffidx rl = RGZ_CLEARHINT_BUFFIDX"
    and "displayFrame (hwc_layer rl) = \<lparr>left = l, top = t, right = rt, bottom = b\<rparr>"
    and "0 \<le> l" and "l < rt" and "rt \<le> scr_width scr" and "t < b" and "b < 0" and "- (2 ^ 31) \<le> b"
    and "l \<le> x" and "x < rt" and "0 \<le> y" and "y < scr_height scr"
  shows "\<not> covers scr rl x y \<and>
    (\<exists>st. paint_layers mem p True [rl] blank_out = Inr st \<and> draw_pixels x y (bvcmds st) c = [])"
proof -
  let ?r = "\<lparr>left = l, top = 0, right = rt, bottom = scr_height scr\<rparr>"
  have clip: "screen_clip p (displayFrame (hwc_layer rl)) = ?r"
    using assms(1,3-9) by (simp add: screen_clip_def shows_screen_def umin_small umin_negative)
  have on: "on_screen scr ?r" using assms(1,4-6) by (simp add: on_screen_def shows_screen_def)
  have "same_counts p blank_out" by (simp add: same_counts_def blank_out_def)
  from clrdst_adds [OF assms(1) on this] obtain st where st: "rgz_out_clrdst p (Some ?r) blank_out = Inr st"
    "adds p ?r (\<lambda>_. []) 1 blank_out st" by blast
  have "room st" using st(2) by (simp add: adds_def room_def blank_out_def)
  then have "draw_pixels x y (bvcmds st) c = []"
    using st(2) assms(10-13) group_draws_pixel [of ?r "\<lambda>_. []"] by (auto simp: adds_def blank_out_def in_rect_def)
  then show ?thesis using assms(2,3,8,12) clip st(1) by (auto simp: covers_def in_rect_def)
qed

theorem paint_clears_above_screen_witness:
  "\<exists>st. paint_layers demo_mem demo_params True [(demo_window 0)\<lparr>buffidx := -1, hwc_layer :=
      (hwc_layer (demo_window 0))\<lparr>displayFrame := \<lparr>left = 0, top = -20, right = 100, bottom = -10\<rparr>\<rparr>\<rparr>] blank_out = Inr st \<and>
     draw_pixels 50 700 (bvcmds st) [3] = []"
  by (rule conjunct2 [OF paint_clears_above_screen [OF demo_ok(3), where l = 0 and t = "-20" and rt = 100 and b = "-10"]])
     (simp_all add: demo_screen_def)

end
