(* ===== verification/Cfloat.thy ===== *)
theory Cfloat
  imports Complex_Main "HOL-Library.Log_Nat"
begin

text \<open>
  The \<open>float\<close> arithmetic of C on the device: IEEE single precision, rounding to nearest, ties to even.
  A number is a rational (the two zeros are one), an infinity or not a number.  The exponent of a
  rational is computed from the lengths of numerator and denominator.  The conversions to integers
  saturate, as the floating-point unit of the device does.
\<close>

datatype cfloat = Fin rat | Pos_inf | Neg_inf | Nan

definition pow2 :: "int \<Rightarrow> rat" where
  "pow2 k = (if 0 \<le> k then 2 ^ nat k else 1 / 2 ^ nat (- k))"

definition rat_exponent :: "rat \<Rightarrow> int" where
  "rat_exponent x =
     (let (p, q) = quotient_of x; k = bitlen p - bitlen q in if x < pow2 k then k - 1 else k)"

definition round_even :: "rat \<Rightarrow> int" where
  "round_even x =
     (let k = \<lfloor>x\<rfloor>; d = x - of_int k in if d < 1 / 2 \<or> (d = 1 / 2 \<and> even k) then k else k + 1)"

definition round32 :: "rat \<Rightarrow> cfloat" where
  "round32 x =
     (if x = 0 then Fin 0
      else let ulp = pow2 (max (rat_exponent \<bar>x\<bar>) (- 126) - 23); r = of_int (round_even (x / ulp)) * ulp
        in if 2 ^ 128 \<le> r then Pos_inf else if r \<le> - (2 ^ 128) then Neg_inf else Fin r)"

definition float_of_int :: "int \<Rightarrow> cfloat" where
  "float_of_int n = round32 (of_int n)"

fun f_neg :: "cfloat \<Rightarrow> cfloat" where
  "f_neg (Fin a) = Fin (- a)"
| "f_neg Pos_inf = Neg_inf"
| "f_neg Neg_inf = Pos_inf"
| "f_neg Nan = Nan"

fun f_add :: "cfloat \<Rightarrow> cfloat \<Rightarrow> cfloat" where
  "f_add (Fin a) (Fin b) = round32 (a + b)"
| "f_add Nan _ = Nan"
| "f_add _ Nan = Nan"
| "f_add Pos_inf b = (if b = Neg_inf then Nan else Pos_inf)"
| "f_add Neg_inf b = (if b = Pos_inf then Nan else Neg_inf)"
| "f_add _ b = b"

fun f_sign :: "cfloat \<Rightarrow> rat" where
  "f_sign (Fin a) = sgn a"
| "f_sign Pos_inf = 1"
| "f_sign Neg_inf = -1"
| "f_sign Nan = 0"

definition signed_inf :: "rat \<Rightarrow> cfloat" where
  "signed_inf s = (if 0 < s then Pos_inf else if s < 0 then Neg_inf else Nan)"

fun f_mul :: "cfloat \<Rightarrow> cfloat \<Rightarrow> cfloat" where
  "f_mul (Fin a) (Fin b) = round32 (a * b)"
| "f_mul Nan _ = Nan"
| "f_mul _ Nan = Nan"
| "f_mul a b = signed_inf (f_sign a * f_sign b)"

fun f_div :: "cfloat \<Rightarrow> cfloat \<Rightarrow> cfloat" where
  "f_div (Fin a) (Fin b) = (if b = 0 then signed_inf a else round32 (a / b))"
| "f_div Nan _ = Nan"
| "f_div _ Nan = Nan"
| "f_div (Fin a) _ = Fin 0"
| "f_div a (Fin b) = (if b < 0 then f_neg a else a)"
| "f_div _ _ = Nan"

fun f_less :: "cfloat \<Rightarrow> cfloat \<Rightarrow> bool" where
  "f_less (Fin a) (Fin b) \<longleftrightarrow> a < b"
| "f_less Nan _ \<longleftrightarrow> False"
| "f_less _ Nan \<longleftrightarrow> False"
| "f_less a b \<longleftrightarrow> (a = Neg_inf \<or> b = Pos_inf) \<and> a \<noteq> b"

definition f_greater :: "cfloat \<Rightarrow> cfloat \<Rightarrow> bool" where
  "f_greater a b = f_less b a"

definition f_greater_eq :: "cfloat \<Rightarrow> cfloat \<Rightarrow> bool" where
  "f_greater_eq a b \<longleftrightarrow> a \<noteq> Nan \<and> b \<noteq> Nan \<and> \<not> f_less a b"

definition trunc_rat :: "rat \<Rightarrow> int" where
  "trunc_rat x = (if x < 0 then - \<lfloor>- x\<rfloor> else \<lfloor>x\<rfloor>)"

text \<open>\<open>(int) (x + c)\<close> and \<open>(uint32_t) (x + c)\<close> for a \<open>double\<close> constant \<open>c\<close>: the sum is exact.\<close>

fun int_of_float_plus :: "cfloat \<Rightarrow> rat \<Rightarrow> int" where
  "int_of_float_plus (Fin a) c = max (- (2 ^ 31)) (min (2 ^ 31 - 1) (trunc_rat (a + c)))"
| "int_of_float_plus Pos_inf c = 2 ^ 31 - 1"
| "int_of_float_plus Neg_inf c = - (2 ^ 31)"
| "int_of_float_plus Nan c = 0"

fun uint_of_float_plus :: "cfloat \<Rightarrow> rat \<Rightarrow> int" where
  "uint_of_float_plus (Fin a) c = max 0 (min (2 ^ 32 - 1) (trunc_rat (a + c)))"
| "uint_of_float_plus Pos_inf c = 2 ^ 32 - 1"
| "uint_of_float_plus Neg_inf c = 0"
| "uint_of_float_plus Nan c = 0"

section \<open>Rounding with integers\<close>

text \<open>Evaluation works on numerator and denominator.\<close>

definition round_div :: "int \<Rightarrow> int \<Rightarrow> int" where
  "round_div n d = (let k = n div d; m = n mod d in if 2 * m < d \<or> (2 * m = d \<and> even k) then k else k + 1)"

lemma round_even_div:
  assumes "0 < d"
  shows "round_even (of_int n / of_int d) = round_div n d"
proof -
  have f: "\<lfloor>of_int n / of_int d :: rat\<rfloor> = n div d" by (rule floor_divide_of_int_eq)
  have "of_int n = (of_int (n div d) * of_int d + of_int (n mod d) :: rat)"
    by (metis div_mult_mod_eq of_int_add of_int_mult)
  then have "of_int n / of_int d - of_int (n div d) = (of_int (n mod d) / of_int d :: rat)"
    using assms by (simp add: field_simps)
  moreover have "of_int (n mod d) / of_int d < (1 / 2 :: rat) \<longleftrightarrow> 2 * (n mod d) < d"
    "of_int (n mod d) / of_int d = (1 / 2 :: rat) \<longleftrightarrow> 2 * (n mod d) = d"
  proof -
    have d: "0 < (of_int d :: rat)" using assms by simp
    have "of_int (n mod d) / of_int d < (1 / 2 :: rat) \<longleftrightarrow> of_int (2 * (n mod d)) < (of_int d :: rat)"
      using d by (simp add: field_simps)
    then show "of_int (n mod d) / of_int d < (1 / 2 :: rat) \<longleftrightarrow> 2 * (n mod d) < d" by (simp only: of_int_less_iff)
    have "of_int (n mod d) / of_int d = (1 / 2 :: rat) \<longleftrightarrow> of_int (2 * (n mod d)) = (of_int d :: rat)"
      using d by (auto simp: field_simps)
    then show "of_int (n mod d) / of_int d = (1 / 2 :: rat) \<longleftrightarrow> 2 * (n mod d) = d" by (simp only: of_int_eq_iff)
  qed
  ultimately show ?thesis by (simp only: round_even_def round_div_def Let_def f)
qed

lemma pow2_of_int: "0 \<le> k \<Longrightarrow> pow2 k = of_int (2 ^ nat k)" "k < 0 \<Longrightarrow> pow2 k = 1 / of_int (2 ^ nat (- k))"
  by (simp_all add: pow2_def)

definition scaled_round :: "int \<Rightarrow> int \<Rightarrow> int \<Rightarrow> int" where
  "scaled_round s p q = (if 0 \<le> s then round_div p (q * 2 ^ nat s) else round_div (p * 2 ^ nat (- s)) q)"

lemma round_even_scaled:
  assumes "0 < q"
  shows "round_even (of_int p / of_int q / pow2 s) = scaled_round s p q"
proof (cases "0 \<le> s")
  case True
  then have "of_int p / of_int q / pow2 s = (of_int p / of_int (q * 2 ^ nat s) :: rat)"
    by (simp add: pow2_of_int)
  then show ?thesis using True round_even_div [of "q * 2 ^ nat s" p] assms by (simp only: scaled_round_def if_True) simp
next
  case False
  then have "of_int p / of_int q / pow2 s = (of_int (p * 2 ^ nat (- s)) / of_int q :: rat)"
    by (simp add: pow2_of_int)
  then show ?thesis using False round_even_div [of q "p * 2 ^ nat (- s)"] assms by (simp only: scaled_round_def if_False)
qed

definition int_exponent :: "int \<Rightarrow> int \<Rightarrow> int" where
  "int_exponent p q =
     (let k = bitlen p - bitlen q in
      if (if 0 \<le> k then p < q * 2 ^ nat k else p * 2 ^ nat (- k) < q) then k - 1 else k)"

lemma rat_exponent_int:
  assumes "quotient_of x = (p, q)"
  shows "rat_exponent x = int_exponent p q"
proof -
  have x: "x = of_int p / of_int q" and q: "0 < q" using assms quotient_of_div quotient_of_denom_pos by blast+
  let ?k = "bitlen p - bitlen q"
  have qr: "0 < (of_int q :: rat)" using q by simp
  have "x < pow2 ?k \<longleftrightarrow> (if 0 \<le> ?k then p < q * 2 ^ nat ?k else p * 2 ^ nat (- ?k) < q)"
  proof (cases "0 \<le> ?k")
    case True
    have "x < pow2 ?k \<longleftrightarrow> (of_int p :: rat) < of_int (q * 2 ^ nat ?k)"
      using True qr by (simp add: x pow2_of_int field_simps)
    then show ?thesis using True by (simp only: of_int_less_iff if_True)
  next
    case False
    have "x < pow2 ?k \<longleftrightarrow> (of_int (p * 2 ^ nat (- ?k)) :: rat) < of_int q"
      using False qr by (simp add: x pow2_of_int field_simps)
    then show ?thesis using False by (simp only: of_int_less_iff if_False)
  qed
  then show ?thesis using assms by (simp add: rat_exponent_def int_exponent_def Let_def)
qed

lemma quotient_of_abs: "quotient_of x = (p, q) \<Longrightarrow> quotient_of \<bar>x\<bar> = (\<bar>p\<bar>, q)"
  by (simp add: rat_abs_code)

definition scaled_value :: "int \<Rightarrow> int \<Rightarrow> rat" where
  "scaled_value s r = (if 0 \<le> s then of_int (r * 2 ^ nat s) else Fract r (2 ^ nat (- s)))"

lemma scaled_value: "of_int r * pow2 s = scaled_value s r"
  by (simp add: scaled_value_def pow2_of_int Fract_of_int_quotient)

lemma round32_code [code]:
  "round32 x = (case quotient_of x of (p, q) \<Rightarrow>
     if p = 0 then Fin 0
     else let s = max (int_exponent \<bar>p\<bar> q) (- 126) - 23; r = scaled_value s (scaled_round s p q)
       in if 2 ^ 128 \<le> r then Pos_inf else if r \<le> - (2 ^ 128) then Neg_inf else Fin r)"
proof -
  obtain p q where pq: "quotient_of x = (p, q)" by fastforce
  have x: "x = of_int p / of_int q" and q: "0 < q" using pq quotient_of_div quotient_of_denom_pos by blast+
  have z: "x = 0 \<longleftrightarrow> p = 0" using q by (simp add: x)
  have r: "of_int (round_even (x / pow2 s)) * pow2 s = scaled_value s (scaled_round s p q)" for s
    unfolding x by (simp only: round_even_scaled [OF q] scaled_value)
  show ?thesis
    by (simp only: round32_def pq prod.case rat_exponent_int [OF quotient_of_abs [OF pq]] Let_def z r)
qed

end
