(* ===== verification/Hwc_Device.thy ===== *)
theory Hwc_Device
  imports Rgz_Output Cfloat "HOL-Library.Signed_Division"
begin

text \<open>
  The hardware composer (\<^verbatim>\<open>hwc/hwc.c\<close>, \<^verbatim>\<open>hwc/hwc_dev.h\<close>, \<^verbatim>\<open>kernel-headers/video/dsscomp.h\<close>): its
  state, the questions it asks about a layer, and how it fills in the configuration of an overlay.
  The stereoscopic extension (\<open>OMAP_ENHANCEMENT_S3D\<close>) is switched off in \<^verbatim>\<open>BoardConfig.mk\<close> and is
  not part of the model.

  Unsigned 32-bit quantities are words; the sizes of a window are unsigned and are converted where
  the code converts them.  The 8-bit fields \<open>ix\<close>, \<open>zorder\<close> and \<open>rotation\<close> are integers; the properties
  show that they stay within a few units of zero.  The bits of \<open>hints\<close>, \<open>flags\<close> and \<open>usage\<close> that the
  code reads are booleans.
\<close>

section \<open>Configuration of the display controller\<close>

record dss2_rect_t =
  rc_x :: int
  rc_y :: int
  rc_w :: "32 word"
  rc_h :: "32 word"

datatype omap_color_mode = Color_unset | OMAP_DSS_COLOR_ARGB32 | OMAP_DSS_COLOR_RGB24U
  | OMAP_DSS_COLOR_RGB16 | OMAP_DSS_COLOR_NV12

record dss2_ovl_cfg =
  cfg_width :: "16 word"
  cfg_height :: "16 word"
  stride :: "32 word"
  color_mode :: omap_color_mode
  pre_mult_alpha :: bool
  global_alpha :: int
  rotation :: int
  mirror :: bool
  win :: dss2_rect_t
  crop :: dss2_rect_t
  cconv :: "int list"
  ix :: int
  zorder :: int
  enabled :: bool
  mgr_ix :: int

datatype buffer_addressing = OMAP_DSS_BUFADDR_DIRECT | OMAP_DSS_BUFADDR_ION | OMAP_DSS_BUFADDR_OVL_IX
  | OMAP_DSS_BUFADDR_LAYER_IX | OMAP_DSS_BUFADDR_FB

record dss2_ovl_info =
  cfg :: dss2_ovl_cfg
  addressing :: buffer_addressing
  ba :: int

record dss2_mgr_info =
  mgr_index :: int
  alpha_blending :: bool
  mgr_swap_rb :: bool

text \<open>\<open>struct dsscomp_setup_dispc_data\<close>; the array \<open>ovls\<close> has five entries.\<close>

record dsscomp_setup_dispc_data =
  dss_sync_id :: int
  setup_display :: bool
  num_ovls :: nat
  mgrs :: "dss2_mgr_info list"
  ovls :: "dss2_ovl_info list"

definition zero_dss_rect :: dss2_rect_t where
  "zero_dss_rect = \<lparr>rc_x = 0, rc_y = 0, rc_w = 0, rc_h = 0\<rparr>"

definition zero_cfg :: dss2_ovl_cfg where
  "zero_cfg = \<lparr>cfg_width = 0, cfg_height = 0, stride = 0, color_mode = Color_unset,
     pre_mult_alpha = False, global_alpha = 0, rotation = 0, mirror = False, win = zero_dss_rect,
     crop = zero_dss_rect, cconv = [], ix = 0, zorder = 0, enabled = False, mgr_ix = 0\<rparr>"

definition zero_ovl :: dss2_ovl_info where
  "zero_ovl = \<lparr>cfg = zero_cfg, addressing = OMAP_DSS_BUFADDR_DIRECT, ba = 0\<rparr>"

definition zero_dsscomp :: dsscomp_setup_dispc_data where
  "zero_dsscomp = \<lparr>dss_sync_id = 0, setup_display = False, num_ovls = 0, mgrs = [],
     ovls = replicate 5 zero_ovl\<rparr>"

text \<open>What the display driver reports of the platform and of a display.\<close>

datatype fbmem_type = DSSCOMP_FBMEM_TILER2D | DSSCOMP_FBMEM_VRAM

record dsscomp_platform_info =
  max_xdecim_2d :: "32 word"
  max_ydecim_2d :: "32 word"
  max_xdecim_1d :: "32 word"
  max_ydecim_1d :: "32 word"
  fclk :: "32 word"
  min_width :: "32 word"
  max_downscale :: "32 word"
  integer_scale_ratio_limit :: "32 word"
  tiler1d_slot_size :: "32 word"
  fbmem :: fbmem_type

datatype omap_channel = OMAP_DSS_CHANNEL_LCD | OMAP_DSS_CHANNEL_DIGIT | OMAP_DSS_CHANNEL_LCD2

record dsscomp_videomode =
  refresh :: "32 word"
  mode_x :: "32 word"
  mode_y :: "32 word"
  pixclock :: "32 word"
  vmode_interlaced :: bool
  vmode_other :: bool
  flag_ratio_4_3 :: bool
  flag_ratio_16_9 :: bool

record dsscomp_display_info =
  channel :: omap_channel
  x_res :: "32 word"
  y_res :: "32 word"
  pixel_clock :: "32 word"
  width_in_mm :: "32 word"
  height_in_mm :: "32 word"
  modedb :: "dsscomp_videomode list"

section \<open>State of the composer\<close>

record ext_transform_t =
  ext_rotation :: int
  hflip :: bool
  ext_enabled :: bool
  docking :: bool

type_synonym matrix = "(cfloat \<times> cfloat \<times> cfloat) \<times> (cfloat \<times> cfloat \<times> cfloat)"

record omap_hwc_ext =
  ext_mirror :: ext_transform_t
  dock :: ext_transform_t
  lcd_xpy :: cfloat
  avoid_mode_change :: bool
  force_dock :: bool
  hdmi_state :: bool
  ext_on_tv :: bool
  current :: ext_transform_t
  last_used :: ext_transform_t
  last_xres_used :: "32 word"
  last_yres_used :: "32 word"
  last_mode :: "32 word"
  mirror_mode :: "32 word"
  last_xpy :: cfloat
  ext_width :: "32 word"
  ext_height :: "32 word"
  ext_xres :: "32 word"
  ext_yres :: "32 word"
  ext_m :: matrix
  mirror_region :: blit_rect_t

datatype bltpolicy = BLTPOLICY_DISABLED | BLTPOLICY_DEFAULT | BLTPOLICY_ALL | BLTPOLICY_other

datatype bltmode = BLTMODE_PAINT | BLTMODE_REGION | BLTMODE_other

record counts_t =
  possible_overlay_layers :: "32 word"
  composited_layers :: "32 word"
  scaled_layers :: "32 word"
  n_RGB :: "32 word"
  n_BGR :: "32 word"
  n_NV12 :: "32 word"
  n_dockable :: "32 word"
  n_protected :: "32 word"
  max_hw_overlays :: "32 word"
  max_scaling_overlays :: "32 word"
  n_mem :: "32 word"

definition zero_counts :: counts_t where
  "zero_counts = \<lparr>possible_overlay_layers = 0, composited_layers = 0, scaled_layers = 0, n_RGB = 0,
     n_BGR = 0, n_NV12 = 0, n_dockable = 0, n_protected = 0, max_hw_overlays = 0,
     max_scaling_overlays = 0, n_mem = 0\<rparr>"

text \<open>The calls the composer makes to the drivers and to its client, in order.\<close>

datatype hwc_call =
    Setup_display nat dsscomp_videomode
  | Setup_dispc
  | Fb_blank bool
  | Hdmi_fb_unblank
  | Enable_vsync bool
  | Start_sw_vsync
  | Stop_sw_vsync
  | Egl_swap_buffers
  | Signal_event_thread
  | Post2 "nat list" dsscomp_setup_dispc_data bool "rgz_blt_entry list"
  | Close_fence int
  | Close_fd int
  | Ion_close int
  | Invalidate
  | Vsync "64 word"
  | Load_dock_image
  | Ion_alloc int int
  | Ion_free nat

text \<open>
  \<open>struct omap_hwc_device\<close> with the globals of \<open>hwc.c\<close> it works on: the regionizer \<open>grgz\<close>, the
  counter \<open>sync_id\<close>, the platform's \<open>limits\<close>, the geometry \<open>gscrngeom\<close> and the flag \<open>first_set\<close> of
  \<open>reset_screen\<close>.  The framebuffer device is its width, height, format and rate; \<open>procs\<close> says whether
  the client has registered its callbacks; \<open>calls\<close> is the log of the calls made.
\<close>

record omap_hwc_device =
  limits :: dsscomp_platform_info
  fb_dis :: dsscomp_display_info
  fb_width :: int
  fb_height :: int
  fb_format :: pixel_format
  gscrngeom :: bvsurfgeom
  flags_rgb_order :: bool
  flags_nv12_only :: bool
  upscaled_nv12_limit :: cfloat
  on_tv :: bool
  force_sgx :: int
  ext :: omap_hwc_ext
  idle :: int
  primary_m :: matrix
  primary_transform :: int
  primary_rotation :: int
  primary_region :: blit_rect_t
  buffers :: "nat list"
  use_sgx :: bool
  swap_rb :: bool
  post2_layers :: nat
  post2_blit_buffers :: nat
  ext_ovls :: int
  ext_ovls_wanted :: int
  last_ext_ovls :: int
  last_int_ovls :: int
  blt_mode :: bltmode
  blt_policy :: bltpolicy
  blit_flags :: bool
  blit_num :: nat
  blit_ops :: "rgz_blt_entry list"
  dsscomp :: dsscomp_setup_dispc_data
  counts :: counts_t
  ion_handles :: "nat \<times> nat"
  grgz :: rgz_t
  sync_id :: int
  first_set :: bool
  procs :: bool
  dsscomp_fd :: int
  fb_fd :: int
  hdmi_fb_fd :: int
  ion_fd :: int
  use_sw_vsync :: bool
  fb_fps :: cfloat
  calls :: "hwc_call list"

abbreviation (input) MAX_HW_OVERLAYS :: "'a::numeral" where "MAX_HW_OVERLAYS \<equiv> 4"
abbreviation (input) NUM_NONSCALING_OVERLAYS :: "'a::one" where "NUM_NONSCALING_OVERLAYS \<equiv> 1"
abbreviation (input) MAX_HWC_LAYERS :: nat where "MAX_HWC_LAYERS \<equiv> 32"

section \<open>Questions about a layer\<close>

fun is_valid_format :: "pixel_format \<Rightarrow> bool" where
  "is_valid_format RGB_565 = True"
| "is_valid_format RGBX_8888 = True"
| "is_valid_format RGBA_8888 = True"
| "is_valid_format BGRA_8888 = True"
| "is_valid_format BGRX_8888 = True"
| "is_valid_format TI_NV12 = True"
| "is_valid_format TI_NV12_1D = True"
| "is_valid_format _ = False"

definition scaled :: "hwc_layer_1_t \<Rightarrow> bool" where
  "scaled layer =
     (let w = WIDTH (sourceCrop layer); h = HEIGHT (sourceCrop layer);
          (w, h) = (if has_flag (transform layer) HWC_TRANSFORM_ROT_90 then (h, w) else (w, h))
      in WIDTH (displayFrame layer) \<noteq> w \<or> HEIGHT (displayFrame layer) \<noteq> h)"

definition is_protected :: "heap \<Rightarrow> hwc_layer_1_t \<Rightarrow> bool" where
  "is_protected mem layer = usage_protected (mem (handle layer))"

definition is_BLENDED :: "hwc_layer_1_t \<Rightarrow> bool" where
  "is_BLENDED layer \<longleftrightarrow> blending layer \<noteq> HWC_BLENDING_NONE"

fun is_RGB :: "pixel_format \<Rightarrow> bool" where
  "is_RGB BGRA_8888 = True"
| "is_RGB BGRX_8888 = True"
| "is_RGB RGB_565 = True"
| "is_RGB _ = False"

fun get_format_bpp :: "pixel_format \<Rightarrow> 32 word" where
  "get_format_bpp BGRA_8888 = 32"
| "get_format_bpp BGRX_8888 = 32"
| "get_format_bpp RGBX_8888 = 32"
| "get_format_bpp RGBA_8888 = 32"
| "get_format_bpp RGB_565 = 16"
| "get_format_bpp TI_NV12 = 8"
| "get_format_bpp TI_NV12_1D = 8"
| "get_format_bpp _ = 0"

fun is_BGR_format :: "pixel_format \<Rightarrow> bool" where
  "is_BGR_format RGBX_8888 = True"
| "is_BGR_format RGBA_8888 = True"
| "is_BGR_format _ = False"

definition is_BGR :: "IMG_native_handle_t \<Rightarrow> bool" where
  "is_BGR h = is_BGR_format (iFormat h)"

fun hwc_is_NV12 :: "pixel_format \<Rightarrow> bool" where
  "hwc_is_NV12 TI_NV12 = True"
| "hwc_is_NV12 TI_NV12_1D = True"
| "hwc_is_NV12 _ = False"

definition is_upscaled_NV12 :: "heap \<Rightarrow> cfloat \<Rightarrow> hwc_layer_1_t \<Rightarrow> bool" where
  "is_upscaled_NV12 mem limit layer =
     (if \<not> hwc_is_NV12 (iFormat (mem (handle layer))) then False
      else let w = WIDTH (sourceCrop layer); h = HEIGHT (sourceCrop layer);
               (w, h) = (if has_flag (transform layer) HWC_TRANSFORM_ROT_90 then (h, w) else (w, h))
           in f_greater_eq (float_of_int (WIDTH (displayFrame layer))) (f_mul (float_of_int w) limit) \<or>
              f_greater_eq (float_of_int (HEIGHT (displayFrame layer))) (f_mul (float_of_int h) limit))"

definition dockable :: "heap \<Rightarrow> hwc_layer_1_t \<Rightarrow> bool" where
  "dockable mem layer = usage_external_disp (mem (handle layer))"

text \<open>\<open>ALIGN(x, HW_ALIGN)\<close>, with \<open>HW_ALIGN\<close> = 32.\<close>

definition hw_align :: "int \<Rightarrow> int" where
  "hw_align x = (x + 31) div 32 * 32"

definition mem1d :: "heap \<Rightarrow> nat \<Rightarrow> 32 word" where
  "mem1d mem h =
     (if h = 0 \<or> hwc_is_NV12 (iFormat (mem h)) then 0
      else let bpp = (if iFormat (mem h) = RGB_565 then 2 else 4);
               str = hw_align (iWidth (mem h)) * bpp
           in word_of_int (str * iHeight (mem h)))"

text \<open>The composer and the blitter agree on which layers are scaled.\<close>

lemma scaled_rgz: "scaled layer = rgz_hwc_scaled layer"
  by (simp add: scaled_def rgz_hwc_scaled_def)

section \<open>Filling in an overlay\<close>

definition ctbl_bt601_5 :: "int list" where
  "ctbl_bt601_5 = [298, 409, 0, 298, -208, -100, 298, 0, 517, 0]"

text \<open>The first switch of \<open>setup_layer_base\<close>; \<open>None\<close> is the early return for an unknown format.\<close>

fun convert_format :: "pixel_format \<Rightarrow> bool \<Rightarrow> dss2_ovl_cfg \<Rightarrow> dss2_ovl_cfg option" where
  "convert_format RGBA_8888 blended oc =
     Some (oc\<lparr>color_mode := (if blended then OMAP_DSS_COLOR_ARGB32 else OMAP_DSS_COLOR_RGB24U)\<rparr>)"
| "convert_format BGRA_8888 blended oc =
     Some (oc\<lparr>color_mode := (if blended then OMAP_DSS_COLOR_ARGB32 else OMAP_DSS_COLOR_RGB24U)\<rparr>)"
| "convert_format RGBX_8888 blended oc = Some (oc\<lparr>color_mode := OMAP_DSS_COLOR_RGB24U\<rparr>)"
| "convert_format BGRX_8888 blended oc = Some (oc\<lparr>color_mode := OMAP_DSS_COLOR_RGB24U\<rparr>)"
| "convert_format RGB_565 blended oc = Some (oc\<lparr>color_mode := OMAP_DSS_COLOR_RGB16\<rparr>)"
| "convert_format TI_NV12 blended oc =
     Some (oc\<lparr>color_mode := OMAP_DSS_COLOR_NV12, cconv := ctbl_bt601_5\<rparr>)"
| "convert_format TI_NV12_1D blended oc =
     Some (oc\<lparr>color_mode := OMAP_DSS_COLOR_NV12, cconv := ctbl_bt601_5\<rparr>)"
| "convert_format _ blended oc = None"

definition setup_layer_base :: "int \<Rightarrow> pixel_format \<Rightarrow> bool \<Rightarrow> int \<Rightarrow> int \<Rightarrow> dss2_ovl_cfg \<Rightarrow> dss2_ovl_cfg" where
  "setup_layer_base index fmt blended width height oc =
     (case convert_format fmt blended oc of
        None \<Rightarrow> oc
      | Some oc \<Rightarrow>
          oc\<lparr>cfg_width := word_of_int width, cfg_height := word_of_int height,
             stride := word_of_int (hw_align width) * get_format_bpp fmt div 8,
             enabled := True, global_alpha := 255, zorder := index, ix := 0,
             crop := (crop oc)\<lparr>rc_w := word_of_int width, rc_h := word_of_int height\<rparr>,
             win := (win oc)\<lparr>rc_w := word_of_int width, rc_h := word_of_int height\<rparr>\<rparr>)"

text \<open>A rectangle in the form the display controller takes it.\<close>

definition dss_rect :: "blit_rect_t \<Rightarrow> dss2_rect_t" where
  "dss_rect r = \<lparr>rc_x = left r, rc_y = top r, rc_w = word_of_int (WIDTH r), rc_h = word_of_int (HEIGHT r)\<rparr>"

definition convert_transform :: "32 word \<Rightarrow> dss2_ovl_cfg \<Rightarrow> dss2_ovl_cfg" where
  "convert_transform tr oc =
     (let oc = (if has_flag tr HWC_TRANSFORM_FLIP_H then oc\<lparr>mirror := True\<rparr> else oc);
          oc = (if has_flag tr HWC_TRANSFORM_FLIP_V then oc\<lparr>rotation := 2, mirror := \<not> mirror oc\<rparr> else oc)
      in if has_flag tr HWC_TRANSFORM_ROT_90
         then oc\<lparr>rotation := (rotation oc + (if mirror oc then -1 else 1)) mod 4\<rparr> else oc)"

definition setup_layer :: "hwc_layer_1_t \<Rightarrow> int \<Rightarrow> pixel_format \<Rightarrow> int \<Rightarrow> int \<Rightarrow> dss2_ovl_info \<Rightarrow> dss2_ovl_info" where
  "setup_layer layer index fmt width height ovl =
     (let oc = setup_layer_base index fmt (is_BLENDED layer) width height (cfg ovl);
          oc = convert_transform (transform layer) oc
      in ovl\<lparr>cfg := oc\<lparr>pre_mult_alpha := (blending layer = HWC_BLENDING_PREMULT),
                      win := dss_rect (displayFrame layer), crop := dss_rect (sourceCrop layer)\<rparr>\<rparr>)"

end
