(* ===== verification/Hwc_Geometry.thy ===== *)
theory Hwc_Geometry
  imports Hwc_Device
begin

text \<open>
  The geometry of the hardware composer (\<^verbatim>\<open>hwc/hwc.c\<close>): transformation matrices, the largest picture
  that fits an external screen, cropping an overlay to a region, and moving it to a display.
\<close>

section \<open>Matrices\<close>

definition m_unit :: matrix where
  "m_unit = ((Fin 1, Fin 0, Fin 0), (Fin 0, Fin 1, Fin 0))"

fun m_translate :: "cfloat \<Rightarrow> cfloat \<Rightarrow> matrix \<Rightarrow> matrix" where
  "m_translate dx dy ((a, b, c), (d, e, f)) = ((a, b, f_add c dx), (d, e, f_add f dy))"

fun m_scale1 :: "int \<Rightarrow> int \<Rightarrow> cfloat \<times> cfloat \<times> cfloat \<Rightarrow> cfloat \<times> cfloat \<times> cfloat" where
  "m_scale1 from_size to_size (a, b, c) =
     (f_div (f_mul a (float_of_int to_size)) (float_of_int from_size),
      f_div (f_mul b (float_of_int to_size)) (float_of_int from_size),
      f_div (f_mul c (float_of_int to_size)) (float_of_int from_size))"

fun m_scale :: "int \<Rightarrow> int \<Rightarrow> int \<Rightarrow> int \<Rightarrow> matrix \<Rightarrow> matrix" where
  "m_scale x_from x_to y_from y_to (r0, r1) = (m_scale1 x_from x_to r0, m_scale1 y_from y_to r1)"

text \<open>The two bits of the number of quarter turns.\<close>

definition m_rotate :: "int \<Rightarrow> matrix \<Rightarrow> matrix" where
  "m_rotate quarter_turns m =
     (let m = (if odd (quarter_turns div 2) then m_scale 1 (-1) 1 (-1) m else m)
      in if odd quarter_turns
         then (case m of ((a, b, c), (d, e, f)) \<Rightarrow> ((f_neg d, f_neg e, f_neg f), (a, b, c)))
         else m)"

definition m_round :: "cfloat \<Rightarrow> int" where
  "m_round x = int_of_float_plus x (if f_less x (Fin 0) then - 1 / 2 else 1 / 2)"

section \<open>Sizes on the external screen\<close>

text \<open>The constants \<open>ASPECT_RATIO_TOLERANCE\<close> and \<open>1.f - ASPECT_RATIO_TOLERANCE\<close>.\<close>

definition one_minus_tolerance :: cfloat where
  "one_minus_tolerance = f_add (Fin 1) (f_neg (round32 (2 / 100)))"

definition float_of_uint :: "32 word \<Rightarrow> cfloat" where
  "float_of_uint w = float_of_int (uint w)"

text \<open>The result is the pair \<open>(*adj_xres, *adj_yres)\<close>.\<close>

definition get_max_dimensions :: "32 word \<Rightarrow> 32 word \<Rightarrow> cfloat \<Rightarrow> 32 word \<Rightarrow> 32 word \<Rightarrow> 32 word \<Rightarrow> 32 word \<Rightarrow>
    32 word \<times> 32 word" where
  "get_max_dimensions orig_xres orig_yres xpy scr_xres scr_yres scr_w scr_h =
     (let (scr_w, scr_h) = (if scr_w = 0 \<or> scr_h = 0 then (scr_xres, scr_yres) else (scr_w, scr_h));
          x_factor = f_mul (f_mul (float_of_uint orig_xres) xpy) (float_of_uint scr_h);
          y_factor = float_of_uint (orig_yres * scr_w)
      in if f_less x_factor (f_mul y_factor one_minus_tolerance)
         then (word_of_int (uint_of_float_plus (f_div (f_mul x_factor (float_of_uint scr_xres)) y_factor) (1 / 2)),
               scr_yres)
         else if f_greater (f_mul x_factor one_minus_tolerance) y_factor
         then (scr_xres,
               word_of_int (uint_of_float_plus (f_div (f_mul y_factor (float_of_uint scr_yres)) x_factor) (1 / 2)))
         else (scr_xres, scr_yres))"

definition set_ext_matrix :: "blit_rect_t \<Rightarrow> omap_hwc_ext \<Rightarrow> omap_hwc_ext" where
  "set_ext_matrix region e =
     (let orig_w = WIDTH region; orig_h = HEIGHT region; xpy = lcd_xpy e;
          half = (\<lambda>n. f_div (float_of_int n) (Fin 2));
          m = m_translate (f_add (f_neg (half orig_w)) (f_neg (float_of_int (left region))))
                (f_add (f_neg (half orig_h)) (f_neg (float_of_int (top region)))) m_unit;
          m = m_rotate (ext_rotation (current e)) m;
          m = (if hflip (current e) then m_scale 1 (-1) 1 1 m else m);
          (orig_w, orig_h, xpy) =
            (if odd (ext_rotation (current e)) then (orig_h, orig_w, f_div (Fin 1) xpy) else (orig_w, orig_h, xpy));
          (adj_xres, adj_yres) =
            get_max_dimensions (word_of_int orig_w) (word_of_int orig_h) xpy (ext_xres e) (ext_yres e)
              (ext_width e) (ext_height e);
          m = m_scale orig_w (sint adj_xres) orig_h (sint adj_yres) m;
          m = m_translate (float_of_uint (ext_xres e div 2)) (float_of_uint (ext_yres e div 2)) m
      in e\<lparr>ext_m := m\<rparr>)"

section \<open>Cropping to a region\<close>

text \<open>
  One round of the loop of \<open>crop_to_rect\<close>: the position and size \<open>(wxy, wwh)\<close> of the window and
  \<open>(cxy, cwh)\<close> of the crop rectangle along one axis, cut to the interval from \<open>lt\<close> to \<open>rb\<close>.  \<open>None\<close> is
  the return value \<open>-ENOENT\<close>.  Division truncates towards zero.
\<close>

definition crop_axis :: "int \<Rightarrow> int \<Rightarrow> (int \<times> int) \<times> (int \<times> int) \<Rightarrow> ((int \<times> int) \<times> (int \<times> int)) option" where
  "crop_axis lt rb wc =
     (case wc of ((wxy, wwh), (cxy, cwh)) \<Rightarrow>
        if wwh \<le> 0 \<or> rb \<le> lt \<or> wxy + wwh \<le> lt \<or> rb \<le> wxy \<or> cwh = 0 then None
        else
          (let ((wxy, wwh), (cxy, cwh)) =
                 (if wxy < lt then
                    (let a = (lt - wxy) * cwh sdiv wwh
                     in ((lt, wwh - (lt - wxy)), (cxy + a, cwh - a)))
                  else ((wxy, wwh), (cxy, cwh)));
               (wwh, cwh) = (if rb < wxy + wwh then (rb - wxy, cwh * (rb - wxy) sdiv wwh) else (wwh, cwh))
           in if cwh = 0 \<or> wwh = 0 then None else Some ((wxy, wwh), (cxy, cwh))))"

text \<open>\<open>xy -= (wh = -wh)\<close>: the same interval, walked in the other direction.\<close>

definition turn_axis :: "bool \<Rightarrow> int \<times> int \<Rightarrow> int \<times> int" where
  "turn_axis turn i = (if turn then (fst i + snd i, - snd i) else i)"

text \<open>
  Which axes of the crop rectangle (horizontal, vertical) run backwards on the display: the three
  alignment steps before the loop.  The steps after it undo them in the order second, third, first.
\<close>

definition align_crop :: "dss2_ovl_cfg \<Rightarrow> (int \<times> int) \<times> (int \<times> int) \<Rightarrow> (int \<times> int) \<times> (int \<times> int)" where
  "align_crop oc c =
     (let sw = odd (rotation oc); half_turn = odd (rotation oc div 2);
          flip = ((\<not> mirror oc) \<noteq> (\<not> half_turn));
          c = (fst c, turn_axis sw (snd c));
          c = (if sw then (turn_axis half_turn (fst c), snd c) else (fst c, turn_axis half_turn (snd c)))
      in if sw then (fst c, turn_axis flip (snd c)) else (turn_axis flip (fst c), snd c))"

definition realign_crop :: "dss2_ovl_cfg \<Rightarrow> (int \<times> int) \<times> (int \<times> int) \<Rightarrow> (int \<times> int) \<times> (int \<times> int)" where
  "realign_crop oc c =
     (let sw = odd (rotation oc); half_turn = odd (rotation oc div 2);
          flip = ((\<not> mirror oc) \<noteq> (\<not> half_turn));
          c = (if sw then (turn_axis half_turn (fst c), snd c) else (fst c, turn_axis half_turn (snd c)));
          c = (if sw then (fst c, turn_axis flip (snd c)) else (turn_axis flip (fst c), snd c))
      in (fst c, turn_axis sw (snd c)))"

definition axes_of :: "dss2_rect_t \<Rightarrow> (int \<times> int) \<times> (int \<times> int)" where
  "axes_of r = ((rc_x r, sint (rc_w r)), (rc_y r, sint (rc_h r)))"

definition of_axes :: "(int \<times> int) \<times> (int \<times> int) \<Rightarrow> dss2_rect_t" where
  "of_axes a = \<lparr>rc_x = fst (fst a), rc_y = fst (snd a), rc_w = word_of_int (snd (fst a)),
                rc_h = word_of_int (snd (snd a))\<rparr>"

text \<open>Axis \<open>c\<close> of the window goes with axis \<open>c ^ swap\<close> of the crop rectangle.\<close>

definition crop_to_rect :: "blit_rect_t \<Rightarrow> dss2_ovl_cfg \<Rightarrow> dss2_ovl_cfg option" where
  "crop_to_rect vis oc =
     (let w = axes_of (win oc); c = align_crop oc (axes_of (crop oc)); sw = odd (rotation oc)
      in case crop_axis (left vis) (right vis) (fst w, if sw then snd c else fst c) of
           None \<Rightarrow> None
         | Some (wx, cx) \<Rightarrow>
             (case crop_axis (top vis) (bottom vis) (snd w, if sw then fst c else snd c) of
                None \<Rightarrow> None
              | Some (wy, cy) \<Rightarrow>
                  Some (oc\<lparr>win := of_axes (wx, wy),
                           crop := of_axes (realign_crop oc (if sw then (cy, cx) else (cx, cy)))\<rparr>)))"

section \<open>Moving an overlay to a display\<close>

fun apply_transform :: "matrix \<Rightarrow> dss2_ovl_cfg \<Rightarrow> dss2_ovl_cfg" where
  "apply_transform ((a, b, c), (d, e, f)) oc =
     (let wx = float_of_int (rc_x (win oc)); wy = float_of_int (rc_y (win oc));
          ww = float_of_uint (rc_w (win oc)); wh = float_of_uint (rc_h (win oc));
          x = f_add (f_add (f_mul a wx) (f_mul b wy)) c;
          y = f_add (f_add (f_mul d wx) (f_mul e wy)) f;
          w = f_add (f_mul a ww) (f_mul b wh);
          h = f_add (f_mul d ww) (f_mul e wh)
      in oc\<lparr>win := \<lparr>rc_x = m_round (if f_greater w (Fin 0) then x else f_add x w),
                    rc_y = m_round (if f_greater h (Fin 0) then y else f_add y h),
                    rc_w = word_of_int (m_round (if f_greater w (Fin 0) then w else f_neg w)),
                    rc_h = word_of_int (m_round (if f_greater h (Fin 0) then h else f_neg h))\<rparr>\<rparr>)"

definition adjust_ext_layer :: "omap_hwc_ext \<Rightarrow> dss2_ovl_info \<Rightarrow> dss2_ovl_info" where
  "adjust_ext_layer e ovl =
     (case (if \<not> docking (current e) then crop_to_rect (mirror_region e) (cfg ovl) else Some (cfg ovl)) of
        None \<Rightarrow> ovl\<lparr>cfg := (cfg ovl)\<lparr>enabled := False\<rparr>\<rparr>
      | Some oc \<Rightarrow>
          (let oc = apply_transform (ext_m e) oc;
               oc = oc\<lparr>rotation := (rotation oc + (if mirror oc then -1 else 1) * ext_rotation (current e)) mod 4\<rparr>
           in ovl\<lparr>cfg := (if hflip (current e) then oc\<lparr>mirror := \<not> mirror oc\<rparr> else oc)\<rparr>))"

definition adjust_primary_display_layer :: "omap_hwc_device \<Rightarrow> dss2_ovl_info \<Rightarrow> dss2_ovl_info" where
  "adjust_primary_display_layer dev ovl =
     (case crop_to_rect (primary_region dev) (cfg ovl) of
        None \<Rightarrow> ovl\<lparr>cfg := (cfg ovl)\<lparr>enabled := False\<rparr>\<rparr>
      | Some oc \<Rightarrow>
          (let oc = apply_transform (primary_m dev) oc
           in ovl\<lparr>cfg := oc\<lparr>rotation := (rotation oc + (if mirror oc then -1 else 1) * primary_rotation dev) mod 4\<rparr>\<rparr>))"

definition set_primary_display_transform_matrix :: "dsscomp_display_info option \<Rightarrow> omap_hwc_device \<Rightarrow> omap_hwc_device" where
  "set_primary_display_transform_matrix query dev =
     (let dev = (case query of None \<Rightarrow> dev | Some d \<Rightarrow> dev\<lparr>fb_dis := d\<rparr>);
          lcd_w = sint (x_res (fb_dis dev)); lcd_h = sint (y_res (fb_dis dev));
          orig_w = fb_width dev; orig_h = fb_height dev;
          rot = (if (lcd_w > lcd_h) \<noteq> (orig_w > orig_h) then 1 else 0);
          m = m_translate (float_of_int (- (orig_w div 2))) (float_of_int (- (orig_h div 2))) m_unit;
          m = m_rotate rot m;
          (w, h) = (if odd rot then (orig_h, orig_w) else (orig_w, orig_h));
          m = m_scale w lcd_w h lcd_h m;
          m = m_translate (float_of_int (lcd_w div 2)) (float_of_int (lcd_h div 2)) m
      in dev\<lparr>primary_region := \<lparr>left = 0, top = 0, right = orig_w, bottom = orig_h\<rparr>,
             primary_rotation := rot,
             primary_transform := (if lcd_w \<noteq> orig_w \<or> lcd_h \<noteq> orig_h then 1 else 0),
             primary_m := m\<rparr>)"

end
