(* ===== verification/Hwc_Scale.thy ===== *)
theory Hwc_Scale
  imports Hwc_Geometry
begin

text \<open>
  What the scaler of the display controller can do, and the choice of the video mode of an external
  screen (\<^verbatim>\<open>hwc/hwc.c\<close>, from \<open>can_scale\<close> to \<open>set_best_hdmi_mode\<close>).  All arithmetic is on unsigned
  32-bit numbers.  The decimation factors and the downscale limit the driver reports are not zero; the
  model's division by zero is zero, where the code would trap.
\<close>

section \<open>Scaling limits\<close>

definition DIV_ROUND_UP :: "32 word \<Rightarrow> 32 word \<Rightarrow> 32 word" where
  "DIV_ROUND_UP a b = (a + b - 1) div b"

definition can_scale :: "32 word \<Rightarrow> 32 word \<Rightarrow> 32 word \<Rightarrow> 32 word \<Rightarrow> bool \<Rightarrow> omap_channel \<Rightarrow>
    dsscomp_platform_info \<Rightarrow> 32 word \<Rightarrow> pixel_format option \<Rightarrow> bool" where
  "can_scale src_w src_h dst_w dst_h is_2d chan plat pclk fmt =
     (let fck = fclk plat div 1000;
          xdecim = (if is_2d then max_xdecim_2d plat else max_xdecim_1d plat);
          ydecim = (if is_2d then max_ydecim_2d plat else max_ydecim_1d plat);
          min_src_w = DIV_ROUND_UP src_w xdecim;
          min_src_h = DIV_ROUND_UP src_h ydecim
      in if chan \<noteq> OMAP_DSS_CHANNEL_DIGIT \<and> dst_w < min_width plat then False
         else if dst_h < src_h div 4 then False
         else if dst_h * max_downscale plat < min_src_h then False
         else if pclk = 0 then \<not> dst_w < src_w div max_downscale plat div xdecim
         else if dst_w * 4 < src_w then False
         else if (case fmt of None \<Rightarrow> False
                  | Some f \<Rightarrow> get_format_bpp f = 32 \<and> 1280 < src_w \<and> dst_w * 3 < src_w) then False
         else
           (let fck = (if pclk * max_downscale plat < fck then pclk * max_downscale plat else fck);
                fck = (if src_w < integer_scale_ratio_limit plat then fck div pclk * pclk else fck)
            in \<not> dst_w * fck < min_src_w * pclk))"

definition can_scale_layer :: "heap \<Rightarrow> omap_hwc_device \<Rightarrow> hwc_layer_1_t \<Rightarrow> bool" where
  "can_scale_layer mem dev layer =
     (let src_w = WIDTH (sourceCrop layer); src_h = HEIGHT (sourceCrop layer);
          dst_w = WIDTH (displayFrame layer); dst_h = HEIGHT (displayFrame layer);
          (src_w, src_h) = (if has_flag (transform layer) HWC_TRANSFORM_ROT_90 then (src_h, src_w) else (src_w, src_h));
          fmt = iFormat (mem (handle layer))
      in can_scale (word_of_int src_w) (word_of_int src_h) (word_of_int dst_w) (word_of_int dst_h)
           (hwc_is_NV12 fmt) (channel (fb_dis dev)) (limits dev) (pixel_clock (fb_dis dev)) (Some fmt))"

definition is_valid_layer :: "heap \<Rightarrow> omap_hwc_device \<Rightarrow> hwc_layer_1_t \<Rightarrow> bool" where
  "is_valid_layer mem dev layer =
     (if skip_layer layer \<or> handle layer = 0 then False
      else let fmt = iFormat (mem (handle layer)) in
        if \<not> is_valid_format fmt then False
        else if \<not> hwc_is_NV12 fmt \<and> transform layer \<noteq> 0 then False
        else if \<not> hwc_is_NV12 fmt \<and> tiler1d_slot_size (limits dev) < mem1d mem (handle layer) then False
        else can_scale_layer mem dev layer)"

section \<open>The best video mode\<close>

definition add_scaling_score :: "32 word \<Rightarrow> 32 word \<Rightarrow> 32 word \<Rightarrow> 32 word \<Rightarrow> 32 word \<Rightarrow> 32 word \<Rightarrow> 32 word \<Rightarrow>
    32 word \<Rightarrow> 32 word \<Rightarrow> 32 word" where
  "add_scaling_score score xres yres rate e_xres e_yres mode_xres mode_yres mode_rate =
     (let area = xres * yres; ext_area = e_xres * e_yres; mode_area = mode_xres * mode_yres;
          upscale = (if xres * 99 div 100 \<le> e_xres \<and> yres * 99 div 100 \<le> e_yres then 1 else 0);
          score = push_bit 1 ((score AND NOT 1) OR upscale) OR (score AND 1);
          score = push_bit 5 score OR
            (if area < ext_area then 16 * area div ext_area else 16 * ext_area div area);
          score = push_bit 5 score OR ((16 * ext_area + drop_bit 1 mode_area) div mode_area);
          mode_rate = mode_rate + (if mode_rate mod 6 = 5 then 1 else 0);
          score = push_bit 1 score OR (if rate \<le> mode_rate then 1 else 0)
      in push_bit 8 score OR
           (if rate < mode_rate then 240 * rate div mode_rate else 240 * mode_rate div rate))"

text \<open>
  One round of the loop over the mode database; \<open>i\<close> is the index of the mode, the state is the
  external display with the index and the score of the best mode so far (\<open>-1\<close>: none).
\<close>

definition try_mode :: "dsscomp_platform_info \<Rightarrow> dsscomp_display_info \<Rightarrow> 32 word \<Rightarrow> 32 word \<Rightarrow> cfloat \<Rightarrow> 32 word \<Rightarrow>
    dsscomp_videomode \<Rightarrow> omap_hwc_ext \<times> 32 word \<times> 32 word \<Rightarrow> omap_hwc_ext \<times> 32 word \<times> 32 word" where
  "try_mode plat d xres yres xpy i vm st =
     (case st of (e, best, best_score) \<Rightarrow>
        (let mode_xres = mode_x vm;
             mode_yres = (if vmode_interlaced vm then mode_y vm div 2 else mode_y vm);
             (e_w, e_h) = (if flag_ratio_4_3 vm then (4, 3) else if flag_ratio_16_9 vm then (16, 9)
                           else (width_in_mm d, height_in_mm d));
             (fb_xres, fb_yres) = get_max_dimensions xres yres xpy mode_xres mode_yres e_w e_h
         in if mode_xres = 0 \<or> mode_yres = 0 then (e, best, best_score)
            else if pixclock vm = 0 \<or> vmode_other vm \<or>
                    \<not> can_scale xres yres fb_xres fb_yres True (channel d) plat (1000000000 div pixclock vm) None
            then (e, best, best_score)
            else
              (let score = (if flag_ratio_4_3 vm \<or> flag_ratio_16_9 vm then 1 else 0);
                   score = push_bit 1 score OR (if i = NOT (mirror_mode e) \<and> avoid_mode_change e then 1 else 0);
                   score = add_scaling_score score xres yres 60 fb_xres fb_yres mode_xres mode_yres
                             (if refresh vm \<noteq> 0 then refresh vm else 1)
               in if best_score < score
                  then (e\<lparr>ext_width := e_w, ext_height := e_h, ext_xres := mode_xres, ext_yres := mode_yres\<rparr>,
                        i, score)
                  else (e, best, best_score))))"

fun try_modes :: "dsscomp_platform_info \<Rightarrow> dsscomp_display_info \<Rightarrow> 32 word \<Rightarrow> 32 word \<Rightarrow> cfloat \<Rightarrow> 32 word \<Rightarrow>
    dsscomp_videomode list \<Rightarrow> omap_hwc_ext \<times> 32 word \<times> 32 word \<Rightarrow> omap_hwc_ext \<times> 32 word \<times> 32 word" where
  "try_modes plat d xres yres xpy i [] st = st"
| "try_modes plat d xres yres xpy i (vm # vms) st =
     try_modes plat d xres yres xpy (i + 1) vms (try_mode plat d xres yres xpy i vm st)"

text \<open>
  \<open>set_best_hdmi_mode\<close>; \<open>query\<close> is what \<open>DSSCIOC_QUERY_DISPLAY\<close> reports of the display (\<open>None\<close>: the call
  fails), with at most 32 modes.  The second component is the return value.
\<close>

definition set_best_hdmi_mode :: "dsscomp_display_info option \<Rightarrow> 32 word \<Rightarrow> 32 word \<Rightarrow> cfloat \<Rightarrow> omap_hwc_device \<Rightarrow>
    omap_hwc_device \<times> int" where
  "set_best_hdmi_mode query xres yres xpy dev =
     (case query of
        None \<Rightarrow> (dev, -1)
      | Some d \<Rightarrow>
          if x_res d * y_res d = 0 \<or> xres * yres = 0 then (dev, -22)
          else
            (let e = (ext dev)\<lparr>ext_width := width_in_mm d, ext_height := height_in_mm d,
                               ext_xres := x_res d, ext_yres := y_res d\<rparr>;
                 e = (if ext_xres e = 0 \<or> ext_yres e = 0 then e\<lparr>ext_xres := 640, ext_yres := 480\<rparr> else e);
                 (e, best, _) = try_modes (limits dev) d xres yres xpy 0 (modedb d) (e, -1, 0);
                 dis_ix = (if on_tv dev then 0 else 1);
                 (fb_xres, fb_yres) = get_max_dimensions xres yres xpy (x_res d) (y_res d)
                                        (width_in_mm d) (height_in_mm d);
                 finish = (\<lambda>e dev. (dev\<lparr>ext := e\<lparr>last_xres_used := xres, last_yres_used := yres, last_xpy := xpy,
                                      ext_on_tv := (channel d = OMAP_DSS_CHANNEL_DIGIT \<or> ext_on_tv e)\<rparr>\<rparr>, 0))
             in if best \<noteq> -1
                then finish (e\<lparr>last_mode := NOT best\<rparr>)
                       (if last_mode e \<noteq> NOT best
                        then dev\<lparr>calls := calls dev @ [Setup_display dis_ix (modedb d ! unat best)]\<rparr> else dev)
                else if pixel_clock d = 0 \<or>
                        \<not> can_scale xres yres fb_xres fb_yres True (channel d) (limits dev) (pixel_clock d) None
                then (dev\<lparr>ext := e\<rparr>, -1)
                else finish e dev))"

definition setup_mirroring :: "dsscomp_display_info option \<Rightarrow> omap_hwc_device \<Rightarrow> omap_hwc_device \<times> int" where
  "setup_mirroring query dev =
     (let xres = word_of_int (WIDTH (mirror_region (ext dev)));
          yres = word_of_int (HEIGHT (mirror_region (ext dev)));
          (xres, yres) = (if odd (ext_rotation (current (ext dev))) then (yres, xres) else (xres, yres))
      in case set_best_hdmi_mode query xres yres (lcd_xpy (ext dev)) dev of
           (dev, r) \<Rightarrow> if r \<noteq> 0 then (dev, -19)
                       else (dev\<lparr>ext := set_ext_matrix (mirror_region (ext dev)) (ext dev)\<rparr>, 0))"

end
