(* ===== verification/Hwc_Prepare.thy ===== *)
theory Hwc_Prepare
  imports Hwc_Scale
begin

text \<open>
  \<open>hwc_prepare\<close> of the hardware composer (\<^verbatim>\<open>hwc/hwc.c\<close>): how each layer of a frame is drawn.  The
  layers are counted, the overlays are divided between the two displays, overlays are assigned to
  layers from the back to the front, the rest goes to the framebuffer (drawn by the GPU or by the
  blitter), and the overlays are cloned for an external screen.  The whole function runs under the
  composer's lock.

  A fault of the regionizer is a fault of the composer.  What other parts of the system answer is in
  the record \<open>hwc_env\<close>: the display query, the layer identities of SurfaceFlinger, whether memory can be
  allocated, and the image shown in a dock.
\<close>

record hwc_env =
  query_display :: "dsscomp_display_info option"
  layer_identity :: "(nat \<Rightarrow> nat option) option"
  env_alloc :: bool
  dock_image :: "int \<times> int \<times> 32 word"

record hwc_display_contents =
  hwLayers :: "hwc_layer_1_t list"
  extended_api :: bool
  dpy_and_sur :: bool
  retireFenceFd :: int
  fences :: "(int \<times> int) list"

section \<open>Counting the layers\<close>

definition count_layer :: "heap \<Rightarrow> omap_hwc_device \<Rightarrow> hwc_layer_1_t \<Rightarrow> counts_t \<Rightarrow> counts_t" where
  "count_layer mem dev layer num =
     (if \<not> is_valid_layer mem dev layer then num
      else
        (let h = mem (handle layer);
             num = num\<lparr>possible_overlay_layers := possible_overlay_layers num + 1\<rparr>;
             num = (if scaled layer \<or> hwc_is_NV12 (iFormat h) \<or> primary_transform dev \<noteq> 0
                    then num\<lparr>scaled_layers := scaled_layers num + 1\<rparr> else num);
             num = (if is_BGR h then num\<lparr>n_BGR := n_BGR num + 1\<rparr>
                    else if is_RGB (iFormat h) then num\<lparr>n_RGB := n_RGB num + 1\<rparr>
                    else if hwc_is_NV12 (iFormat h) then num\<lparr>n_NV12 := n_NV12 num + 1\<rparr> else num);
             num = (if dockable mem layer then num\<lparr>n_dockable := n_dockable num + 1\<rparr> else num);
             num = (if is_protected mem layer then num\<lparr>n_protected := n_protected num + 1\<rparr> else num)
         in num\<lparr>n_mem := n_mem num + mem1d mem (handle layer)\<rparr>))"

definition gather_layer_statistics :: "heap \<Rightarrow> hwc_layer_1_t list \<Rightarrow> omap_hwc_device \<Rightarrow>
    hwc_layer_1_t list \<times> omap_hwc_device" where
  "gather_layer_statistics mem layers dev =
     (let layers = map (\<lambda>l. l\<lparr>compositionType := HWC_FRAMEBUFFER\<rparr>) layers
      in (layers, dev\<lparr>counts := fold (count_layer mem dev) layers
                                 (zero_counts\<lparr>composited_layers := of_nat (length layers)\<rparr>)\<rparr>))"

section \<open>Dividing the overlays\<close>

text \<open>The three branches of \<open>decide_supported_cloning\<close>; the last component is \<open>nonscaling_ovls\<close>.\<close>

definition divide_overlays :: "omap_hwc_device \<Rightarrow> counts_t \<times> int \<times> ext_transform_t \<times> 32 word" where
  "divide_overlays dev =
     (let e = ext dev; num = (counts dev)\<lparr>max_hw_overlays := MAX_HW_OVERLAYS\<rparr>;
          docks = (n_dockable num \<noteq> 0 \<or> force_dock e)
      in if ext_enabled (dock e) \<and> \<not> (ext_enabled (ext_mirror e) \<and> \<not> docks) then
           (let eo = (if docks then 1 else 0)
            in (num\<lparr>max_hw_overlays := max_hw_overlays num - word_of_int (max eo (last_ext_ovls dev))\<rparr>, eo,
                if ext_enabled (ext_mirror e) then (ext_mirror e)\<lparr>docking := True\<rparr> else dock e,
                NUM_NONSCALING_OVERLAYS))
         else if ext_enabled (ext_mirror e) then
           (let mh = drop_bit 1 (max_hw_overlays num)
            in (num\<lparr>max_hw_overlays := mh\<rparr>, sint (MAX_HW_OVERLAYS - mh), ext_mirror e,
                drop_bit 1 NUM_NONSCALING_OVERLAYS))
         else (num\<lparr>max_hw_overlays := max_hw_overlays num - word_of_int (last_ext_ovls dev)\<rparr>, 0,
               (current e)\<lparr>ext_enabled := False\<rparr>, NUM_NONSCALING_OVERLAYS))"

definition decide_supported_cloning :: "omap_hwc_device \<Rightarrow> omap_hwc_device" where
  "decide_supported_cloning dev =
     (case divide_overlays dev of (num, wanted, cur, nonscaling) \<Rightarrow>
        (let eo = min (MAX_HW_OVERLAYS - last_int_ovls dev) wanted;
             num = (if n_protected num = 0 \<and> eo \<noteq> 0 \<and> ext_enabled cur \<and> \<not> docking cur
                    then num\<lparr>max_hw_overlays := word_of_int eo\<rparr> else num);
             num = (if primary_transform dev \<noteq> 0
                    then (let mh = max_hw_overlays num - NUM_NONSCALING_OVERLAYS
                          in num\<lparr>max_hw_overlays := mh, max_scaling_overlays := mh\<rparr>)
                    else num\<lparr>max_scaling_overlays := max_hw_overlays num - nonscaling\<rparr>)
         in dev\<lparr>counts := num, ext := (ext dev)\<lparr>current := cur\<rparr>, ext_ovls_wanted := wanted, ext_ovls := eo\<rparr>))"

definition can_dss_render_all :: "omap_hwc_device \<Rightarrow> bool" where
  "can_dss_render_all dev =
     (let e = ext dev; num = counts dev; cur = current e;
          tv = (on_tv dev \<or> (ext_on_tv e \<and> ext_enabled cur));
          tform = (ext_enabled cur \<and> (ext_rotation cur \<noteq> 0 \<or> hflip cur))
      in force_sgx dev = 0 \<and> possible_overlay_layers num \<noteq> 0 \<and>
         possible_overlay_layers num \<le> max_hw_overlays num \<and>
         possible_overlay_layers num = composited_layers num \<and>
         scaled_layers num \<le> max_scaling_overlays num \<and>
         n_NV12 num \<le> max_scaling_overlays num \<and>
         n_mem num \<le> tiler1d_slot_size (limits dev) \<and>
         (\<not> tform \<or> n_NV12 num = possible_overlay_layers num \<or> (n_NV12 num \<noteq> 0 \<and> docking cur)) \<and>
         (n_BGR num = 0 \<or> (n_RGB num = 0 \<and> \<not> tv) \<or> \<not> flags_rgb_order dev) \<and>
         (\<not> flags_nv12_only dev \<or> (n_BGR num = 0 \<and> n_RGB num = 0)))"

definition can_dss_render_layer :: "heap \<Rightarrow> omap_hwc_device \<Rightarrow> hwc_layer_1_t \<Rightarrow> bool" where
  "can_dss_render_layer mem dev layer =
     (let e = ext dev; cur = current e; fmt = iFormat (mem (handle layer));
          cloning = (ext_enabled cur \<and> (\<not> docking cur \<or> (handle layer \<noteq> 0 \<and> dockable mem layer)));
          tv = (on_tv dev \<or> (ext_on_tv e \<and> cloning));
          tform = (cloning \<and> (ext_rotation cur \<noteq> 0 \<or> hflip cur))
      in is_valid_layer mem dev layer \<and>
         (\<not> tform \<or> hwc_is_NV12 fmt) \<and>
         (\<not> flags_nv12_only dev \<or> (\<not> use_sgx dev \<or> hwc_is_NV12 fmt)) \<and>
         (\<not> (if swap_rb dev then is_RGB fmt else is_BGR (mem (handle layer))) \<or> \<not> flags_rgb_order dev) \<and>
         \<not> (tv \<and> is_BGR (mem (handle layer))))"

section \<open>Assigning overlays\<close>

definition display_area :: "dss2_ovl_info \<Rightarrow> int" where
  "display_area o' = sint (rc_w (win (cfg o')) * rc_h (win (cfg o')))"

text \<open>The local variables of the loop over the layers.\<close>

record pipe_state =
  ps_z :: int
  ps_fb_z :: int
  ps_ix_docking :: int
  ps_scaled_gfx :: bool
  ps_mem :: "32 word"

definition start_pipes :: pipe_state where
  "start_pipes = \<lparr>ps_z = 0, ps_fb_z = -1, ps_ix_docking = -1, ps_scaled_gfx = False, ps_mem = 0\<rparr>"

definition set_ix :: "int \<Rightarrow> dss2_ovl_info \<Rightarrow> dss2_ovl_info" where
  "set_ix i o' = o'\<lparr>cfg := (cfg o')\<lparr>ix := i\<rparr>\<rparr>"

definition set_zorder :: "int \<Rightarrow> dss2_ovl_info \<Rightarrow> dss2_ovl_info" where
  "set_zorder z o' = o'\<lparr>cfg := (cfg o')\<lparr>zorder := z\<rparr>\<rparr>"

definition takes_overlay :: "heap \<Rightarrow> omap_hwc_device \<Rightarrow> pipe_state \<Rightarrow> hwc_layer_1_t \<Rightarrow> bool" where
  "takes_overlay mem dev ps layer \<longleftrightarrow>
     of_nat (num_ovls (dsscomp dev)) < max_hw_overlays (counts dev) \<and>
     can_dss_render_layer mem dev layer \<and>
     (force_sgx dev = 0 \<or> is_protected mem layer \<or> is_upscaled_NV12 mem (upscaled_nv12_limit dev) layer \<or>
      (docking (current (ext dev)) \<and> ext_enabled (current (ext dev)) \<and> dockable mem layer)) \<and>
     ps_mem ps + mem1d mem (handle layer) \<le> tiler1d_slot_size (limits dev) \<and>
     \<not> (is_BLENDED layer \<and> 0 \<le> ps_fb_z ps)"

text \<open>The overlay of a layer, then the choice of the pipe: the graphics pipe 0 never scales.\<close>

definition layer_overlay :: "heap \<Rightarrow> omap_hwc_device \<Rightarrow> int \<Rightarrow> hwc_layer_1_t \<Rightarrow> dss2_ovl_info" where
  "layer_overlay mem dev z layer =
     (let n = num_ovls (dsscomp dev); h = mem (handle layer);
          o' = setup_layer layer z (iFormat h) (iWidth h) (iHeight h) (ovls (dsscomp dev) ! n)
      in (set_ix (int n + primary_transform dev) o')\<lparr>addressing := OMAP_DSS_BUFADDR_LAYER_IX, ba := int n\<rparr>)"

definition choose_pipe :: "omap_hwc_device \<Rightarrow> bool \<Rightarrow> bool \<Rightarrow> dss2_ovl_info list \<Rightarrow> dss2_ovl_info list \<times> bool" where
  "choose_pipe dev needs_scaler scaled_gfx os =
     (let n = num_ovls (dsscomp dev)
      in if n = 0 \<and> primary_transform dev = 0 then (os, needs_scaler)
         else if scaled_gfx \<and> \<not> needs_scaler
         then ((os[n := set_ix 0 (os ! n)])[0 := set_ix (int n) ((os[n := set_ix 0 (os ! n)]) ! 0)], False)
         else (os, scaled_gfx))"

definition assign_overlay :: "heap \<Rightarrow> omap_hwc_device \<Rightarrow> pipe_state \<Rightarrow> hwc_layer_1_t \<Rightarrow>
    hwc_layer_1_t \<times> omap_hwc_device \<times> pipe_state" where
  "assign_overlay mem dev ps layer =
     (let n = num_ovls (dsscomp dev);
          os = (ovls (dsscomp dev))[n := layer_overlay mem dev (ps_z ps) layer];
          (os, gfx) = choose_pipe dev (scaled layer \<or> hwc_is_NV12 (iFormat (mem (handle layer))))
                        (ps_scaled_gfx ps) os;
          dck = (if dockable mem layer \<and>
                    (ps_ix_docking ps < 0 \<or>
                     display_area (os ! n) > display_area (os ! nat (ps_ix_docking ps)))
                 then int n else ps_ix_docking ps)
      in (layer\<lparr>compositionType := HWC_OVERLAY, hint_triple_buffer := True,
                hint_clear_fb := (hint_clear_fb layer \<or> (use_sgx dev \<and> \<not> is_BLENDED layer))\<rparr>,
          dev\<lparr>buffers := (buffers dev)[n := handle layer],
              dsscomp := (dsscomp dev)\<lparr>ovls := os, num_ovls := Suc n\<rparr>\<rparr>,
          ps\<lparr>ps_z := ps_z ps + 1, ps_ix_docking := dck, ps_scaled_gfx := gfx,
             ps_mem := ps_mem ps + mem1d mem (handle layer)\<rparr>))"

text \<open>The inner loop that moves the framebuffer up by lowering the overlays above it.\<close>

function raise_fb :: "int \<Rightarrow> int \<Rightarrow> dss2_ovl_info list \<Rightarrow> int \<times> dss2_ovl_info list" where
  "raise_fb fb_z z os =
     (if fb_z < z - 1
      then raise_fb (fb_z + 1) z
             (os[nat (1 + fb_z) := set_zorder (zorder (cfg (os ! nat (1 + fb_z))) - 1) (os ! nat (1 + fb_z))])
      else (fb_z, os))"
  by pat_completeness auto
termination
  by (relation "measure (\<lambda>(fb_z, z, os). nat (z - fb_z))") auto

declare raise_fb.simps [simp del]

definition into_framebuffer :: "omap_hwc_device \<Rightarrow> pipe_state \<Rightarrow> omap_hwc_device \<times> pipe_state" where
  "into_framebuffer dev ps =
     (if \<not> use_sgx dev then (dev, ps)
      else if ps_fb_z ps < 0 then (dev, ps\<lparr>ps_fb_z := ps_z ps, ps_z := ps_z ps + 1\<rparr>)
      else case raise_fb (ps_fb_z ps) (ps_z ps) (ovls (dsscomp dev)) of
        (fz, os) \<Rightarrow> (dev\<lparr>dsscomp := (dsscomp dev)\<lparr>ovls := os\<rparr>\<rparr>, ps\<lparr>ps_fb_z := fz\<rparr>))"

fun setup_pipes :: "heap \<Rightarrow> hwc_layer_1_t list \<Rightarrow> omap_hwc_device \<Rightarrow> pipe_state \<Rightarrow>
    hwc_layer_1_t list \<times> omap_hwc_device \<times> pipe_state" where
  "setup_pipes mem [] dev ps = ([], dev, ps)"
| "setup_pipes mem (l # ls) dev ps =
     (if takes_overlay mem dev ps l
      then (case assign_overlay mem dev ps l of (l, dev, ps) \<Rightarrow>
              (case setup_pipes mem ls dev ps of (ls, dev, ps) \<Rightarrow> (l # ls, dev, ps)))
      else (case into_framebuffer dev ps of (dev, ps) \<Rightarrow>
              (case setup_pipes mem ls dev ps of (ls, dev, ps) \<Rightarrow> (l # ls, dev, ps))))"

section \<open>Blitting\<close>

definition blit_reset :: "omap_hwc_device \<Rightarrow> omap_hwc_device" where
  "blit_reset dev = dev\<lparr>blit_flags := False, blit_num := 0, post2_blit_buffers := 0, blit_ops := []\<rparr>"

definition blit_screen :: "omap_hwc_device \<Rightarrow> screen" where
  "blit_screen dev = \<lparr>scr_width = uint (g_width (gscrngeom dev)), scr_height = uint (g_height (gscrngeom dev))\<rparr>"

text \<open>The identities SurfaceFlinger reports for the layers, if it reports all of them.\<close>

definition layer_identities :: "hwc_env \<Rightarrow> hwc_layer_1_t list \<Rightarrow> nat list option" where
  "layer_identities env layers =
     (case layer_identity env of
        None \<Rightarrow> None
      | Some f \<Rightarrow>
          if RGZ_INPUT_MAXLAYERS < length layers \<or> (\<exists>i \<in> set [0..<length layers]. f i = None) then None
          else Some (map (\<lambda>i. the (f i)) [0..<length layers]))"

definition blitted_layer :: "hwc_layer_1_t \<Rightarrow> hwc_layer_1_t" where
  "blitted_layer l =
     (if compositionType l \<noteq> HWC_OVERLAY
      then l\<lparr>compositionType := HWC_OVERLAY, hint_triple_buffer := False, hint_clear_fb := False\<rparr>
      else l\<lparr>hint_clear_fb := False\<rparr>)"

fun store_handles :: "nat list \<Rightarrow> nat \<Rightarrow> nat list \<Rightarrow> nat list" where
  "store_handles [] off bufs = bufs"
| "store_handles (h # hs) off bufs = store_handles hs (Suc off) (bufs[off := h])"

definition blit_failed :: "hwc_layer_1_t list \<Rightarrow> omap_hwc_device \<Rightarrow> rgz_fault + hwc_layer_1_t list \<times> omap_hwc_device \<times> bool" where
  "blit_failed layers dev = Inr (layers, dev\<lparr>grgz := rgz_release (grgz dev)\<rparr>, False)"

text \<open>The command operations of \<open>rgz_out\<close> call no blit function.\<close>

definition no_bv_blt :: "rgz_blt_entry list \<Rightarrow> rgz_blt_entry \<Rightarrow> int \<times> nat" where
  "no_bv_blt sent e = (0, 0)"

definition blit_layers :: "heap \<Rightarrow> hwc_env \<Rightarrow> bool \<Rightarrow> hwc_layer_1_t list \<Rightarrow> nat \<Rightarrow> omap_hwc_device \<Rightarrow>
    rgz_fault + hwc_layer_1_t list \<times> omap_hwc_device \<times> bool" where
  "blit_layers mem env extended layers bufoff dev =
     (if ext_enabled (ext_mirror (ext dev)) then blit_failed layers dev
      else
        (let paint = (blt_mode dev = BLTMODE_PAINT);
             in_op = (if paint then RGZ_IN_HWCCHK else RGZ_IN_HWC);
             out_op = (if paint then RGZ_OUT_BVCMD_PAINT else RGZ_OUT_BVCMD_REGION)
         in case (if extended \<and> procs dev then layer_identities env layers else None) of
              None \<Rightarrow> blit_failed layers dev
            | Some ids \<Rightarrow>
                (case rgz_in mem (env_alloc env) (blit_screen dev) in_op (Some (zip layers ids)) (grgz dev) of
                   (rgz, ok) \<Rightarrow>
                     if \<not> ok then blit_failed layers (dev\<lparr>grgz := rgz\<rparr>)
                     else andThen (rgz_out mem no_bv_blt
                                     \<lparr>out_op = out_op, screen_geom = gscrngeom dev, noblend = False\<rparr> rgz) (\<lambda>r.
                       if out_rv r \<noteq> 0 then blit_failed layers (dev\<lparr>grgz := rgz\<rparr>)
                       else if out_op \<noteq> RGZ_OUT_BVCMD_REGION \<and> out_nblits r = 0 \<and> out_hndls r \<noteq> []
                       then blit_failed layers (dev\<lparr>grgz := rgz\<rparr>)
                       else Inr (map blitted_layer layers,
                              dev\<lparr>grgz := rgz, blit_flags := True, blit_num := out_nblits r,
                                  post2_blit_buffers := length (out_hndls r),
                                  buffers := store_handles (out_hndls r) bufoff (buffers dev),
                                  blit_ops := out_cmds r\<rparr>, True)))))"

section \<open>Cloning overlays\<close>

text \<open>The second component is the return value; -16 is \<open>-EBUSY\<close>, -19 is \<open>-ENODEV\<close>.\<close>

definition cloned_overlay :: "omap_hwc_device \<Rightarrow> nat \<Rightarrow> dss2_ovl_info" where
  "cloned_overlay dev i =
     (let d = dsscomp dev; o' = ovls d ! i;
          ion = (if even (sync_id dev) then fst (ion_handles dev) else snd (ion_handles dev));
          o' = o'\<lparr>cfg := (cfg o')\<lparr>ix := MAX_HW_OVERLAYS - 1 - (int (num_ovls d) - int (post2_layers dev)), mgr_ix := 1\<rparr>\<rparr>;
          o' = (if i = 0 \<and> ion \<noteq> 0 \<and> use_sgx dev
                then o'\<lparr>addressing := OMAP_DSS_BUFADDR_ION, ba := int ion\<rparr>
                else o'\<lparr>addressing := OMAP_DSS_BUFADDR_OVL_IX, ba := int i\<rparr>)
      in adjust_ext_layer (ext dev) (set_zorder (zorder (cfg o') + int (post2_layers dev)) o'))"

definition clone_layer :: "nat \<Rightarrow> omap_hwc_device \<Rightarrow> omap_hwc_device \<times> int" where
  "clone_layer i dev =
     (let d = dsscomp dev in
      if MAX_HW_OVERLAYS \<le> num_ovls d then (dev, -16)
      else (dev\<lparr>dsscomp := d\<lparr>ovls := (ovls d)[num_ovls d := cloned_overlay dev i], num_ovls := Suc (num_ovls d)\<rparr>\<rparr>, 0))"

text \<open>The size and the pixel ratio of the picture on the external screen.\<close>

definition clone_size :: "omap_hwc_ext \<Rightarrow> dss2_ovl_cfg \<Rightarrow> 32 word \<times> 32 word \<times> cfloat" where
  "clone_size e oc =
     (let xres = rc_w (crop oc); yres = rc_h (crop oc);
          (xres, yres) = (if odd (ext_rotation (current e) + rotation oc) then (yres, xres) else (xres, yres));
          xpy = f_div (f_mul (lcd_xpy e) (float_of_uint (rc_w (win oc)))) (float_of_uint (rc_h (win oc)));
          xpy = (if odd (rotation oc)
                 then f_div (f_div (float_of_uint (rc_h (crop oc))) xpy) (float_of_uint (rc_w (crop oc)))
                 else f_div (f_mul (float_of_uint (rc_h (crop oc))) xpy) (float_of_uint (rc_w (crop oc))));
          xpy = (if odd (ext_rotation (current e)) then f_div (Fin 1) xpy else xpy)
      in (xres, yres, xpy))"

definition win_region :: "dss2_rect_t \<Rightarrow> blit_rect_t" where
  "win_region r = \<lparr>left = rc_x r, top = rc_y r, right = sint (word_of_int (rc_x r) + rc_w r),
                   bottom = sint (word_of_int (rc_y r) + rc_h r)\<rparr>"

definition clone_external_layer :: "dsscomp_display_info option \<Rightarrow> nat \<Rightarrow> omap_hwc_device \<Rightarrow> omap_hwc_device \<times> int" where
  "clone_external_layer query i dev =
     (let e = ext dev; oc = cfg (ovls (dsscomp dev) ! i); (xres, yres, xpy) = clone_size e oc;
          (dev, r) =
            (if xres \<noteq> last_xres_used e \<or> yres \<noteq> last_yres_used e \<or>
                f_less xpy (f_mul (last_xpy e) one_minus_tolerance) \<or>
                f_greater (f_mul xpy one_minus_tolerance) (last_xpy e)
             then set_best_hdmi_mode query xres yres xpy dev else (dev, 0))
      in if r \<noteq> 0 then (dev\<lparr>ext := (ext dev)\<lparr>current := (current (ext dev))\<lparr>ext_enabled := False\<rparr>\<rparr>\<rparr>, -19)
         else clone_layer i (dev\<lparr>ext := set_ext_matrix (win_region (win oc)) (ext dev)\<rparr>))"

fun mirror_layers :: "nat list \<Rightarrow> omap_hwc_device \<Rightarrow> omap_hwc_device" where
  "mirror_layers [] dev = dev"
| "mirror_layers (i # is) dev =
     (case clone_layer i dev of (dev, r) \<Rightarrow> if r \<noteq> 0 then dev else mirror_layers is dev)"

section \<open>Preparing a frame\<close>

definition set_ovl :: "nat \<Rightarrow> (dss2_ovl_info \<Rightarrow> dss2_ovl_info) \<Rightarrow> omap_hwc_device \<Rightarrow> omap_hwc_device" where
  "set_ovl i f dev =
     dev\<lparr>dsscomp := (dsscomp dev)\<lparr>ovls := (ovls (dsscomp dev))[i := f (ovls (dsscomp dev) ! i)]\<rparr>\<rparr>"

text \<open>The first part: who composes.\<close>

definition choose_composition :: "omap_hwc_device \<Rightarrow> omap_hwc_device" where
  "choose_composition dev =
     (if can_dss_render_all dev then dev\<lparr>use_sgx := False, swap_rb := (n_BGR (counts dev) \<noteq> 0)\<rparr>
      else dev\<lparr>use_sgx := True, swap_rb := is_BGR_format (fb_format dev)\<rparr>)"

text \<open>A scaled layer that is left on the graphics pipe moves to the next video pipe.\<close>

definition move_scaled_gfx :: "pipe_state \<Rightarrow> omap_hwc_device \<Rightarrow> omap_hwc_device" where
  "move_scaled_gfx ps dev =
     (if ps_scaled_gfx ps then set_ovl 0 (set_ix (int (num_ovls (dsscomp dev)))) dev else dev)"

text \<open>The overlay of the framebuffer; the result has the number of z-positions in use.\<close>

definition setup_fb_overlay :: "bool \<Rightarrow> pipe_state \<Rightarrow> omap_hwc_device \<Rightarrow> omap_hwc_device \<times> int" where
  "setup_fb_overlay needs_fb ps dev =
     (if \<not> needs_fb then (dev, ps_z ps)
      else
        (let (fb_z, z) = (if ps_fb_z ps < 0 then (ps_z ps, ps_z ps + 1) else (ps_fb_z ps, ps_z ps));
             dev = (if use_sgx dev then dev\<lparr>buffers := (buffers dev)[0 := 0]\<rparr> else dev)
         in (set_ovl 0 (\<lambda>o'.
               (set_ix (primary_transform dev)
                 (o'\<lparr>cfg := (setup_layer_base fb_z (fb_format dev) True (fb_width dev) (fb_height dev) (cfg o'))
                       \<lparr>pre_mult_alpha := True\<rparr>\<rparr>))\<lparr>addressing := OMAP_DSS_BUFADDR_LAYER_IX, ba := 0\<rparr>) dev, z)))"

text \<open>The overlays of the external screen.\<close>

definition show_dock_image :: "hwc_env \<Rightarrow> omap_hwc_device \<Rightarrow> omap_hwc_device" where
  "show_dock_image env dev =
     (let n = num_ovls (dsscomp dev); (w, h, rowbytes) = dock_image env;
          dev = set_ovl n (\<lambda>o'. o'\<lparr>cfg := (setup_layer_base 0 BGRA_8888 True w h (cfg o'))\<lparr>stride := rowbytes\<rparr>\<rparr>) dev
      in case clone_external_layer (query_display env) n dev of
           (dev, r) \<Rightarrow> if r = 0 then set_ovl n (\<lambda>o'. o'\<lparr>addressing := OMAP_DSS_BUFADDR_FB, ba := 0\<rparr>) dev else dev)"

definition clone_overlays :: "hwc_env \<Rightarrow> pipe_state \<Rightarrow> int \<Rightarrow> omap_hwc_device \<Rightarrow> omap_hwc_device" where
  "clone_overlays env ps z dev =
     (let e = ext dev
      in if \<not> (ext_enabled (current e) \<and>
               ((n_protected (counts dev) = 0 \<and> ext_ovls dev \<noteq> 0) \<or>
                (ext_ovls_wanted dev \<noteq> 0 \<and> ext_ovls_wanted dev \<le> ext_ovls dev))) then dev
         else if docking (current e) \<and> 0 \<le> ps_ix_docking ps then
           (case clone_external_layer (query_display env) (nat (ps_ix_docking ps)) dev of
              (dev, r) \<Rightarrow> if r = 0 then set_ovl (num_ovls (dsscomp dev) - 1) (set_zorder z) dev else dev)
         else if docking (current e) \<and> force_dock e then show_dock_image env dev
         else if \<not> docking (current e) then
           (case (if docking (last_used e) then setup_mirroring (query_display env) dev else (dev, 0)) of
              (dev, r) \<Rightarrow> if r = 0 then mirror_layers [0..<post2_layers dev] dev else dev)
         else dev)"

definition adjust_primary :: "omap_hwc_device \<Rightarrow> omap_hwc_device" where
  "adjust_primary dev =
     (if primary_transform dev = 0 then dev
      else let d = dsscomp dev
           in dev\<lparr>dsscomp := d\<lparr>ovls :=
                map (\<lambda>o'. if mgr_ix (cfg o') = 0 then adjust_primary_display_layer dev o' else o')
                  (take (num_ovls d) (ovls d)) @ drop (num_ovls d) (ovls d)\<rparr>\<rparr>)"

definition finish_prepare :: "omap_hwc_device \<Rightarrow> omap_hwc_device" where
  "finish_prepare dev =
     (let e = (ext dev)\<lparr>last_used := current (ext dev)\<rparr>; d = dsscomp dev;
          mgr = \<lparr>mgr_index = 0, alpha_blending = True, mgr_swap_rb = swap_rb dev\<rparr>;
          two = (ext_enabled (current e) \<or> last_ext_ovls dev \<noteq> 0);
          d = d\<lparr>setup_display := True, mgrs := (if two then [mgr, mgr\<lparr>mgr_index := 1\<rparr>] else [mgr])\<rparr>;
          eo = (if two then int (num_ovls d) - int (post2_layers dev) else ext_ovls dev);
          d = (if last_mode e = 0 \<and> on_tv dev then d\<lparr>num_ovls := 0\<rparr> else d)
      in dev\<lparr>ext := e, dsscomp := d, ext_ovls := eo\<rparr>)"

text \<open>
  The check at the end of \<open>hwc_prepare\<close>, which reports every z-position and every pipe that is used
  twice; \<open>True\<close> is a run without a report.
\<close>

fun check_pipes :: "int \<Rightarrow> int \<Rightarrow> dss2_ovl_info list \<Rightarrow> bool" where
  "check_pipes z i [] \<longleftrightarrow> True"
| "check_pipes z i (o' # os) \<longleftrightarrow>
     \<not> bit z (nat (zorder (cfg o'))) \<and> \<not> bit i (nat (ix (cfg o'))) \<and>
     check_pipes (set_bit (nat (zorder (cfg o'))) z) (set_bit (nat (ix (cfg o'))) i) os"

text \<open>
  The frame between the decision who composes and the cloning: the blitter draws everything
  (\<open>BLTPOLICY_ALL\<close>), or the layers are put on overlays and the blitter draws the rest.
\<close>

definition blit_everything :: "heap \<Rightarrow> hwc_env \<Rightarrow> bool \<Rightarrow> hwc_layer_1_t list option \<Rightarrow> omap_hwc_device \<Rightarrow>
    rgz_fault + hwc_layer_1_t list \<times> omap_hwc_device \<times> bool" where
  "blit_everything mem env extended layers dev =
     (case layers of
        None \<Rightarrow> (if blt_policy dev = BLTPOLICY_ALL then blit_failed [] dev else Inr ([], dev, False))
      | Some ls \<Rightarrow>
          (if blt_policy dev \<noteq> BLTPOLICY_ALL then Inr (ls, dev, False)
           else andThen (blit_layers mem env extended ls 0 dev) (\<lambda>(ls, dev, ok).
             Inr (ls, if ok then dev\<lparr>use_sgx := False, swap_rb := False\<rparr> else dev, ok))))"

definition blit_rest :: "heap \<Rightarrow> hwc_env \<Rightarrow> bool \<Rightarrow> bool \<Rightarrow> hwc_layer_1_t list \<Rightarrow> omap_hwc_device \<Rightarrow>
    rgz_fault + hwc_layer_1_t list \<times> omap_hwc_device" where
  "blit_rest mem env extended has_list ls dev =
     (if blt_policy dev \<noteq> BLTPOLICY_DEFAULT then Inr (ls, dev)
      else if \<not> use_sgx dev then Inr (ls, dev\<lparr>grgz := rgz_release (grgz dev)\<rparr>)
      else
        (let n = num_ovls (dsscomp dev)
         in andThen (if has_list then blit_layers mem env extended ls (if n = 1 then 0 else n) dev
                     else blit_failed ls dev) (\<lambda>(ls, dev, ok).
              Inr (ls, if ok then dev\<lparr>use_sgx := False\<rparr> else dev))))"

definition compose_frame :: "heap \<Rightarrow> hwc_env \<Rightarrow> bool \<Rightarrow> hwc_layer_1_t list option \<Rightarrow> omap_hwc_device \<Rightarrow>
    rgz_fault + hwc_layer_1_t list \<times> omap_hwc_device \<times> pipe_state \<times> bool" where
  "compose_frame mem env extended layers dev =
     andThen (blit_everything mem env extended layers dev) (\<lambda>(ls, dev', blit_all).
       let needs_fb = (use_sgx dev \<or> blit_all);
           dev' = dev'\<lparr>dsscomp := (dsscomp dev')\<lparr>num_ovls := (if needs_fb then 1 else 0)\<rparr>\<rparr>;
           (ls, dev', ps) = (if blit_all then (ls, dev', start_pipes) else setup_pipes mem ls dev' start_pipes);
           dev' = move_scaled_gfx ps dev'
       in andThen (blit_rest mem env extended (layers \<noteq> None) ls dev') (\<lambda>(ls, dev').
            Inr (ls, dev', ps, needs_fb)))"

definition hwc_prepare :: "heap \<Rightarrow> hwc_env \<Rightarrow> hwc_display_contents option list \<Rightarrow> omap_hwc_device \<Rightarrow>
    rgz_fault + hwc_display_contents option list \<times> omap_hwc_device" where
  "hwc_prepare mem env displays dev =
     (case displays of
        [] \<Rightarrow> Inr (displays, dev)
      | lst # rest \<Rightarrow>
          (let layers = map_option hwLayers lst;
               dev = dev\<lparr>dsscomp := zero_dsscomp\<lparr>dss_sync_id := sync_id dev\<rparr>, sync_id := sync_id dev + 1\<rparr>;
               (ls, dev) = gather_layer_statistics mem (case layers of None \<Rightarrow> [] | Some ls \<Rightarrow> ls) dev;
               dev = blit_reset (choose_composition (decide_supported_cloning dev))
           in andThen (compose_frame mem env (case lst of None \<Rightarrow> False | Some c \<Rightarrow> extended_api c)
                         (map_option (\<lambda>_. ls) layers) dev) (\<lambda>(ls, dev, ps, needs_fb).
                (case setup_fb_overlay needs_fb ps dev of (dev, z) \<Rightarrow>
                   (let dev = dev\<lparr>post2_layers := num_ovls (dsscomp dev)\<rparr>
                    in Inr (map_option (\<lambda>c. c\<lparr>hwLayers := ls\<rparr>) lst # rest,
                            finish_prepare (adjust_primary (clone_overlays env ps z dev))))))))"

end
