(* ===== verification/Hwc_Pipes.thy ===== *)
theory Hwc_Pipes
  imports Hwc_Prepare
begin

text \<open>
  The loop of \<open>hwc_prepare\<close> that puts layers on overlays: which overlay shows which layer, and at which
  z-position.  An invariant of the loop is an interpretation of the locale \<open>pipe_loop\<close>.
\<close>

section \<open>Overlays and the framebuffer in a list of layers\<close>

definition is_ovl :: "hwc_layer_1_t \<Rightarrow> bool" where
  "is_ovl l \<longleftrightarrow> compositionType l = HWC_OVERLAY"

definition n_ovl :: "hwc_layer_1_t list \<Rightarrow> nat" where
  "n_ovl ls = length (filter is_ovl ls)"

definition upto_fb :: "hwc_layer_1_t list \<Rightarrow> hwc_layer_1_t list" where
  "upto_fb ls = rev (dropWhile is_ovl (rev ls))"

definition after_fb :: "hwc_layer_1_t list \<Rightarrow> hwc_layer_1_t list" where
  "after_fb ls = rev (takeWhile is_ovl (rev ls))"

lemma upto_after_fb: "upto_fb ls @ after_fb ls = ls"
  unfolding upto_fb_def after_fb_def by (metis rev_append rev_rev_ident takeWhile_dropWhile_id)

lemma n_ovl_simps [simp]: "n_ovl [] = 0" "n_ovl (l # ls) = (if is_ovl l then Suc (n_ovl ls) else n_ovl ls)"
  "n_ovl (ls @ ms) = n_ovl ls + n_ovl ms"
  by (simp_all add: n_ovl_def)

lemma fb_snoc [simp]:
  "upto_fb [] = []" "after_fb [] = []"
  "upto_fb (ls @ [l]) = (if is_ovl l then upto_fb ls else ls @ [l])"
  "after_fb (ls @ [l]) = (if is_ovl l then after_fb ls @ [l] else [])"
  by (simp_all add: upto_fb_def after_fb_def)

lemma n_ovl_upto: "n_ovl (upto_fb ls) \<le> n_ovl ls"
  using arg_cong [OF upto_after_fb [of ls], of n_ovl] by simp

section \<open>What the operations leave alone\<close>

lemma convert_format_valid: "is_valid_format f \<Longrightarrow>
    \<exists>oc'. convert_format f b oc = Some oc' \<and> zorder oc' = zorder oc \<and> ix oc' = ix oc \<and> mgr_ix oc' = mgr_ix oc"
  by (cases f) auto

lemma setup_layer_base_fields:
  "zorder (setup_layer_base z f b w h oc) = (if is_valid_format f then z else zorder oc)"
  "ix (setup_layer_base z f b w h oc) = (if is_valid_format f then 0 else ix oc)"
  "mgr_ix (setup_layer_base z f b w h oc) = mgr_ix oc"
  by (cases f; simp add: setup_layer_base_def)+

lemma convert_transform_fields [simp]:
  "zorder (convert_transform tr oc) = zorder oc" "ix (convert_transform tr oc) = ix oc"
  "mgr_ix (convert_transform tr oc) = mgr_ix oc"
  by (simp_all add: convert_transform_def Let_def)

lemma setup_layer_fields:
  "zorder (cfg (setup_layer l z f w h o')) = (if is_valid_format f then z else zorder (cfg o'))"
  "ix (cfg (setup_layer l z f w h o')) = (if is_valid_format f then 0 else ix (cfg o'))"
  "mgr_ix (cfg (setup_layer l z f w h o')) = mgr_ix (cfg o')"
  "win (cfg (setup_layer l z f w h o')) = dss_rect (displayFrame l)"
  "crop (cfg (setup_layer l z f w h o')) = dss_rect (sourceCrop l)"
  by (simp_all add: setup_layer_def Let_def setup_layer_base_fields)

lemma set_ix_fields [simp]:
  "zorder (cfg (set_ix i o')) = zorder (cfg o')" "ix (cfg (set_ix i o')) = i"
  "mgr_ix (cfg (set_ix i o')) = mgr_ix (cfg o')" "win (cfg (set_ix i o')) = win (cfg o')"
  "crop (cfg (set_ix i o')) = crop (cfg o')" "ba (set_ix i o') = ba o'" "addressing (set_ix i o') = addressing o'"
  by (simp_all add: set_ix_def)

lemma set_zorder_fields [simp]:
  "zorder (cfg (set_zorder z o')) = z" "ix (cfg (set_zorder z o')) = ix (cfg o')"
  "mgr_ix (cfg (set_zorder z o')) = mgr_ix (cfg o')" "win (cfg (set_zorder z o')) = win (cfg o')"
  "crop (cfg (set_zorder z o')) = crop (cfg o')" "ba (set_zorder z o') = ba o'"
  "addressing (set_zorder z o') = addressing o'"
  by (simp_all add: set_zorder_def)

lemma valid_layer_format: "is_valid_layer mem dev l \<Longrightarrow> is_valid_format (iFormat (mem (handle l))) \<and> handle l \<noteq> 0"
  by (simp add: is_valid_layer_def Let_def split: if_splits)

lemma takes_overlay_valid: "takes_overlay mem dev ps l \<Longrightarrow> is_valid_layer mem dev l"
  by (simp add: takes_overlay_def can_dss_render_layer_def Let_def)

lemma takes_overlay_room:
  assumes "takes_overlay mem dev ps l" "num_ovls (dsscomp dev) \<le> 4"
  shows "num_ovls (dsscomp dev) < unat (max_hw_overlays (counts dev))"
  using assms by (simp add: takes_overlay_def word_less_nat_alt unat_of_nat)

text \<open>The overlay of the layer, before the pipe is chosen.\<close>

lemma layer_overlay_fields:
  assumes "is_valid_format (iFormat (mem (handle l)))"
  shows "zorder (cfg (layer_overlay mem dev z l)) = z"
    "ix (cfg (layer_overlay mem dev z l)) = int (num_ovls (dsscomp dev)) + primary_transform dev"
    "mgr_ix (cfg (layer_overlay mem dev z l)) = mgr_ix (cfg (ovls (dsscomp dev) ! num_ovls (dsscomp dev)))"
    "win (cfg (layer_overlay mem dev z l)) = dss_rect (displayFrame l)"
    "crop (cfg (layer_overlay mem dev z l)) = dss_rect (sourceCrop l)"
    "ba (layer_overlay mem dev z l) = int (num_ovls (dsscomp dev))"
    "addressing (layer_overlay mem dev z l) = OMAP_DSS_BUFADDR_LAYER_IX"
  using assms by (simp_all add: layer_overlay_def Let_def setup_layer_fields)

text \<open>Choosing a pipe only changes the numbers of pipes.\<close>

definition same_but_ix :: "dss2_ovl_info list \<Rightarrow> dss2_ovl_info list \<Rightarrow> bool" where
  "same_but_ix os os' \<longleftrightarrow> map (set_ix 0) os = map (set_ix 0) os'"

lemma set_ix_set_ix [simp]: "set_ix i (set_ix j o') = set_ix i o'"
  by (simp add: set_ix_def)

lemma same_but_ix_update: "same_but_ix os (os[i := set_ix k (os ! i)])"
proof -
  have "(map (set_ix 0) os)[i := set_ix 0 (os ! i)] = map (set_ix 0) os"
    by (cases "i < length os") (simp_all add: list_update_same_conv list_update_beyond)
  then show ?thesis by (simp add: same_but_ix_def map_update)
qed

lemma same_but_ix_trans: "same_but_ix a b \<Longrightarrow> same_but_ix b c \<Longrightarrow> same_but_ix a c"
  by (simp add: same_but_ix_def)

lemma choose_pipe_same: "same_but_ix os (fst (choose_pipe dev ns gfx os))"
  unfolding choose_pipe_def Let_def
  by (auto simp: same_but_ix_def [of os os] simp del: nth_list_update_neq
      intro: same_but_ix_trans [OF same_but_ix_update same_but_ix_update])

lemma choose_pipe_other:
  "choose_pipe dev ns gfx os = (os', gfx') \<Longrightarrow> i \<noteq> 0 \<Longrightarrow> i \<noteq> num_ovls (dsscomp dev) \<Longrightarrow> os' ! i = os ! i"
  by (auto simp: choose_pipe_def Let_def split: if_splits)

lemma same_but_ixD:
  assumes "same_but_ix os os'"
  shows "length os' = length os"
    "i < length os \<Longrightarrow> zorder (cfg (os' ! i)) = zorder (cfg (os ! i))"
    "i < length os \<Longrightarrow> mgr_ix (cfg (os' ! i)) = mgr_ix (cfg (os ! i))"
    "i < length os \<Longrightarrow> win (cfg (os' ! i)) = win (cfg (os ! i))"
    "i < length os \<Longrightarrow> crop (cfg (os' ! i)) = crop (cfg (os ! i))"
    "i < length os \<Longrightarrow> ba (os' ! i) = ba (os ! i)"
    "i < length os \<Longrightarrow> addressing (os' ! i) = addressing (os ! i)"
proof -
  show len: "length os' = length os" using assms unfolding same_but_ix_def by (metis length_map)
  assume "i < length os"
  then have "set_ix 0 (os' ! i) = set_ix 0 (os ! i)" using assms len unfolding same_but_ix_def
    by (metis nth_map)
  then show "zorder (cfg (os' ! i)) = zorder (cfg (os ! i))" "mgr_ix (cfg (os' ! i)) = mgr_ix (cfg (os ! i))"
    "win (cfg (os' ! i)) = win (cfg (os ! i))" "crop (cfg (os' ! i)) = crop (cfg (os ! i))"
    "ba (os' ! i) = ba (os ! i)" "addressing (os' ! i) = addressing (os ! i)"
    by (metis set_ix_fields)+
qed

text \<open>The framebuffer takes the top position and the overlays it passes go down by one.\<close>

lemma raise_fb_result:
  assumes "0 \<le> fz" "fz \<le> z - 1" "nat z \<le> length os"
  shows "\<exists>os'. raise_fb fz z os = (z - 1, os') \<and> length os' = length os \<and>
    (\<forall>i < length os. os' ! i = (if nat (1 + fz) \<le> i \<and> i < nat z
       then set_zorder (zorder (cfg (os ! i)) - 1) (os ! i) else os ! i))"
  using assms
proof (induction fz z os rule: raise_fb.induct)
  case (1 fz z os)
  show ?case
  proof (cases "fz < z - 1")
    case True
    let ?os = "os[nat (1 + fz) := set_zorder (zorder (cfg (os ! nat (1 + fz))) - 1) (os ! nat (1 + fz))]"
    from "1.IH" [OF True] "1.prems" True obtain os' where
      os': "raise_fb (fz + 1) z ?os = (z - 1, os')" "length os' = length os"
      "\<forall>i < length os. os' ! i = (if nat (1 + (fz + 1)) \<le> i \<and> i < nat z
         then set_zorder (zorder (cfg (?os ! i)) - 1) (?os ! i) else ?os ! i)" by auto
    have "raise_fb fz z os = (z - 1, os')" using True os'(1) by (subst raise_fb.simps) simp
    moreover have "os' ! i = (if nat (1 + fz) \<le> i \<and> i < nat z
        then set_zorder (zorder (cfg (os ! i)) - 1) (os ! i) else os ! i)" if "i < length os" for i
    proof (cases "i = nat (1 + fz)")
      case eq: True
      moreover have "\<not> nat (1 + (fz + 1)) \<le> i" "i < nat z" using eq True "1.prems" by linarith+
      ultimately show ?thesis using os'(3) that by simp
    next
      case ne: False
      then have "nat (1 + fz) \<le> i \<longleftrightarrow> nat (1 + (fz + 1)) \<le> i" using "1.prems"(1) by linarith
      with ne show ?thesis using os'(3) that by simp
    qed
    ultimately show ?thesis using os'(2) by auto
  next
    case False
    then have "fz = z - 1" using "1.prems" by simp
    moreover have "raise_fb fz z os = (fz, os)" using False by (subst raise_fb.simps) simp
    ultimately show ?thesis using "1.prems" by (auto simp: nat_le_iff)
  qed
qed

section \<open>The loop over the layers\<close>

text \<open>
  The first overlay for a layer: with the GPU in use overlay 0 is the framebuffer.  Of the layers
  done so far, the overlays up to the last layer in the framebuffer are below it.
\<close>

abbreviation ovl_base :: "omap_hwc_device \<Rightarrow> nat" where
  "ovl_base dev \<equiv> if use_sgx dev then 1 else 0"

definition has_fb :: "omap_hwc_device \<Rightarrow> hwc_layer_1_t list \<Rightarrow> bool" where
  "has_fb dev ls \<longleftrightarrow> use_sgx dev \<and> upto_fb ls \<noteq> []"

text \<open>The z-position of the \<open>j\<close>th overlay of a list of layers.\<close>

definition z_of :: "omap_hwc_device \<Rightarrow> hwc_layer_1_t list \<Rightarrow> nat \<Rightarrow> int" where
  "z_of dev ls j = int j + (if has_fb dev ls \<and> n_ovl (upto_fb ls) \<le> j then 1 else 0)"

definition z_inv :: "omap_hwc_device \<Rightarrow> hwc_layer_1_t list \<Rightarrow> dss2_ovl_info list \<Rightarrow> pipe_state \<Rightarrow> bool" where
  "z_inv dev ls os ps \<longleftrightarrow>
     ps_fb_z ps = (if has_fb dev ls then int (n_ovl (upto_fb ls)) else -1) \<and>
     ps_z ps = int (n_ovl ls) + (if has_fb dev ls then 1 else 0) \<and>
     (\<forall>j < n_ovl ls. zorder (cfg (os ! (ovl_base dev + j))) = z_of dev ls j)"

text \<open>An overlay shows a layer: its place on the screen, the part of its buffer and the buffer.\<close>

definition shows_layer :: "nat list \<Rightarrow> dss2_ovl_info list \<Rightarrow> nat \<Rightarrow> hwc_layer_1_t \<Rightarrow> bool" where
  "shows_layer bufs os i l \<longleftrightarrow>
     win (cfg (os ! i)) = dss_rect (displayFrame l) \<and> crop (cfg (os ! i)) = dss_rect (sourceCrop l) \<and>
     mgr_ix (cfg (os ! i)) = 0 \<and> addressing (os ! i) = OMAP_DSS_BUFADDR_LAYER_IX \<and> ba (os ! i) = int i \<and>
     bufs ! i = handle l"

definition pipes_inv :: "omap_hwc_device \<Rightarrow> hwc_layer_1_t list \<Rightarrow> omap_hwc_device \<Rightarrow> pipe_state \<Rightarrow> bool" where
  "pipes_inv dev0 ls dev ps \<longleftrightarrow>
     (\<exists>bufs d. dev = dev0\<lparr>buffers := bufs, dsscomp := d\<rparr>) \<and>
     length (buffers dev) = 32 \<and> length (ovls (dsscomp dev)) = 5 \<and>
     num_ovls (dsscomp dev) = ovl_base dev0 + n_ovl ls \<and> num_ovls (dsscomp dev) \<le> 4 \<and>
     z_inv dev0 ls (ovls (dsscomp dev)) ps \<and>
     (\<forall>i < 5. num_ovls (dsscomp dev) \<le> i \<longrightarrow> ovls (dsscomp dev) ! i = zero_ovl) \<and>
     (\<forall>j < n_ovl ls. shows_layer (buffers dev) (ovls (dsscomp dev)) (ovl_base dev0 + j) (filter is_ovl ls ! j))"

lemma pipes_inv_frame:
  assumes "pipes_inv dev0 ls dev ps"
  shows "use_sgx dev = use_sgx dev0" "counts dev = counts dev0" "primary_transform dev = primary_transform dev0"
    "swap_rb dev = swap_rb dev0" "ext dev = ext dev0" "limits dev = limits dev0"
  using assms by (auto simp: pipes_inv_def)

lemma assign_overlay_result:
  assumes "assign_overlay mem dev ps l = (l', dev', ps')"
  obtains os where "same_but_ix ((ovls (dsscomp dev))[num_ovls (dsscomp dev) := layer_overlay mem dev (ps_z ps) l]) os"
    "l' = l\<lparr>compositionType := HWC_OVERLAY, hint_triple_buffer := True,
            hint_clear_fb := (hint_clear_fb l \<or> (use_sgx dev \<and> \<not> is_BLENDED l))\<rparr>"
    "dev' = dev\<lparr>buffers := (buffers dev)[num_ovls (dsscomp dev) := handle l],
                dsscomp := (dsscomp dev)\<lparr>ovls := os, num_ovls := Suc (num_ovls (dsscomp dev))\<rparr>\<rparr>"
    "ps_z ps' = ps_z ps + 1" "ps_fb_z ps' = ps_fb_z ps"
    "choose_pipe dev (scaled l \<or> hwc_is_NV12 (iFormat (mem (handle l)))) (ps_scaled_gfx ps)
       ((ovls (dsscomp dev))[num_ovls (dsscomp dev) := layer_overlay mem dev (ps_z ps) l]) = (os, ps_scaled_gfx ps')"
    "ps_mem ps' = ps_mem ps + mem1d mem (handle l)"
    "ps_ix_docking ps' = ps_ix_docking ps \<or> ps_ix_docking ps' = int (num_ovls (dsscomp dev)) \<and> dockable mem l"
proof -
  let ?os1 = "(ovls (dsscomp dev))[num_ovls (dsscomp dev) := layer_overlay mem dev (ps_z ps) l]"
  obtain os g where c: "choose_pipe dev (scaled l \<or> hwc_is_NV12 (iFormat (mem (handle l)))) (ps_scaled_gfx ps) ?os1 = (os, g)"
    by fastforce
  have "same_but_ix ?os1 os" using choose_pipe_same [of ?os1 dev _ _] c by (metis fst_conv)
  then show thesis
    by (rule that) (use assms c in \<open>auto simp: assign_overlay_def Let_def split: if_splits\<close>)
qed

lemma assign_overlay_step:
  assumes inv: "pipes_inv dev0 ls dev ps" and t: "takes_overlay mem dev ps l"
    and mh: "unat (max_hw_overlays (counts dev0)) \<le> 4" and a: "assign_overlay mem dev ps l = (l', dev', ps')"
  shows "pipes_inv dev0 (ls @ [l']) dev' ps'"
proof -
  let ?n = "num_ovls (dsscomp dev)" and ?b = "ovl_base dev0"
  let ?os1 = "(ovls (dsscomp dev))[?n := layer_overlay mem dev (ps_z ps) l]"
  from a obtain os where os: "same_but_ix ?os1 os"
    and l': "l' = l\<lparr>compositionType := HWC_OVERLAY, hint_triple_buffer := True,
            hint_clear_fb := (hint_clear_fb l \<or> (use_sgx dev \<and> \<not> is_BLENDED l))\<rparr>"
    and dev': "dev' = dev\<lparr>buffers := (buffers dev)[?n := handle l],
                dsscomp := (dsscomp dev)\<lparr>ovls := os, num_ovls := Suc ?n\<rparr>\<rparr>"
    and ps': "ps_z ps' = ps_z ps + 1" "ps_fb_z ps' = ps_fb_z ps"
    and cp: "choose_pipe dev (scaled l \<or> hwc_is_NV12 (iFormat (mem (handle l)))) (ps_scaled_gfx ps) ?os1 =
      (os, ps_scaled_gfx ps')" by (rule assign_overlay_result)
  have n: "?n < 4" "?n = ?b + n_ovl ls" and len: "length (ovls (dsscomp dev)) = 5" "length (buffers dev) = 32"
    using takes_overlay_room [OF t] inv mh pipes_inv_frame(2) [OF inv] by (auto simp: pipes_inv_def)
  have fmt: "is_valid_format (iFormat (mem (handle l)))"
    using takes_overlay_valid [OF t] valid_layer_format by blast
  note fields = layer_overlay_fields [where mem = mem and l = l and dev = dev, OF fmt] same_but_ixD [OF os]
  have ovl: "is_ovl l'" and n': "n_ovl (ls @ [l']) = Suc (n_ovl ls)" by (simp_all add: l' is_ovl_def)
  have same: "has_fb dev0 (ls @ [l']) = has_fb dev0 ls" "z_of dev0 (ls @ [l']) j = z_of dev0 ls j" for j
    using ovl by (simp_all add: has_fb_def z_of_def)
  have z: "z_inv dev0 ls (ovls (dsscomp dev)) ps" using inv by (simp add: pipes_inv_def)
  have "z_inv dev0 (ls @ [l']) os ps'"
    unfolding z_inv_def same n'
  proof (intro conjI allI impI)
    fix j assume "j < Suc (n_ovl ls)"
    then consider "j < n_ovl ls" | "j = n_ovl ls" by linarith
    then show "zorder (cfg (os ! (?b + j))) = z_of dev0 ls j"
    proof cases
      case 1
      then show ?thesis using z n len by (simp add: z_inv_def fields)
    next
      case 2
      then show ?thesis using z n len n_ovl_upto [of ls] by (simp add: z_inv_def z_of_def fields)
    qed
  qed (use z ovl ps' in \<open>auto simp: z_inv_def\<close>)
  moreover have "shows_layer ((buffers dev)[?n := handle l]) os (?b + j) (filter is_ovl (ls @ [l']) ! j)"
    if "j < Suc (n_ovl ls)" for j
  proof (cases "j = n_ovl ls")
    case True
    have "filter is_ovl (ls @ [l']) ! j = l'" using ovl True by (simp add: n_ovl_def nth_append)
    moreover have "ovls (dsscomp dev) ! ?n = zero_ovl" using inv n by (simp add: pipes_inv_def)
    ultimately show ?thesis using True n len
      by (simp add: shows_layer_def fields l' zero_ovl_def zero_cfg_def)
  next
    case False
    then have j: "j < n_ovl ls" using that by simp
    then have "filter is_ovl (ls @ [l']) ! j = filter is_ovl ls ! j" by (simp add: nth_append n_ovl_def)
    moreover have "shows_layer (buffers dev) (ovls (dsscomp dev)) (?b + j) (filter is_ovl ls ! j)"
      using inv j by (simp add: pipes_inv_def)
    ultimately show ?thesis using j n len by (simp add: shows_layer_def fields)
  qed
  moreover have "os ! i = zero_ovl" if "i < 5" "Suc ?n \<le> i" for i
    using choose_pipe_other [OF cp, of i] inv that by (simp add: pipes_inv_def)
  moreover have "\<exists>bufs d. dev' = dev0\<lparr>buffers := bufs, dsscomp := d\<rparr>"
    using inv unfolding pipes_inv_def dev' by (elim conjE exE) (simp, blast)
  moreover have "buffers dev' = (buffers dev)[?n := handle l]" "ovls (dsscomp dev') = os"
    "num_ovls (dsscomp dev') = Suc ?n" by (simp_all add: dev')
  ultimately show ?thesis using n len fields(8) ovl unfolding pipes_inv_def n' by simp
qed

lemma shows_layer_set_zorder:
  "shows_layer bufs os i l \<Longrightarrow> os' ! i = os ! i \<or> (\<exists>z. os' ! i = set_zorder z (os ! i)) \<Longrightarrow> shows_layer bufs os' i l"
  by (auto simp: shows_layer_def)

lemma into_framebuffer_step:
  assumes inv: "pipes_inv dev0 ls dev ps" and l: "\<not> is_ovl l" and f: "into_framebuffer dev ps = (dev', ps')"
  shows "pipes_inv dev0 (ls @ [l]) dev' ps'"
proof -
  have sgx: "use_sgx dev = use_sgx dev0" using pipes_inv_frame [OF inv] by simp
  have z: "z_inv dev0 ls (ovls (dsscomp dev)) ps" using inv by (simp add: pipes_inv_def)
  have fb: "has_fb dev0 (ls @ [l]) = use_sgx dev0" using l by (simp add: has_fb_def)
  consider "\<not> use_sgx dev0" | "use_sgx dev0" "ps_fb_z ps < 0" | "use_sgx dev0" "\<not> ps_fb_z ps < 0" by blast
  then show ?thesis
  proof cases
    case 1
    then have "dev' = dev" "ps' = ps" using f sgx by (simp_all add: into_framebuffer_def)
    then show ?thesis using inv l 1 by (simp add: pipes_inv_def z_inv_def has_fb_def z_of_def)
  next
    case 2
    then have d: "dev' = dev" "ps' = ps\<lparr>ps_fb_z := ps_z ps, ps_z := ps_z ps + 1\<rparr>"
      using f sgx by (simp_all add: into_framebuffer_def)
    have "\<not> has_fb dev0 ls" using z 2 by (auto simp: z_inv_def split: if_splits)
    then have "z_inv dev0 (ls @ [l]) (ovls (dsscomp dev)) ps'"
      using z l 2 d(2) fb by (simp add: z_inv_def z_of_def)
    then show ?thesis using inv l d(1) by (simp add: pipes_inv_def)
  next
    case 3
    let ?os = "ovls (dsscomp dev)" and ?n = "n_ovl ls"
    have has: "has_fb dev0 ls" and n: "num_ovls (dsscomp dev) = Suc ?n" "Suc ?n \<le> 4" and len: "length ?os = 5"
      using z 3 inv by (auto simp: z_inv_def pipes_inv_def split: if_splits)
    from z has have zs: "ps_fb_z ps = int (n_ovl (upto_fb ls))" "ps_z ps = int ?n + 1" by (simp_all add: z_inv_def)
    with raise_fb_result [of "ps_fb_z ps" "ps_z ps" ?os] n_ovl_upto [of ls] n len obtain os' where
      os': "raise_fb (ps_fb_z ps) (ps_z ps) ?os = (int ?n, os')" "length os' = 5"
      "\<forall>i < 5. os' ! i = (if n_ovl (upto_fb ls) < i \<and> i < Suc ?n
         then set_zorder (zorder (cfg (?os ! i)) - 1) (?os ! i) else ?os ! i)"
      by (auto simp: nat_add_distrib Suc_le_eq)
    have d: "dev' = dev\<lparr>dsscomp := (dsscomp dev)\<lparr>ovls := os'\<rparr>\<rparr>" "ps' = ps\<lparr>ps_fb_z := int ?n\<rparr>"
      using f 3 sgx os'(1) by (simp_all add: into_framebuffer_def)
    have "z_inv dev0 (ls @ [l]) os' ps'"
      unfolding z_inv_def fb
    proof (intro conjI allI impI)
      fix j assume "j < n_ovl (ls @ [l])"
      then have j: "j < ?n" using l by simp
      then have "zorder (cfg (?os ! Suc j)) = int j + (if n_ovl (upto_fb ls) \<le> j then 1 else 0)"
        using z 3 has by (simp add: z_inv_def z_of_def)
      then show "zorder (cfg (os' ! (ovl_base dev0 + j))) = z_of dev0 (ls @ [l]) j"
        using os'(3) j n l 3 by (simp add: z_of_def fb)
    qed (use zs l 3 d in simp_all)
    moreover have "shows_layer (buffers dev) os' (Suc j) (filter is_ovl ls ! j)" if "j < ?n" for j
      by (rule shows_layer_set_zorder [of _ ?os]) (use inv that 3 os'(3) n in \<open>auto simp: pipes_inv_def\<close>)
    moreover have "\<exists>bufs d. dev' = dev0\<lparr>buffers := bufs, dsscomp := d\<rparr>"
      using inv unfolding pipes_inv_def d by (elim conjE exE) (simp, blast)
    ultimately show ?thesis using inv l 3 n os' d unfolding pipes_inv_def by simp
  qed
qed

section \<open>Invariants of the loop\<close>

text \<open>
  A property of the layers done, the device and the local variables that both branches of the loop
  keep holds at its end.
\<close>

locale pipe_loop =
  fixes mem :: heap and inv :: "hwc_layer_1_t list \<Rightarrow> omap_hwc_device \<Rightarrow> pipe_state \<Rightarrow> bool"
  assumes overlay: "inv ds dev ps \<Longrightarrow> compositionType l = HWC_FRAMEBUFFER \<Longrightarrow> takes_overlay mem dev ps l \<Longrightarrow>
      assign_overlay mem dev ps l = (l', dev', ps') \<Longrightarrow> inv (ds @ [l']) dev' ps'"
    and framebuffer: "inv ds dev ps \<Longrightarrow> compositionType l = HWC_FRAMEBUFFER \<Longrightarrow> \<not> takes_overlay mem dev ps l \<Longrightarrow>
      into_framebuffer dev ps = (dev', ps') \<Longrightarrow> inv (ds @ [l]) dev' ps'"
begin

lemma loop:
  assumes "inv ds dev ps" and "list_all (\<lambda>l. compositionType l = HWC_FRAMEBUFFER) ls"
    and "setup_pipes mem ls dev ps = (ls', dev', ps')"
  shows "inv (ds @ ls') dev' ps'"
  using assms
proof (induction ls arbitrary: ds dev ps ls')
  case (Cons l ls)
  then have l: "compositionType l = HWC_FRAMEBUFFER" "list_all (\<lambda>l. compositionType l = HWC_FRAMEBUFFER) ls" by simp_all
  show ?case
  proof (cases "takes_overlay mem dev ps l")
    case True
    obtain l1 dev1 ps1 where a: "assign_overlay mem dev ps l = (l1, dev1, ps1)" by (metis prod_cases3)
    with True Cons.prems(3) obtain ls1 where "setup_pipes mem ls dev1 ps1 = (ls1, dev', ps')" "ls' = l1 # ls1"
      by (auto split: prod.splits)
    with Cons.IH [OF overlay [OF Cons.prems(1) l(1) True a] l(2)] show ?thesis by simp
  next
    case False
    obtain dev1 ps1 where a: "into_framebuffer dev ps = (dev1, ps1)" by fastforce
    with False Cons.prems(3) obtain ls1 where "setup_pipes mem ls dev1 ps1 = (ls1, dev', ps')" "ls' = l # ls1"
      by (auto split: prod.splits)
    with Cons.IH [OF framebuffer [OF Cons.prems(1) l(1) False a] l(2)] show ?thesis by simp
  qed
qed simp

end

interpretation z_loop: pipe_loop mem
  "\<lambda>ds dev ps. pipes_inv dev0 ds dev ps \<and> unat (max_hw_overlays (counts dev0)) \<le> 4" for mem dev0
  by unfold_locales
     (auto intro: assign_overlay_step into_framebuffer_step simp: is_ovl_def)

lemma pipes_inv_start:
  assumes "length (buffers dev) = 32" "ovls (dsscomp dev) = replicate 5 zero_ovl" "num_ovls (dsscomp dev) = ovl_base dev"
  shows "pipes_inv dev [] dev start_pipes"
  using assms unfolding pipes_inv_def z_inv_def has_fb_def start_pipes_def
  by (simp add: nth_replicate) (intro exI [of _ "buffers dev"] exI [of _ "dsscomp dev"], simp)

end
