(* ===== verification/Hwc_Picture.thy ===== *)
theory Hwc_Picture
  imports Hwc_Pipes
begin

text \<open>
  Which pipe of the display controller drives an overlay, and the picture that overlays and
  framebuffer give together: it is the picture of the layers in the client's order.
\<close>

section \<open>The pipes of the overlays\<close>

definition needs_scaler :: "heap \<Rightarrow> hwc_layer_1_t \<Rightarrow> bool" where
  "needs_scaler mem l \<longleftrightarrow> scaled l \<or> hwc_is_NV12 (iFormat (mem (handle l)))"

text \<open>
  With the framebuffer on the graphics pipe, or a transformed primary display, the overlays take the
  pipes in order.  Otherwise either all of them need a scaler so far, or one that does not has the
  graphics pipe, possibly in exchange with the first.
\<close>

definition ix_inv :: "heap \<Rightarrow> omap_hwc_device \<Rightarrow> hwc_layer_1_t list \<Rightarrow> dss2_ovl_info list \<Rightarrow> bool \<Rightarrow> bool" where
  "ix_inv mem dev ds os gfx \<longleftrightarrow>
     (if use_sgx dev \<or> primary_transform dev \<noteq> 0
      then \<not> gfx \<and> (\<forall>j < n_ovl ds. ix (cfg (os ! (ovl_base dev + j))) = int (ovl_base dev + j) + primary_transform dev)
      else if gfx then 0 < n_ovl ds \<and> (\<forall>j < n_ovl ds. ix (cfg (os ! j)) = int j) \<and>
             list_all (needs_scaler mem) (filter is_ovl ds)
      else 0 < n_ovl ds \<longrightarrow> (\<exists>m < n_ovl ds. \<not> needs_scaler mem (filter is_ovl ds ! m) \<and>
             (\<forall>j < n_ovl ds. ix (cfg (os ! j)) = (if j = m then 0 else if j = 0 then int m else int j))))"

lemma ix_overlay_step:
  assumes inv: "pipes_inv dev0 ds dev ps" "ix_inv mem dev0 ds (ovls (dsscomp dev)) (ps_scaled_gfx ps)"
    and t: "takes_overlay mem dev ps l" and mh: "unat (max_hw_overlays (counts dev0)) \<le> 4"
    and a: "assign_overlay mem dev ps l = (l', dev', ps')"
  shows "ix_inv mem dev0 (ds @ [l']) (ovls (dsscomp dev')) (ps_scaled_gfx ps')"
proof -
  let ?n = "num_ovls (dsscomp dev)" and ?b = "ovl_base dev0" and ?k = "n_ovl ds"
  let ?os1 = "(ovls (dsscomp dev))[?n := layer_overlay mem dev (ps_z ps) l]"
  from a obtain os where os: "same_but_ix ?os1 os"
    and l': "l' = l\<lparr>compositionType := HWC_OVERLAY, hint_triple_buffer := True,
            hint_clear_fb := (hint_clear_fb l \<or> (use_sgx dev \<and> \<not> is_BLENDED l))\<rparr>"
    and dev': "dev' = dev\<lparr>buffers := (buffers dev)[?n := handle l],
                dsscomp := (dsscomp dev)\<lparr>ovls := os, num_ovls := Suc ?n\<rparr>\<rparr>"
    and cp: "choose_pipe dev (scaled l \<or> hwc_is_NV12 (iFormat (mem (handle l)))) (ps_scaled_gfx ps) ?os1 =
      (os, ps_scaled_gfx ps')" by (rule assign_overlay_result)
  note fr = pipes_inv_frame [OF inv(1)]
  have n: "?n < 4" "?n = ?b + ?k" and len: "length (ovls (dsscomp dev)) = 5"
    using takes_overlay_room [OF t] inv(1) mh fr(2) by (auto simp: pipes_inv_def)
  have fmt: "is_valid_format (iFormat (mem (handle l)))"
    using takes_overlay_valid [OF t] valid_layer_format by blast
  have ix1: "ix (cfg (?os1 ! ?n)) = int ?n + primary_transform dev0" and
    ix0: "i \<noteq> ?n \<Longrightarrow> ?os1 ! i = ovls (dsscomp dev) ! i" for i
    using n len fmt fr by (simp_all add: layer_overlay_fields)
  have ns: "needs_scaler mem l' = needs_scaler mem l" by (simp add: needs_scaler_def l' scaled_def)
  have ds': "filter is_ovl (ds @ [l']) = filter is_ovl ds @ [l']" "n_ovl (ds @ [l']) = Suc ?k"
    by (simp_all add: l' is_ovl_def)
  have k: "length (filter is_ovl ds) = ?k" by (simp add: n_ovl_def)
  have cp': "choose_pipe dev (needs_scaler mem l) (ps_scaled_gfx ps) ?os1 = (os, ps_scaled_gfx ps')"
    using cp by (simp add: needs_scaler_def)
  show ?thesis
  proof (cases "use_sgx dev0 \<or> primary_transform dev0 \<noteq> 0")
    case True
    then have g: "\<not> ps_scaled_gfx ps" using inv(2) by (simp add: ix_inv_def)
    have "\<not> (?n = 0 \<and> primary_transform dev = 0)" using True n fr by auto
    with cp' g have "os = ?os1" "\<not> ps_scaled_gfx ps'" by (auto simp: choose_pipe_def Let_def split: if_splits)
    moreover have "ix (cfg (?os1 ! (?b + j))) = int (?b + j) + primary_transform dev0" if "j < Suc ?k" for j
    proof (cases "j = ?k")
      case True
      then show ?thesis using ix1 n by simp
    next
      case False
      then have j: "j < ?k" using that by simp
      then have "?b + j \<noteq> ?n" using n(2) by linarith
      from ix0 [OF this] have "?os1 ! (?b + j) = ovls (dsscomp dev) ! (?b + j)" .
      then show ?thesis using inv(2) j True \<open>use_sgx dev0 \<or> primary_transform dev0 \<noteq> 0\<close> by (simp add: ix_inv_def)
    qed
    ultimately show ?thesis using True by (simp add: ix_inv_def dev' ds')
  next
    case False
    then have b: "?b = 0" "primary_transform dev = 0" "primary_transform dev0 = 0" "?n = ?k" using fr n by auto
    have e: "ix (cfg (?os1 ! ?k)) = int ?k" "j < ?k \<Longrightarrow> ?os1 ! j = ovls (dsscomp dev) ! j" for j
      using ix1 ix0 [of j] b by auto
    let ?I = "\<lambda>g os. ix_inv mem dev0 (ds @ [l']) os g"
    consider "?k = 0" | "0 < ?k" "ps_scaled_gfx ps" "needs_scaler mem l"
      | "0 < ?k" "ps_scaled_gfx ps" "\<not> needs_scaler mem l" | "0 < ?k" "\<not> ps_scaled_gfx ps" by blast
    then have "?I (ps_scaled_gfx ps') os"
    proof cases
      case 1
      then have "os = ?os1" "ps_scaled_gfx ps' = needs_scaler mem l" using cp' b by (auto simp: choose_pipe_def Let_def)
      then show ?thesis using 1 False e(1) k ns ds' by (auto simp: ix_inv_def)
    next
      case 2
      then have "os = ?os1" "ps_scaled_gfx ps'" using cp' b by (auto simp: choose_pipe_def Let_def)
      then show ?thesis using 2 False e k ns ds' inv(2) by (auto simp: ix_inv_def less_Suc_eq)
    next
      case 3
      then have o: "os = (?os1[?k := set_ix 0 (?os1 ! ?k)])[0 := set_ix (int ?k) (?os1 ! 0)]" "\<not> ps_scaled_gfx ps'"
        using cp' b by (auto simp: choose_pipe_def Let_def)
      have "ix (cfg (os ! j)) = (if j = ?k then 0 else if j = 0 then int ?k else int j)" if "j < Suc ?k" for j
        using that 3 False n b len o(1) e(2) inv(2) by (auto simp: ix_inv_def nth_list_update less_Suc_eq)
      moreover have "\<not> needs_scaler mem (filter is_ovl (ds @ [l']) ! ?k)" using 3 ns ds' k by (simp add: nth_append)
      ultimately show ?thesis using False o(2) ds' by (auto simp: ix_inv_def)
    next
      case 4
      then have o: "os = ?os1" "\<not> ps_scaled_gfx ps'" using cp' b by (auto simp: choose_pipe_def Let_def)
      from 4 False inv(2) obtain m where m: "m < ?k" "\<not> needs_scaler mem (filter is_ovl ds ! m)"
        "\<forall>j < ?k. ix (cfg (ovls (dsscomp dev) ! j)) = (if j = m then 0 else if j = 0 then int m else int j)"
        by (auto simp: ix_inv_def)
      then have "ix (cfg (?os1 ! j)) = (if j = m then 0 else if j = 0 then int m else int j)" if "j < Suc ?k" for j
        using that e 4 by (cases "j = ?k") auto
      moreover have "filter is_ovl (ds @ [l']) ! m = filter is_ovl ds ! m" using m k ds' by (simp add: nth_append)
      ultimately have "\<exists>m < Suc ?k. \<not> needs_scaler mem (filter is_ovl (ds @ [l']) ! m) \<and>
          (\<forall>j < Suc ?k. ix (cfg (os ! j)) = (if j = m then 0 else if j = 0 then int m else int j))"
        using m o(1) by (intro exI [of _ m]) simp
      then show ?thesis unfolding ix_inv_def ds'(2) using False o(2) by simp
    qed
    then show ?thesis by (simp add: dev')
  qed
qed

lemma raise_fb_ix: "raise_fb fz z os = (fz', os') \<Longrightarrow> ix (cfg (os' ! i)) = ix (cfg (os ! i))"
proof (induction fz z os arbitrary: fz' os' rule: raise_fb.induct)
  case (1 fz z os)
  let ?os = "os[nat (1 + fz) := set_zorder (zorder (cfg (os ! nat (1 + fz))) - 1) (os ! nat (1 + fz))]"
  have "ix (cfg (?os ! i)) = ix (cfg (os ! i))"
    by (cases "i < length os"; cases "i = nat (1 + fz)") (simp_all add: list_update_beyond)
  with 1 show ?case by (subst (asm) (2) raise_fb.simps) (auto split: if_splits)
qed

lemma ix_framebuffer_step:
  assumes "ix_inv mem dev0 ds (ovls (dsscomp dev)) (ps_scaled_gfx ps)" and "\<not> is_ovl l"
    and "into_framebuffer dev ps = (dev', ps')"
  shows "ix_inv mem dev0 (ds @ [l]) (ovls (dsscomp dev')) (ps_scaled_gfx ps')"
proof -
  have "ps_scaled_gfx ps' = ps_scaled_gfx ps" "ix (cfg (ovls (dsscomp dev') ! i)) = ix (cfg (ovls (dsscomp dev) ! i))" for i
    using assms(3) raise_fb_ix [of "ps_fb_z ps" "ps_z ps" "ovls (dsscomp dev)" _ _ i]
    by (auto simp: into_framebuffer_def split: if_splits prod.splits)
  then show ?thesis using assms(1,2) by (simp add: ix_inv_def)
qed

definition pipe_inv :: "heap \<Rightarrow> omap_hwc_device \<Rightarrow> hwc_layer_1_t list \<Rightarrow> omap_hwc_device \<Rightarrow> pipe_state \<Rightarrow> bool" where
  "pipe_inv mem dev0 ds dev ps \<longleftrightarrow>
     pipes_inv dev0 ds dev ps \<and> unat (max_hw_overlays (counts dev0)) \<le> 4 \<and>
     ix_inv mem dev0 ds (ovls (dsscomp dev)) (ps_scaled_gfx ps)"

interpretation ix_loop: pipe_loop mem "pipe_inv mem dev0" for mem dev0
  by unfold_locales
     (auto simp: pipe_inv_def is_ovl_def intro: assign_overlay_step into_framebuffer_step ix_overlay_step ix_framebuffer_step)

section \<open>The picture on the screen\<close>

text \<open>
  What a pixel shows is a stack of buffers from back to front: a buffer that is not blended hides what
  is behind it.
\<close>

type_synonym pixel_stack = "(nat \<times> bool) list"

definition over :: "pixel_stack \<Rightarrow> pixel_stack \<Rightarrow> pixel_stack" where
  "over below above' = (if above' \<noteq> [] \<and> \<not> snd (hd above') then above' else below @ above')"

definition layer_pixel :: "int \<Rightarrow> int \<Rightarrow> hwc_layer_1_t \<Rightarrow> pixel_stack" where
  "layer_pixel x y l = (if in_rect x y (displayFrame l) then [(handle l, is_BLENDED l)] else [])"

text \<open>The picture the client asked for: its layers in order.\<close>

definition frame_pixel :: "int \<Rightarrow> int \<Rightarrow> hwc_layer_1_t list \<Rightarrow> pixel_stack" where
  "frame_pixel x y ls = foldl over [] (map (layer_pixel x y) ls)"

text \<open>
  The framebuffer: the client draws the layers that are not on an overlay, and clears the area of an
  overlay with the clear hint.
\<close>

definition fb_draw :: "int \<Rightarrow> int \<Rightarrow> pixel_stack \<Rightarrow> hwc_layer_1_t \<Rightarrow> pixel_stack" where
  "fb_draw x y st l =
     (if is_ovl l then (if hint_clear_fb l \<and> in_rect x y (displayFrame l) then [] else st)
      else over st (layer_pixel x y l))"

definition fb_pixel :: "int \<Rightarrow> int \<Rightarrow> hwc_layer_1_t list \<Rightarrow> pixel_stack" where
  "fb_pixel x y ls = foldl (fb_draw x y) [] ls"

lemma over_assoc: "over (over a b) c = over a (over b c)"
  by (cases b; cases c) (simp_all add: over_def)

lemma over_Nil [simp]: "over a [] = a" "over [] a = a"
  by (simp_all add: over_def)

lemma foldl_over: "foldl over a xs = over a (foldl over [] xs)"
  by (induction xs arbitrary: a) (simp, metis foldl_Cons over_Nil(2) over_assoc)

lemma frame_pixel_append: "frame_pixel x y (ls @ ms) = over (frame_pixel x y ls) (frame_pixel x y ms)"
  unfolding frame_pixel_def map_append foldl_append by (rule foldl_over)

lemma frame_pixel_simps [simp]: "frame_pixel x y [] = []" "frame_pixel x y [l] = layer_pixel x y l"
  by (simp_all add: frame_pixel_def)

lemma fb_pixel_snoc [simp]: "fb_pixel x y [] = []" "fb_pixel x y (ls @ [l]) = fb_draw x y (fb_pixel x y ls) l"
  by (simp_all add: fb_pixel_def)

text \<open>
  When overlays may be mixed with the framebuffer: an overlay in front of a layer in the framebuffer
  is not blended, and an overlay that is not blended asks for the framebuffer to be cleared.
\<close>

primrec stack_ok_rev :: "hwc_layer_1_t list \<Rightarrow> bool" where
  "stack_ok_rev [] = True"
| "stack_ok_rev (l # ls) \<longleftrightarrow> stack_ok_rev ls \<and>
     (is_ovl l \<longrightarrow> (hint_clear_fb l \<or> is_BLENDED l) \<and> (list_all is_ovl ls \<or> \<not> is_BLENDED l))"

definition stack_ok :: "hwc_layer_1_t list \<Rightarrow> bool" where
  "stack_ok ls = stack_ok_rev (rev ls)"

lemma no_fb_all_ovl: "upto_fb ls = [] \<longleftrightarrow> list_all is_ovl ls"
  by (simp add: upto_fb_def list_all_iff)

lemma stack_ok_snoc:
  "stack_ok (ls @ [l]) \<longleftrightarrow>
     stack_ok ls \<and> (is_ovl l \<longrightarrow> (hint_clear_fb l \<or> is_BLENDED l) \<and> (upto_fb ls = [] \<or> \<not> is_BLENDED l))"
  by (simp add: stack_ok_def no_fb_all_ovl list_all_rev)

lemma fb_pixel_no_fb: "upto_fb ls = [] \<Longrightarrow> fb_pixel x y ls = []"
  by (induction ls rule: rev_induct) (auto simp: fb_draw_def split: if_splits)

lemma filter_after_fb: "filter is_ovl (after_fb ls) = after_fb ls"
  by (auto simp: after_fb_def filter_id_conv dest: set_takeWhileD)

lemma filter_upto_after: "filter is_ovl ls = filter is_ovl (upto_fb ls) @ after_fb ls"
  by (metis filter_append filter_after_fb upto_after_fb)

lemma frame_split:
  assumes "stack_ok ls"
  shows "frame_pixel x y ls =
      over (over (frame_pixel x y (filter is_ovl (upto_fb ls))) (fb_pixel x y ls)) (frame_pixel x y (after_fb ls)) \<and>
    (fb_pixel x y ls = [] \<or> frame_pixel x y (after_fb ls) = [])"
  using assms
proof (induction ls rule: rev_induct)
  case (snoc l ls)
  let ?U = "frame_pixel x y (filter is_ovl (upto_fb ls))" and ?F = "fb_pixel x y ls"
    and ?A = "frame_pixel x y (after_fb ls)"
  from snoc have IH: "frame_pixel x y ls = over (over ?U ?F) ?A" "?F = [] \<or> ?A = []"
    by (simp_all add: stack_ok_snoc)
  show ?case
  proof (cases "is_ovl l")
    case True
    then have l: "hint_clear_fb l \<or> is_BLENDED l" "upto_fb ls = [] \<or> \<not> is_BLENDED l"
      using snoc.prems by (simp_all add: stack_ok_snoc)
    show ?thesis
    proof (cases "in_rect x y (displayFrame l) \<and> upto_fb ls \<noteq> []")
      case cov: True
      then show ?thesis using l True by (simp add: frame_pixel_append fb_draw_def layer_pixel_def over_def)
    next
      case unc: False
      then have "?F = [] \<or> layer_pixel x y l = []" by (auto simp: fb_pixel_no_fb layer_pixel_def)
      moreover have "fb_draw x y ?F l = ?F" using True unc by (auto simp: fb_draw_def fb_pixel_no_fb)
      ultimately show ?thesis using True IH by (auto simp: frame_pixel_append over_assoc)
    qed
  next
    case False
    have "over (over ?U ?F) ?A = over (over ?U ?A) ?F" using IH(2) by auto
    then show ?thesis using False IH(1) filter_upto_after [of ls]
      by (simp add: frame_pixel_append fb_draw_def over_assoc)
  qed
qed simp

section \<open>The layers after the loop\<close>

text \<open>What the composer never changes of a layer.\<close>

definition plain :: "hwc_layer_1_t \<Rightarrow> hwc_layer_1_t" where
  "plain l = l\<lparr>compositionType := HWC_FRAMEBUFFER, hint_clear_fb := False, hint_triple_buffer := False\<rparr>"

lemma plain_fields: "plain l = plain l' \<Longrightarrow> handle l = handle l' \<and> displayFrame l = displayFrame l' \<and>
    blending l = blending l' \<and> sourceCrop l = sourceCrop l' \<and> transform l = transform l' \<and> skip_layer l = skip_layer l'"
  by (cases l; cases l') (simp add: plain_def)

lemma frame_pixel_plain: "map plain ls = map plain ls' \<Longrightarrow> frame_pixel x y ls = frame_pixel x y ls'"
proof -
  assume "map plain ls = map plain ls'"
  moreover have "layer_pixel x y l = layer_pixel x y (plain l)" for l
    by (simp add: layer_pixel_def plain_def is_BLENDED_def)
  then have "map (layer_pixel x y) ls = map (layer_pixel x y) (map plain ls)" for ls by simp
  ultimately show ?thesis unfolding frame_pixel_def by metis
qed

lemma setup_pipes_plain: "setup_pipes mem ls dev ps = (ls', dev', ps') \<Longrightarrow> map plain ls' = map plain ls"
proof (induction ls arbitrary: dev ps ls')
  case (Cons l ls)
  then show ?case
    by (auto split: if_splits prod.splits simp: assign_overlay_def Let_def plain_def)
qed simp

definition layers_inv :: "omap_hwc_device \<Rightarrow> hwc_layer_1_t list \<Rightarrow> omap_hwc_device \<Rightarrow> pipe_state \<Rightarrow> bool" where
  "layers_inv dev0 ds dev ps \<longleftrightarrow>
     pipes_inv dev0 ds dev ps \<and> unat (max_hw_overlays (counts dev0)) \<le> 4 \<and> (use_sgx dev0 \<longrightarrow> stack_ok ds)"

lemma stack_overlay_step:
  assumes "layers_inv dev0 ds dev ps" "takes_overlay mem dev ps l" "assign_overlay mem dev ps l = (l', dev', ps')"
    "use_sgx dev0"
  shows "stack_ok (ds @ [l'])"
proof -
  from assms(3) have l': "l' = l\<lparr>compositionType := HWC_OVERLAY, hint_triple_buffer := True,
            hint_clear_fb := (hint_clear_fb l \<or> (use_sgx dev \<and> \<not> is_BLENDED l))\<rparr>"
    by (rule assign_overlay_result)
  have inv: "pipes_inv dev0 ds dev ps" "stack_ok ds" using assms(1,4) by (simp_all add: layers_inv_def)
  have "use_sgx dev" using pipes_inv_frame(1) [OF inv(1)] assms(4) by simp
  moreover have "upto_fb ds = [] \<or> \<not> is_BLENDED l"
    using assms(2,4) inv(1) by (auto simp: takes_overlay_def pipes_inv_def z_inv_def has_fb_def)
  ultimately show ?thesis using inv(2) by (auto simp: stack_ok_snoc l' is_BLENDED_def)
qed

interpretation stack_loop: pipe_loop mem "layers_inv dev0" for mem dev0
proof
  fix ds dev ps and l :: hwc_layer_1_t and l' dev' ps'
  assume "layers_inv dev0 ds dev ps" "takes_overlay mem dev ps l" "assign_overlay mem dev ps l = (l', dev', ps')"
  then show "layers_inv dev0 (ds @ [l']) dev' ps'"
    using stack_overlay_step assign_overlay_step unfolding layers_inv_def by blast
next
  fix ds dev ps and l :: hwc_layer_1_t and dev' ps'
  assume "layers_inv dev0 ds dev ps" "compositionType l = HWC_FRAMEBUFFER" "into_framebuffer dev ps = (dev', ps')"
  then show "layers_inv dev0 (ds @ [l]) dev' ps'"
    using into_framebuffer_step by (auto simp: layers_inv_def stack_ok_snoc is_ovl_def)
qed

section \<open>The picture the display controller shows\<close>

text \<open>
  The display controller blends the overlays of a display in the order of their z-positions; overlay 0
  is the framebuffer when it is in use, the others show the layers on overlays in their order.
\<close>

definition z_sequence :: "dss2_ovl_info list \<Rightarrow> nat \<Rightarrow> nat list" where
  "z_sequence os n = concat (map (\<lambda>z. filter (\<lambda>i. zorder (cfg (os ! i)) = int z) [0..<n]) [0..<n])"

definition overlay_pixel :: "bool \<Rightarrow> int \<Rightarrow> int \<Rightarrow> hwc_layer_1_t list \<Rightarrow> nat \<Rightarrow> pixel_stack" where
  "overlay_pixel fb x y ls i =
     (if fb \<and> i = 0 then fb_pixel x y ls
      else layer_pixel x y (filter is_ovl ls ! (if fb then i - 1 else i)))"

definition display_pixel :: "bool \<Rightarrow> int \<Rightarrow> int \<Rightarrow> hwc_layer_1_t list \<Rightarrow> dss2_ovl_info list \<Rightarrow> nat \<Rightarrow> pixel_stack" where
  "display_pixel fb x y ls os n = foldl over [] (map (overlay_pixel fb x y ls) (z_sequence os n))"

lemma filter_single: "a < n \<Longrightarrow> (\<And>i. i < n \<Longrightarrow> P i \<longleftrightarrow> i = a) \<Longrightarrow> filter P [0..<n] = [a]"
proof -
  assume a: "a < n" and P: "\<And>i. i < n \<Longrightarrow> P i \<longleftrightarrow> i = a"
  have s: "[0..<n] = [0..<a] @ a # [Suc a..<n]"
    using a upt_add_eq_append [of 0 a "n - a"] by (simp add: upt_conv_Cons)
  have "filter P [0..<a] = []" "filter P [Suc a..<n] = []" "P a" using a P by (auto simp: filter_empty_conv)
  then show ?thesis unfolding s by simp
qed

lemma z_sequence_eq:
  assumes "\<And>i z. i < n \<Longrightarrow> z < n \<Longrightarrow> zorder (cfg (os ! i)) = int z \<longleftrightarrow> i = f z" "\<And>z. z < n \<Longrightarrow> f z < n"
  shows "z_sequence os n = map f [0..<n]"
proof -
  have "map (\<lambda>z. filter (\<lambda>i. zorder (cfg (os ! i)) = int z) [0..<n]) [0..<n] = map (\<lambda>z. [f z]) [0..<n]"
    using assms by (intro map_cong refl filter_single) auto
  then show ?thesis unfolding z_sequence_def by (simp only: concat_map_singleton map_ident)
qed

lemma map_layer_pixels:
  "k = length xs \<Longrightarrow> map (\<lambda>j. layer_pixel x y (xs ! j)) [a..<k] = map (layer_pixel x y) (drop a xs)"
  by (auto intro!: nth_equalityI)

lemma map_layer_pixels_take:
  "a \<le> length xs \<Longrightarrow> map (\<lambda>j. layer_pixel x y (xs ! j)) [0..<a] = map (layer_pixel x y) (take a xs)"
  by (auto intro!: nth_equalityI)

lemma frame_pixel_around:
  "foldl over [] (map (layer_pixel x y) ls @ f # map (layer_pixel x y) ms) =
     over (over (frame_pixel x y ls) f) (frame_pixel x y ms)"
  unfolding frame_pixel_def foldl_append foldl_Cons by (rule foldl_over)

lemma display_fb:
  assumes sgx: "use_sgx dev0" and ok: "stack_ok ls" and k: "k = n_ovl ls"
    and z0: "zorder (cfg (os ! 0)) = (if has_fb dev0 ls then int (n_ovl (upto_fb ls)) else int k)"
    and zs: "\<And>j. j < k \<Longrightarrow> zorder (cfg (os ! Suc j)) = z_of dev0 ls j"
  shows "display_pixel True x y ls os (Suc k) = frame_pixel x y ls"
proof -
  let ?F = "if has_fb dev0 ls then n_ovl (upto_fb ls) else k" and ?os = "filter is_ovl ls"
  let ?f = "\<lambda>z. if z < ?F then Suc z else if z = ?F then 0 else z"
  have F: "?F \<le> k" using n_ovl_upto [of ls] k by simp
  have zi: "zorder (cfg (os ! i)) = (if i = 0 then int ?F else if i \<le> ?F then int i - 1 else int i)" if "i < Suc k" for i
    using z0 zs [of "i - 1"] that F by (cases i) (auto simp: z_of_def)
  have "z_sequence os (Suc k) = map ?f [0..<Suc k]"
    by (rule z_sequence_eq) (use F in \<open>auto simp: zi split: if_splits\<close>)
  also have "[0..<Suc k] = [0..<?F] @ ?F # [Suc ?F..<Suc k]"
    using F upt_add_eq_append [of 0 ?F "Suc k - ?F"] by (simp add: upt_conv_Cons del: upt_Suc)
  also have "map ?f \<dots> = map Suc [0..<?F] @ 0 # [Suc ?F..<Suc k]"
    by (auto intro!: map_idI simp del: upt_Suc)
  finally have seq: "z_sequence os (Suc k) = map Suc [0..<?F] @ 0 # map Suc [?F..<k]"
    by (simp add: map_Suc_upt del: upt_Suc)
  have len: "length ?os = k" by (simp add: k n_ovl_def)
  have "map (overlay_pixel True x y ls) (map Suc is) = map (\<lambda>j. layer_pixel x y (?os ! j)) is" for "is"
    by (simp add: overlay_pixel_def)
  then have pix: "map (overlay_pixel True x y ls) (z_sequence os (Suc k)) =
      map (layer_pixel x y) (take ?F ?os) @ fb_pixel x y ls # map (layer_pixel x y) (drop ?F ?os)"
    using F map_layer_pixels [OF len [symmetric], of x y ?F] map_layer_pixels_take [of ?F ?os x y] len
    unfolding seq by (simp add: overlay_pixel_def [of _ _ _ _ 0] del: map_map)
  have "take ?F ?os = (if upto_fb ls = [] then ls else filter is_ovl (upto_fb ls))"
    "drop ?F ?os = (if upto_fb ls = [] then [] else after_fb ls)"
    using filter_upto_after [of ls] len sgx no_fb_all_ovl [of ls]
    by (auto simp: has_fb_def n_ovl_def list_all_iff filter_id_conv)
  note parts = this
  have "display_pixel True x y ls os (Suc k) =
      over (over (frame_pixel x y (take ?F ?os)) (fb_pixel x y ls)) (frame_pixel x y (drop ?F ?os))"
    unfolding display_pixel_def pix by (rule frame_pixel_around)
  then show ?thesis
  proof (cases "upto_fb ls = []")
    case True
    then show ?thesis using \<open>display_pixel True x y ls os (Suc k) = _\<close> unfolding parts by (simp add: fb_pixel_no_fb)
  next
    case False
    then show ?thesis using \<open>display_pixel True x y ls os (Suc k) = _\<close> frame_split [OF ok, of x y] unfolding parts by simp
  qed
qed

lemma display_no_fb:
  assumes "\<not> use_sgx dev0" and "k = n_ovl ls" and "\<And>j. j < k \<Longrightarrow> zorder (cfg (os ! j)) = z_of dev0 ls j"
  shows "display_pixel False x y ls os k = frame_pixel x y (filter is_ovl ls)"
proof -
  have "z_sequence os k = map (\<lambda>z. z) [0..<k]"
    by (rule z_sequence_eq) (use assms in \<open>auto simp: z_of_def has_fb_def\<close>)
  then have "map (overlay_pixel False x y ls) (z_sequence os k) = map (layer_pixel x y) (filter is_ovl ls)"
    using map_layer_pixels [of k "filter is_ovl ls" x y 0] assms(2) by (simp add: overlay_pixel_def [abs_def] n_ovl_def)
  then show ?thesis by (simp add: display_pixel_def frame_pixel_def)
qed

end
