(* ===== verification/Hwc_Clone.thy ===== *)
theory Hwc_Clone
  imports Hwc_Picture
begin

text \<open>
  How the overlays are divided between the internal and the external display, and what cloning adds
  to the overlays of a frame: the new overlays come behind the old ones, take the pipes from the last
  one down, and their z-positions are above those of the internal display.
\<close>

section \<open>Dividing the overlays between the displays\<close>

text \<open>
  What holds of the device before every frame: the external display had at most two overlays and the
  internal one at most four, docking and mirroring are marked as such, and the framebuffer has a
  format the display controller knows.
\<close>

definition dev_ok :: "omap_hwc_device \<Rightarrow> bool" where
  "dev_ok dev \<longleftrightarrow>
     0 \<le> last_ext_ovls dev \<and> last_ext_ovls dev \<le> 2 \<and> 0 \<le> last_int_ovls dev \<and> last_int_ovls dev \<le> 4 \<and>
     primary_transform dev \<in> {0, 1} \<and> length (buffers dev) = MAX_HWC_LAYERS \<and> is_valid_format (fb_format dev) \<and>
     (ext_enabled (dock (ext dev)) \<longrightarrow> docking (dock (ext dev))) \<and>
     (ext_enabled (ext_mirror (ext dev)) \<longrightarrow> \<not> docking (ext_mirror (ext dev)))"

lemma unat_word_of_small: "0 \<le> n \<Longrightarrow> n < 2 ^ 32 \<Longrightarrow> unat (word_of_int n :: 32 word) = nat n"
  by (simp add: unat_eq_nat_uint uint_word_of_int)

datatype cloning = Docking | Mirroring | Alone

text \<open>The three ways to divide: the overlays for the internal display, those wanted for the external one.\<close>

definition cloning_mode :: "omap_hwc_device \<Rightarrow> cloning" where
  "cloning_mode dev =
     (let e = ext dev; docks = (n_dockable (counts dev) \<noteq> 0 \<or> force_dock e)
      in if ext_enabled (dock e) \<and> \<not> (ext_enabled (ext_mirror e) \<and> \<not> docks) then Docking
         else if ext_enabled (ext_mirror e) then Mirroring else Alone)"

definition wanted_overlays :: "omap_hwc_device \<Rightarrow> int" where
  "wanted_overlays dev =
     (case cloning_mode dev of
        Docking \<Rightarrow> if n_dockable (counts dev) \<noteq> 0 \<or> force_dock (ext dev) then 1 else 0
      | Mirroring \<Rightarrow> 2 | Alone \<Rightarrow> 0)"

definition internal_overlays :: "omap_hwc_device \<Rightarrow> int" where
  "internal_overlays dev =
     (case cloning_mode dev of
        Docking \<Rightarrow> 4 - max (wanted_overlays dev) (last_ext_ovls dev)
      | Mirroring \<Rightarrow> 2 | Alone \<Rightarrow> 4 - last_ext_ovls dev)"

definition next_transform :: "omap_hwc_device \<Rightarrow> ext_transform_t" where
  "next_transform dev =
     (case cloning_mode dev of
         Docking \<Rightarrow> if ext_enabled (ext_mirror (ext dev)) then (ext_mirror (ext dev))\<lparr>docking := True\<rparr> else dock (ext dev)
       | Mirroring \<Rightarrow> ext_mirror (ext dev)
       | Alone \<Rightarrow> (current (ext dev))\<lparr>ext_enabled := False\<rparr>)"

lemma divide_overlays_eq:
  "divide_overlays dev =
     ((counts dev)\<lparr>max_hw_overlays := word_of_int (internal_overlays dev)\<rparr>, wanted_overlays dev,
      next_transform dev,
      if cloning_mode dev = Mirroring then 0 else 1)"
  unfolding divide_overlays_def cloning_mode_def wanted_overlays_def internal_overlays_def next_transform_def Let_def
  by (simp add: drop_bit_eq_div)

lemma overlays_bounds:
  assumes "dev_ok dev"
  shows "2 \<le> internal_overlays dev" "internal_overlays dev + last_ext_ovls dev \<le> 4"
    "0 \<le> wanted_overlays dev" "wanted_overlays dev \<le> 2"
    "cloning_mode dev = Docking \<Longrightarrow> internal_overlays dev + wanted_overlays dev \<le> 4 \<and> wanted_overlays dev \<le> 1"
  using assms by (auto simp: dev_ok_def internal_overlays_def wanted_overlays_def split: cloning.splits)

text \<open>The overlays the external display can have in this frame, and what is left for the layers.\<close>

definition external_overlays :: "omap_hwc_device \<Rightarrow> int" where
  "external_overlays dev = min (4 - last_int_ovls dev) (wanted_overlays dev)"

definition layer_overlays :: "omap_hwc_device \<Rightarrow> int" where
  "layer_overlays dev =
     (if cloning_mode dev = Mirroring \<and> n_protected (counts dev) = 0 \<and> external_overlays dev \<noteq> 0
      then external_overlays dev else internal_overlays dev) - primary_transform dev"

lemma decide_eq:
  assumes "dev_ok dev"
  shows "decide_supported_cloning dev =
    dev\<lparr>counts := (counts dev)\<lparr>max_hw_overlays := word_of_int (layer_overlays dev),
          max_scaling_overlays := word_of_int (layer_overlays dev -
            (if primary_transform dev \<noteq> 0 \<or> cloning_mode dev = Mirroring then 0 else 1))\<rparr>,
        ext := (ext dev)\<lparr>current := next_transform dev\<rparr>,
        ext_ovls_wanted := wanted_overlays dev, ext_ovls := external_overlays dev\<rparr>"
proof -
  have cur: "ext_enabled (next_transform dev) \<and> \<not> docking (next_transform dev) \<longleftrightarrow> cloning_mode dev = Mirroring"
    using assms by (auto simp: dev_ok_def cloning_mode_def next_transform_def Let_def split: if_splits)
  let ?c = "cloning_mode dev = Mirroring \<and> n_protected (counts dev) = 0 \<and> external_overlays dev \<noteq> 0"
  have cond: "(n_protected (counts dev) = 0 \<and> external_overlays dev \<noteq> 0 \<and>
      ext_enabled (next_transform dev) \<and> \<not> docking (next_transform dev)) \<longleftrightarrow> ?c" using cur by auto
  let ?num = "(counts dev)\<lparr>max_hw_overlays := word_of_int (internal_overlays dev)\<rparr>"
  let ?num1 = "if n_protected ?num = 0 \<and> external_overlays dev \<noteq> 0 \<and>
      ext_enabled (next_transform dev) \<and> \<not> docking (next_transform dev)
    then ?num\<lparr>max_hw_overlays := word_of_int (external_overlays dev)\<rparr> else ?num"
  have pt: "primary_transform dev = 0 \<or> primary_transform dev = 1" using assms by (simp add: dev_ok_def)
  have "?num1 = (counts dev)\<lparr>max_hw_overlays := word_of_int (layer_overlays dev + primary_transform dev)\<rparr>"
    using cond by (auto simp: layer_overlays_def)
  then have "(if primary_transform dev \<noteq> 0
       then (let mh = max_hw_overlays ?num1 - 1 in ?num1\<lparr>max_hw_overlays := mh, max_scaling_overlays := mh\<rparr>)
       else ?num1\<lparr>max_scaling_overlays := max_hw_overlays ?num1 - (if cloning_mode dev = Mirroring then 0 else 1)\<rparr>) =
     (counts dev)\<lparr>max_hw_overlays := word_of_int (layer_overlays dev),
        max_scaling_overlays := word_of_int (layer_overlays dev -
            (if primary_transform dev \<noteq> 0 \<or> cloning_mode dev = Mirroring then 0 else 1))\<rparr>"
    using pt by (auto simp: Let_def)
  then show ?thesis
    unfolding decide_supported_cloning_def divide_overlays_eq prod.case Let_def external_overlays_def [symmetric]
    by (simp only:)
qed

lemma layer_overlays_bounds:
  assumes "dev_ok dev"
  shows "0 \<le> layer_overlays dev" "layer_overlays dev + primary_transform dev + last_ext_ovls dev \<le> 4"
    "cloning_mode dev = Mirroring \<Longrightarrow> layer_overlays dev + primary_transform dev \<le> 2"
    "cloning_mode dev = Docking \<Longrightarrow> layer_overlays dev + primary_transform dev + wanted_overlays dev \<le> 4"
    "cloning_mode dev = Mirroring \<Longrightarrow> n_protected (counts dev) = 0 \<Longrightarrow> external_overlays dev \<noteq> 0 \<Longrightarrow>
       layer_overlays dev + primary_transform dev = external_overlays dev"
  using assms overlays_bounds [OF assms]
  by (auto simp: layer_overlays_def external_overlays_def dev_ok_def internal_overlays_def wanted_overlays_def
      split: cloning.splits)

section \<open>Cloning leaves the overlays of the internal display alone\<close>

text \<open>The part of the device that cloning does not touch.\<close>

definition core :: "omap_hwc_device \<Rightarrow> omap_hwc_device" where
  "core dev = dev\<lparr>ext := undefined, calls := [], dsscomp := zero_dsscomp\<rparr>"

lemma core_fields:
  assumes "core dev' = core dev"
  shows "use_sgx dev' = use_sgx dev" "post2_layers dev' = post2_layers dev" "primary_transform dev' = primary_transform dev"
    "ext_ovls dev' = ext_ovls dev" "last_ext_ovls dev' = last_ext_ovls dev" "last_int_ovls dev' = last_int_ovls dev"
    "ext_ovls_wanted dev' = ext_ovls_wanted dev" "on_tv dev' = on_tv dev" "buffers dev' = buffers dev"
    "swap_rb dev' = swap_rb dev" "counts dev' = counts dev" "fb_format dev' = fb_format dev"
  using arg_cong [OF assms, of use_sgx] arg_cong [OF assms, of post2_layers] arg_cong [OF assms, of primary_transform]
    arg_cong [OF assms, of ext_ovls] arg_cong [OF assms, of last_ext_ovls] arg_cong [OF assms, of last_int_ovls]
    arg_cong [OF assms, of ext_ovls_wanted] arg_cong [OF assms, of on_tv] arg_cong [OF assms, of buffers]
    arg_cong [OF assms, of swap_rb] arg_cong [OF assms, of counts] arg_cong [OF assms, of fb_format]
  by (simp_all add: core_def)

lemma core_update [simp]:
  "core (dev\<lparr>ext := e\<rparr>) = core dev" "core (dev\<lparr>calls := c\<rparr>) = core dev" "core (dev\<lparr>dsscomp := d\<rparr>) = core dev"
  by (simp_all add: core_def)

text \<open>The device \<open>dev'\<close> is \<open>dev\<close> with the overlays \<open>new\<close> behind those it had.\<close>

definition clones :: "omap_hwc_device \<Rightarrow> dss2_ovl_info list \<Rightarrow> omap_hwc_device \<Rightarrow> bool" where
  "clones dev new dev' \<longleftrightarrow> core dev' = core dev \<and>
     num_ovls (dsscomp dev') = num_ovls (dsscomp dev) + length new \<and>
     length (ovls (dsscomp dev')) = length (ovls (dsscomp dev)) \<and>
     take (num_ovls (dsscomp dev) + length new) (ovls (dsscomp dev')) =
       take (num_ovls (dsscomp dev)) (ovls (dsscomp dev)) @ new"

lemma clones_refl: "core dev' = core dev \<Longrightarrow> dsscomp dev' = dsscomp dev \<Longrightarrow> clones dev [] dev'"
  by (simp add: clones_def)

lemma clones_trans: "clones a n1 b \<Longrightarrow> clones b n2 c \<Longrightarrow> clones a (n1 @ n2) c"
  unfolding clones_def by (metis add.assoc append_assoc length_append)

lemma clones_nth_append:
  assumes "clones dev new dev'" "i < num_ovls (dsscomp dev) + length new"
  shows "ovls (dsscomp dev') ! i = (take (num_ovls (dsscomp dev)) (ovls (dsscomp dev)) @ new) ! i"
proof -
  have "ovls (dsscomp dev') ! i = take (num_ovls (dsscomp dev) + length new) (ovls (dsscomp dev')) ! i"
    using assms(2) by simp
  then show ?thesis using assms(1) by (simp only: clones_def)
qed

lemma clones_nth:
  assumes "clones dev new dev'" "i < num_ovls (dsscomp dev)" "num_ovls (dsscomp dev) \<le> length (ovls (dsscomp dev))"
  shows "ovls (dsscomp dev') ! i = ovls (dsscomp dev) ! i"
  using clones_nth_append [OF assms(1), of i] assms(2,3) by (simp add: nth_append)

lemma best_mode_frame:
  "core (fst (set_best_hdmi_mode q xr yr xpy dev)) = core dev" "dsscomp (fst (set_best_hdmi_mode q xr yr xpy dev)) = dsscomp dev"
  by (auto simp: set_best_hdmi_mode_def Let_def split: option.splits prod.splits)

lemma mirroring_frame:
  "core (fst (setup_mirroring q dev)) = core dev" "dsscomp (fst (setup_mirroring q dev)) = dsscomp dev"
  using best_mode_frame [of q _ _ "lcd_xpy (ext dev)" dev]
  by (auto simp: setup_mirroring_def Let_def split: prod.splits) (metis fst_conv)+

lemma apply_transform_fields [simp]:
  "ix (apply_transform m oc) = ix oc" "zorder (apply_transform m oc) = zorder oc" "mgr_ix (apply_transform m oc) = mgr_ix oc"
  by (cases "(m, oc)" rule: apply_transform.cases; simp add: Let_def)+

lemma crop_to_rect_fields:
  "crop_to_rect r oc = Some oc' \<Longrightarrow> ix oc' = ix oc \<and> zorder oc' = zorder oc \<and> mgr_ix oc' = mgr_ix oc"
  by (auto simp: crop_to_rect_def Let_def split: option.splits prod.splits)

lemma adjust_ext_layer_fields [simp]:
  "ix (cfg (adjust_ext_layer e o')) = ix (cfg o')" "zorder (cfg (adjust_ext_layer e o')) = zorder (cfg o')"
  "mgr_ix (cfg (adjust_ext_layer e o')) = mgr_ix (cfg o')"
  by (auto simp: adjust_ext_layer_def Let_def split: option.splits if_splits dest: crop_to_rect_fields)


text \<open>A cloned overlay: its pipe is counted from the last one, its z-position is above the internal ones.\<close>

definition clone_of :: "nat \<Rightarrow> int \<Rightarrow> int \<Rightarrow> dss2_ovl_info \<Rightarrow> bool" where
  "clone_of k n z o' \<longleftrightarrow> ix (cfg o') = 3 - int k \<and> zorder (cfg o') = z + n \<and> mgr_ix (cfg o') = 1"

lemma cloned_overlay_fields:
  "clone_of (num_ovls (dsscomp dev) - post2_layers dev) (int (post2_layers dev)) (zorder (cfg (ovls (dsscomp dev) ! i)))
     (cloned_overlay dev i)" if "post2_layers dev \<le> num_ovls (dsscomp dev)"
  using that by (auto simp: clone_of_def cloned_overlay_def Let_def)

lemma clone_layer_clones:
  assumes "clone_layer i dev = (dev', r)" "length (ovls (dsscomp dev)) = 5"
  shows "if num_ovls (dsscomp dev) < 4 then r = 0 \<and> clones dev [cloned_overlay dev i] dev' else r \<noteq> 0 \<and> dev' = dev"
  using assms by (auto simp: clone_layer_def Let_def clones_def take_Suc_conv_app_nth split: if_splits)

lemma mirror_layers_clones:
  assumes "length (ovls (dsscomp dev)) = 5" "num_ovls (dsscomp dev) = post2_layers dev + a"
    "num_ovls (dsscomp dev) \<le> 4" "b \<le> post2_layers dev"
  shows "\<exists>new. clones dev new (mirror_layers [a..<b] dev) \<and> a + length new \<le> max a b \<and>
    num_ovls (dsscomp dev) + length new \<le> 4 \<and>
    (\<forall>j < length new. clone_of (a + j) (int (post2_layers dev)) (zorder (cfg (ovls (dsscomp dev) ! (a + j)))) (new ! j))"
  using assms
proof (induction "b - a" arbitrary: a dev)
  case 0
  then show ?case by (intro exI [of _ "[]"]) (simp add: clones_def)
next
  case (Suc m)
  then have a: "a < b" by simp
  obtain dev1 r where c: "clone_layer a dev = (dev1, r)" by fastforce
  note cl = clone_layer_clones [OF c Suc.prems(1)]
  show ?case
  proof (cases "num_ovls (dsscomp dev) < 4")
    case False
    then have "mirror_layers [a..<b] dev = dev" using a c cl by (simp add: upt_conv_Cons)
    then show ?thesis using Suc.prems by (intro exI [of _ "[]"]) (simp add: clones_def)
  next
    case True
    with cl have r: "r = 0" and c1: "clones dev [cloned_overlay dev a] dev1" by simp_all
    from core_fields(2) [of dev1 dev] c1 have p: "post2_layers dev1 = post2_layers dev" by (simp add: clones_def)
    have "m = b - Suc a" using Suc.hyps(2) by simp
    from Suc.hyps(1) [OF this, of dev1] c1 True Suc.prems p obtain new where
      new: "clones dev1 new (mirror_layers [Suc a..<b] dev1)" "Suc a + length new \<le> max (Suc a) b"
      "num_ovls (dsscomp dev1) + length new \<le> 4"
      "\<forall>j < length new. clone_of (Suc a + j) (int (post2_layers dev)) (zorder (cfg (ovls (dsscomp dev1) ! (Suc a + j)))) (new ! j)"
      by (auto simp: clones_def)
    have "mirror_layers [a..<b] dev = mirror_layers [Suc a..<b] dev1" using a c r by (simp add: upt_conv_Cons)
    then have "clones dev (cloned_overlay dev a # new) (mirror_layers [a..<b] dev)"
      using clones_trans [OF c1 new(1)] by simp
    moreover have "clone_of (a + j) (int (post2_layers dev)) (zorder (cfg (ovls (dsscomp dev) ! (a + j)))) ((cloned_overlay dev a # new) ! j)"
      if "j < Suc (length new)" for j
    proof (cases j)
      case 0
      then show ?thesis using cloned_overlay_fields [of dev a] Suc.prems by simp
    next
      case (Suc k)
      have "ovls (dsscomp dev1) ! (a + j) = ovls (dsscomp dev) ! (a + j)"
        by (rule clones_nth [OF c1]) (use that new(2) Suc Suc.prems a in auto)
      then show ?thesis using new(4) that Suc by auto
    qed
    moreover have "num_ovls (dsscomp dev1) = Suc (num_ovls (dsscomp dev))" using c1 by (simp add: clones_def)
    ultimately show ?thesis using new(2,3) a by (intro exI [of _ "cloned_overlay dev a # new"]) auto
  qed
qed

lemma clone_external_clones:
  assumes "clone_external_layer q i dev = (dev', r)" "length (ovls (dsscomp dev)) = 5" "post2_layers dev \<le> num_ovls (dsscomp dev)"
  shows "if r = 0 then num_ovls (dsscomp dev) < 4 \<and>
      (\<exists>o'. clones dev [o'] dev' \<and> clone_of (num_ovls (dsscomp dev) - post2_layers dev) (int (post2_layers dev))
         (zorder (cfg (ovls (dsscomp dev) ! i))) o')
    else clones dev [] dev'"
proof -
  let ?c = "clone_size (ext dev) (cfg (ovls (dsscomp dev) ! i))"
  obtain xres yres xpy where c: "?c = (xres, yres, xpy)" by (metis prod_cases3)
  obtain dev1 r1 where d1: "(if xres \<noteq> last_xres_used (ext dev) \<or> yres \<noteq> last_yres_used (ext dev) \<or>
                f_less xpy (f_mul (last_xpy (ext dev)) one_minus_tolerance) \<or>
                f_greater (f_mul xpy one_minus_tolerance) (last_xpy (ext dev))
             then set_best_hdmi_mode q xres yres xpy dev else (dev, 0)) = (dev1, r1)" by fastforce
  then have same: "core dev1 = core dev" "dsscomp dev1 = dsscomp dev"
    using best_mode_frame [of q xres yres xpy dev] by (auto split: if_splits)
  from assms(1) have dev': "if r1 \<noteq> 0
      then (dev1\<lparr>ext := (ext dev1)\<lparr>current := (current (ext dev1))\<lparr>ext_enabled := False\<rparr>\<rparr>\<rparr>, -19) = (dev', r)
      else clone_layer i (dev1\<lparr>ext := set_ext_matrix (win_region (win (cfg (ovls (dsscomp dev) ! i)))) (ext dev1)\<rparr>) = (dev', r)"
    unfolding clone_external_layer_def Let_def c prod.case d1 by (auto split: if_splits)
  show ?thesis
  proof (cases "r1 = 0")
    case False
    then show ?thesis using dev' same by (auto simp: clones_def)
  next
    case True
    let ?d = "dev1\<lparr>ext := set_ext_matrix (win_region (win (cfg (ovls (dsscomp dev) ! i)))) (ext dev1)\<rparr>"
    have cl: "clone_layer i ?d = (dev', r)" using dev' True by simp
    have "clones dev [] ?d" using same by (simp add: clones_def)
    moreover have "post2_layers dev1 = post2_layers dev" using core_fields(2) same by blast
    ultimately show ?thesis
      using clone_layer_clones [OF cl] cloned_overlay_fields [of ?d i] assms(2,3) same clones_trans [of dev "[]" ?d _ dev']
      by (auto split: if_splits)
  qed
qed

lemma set_ovl_clones:
  assumes "clones dev new dev'" "num_ovls (dsscomp dev) \<le> i" "i < num_ovls (dsscomp dev')"
    "num_ovls (dsscomp dev') \<le> length (ovls (dsscomp dev'))"
  shows "clones dev (new[i - num_ovls (dsscomp dev) := f (new ! (i - num_ovls (dsscomp dev)))]) (set_ovl i f dev')"
proof -
  have len: "length (ovls (dsscomp dev')) = length (ovls (dsscomp dev))"
      "num_ovls (dsscomp dev') = num_ovls (dsscomp dev) + length new"
    and t: "take (num_ovls (dsscomp dev) + length new) (ovls (dsscomp dev')) =
      take (num_ovls (dsscomp dev)) (ovls (dsscomp dev)) @ new"
    using assms(1) unfolding clones_def by blast+
  then have "ovls (dsscomp dev') ! i = new ! (i - num_ovls (dsscomp dev))"
    using clones_nth_append [OF assms(1), of i] assms(2-4) by (simp add: nth_append)
  then show ?thesis
    using assms t len by (simp add: clones_def set_ovl_def take_update_swap list_update_append)
qed

lemma show_dock_image_clones:
  assumes "length (ovls (dsscomp dev)) = 5" "num_ovls (dsscomp dev) = post2_layers dev" "post2_layers dev \<le> 4"
  shows "\<exists>new. clones dev new (show_dock_image env dev) \<and> post2_layers dev + length new \<le> 4 \<and> length new \<le> 1 \<and>
    (\<forall>o' \<in> set new. clone_of 0 (int (post2_layers dev)) 0 o')"
proof -
  obtain w h rb where di: "dock_image env = (w, h, rb)" by (metis prod_cases3)
  let ?n = "num_ovls (dsscomp dev)"
  let ?f = "\<lambda>o'. o'\<lparr>cfg := (setup_layer_base 0 BGRA_8888 True w h (cfg o'))\<lparr>stride := rb\<rparr>\<rparr>"
  let ?d = "set_ovl ?n ?f dev"
  have d: "clones dev [] ?d" "length (ovls (dsscomp ?d)) = 5" "post2_layers ?d = post2_layers dev" "num_ovls (dsscomp ?d) = ?n"
    "zorder (cfg (ovls (dsscomp ?d) ! ?n)) = 0"
    using assms by (simp_all add: clones_def set_ovl_def setup_layer_base_fields)
  obtain dev1 r where c: "clone_external_layer (query_display env) ?n ?d = (dev1, r)" by fastforce
  have s: "show_dock_image env dev = (if r = 0 then set_ovl ?n (\<lambda>o'. o'\<lparr>addressing := OMAP_DSS_BUFADDR_FB, ba := 0\<rparr>) dev1 else dev1)"
    using c by (simp add: show_dock_image_def di Let_def)
  have "post2_layers ?d \<le> num_ovls (dsscomp ?d)" using d assms by simp
  note cl = clone_external_clones [OF c d(2) this]
  show ?thesis
  proof (cases "r = 0")
    case False
    then have "clones dev ([] @ []) dev1" using cl by (intro clones_trans [OF d(1)]) simp
    then show ?thesis using False s assms by (intro exI [of _ "[]"]) auto
  next
    case True
    with cl obtain o' where "clones ?d [o'] dev1" "num_ovls (dsscomp ?d) < 4"
        "clone_of (num_ovls (dsscomp ?d) - post2_layers ?d) (int (post2_layers ?d)) (zorder (cfg (ovls (dsscomp ?d) ! ?n))) o'"
      by auto
    then have o': "clones ?d [o'] dev1" "clone_of 0 (int (post2_layers dev)) 0 o'" "?n < 4"
      using d(3-5) assms(2) by simp_all
    have "clones dev [o'] dev1" using clones_trans [OF d(1) o'(1)] by simp
    then have "clones dev [o'\<lparr>addressing := OMAP_DSS_BUFADDR_FB, ba := 0\<rparr>] (show_dock_image env dev)"
      using set_ovl_clones [of dev "[o']" dev1 ?n "\<lambda>o'. o'\<lparr>addressing := OMAP_DSS_BUFADDR_FB, ba := 0\<rparr>"] s True o'(3) assms(1)
      by (simp add: clones_def)
    moreover have "clone_of 0 (int (post2_layers dev)) 0 (o'\<lparr>addressing := OMAP_DSS_BUFADDR_FB, ba := 0\<rparr>)"
      using o'(2) by (simp add: clone_of_def)
    ultimately show ?thesis using o'(3) assms(2) by (intro exI [of _ "[o'\<lparr>addressing := OMAP_DSS_BUFADDR_FB, ba := 0\<rparr>]"]) auto
  qed
qed

section \<open>What the external display gets\<close>

text \<open>The condition under which \<open>hwc_prepare\<close> clones at all.\<close>

definition may_clone :: "omap_hwc_device \<Rightarrow> bool" where
  "may_clone dev \<longleftrightarrow> ext_enabled (current (ext dev)) \<and>
     ((n_protected (counts dev) = 0 \<and> ext_ovls dev \<noteq> 0) \<or>
      (ext_ovls_wanted dev \<noteq> 0 \<and> ext_ovls_wanted dev \<le> ext_ovls dev))"

text \<open>The overlays \<open>new\<close> of the external display behind the \<open>n\<close> ones of the internal display.\<close>

definition external_ok :: "omap_hwc_device \<Rightarrow> dss2_ovl_info list \<Rightarrow> bool" where
  "external_ok dev new \<longleftrightarrow>
     (let n = post2_layers dev; dck = docking (current (ext dev))
      in n + length new \<le> 4 \<and> length new \<le> (if dck then 1 else n) \<and> (new \<noteq> [] \<longrightarrow> may_clone dev) \<and>
         (\<forall>j < length new. clone_of j (int n) (if dck then 0 else zorder (cfg (ovls (dsscomp dev) ! j))) (new ! j)))"

lemma external_ok_Nil: "post2_layers dev \<le> 4 \<Longrightarrow> external_ok dev []"
  by (simp add: external_ok_def Let_def)

lemma dock_layer_clones:
  assumes c: "clone_external_layer q i dev = (dev', r)" and len: "length (ovls (dsscomp dev)) = 5"
    and n: "num_ovls (dsscomp dev) = post2_layers dev" "post2_layers dev \<le> 4" and z: "z = int (post2_layers dev)"
    and d: "may_clone dev" "docking (current (ext dev))"
  shows "\<exists>new. clones dev new (if r = 0 then set_ovl (num_ovls (dsscomp dev') - 1) (set_zorder z) dev' else dev') \<and>
    external_ok dev new"
proof -
  note cl = clone_external_clones [OF c len] 
  show ?thesis
  proof (cases "r = 0")
    case False
    then show ?thesis using cl n external_ok_Nil by (intro exI [of _ "[]"]) auto
  next
    case True
    with cl n obtain o' where o': "clones dev [o'] dev'" "num_ovls (dsscomp dev) < 4"
      "clone_of 0 (int (post2_layers dev)) (zorder (cfg (ovls (dsscomp dev) ! i))) o'" by auto
    have "clones dev [set_zorder z o'] (set_ovl (num_ovls (dsscomp dev') - 1) (set_zorder z) dev')"
      using set_ovl_clones [OF o'(1), of "num_ovls (dsscomp dev)" "set_zorder z"] o' len by (simp add: clones_def)
    moreover have "clone_of 0 (int (post2_layers dev)) 0 (set_zorder z o')" using o'(3) z by (simp add: clone_of_def)
    ultimately show ?thesis using True o'(2) n d
      by (intro exI [of _ "[set_zorder z o']"]) (simp add: external_ok_def Let_def)
  qed
qed

lemma dock_image_external:
  assumes "length (ovls (dsscomp dev)) = 5" "num_ovls (dsscomp dev) = post2_layers dev" "post2_layers dev \<le> 4"
    and "may_clone dev" "docking (current (ext dev))"
  shows "\<exists>new. clones dev new (show_dock_image env dev) \<and> external_ok dev new"
proof -
  from show_dock_image_clones [OF assms(1-3), of env] obtain new where
    new: "clones dev new (show_dock_image env dev)" "post2_layers dev + length new \<le> 4" "length new \<le> 1"
    "\<forall>o' \<in> set new. clone_of 0 (int (post2_layers dev)) 0 o'" by blast
  have "clone_of j (int (post2_layers dev)) 0 (new ! j)" if "j < length new" for j
  proof -
    have "j = 0" using new(3) that by simp
    then show ?thesis using new(4) that by simp
  qed
  then show ?thesis using new assms(4,5) by (intro exI [of _ new]) (simp add: external_ok_def Let_def)
qed

lemma mirror_external:
  assumes len: "length (ovls (dsscomp dev)) = 5" and n: "num_ovls (dsscomp dev) = post2_layers dev" "post2_layers dev \<le> 4"
    and d: "may_clone dev" "\<not> docking (current (ext dev))"
    and same: "core dev1 = core dev" "dsscomp dev1 = dsscomp dev"
  shows "\<exists>new. clones dev new (mirror_layers [0..<post2_layers dev1] dev1) \<and> external_ok dev new"
proof -
  have p: "post2_layers dev1 = post2_layers dev" using core_fields(2) [OF same(1)] .
  from mirror_layers_clones [of dev1 0 "post2_layers dev"] len n same p obtain new where
    new: "clones dev1 new (mirror_layers [0..<post2_layers dev1] dev1)" "length new \<le> post2_layers dev"
    "post2_layers dev + length new \<le> 4"
    "\<forall>j < length new. clone_of j (int (post2_layers dev)) (zorder (cfg (ovls (dsscomp dev) ! j))) (new ! j)"
    by auto
  have "clones dev new (mirror_layers [0..<post2_layers dev1] dev1)"
    using clones_trans [OF clones_refl [OF same] new(1)] by simp
  then show ?thesis using new d by (intro exI [of _ new]) (simp add: external_ok_def Let_def)
qed

lemma clone_overlays_clones:
  assumes len: "length (ovls (dsscomp dev)) = 5" and n: "num_ovls (dsscomp dev) = post2_layers dev" "post2_layers dev \<le> 4"
    and z: "z = int (post2_layers dev)"
  shows "\<exists>new. clones dev new (clone_overlays env ps z dev) \<and> external_ok dev new"
proof -
  let ?e = "ext dev"
  have co: "clone_overlays env ps z dev =
    (if \<not> may_clone dev then dev
     else if docking (current ?e) \<and> 0 \<le> ps_ix_docking ps then
       (case clone_external_layer (query_display env) (nat (ps_ix_docking ps)) dev of
          (dev, r) \<Rightarrow> if r = 0 then set_ovl (num_ovls (dsscomp dev) - 1) (set_zorder z) dev else dev)
     else if docking (current ?e) \<and> force_dock ?e then show_dock_image env dev
     else if \<not> docking (current ?e) then
       (case (if docking (last_used ?e) then setup_mirroring (query_display env) dev else (dev, 0)) of
          (dev, r) \<Rightarrow> if r = 0 then mirror_layers [0..<post2_layers dev] dev else dev)
     else dev)"
    by (simp add: clone_overlays_def may_clone_def Let_def)
  have none: "\<exists>new. clones dev new dev1 \<and> external_ok dev new" if "core dev1 = core dev" "dsscomp dev1 = dsscomp dev" for dev1
    using clones_refl [OF that] external_ok_Nil n(2) by blast
  consider "\<not> may_clone dev"
    | "may_clone dev" "docking (current ?e)" "0 \<le> ps_ix_docking ps"
    | "may_clone dev" "docking (current ?e)" "\<not> 0 \<le> ps_ix_docking ps" "force_dock ?e"
    | "may_clone dev" "docking (current ?e)" "\<not> 0 \<le> ps_ix_docking ps" "\<not> force_dock ?e"
    | "may_clone dev" "\<not> docking (current ?e)" by blast
  then show ?thesis
  proof cases
    case 1
    then show ?thesis using none [of dev] by (simp add: co)
  next
    case 2
    obtain dev1 r where "clone_external_layer (query_display env) (nat (ps_ix_docking ps)) dev = (dev1, r)" by fastforce
    with dock_layer_clones [OF this len n z 2(1,2)] 2 show ?thesis by (simp add: co)
  next
    case 3
    then show ?thesis using dock_image_external [OF len n] by (simp add: co)
  next
    case 4
    then show ?thesis using none [of dev] by (simp add: co)
  next
    case 5
    obtain dev1 r where m: "(if docking (last_used ?e) then setup_mirroring (query_display env) dev else (dev, 0)) = (dev1, r)"
      by fastforce
    then have same: "core dev1 = core dev" "dsscomp dev1 = dsscomp dev"
      using mirroring_frame [of "query_display env" dev] by (auto split: if_splits)
    have "clone_overlays env ps z dev = (if r = 0 then mirror_layers [0..<post2_layers dev1] dev1 else dev1)"
      unfolding co m prod.case using 5 by simp
    then show ?thesis using none [OF same] mirror_external [OF len n 5 same] by (cases "r = 0") simp_all
  qed
qed

section \<open>The rest of a frame\<close>

lemma primary_layer_fields [simp]:
  "ix (cfg (adjust_primary_display_layer dev o')) = ix (cfg o')"
  "zorder (cfg (adjust_primary_display_layer dev o')) = zorder (cfg o')"
  "mgr_ix (cfg (adjust_primary_display_layer dev o')) = mgr_ix (cfg o')"
  by (auto simp: adjust_primary_display_layer_def Let_def split: option.splits if_splits dest: crop_to_rect_fields)

lemma adjust_primary_frame:
  "core (adjust_primary dev) = core dev" "ext (adjust_primary dev) = ext dev"
  "num_ovls (dsscomp (adjust_primary dev)) = num_ovls (dsscomp dev)"
  "length (ovls (dsscomp (adjust_primary dev))) = length (ovls (dsscomp dev))"
  by (simp_all add: adjust_primary_def Let_def min_def)

lemma adjust_primary_nth:
  assumes "i < length (ovls (dsscomp dev))"
  shows "ix (cfg (ovls (dsscomp (adjust_primary dev)) ! i)) = ix (cfg (ovls (dsscomp dev) ! i))"
    "zorder (cfg (ovls (dsscomp (adjust_primary dev)) ! i)) = zorder (cfg (ovls (dsscomp dev) ! i))"
    "mgr_ix (cfg (ovls (dsscomp (adjust_primary dev)) ! i)) = mgr_ix (cfg (ovls (dsscomp dev) ! i))"
    "primary_transform dev = 0 \<Longrightarrow> ovls (dsscomp (adjust_primary dev)) ! i = ovls (dsscomp dev) ! i"
  using assms by (auto simp: adjust_primary_def Let_def nth_append)

lemma finish_prepare_fields [simp]:
  "ovls (dsscomp (finish_prepare dev)) = ovls (dsscomp dev)"
  "num_ovls (dsscomp (finish_prepare dev)) = (if last_mode (ext dev) = 0 \<and> on_tv dev then 0 else num_ovls (dsscomp dev))"
  "use_sgx (finish_prepare dev) = use_sgx dev" "post2_layers (finish_prepare dev) = post2_layers dev"
  "primary_transform (finish_prepare dev) = primary_transform dev" "buffers (finish_prepare dev) = buffers dev"
  "last_ext_ovls (finish_prepare dev) = last_ext_ovls dev" "last_int_ovls (finish_prepare dev) = last_int_ovls dev"
  "ext_ovls_wanted (finish_prepare dev) = ext_ovls_wanted dev"
  "ext_ovls (finish_prepare dev) =
     (if ext_enabled (current (ext dev)) \<or> last_ext_ovls dev \<noteq> 0 then int (num_ovls (dsscomp dev)) - int (post2_layers dev)
      else ext_ovls dev)"
  "fb_format (finish_prepare dev) = fb_format dev"
  "dock (ext (finish_prepare dev)) = dock (ext dev)" "ext_mirror (ext (finish_prepare dev)) = ext_mirror (ext dev)"
  by (simp_all add: finish_prepare_def Let_def)

text \<open>Cloning never changes what hotplug decided: which transforms are possible.\<close>

definition plugs :: "omap_hwc_ext \<Rightarrow> ext_transform_t \<times> ext_transform_t" where
  "plugs e = (dock e, ext_mirror e)"

lemma plugs_update [simp]:
  "plugs (e\<lparr>current := c\<rparr>) = plugs e" "plugs (e\<lparr>last_used := c\<rparr>) = plugs e" "plugs (e\<lparr>last_mode := w\<rparr>) = plugs e"
  "plugs (e\<lparr>ext_width := w\<rparr>) = plugs e" "plugs (e\<lparr>ext_height := w\<rparr>) = plugs e" "plugs (e\<lparr>ext_xres := w\<rparr>) = plugs e"
  "plugs (e\<lparr>ext_yres := w\<rparr>) = plugs e" "plugs (e\<lparr>last_xres_used := w\<rparr>) = plugs e"
  "plugs (e\<lparr>last_yres_used := w\<rparr>) = plugs e" "plugs (e\<lparr>last_xpy := x\<rparr>) = plugs e" "plugs (e\<lparr>ext_on_tv := b\<rparr>) = plugs e"
  "plugs (e\<lparr>ext_m := m\<rparr>) = plugs e"
  by (simp_all add: plugs_def)

lemma try_mode_plugs: "plugs (fst (try_mode pl d xr yr xpy i vm st)) = plugs (fst st)"
  unfolding try_mode_def Let_def case_prod_beta
  by (simp only: if_distrib [of fst] if_distrib [of plugs] fst_conv plugs_update if_cancel)

lemma try_modes_plugs: "plugs (fst (try_modes pl d xr yr xpy i vms st)) = plugs (fst st)"
  by (induction vms arbitrary: i st) (simp_all add: try_mode_plugs)

lemma best_mode_plugs: "plugs (ext (fst (set_best_hdmi_mode q xr yr xpy dev))) = plugs (ext dev)"
proof (cases q)
  case (Some d)
  let ?e = "\<lambda>e. if ext_xres e = 0 \<or> ext_yres e = 0 then e\<lparr>ext_xres := 640, ext_yres := 480\<rparr> else e"
  obtain e best sc where t: "try_modes (limits dev) d xr yr xpy 0 (modedb d)
      (?e ((ext dev)\<lparr>ext_width := width_in_mm d, ext_height := height_in_mm d, ext_xres := x_res d, ext_yres := y_res d\<rparr>), -1, 0) =
      (e, best, sc)" by (metis prod_cases3)
  have "plugs e = plugs (ext dev)" using arg_cong [OF t, of fst, THEN arg_cong, of plugs] by (simp add: try_modes_plugs split: if_splits)
  then show ?thesis using t by (simp add: set_best_hdmi_mode_def Some Let_def split: prod.splits)
qed (simp add: set_best_hdmi_mode_def)

lemma set_ext_matrix_plugs [simp]: "plugs (set_ext_matrix r e) = plugs e"
  by (simp add: set_ext_matrix_def Let_def split: prod.splits)

lemma mirroring_plugs: "plugs (ext (fst (setup_mirroring q dev))) = plugs (ext dev)"
  unfolding setup_mirroring_def Let_def
  using best_mode_plugs [of q _ _ "lcd_xpy (ext dev)" dev]
  by (auto split: prod.splits) (metis fst_conv)+

lemma clone_layer_ext [simp]: "ext (fst (clone_layer i dev)) = ext dev"
  by (simp add: clone_layer_def Let_def)

lemma mirror_layers_ext [simp]: "ext (mirror_layers is dev) = ext dev"
proof (induction "is" arbitrary: dev)
  case (Cons i "is")
  obtain dev1 r where c: "clone_layer i dev = (dev1, r)" by fastforce
  then have "ext dev1 = ext dev" using clone_layer_ext [of i dev] by simp
  then show ?case using Cons c by simp
qed simp

lemma clone_external_plugs: "plugs (ext (fst (clone_external_layer q i dev))) = plugs (ext dev)"
  unfolding clone_external_layer_def Let_def
  using best_mode_plugs [of q _ _ _ dev]
  by (auto split: prod.splits if_splits) (metis fst_conv)+

lemma set_ovl_ext [simp]: "ext (set_ovl i f dev) = ext dev"
  by (simp add: set_ovl_def)

lemma clone_overlays_plugs: "plugs (ext (clone_overlays env ps z dev)) = plugs (ext dev)"
proof -
  have dck: "plugs (ext (case clone_external_layer q i dev of (dev', r) \<Rightarrow> if r = 0 then set_ovl (f dev') g dev' else dev')) =
      plugs (ext dev)" for q i f g dev
    using clone_external_plugs [of q i dev] by (cases "clone_external_layer q i dev") simp
  have img: "plugs (ext (show_dock_image env dev)) = plugs (ext dev)"
    unfolding show_dock_image_def Let_def by (simp only: dck set_ovl_ext split: prod.splits) simp
  have mir: "plugs (ext (case (if b then setup_mirroring q dev else (dev, 0)) of
      (dev, r) \<Rightarrow> if r = 0 then mirror_layers [0..<post2_layers dev] dev else dev)) = plugs (ext dev)" for b q
    using mirroring_plugs [of q dev] by (cases "setup_mirroring q dev") simp
  show ?thesis unfolding clone_overlays_def Let_def
    by (simp only: dck img mir split: if_splits) simp
qed

end
