(* ===== verification/Hwc_Count.thy ===== *)
theory Hwc_Count
  imports Hwc_Clone
begin

text \<open>
  The statistics that \<open>gather_layer_statistics\<close> collects count what they say, and the loop over the
  layers never uses more overlays than the division between the displays left for it.
\<close>

section \<open>Counting layers\<close>

lemma fold_count:
  fixes F :: "counts_t \<Rightarrow> 32 word"
  assumes "\<And>l num. F (count_layer mem dev l num) = F num + w l"
  shows "F (fold (count_layer mem dev) ls num) = F num + sum_list (map w ls)"
  by (induction ls arbitrary: num) (simp_all add: assms add.assoc)

lemma sum_list_filter: "sum_list (map (\<lambda>l. if Q l then 1 else 0 :: 32 word) ls) = of_nat (length (filter Q ls))"
  by (induction ls) simp_all

lemma count_layer_fields:
  "possible_overlay_layers (count_layer mem dev l num) = possible_overlay_layers num + (if is_valid_layer mem dev l then 1 else 0)"
  "composited_layers (count_layer mem dev l num) = composited_layers num"
  "scaled_layers (count_layer mem dev l num) = scaled_layers num +
     (if is_valid_layer mem dev l \<and> (scaled l \<or> hwc_is_NV12 (iFormat (mem (handle l))) \<or> primary_transform dev \<noteq> 0) then 1 else 0)"
  "n_BGR (count_layer mem dev l num) = n_BGR num + (if is_valid_layer mem dev l \<and> is_BGR (mem (handle l)) then 1 else 0)"
  "n_RGB (count_layer mem dev l num) = n_RGB num +
     (if is_valid_layer mem dev l \<and> \<not> is_BGR (mem (handle l)) \<and> is_RGB (iFormat (mem (handle l))) then 1 else 0)"
  "n_NV12 (count_layer mem dev l num) = n_NV12 num +
     (if is_valid_layer mem dev l \<and> \<not> is_BGR (mem (handle l)) \<and> \<not> is_RGB (iFormat (mem (handle l))) \<and>
         hwc_is_NV12 (iFormat (mem (handle l))) then 1 else 0)"
  "n_mem (count_layer mem dev l num) = n_mem num + (if is_valid_layer mem dev l then mem1d mem (handle l) else 0)"
  by (simp_all add: count_layer_def Let_def)

lemma formats_exclusive: "is_BGR_format f \<Longrightarrow> \<not> is_RGB f \<and> \<not> hwc_is_NV12 f" "is_RGB f \<Longrightarrow> \<not> hwc_is_NV12 f"
  by (cases f; simp)+

abbreviation valid_layers :: "heap \<Rightarrow> omap_hwc_device \<Rightarrow> hwc_layer_1_t list \<Rightarrow> hwc_layer_1_t list" where
  "valid_layers mem dev ls \<equiv> filter (is_valid_layer mem dev) ls"

lemma gather_counts:
  assumes "gather_layer_statistics mem ls dev = (ls', dev')"
  shows "ls' = map (\<lambda>l. l\<lparr>compositionType := HWC_FRAMEBUFFER\<rparr>) ls" "dev' = dev\<lparr>counts := counts dev'\<rparr>"
    "composited_layers (counts dev') = of_nat (length ls)"
    "possible_overlay_layers (counts dev') = of_nat (length (valid_layers mem dev ls'))"
    "scaled_layers (counts dev') = of_nat (length (filter (\<lambda>l. is_valid_layer mem dev l \<and>
       (needs_scaler mem l \<or> primary_transform dev \<noteq> 0)) ls'))"
    "n_BGR (counts dev') = of_nat (length (filter (\<lambda>l. is_valid_layer mem dev l \<and> is_BGR (mem (handle l))) ls'))"
    "n_RGB (counts dev') = of_nat (length (filter (\<lambda>l. is_valid_layer mem dev l \<and> is_RGB (iFormat (mem (handle l)))) ls'))"
    "n_NV12 (counts dev') = of_nat (length (filter (\<lambda>l. is_valid_layer mem dev l \<and> hwc_is_NV12 (iFormat (mem (handle l)))) ls'))"
    "n_mem (counts dev') = sum_list (map (\<lambda>l. if is_valid_layer mem dev l then mem1d mem (handle l) else 0) ls')"
proof -
  show l: "ls' = map (\<lambda>l. l\<lparr>compositionType := HWC_FRAMEBUFFER\<rparr>) ls" and "dev' = dev\<lparr>counts := counts dev'\<rparr>"
    using assms by (auto simp: gather_layer_statistics_def Let_def)
  have c: "counts dev' = fold (count_layer mem dev) ls' (zero_counts\<lparr>composited_layers := of_nat (length ls)\<rparr>)"
    using assms by (auto simp: gather_layer_statistics_def Let_def)
  note fc = fold_count [where F = possible_overlay_layers, OF count_layer_fields(1)]
    fold_count [where F = composited_layers and w = "\<lambda>_. 0"] fold_count [where F = scaled_layers, OF count_layer_fields(3)]
    fold_count [where F = n_BGR, OF count_layer_fields(4)] fold_count [where F = n_RGB, OF count_layer_fields(5)]
    fold_count [where F = n_NV12, OF count_layer_fields(6)] fold_count [where F = n_mem, OF count_layer_fields(7)]
  show "composited_layers (counts dev') = of_nat (length ls)"
    unfolding c by (subst fc(2)) (simp_all add: count_layer_fields zero_counts_def map_replicate_const sum_list_replicate)
  show "possible_overlay_layers (counts dev') = of_nat (length (valid_layers mem dev ls'))"
    unfolding c fc(1) sum_list_filter by (simp add: zero_counts_def)
  show "scaled_layers (counts dev') = of_nat (length (filter (\<lambda>l. is_valid_layer mem dev l \<and>
       (needs_scaler mem l \<or> primary_transform dev \<noteq> 0)) ls'))"
    unfolding c fc(3) sum_list_filter by (simp add: zero_counts_def needs_scaler_def disj_assoc)
  show "n_BGR (counts dev') = of_nat (length (filter (\<lambda>l. is_valid_layer mem dev l \<and> is_BGR (mem (handle l))) ls'))"
    unfolding c fc(4) sum_list_filter by (simp add: zero_counts_def)
  have e: "(\<lambda>l. is_valid_layer mem dev l \<and> \<not> is_BGR (mem (handle l)) \<and> is_RGB (iFormat (mem (handle l)))) =
      (\<lambda>l. is_valid_layer mem dev l \<and> is_RGB (iFormat (mem (handle l))))"
    "(\<lambda>l. is_valid_layer mem dev l \<and> \<not> is_BGR (mem (handle l)) \<and> \<not> is_RGB (iFormat (mem (handle l))) \<and>
         hwc_is_NV12 (iFormat (mem (handle l)))) = (\<lambda>l. is_valid_layer mem dev l \<and> hwc_is_NV12 (iFormat (mem (handle l))))"
    using formats_exclusive by (auto simp: is_BGR_def fun_eq_iff)
  show "n_RGB (counts dev') = of_nat (length (filter (\<lambda>l. is_valid_layer mem dev l \<and> is_RGB (iFormat (mem (handle l)))) ls'))"
    unfolding c fc(5) sum_list_filter e by (simp add: zero_counts_def)
  show "n_NV12 (counts dev') = of_nat (length (filter (\<lambda>l. is_valid_layer mem dev l \<and> hwc_is_NV12 (iFormat (mem (handle l)))) ls'))"
    unfolding c fc(6) sum_list_filter e by (simp add: zero_counts_def)
  show "n_mem (counts dev') = sum_list (map (\<lambda>l. if is_valid_layer mem dev l then mem1d mem (handle l) else 0) ls')"
    unfolding c fc(7) by (simp add: zero_counts_def)
qed

section \<open>Room for the overlays\<close>

text \<open>Whether a layer is valid depends on the layer, its buffer, the limits and the display only.\<close>

lemma valid_layer_plain:
  assumes "plain l = plain l'" "limits dev = limits dev'" "fb_dis dev = fb_dis dev'"
  shows "is_valid_layer mem dev l = is_valid_layer mem dev' l'"
  using plain_fields [OF assms(1)] assms(2,3) by (simp add: is_valid_layer_def can_scale_layer_def Let_def)

lemma needs_scaler_plain: "plain l = plain l' \<Longrightarrow> needs_scaler mem l = needs_scaler mem l'"
  using plain_fields [of l l'] by (simp add: needs_scaler_def scaled_def)

definition room_inv :: "heap \<Rightarrow> omap_hwc_device \<Rightarrow> hwc_layer_1_t list \<Rightarrow> omap_hwc_device \<Rightarrow> pipe_state \<Rightarrow> bool" where
  "room_inv mem dev0 ds dev ps \<longleftrightarrow>
     pipes_inv dev0 ds dev ps \<and> unat (max_hw_overlays (counts dev0)) \<le> 4 \<and>
     num_ovls (dsscomp dev) \<le> max (ovl_base dev0) (unat (max_hw_overlays (counts dev0))) \<and>
     list_all (\<lambda>l. is_ovl l \<longrightarrow> is_valid_layer mem dev0 l) ds \<and>
     ps_ix_docking ps < int (num_ovls (dsscomp dev)) \<and> fb_dis dev = fb_dis dev0 \<and>
     (\<forall>i < 5. mgr_ix (cfg (ovls (dsscomp dev) ! i)) = 0)"

lemma raise_fb_mgr_ix: "raise_fb fz z os = (fz', os') \<Longrightarrow> mgr_ix (cfg (os' ! i)) = mgr_ix (cfg (os ! i))"
proof (induction fz z os arbitrary: fz' os' rule: raise_fb.induct)
  case (1 fz z os)
  let ?os = "os[nat (1 + fz) := set_zorder (zorder (cfg (os ! nat (1 + fz))) - 1) (os ! nat (1 + fz))]"
  have "mgr_ix (cfg (?os ! i)) = mgr_ix (cfg (os ! i))"
    by (cases "i < length os"; cases "i = nat (1 + fz)") (simp_all add: list_update_beyond)
  with 1 show ?case by (subst (asm) (2) raise_fb.simps) (auto split: if_splits)
qed

interpretation room_loop: pipe_loop mem "room_inv mem dev0" for mem dev0
proof
  fix ds dev ps and l :: hwc_layer_1_t and l' dev' ps'
  assume r: "room_inv mem dev0 ds dev ps" and t: "takes_overlay mem dev ps l"
    and a: "assign_overlay mem dev ps l = (l', dev', ps')"
  have inv: "pipes_inv dev0 ds dev ps" and mh: "unat (max_hw_overlays (counts dev0)) \<le> 4" using r by (simp_all add: room_inv_def)
  note fr = pipes_inv_frame [OF inv]
  let ?os1 = "(ovls (dsscomp dev))[num_ovls (dsscomp dev) := layer_overlay mem dev (ps_z ps) l]"
  from a obtain os where os: "same_but_ix ?os1 os"
    and l': "l' = l\<lparr>compositionType := HWC_OVERLAY, hint_triple_buffer := True,
            hint_clear_fb := (hint_clear_fb l \<or> (use_sgx dev \<and> \<not> is_BLENDED l))\<rparr>"
    and d': "dev' = dev\<lparr>buffers := (buffers dev)[num_ovls (dsscomp dev) := handle l],
                dsscomp := (dsscomp dev)\<lparr>ovls := os, num_ovls := Suc (num_ovls (dsscomp dev))\<rparr>\<rparr>"
    and dck: "ps_ix_docking ps' = ps_ix_docking ps \<or> ps_ix_docking ps' = int (num_ovls (dsscomp dev)) \<and> dockable mem l"
    by (rule assign_overlay_result)
  have "plain l' = plain l" by (simp add: l' plain_def)
  then have "is_valid_layer mem dev0 l'"
    using takes_overlay_valid [OF t] valid_layer_plain [of l' l dev0 dev] fr r by (simp add: room_inv_def)
  moreover have "num_ovls (dsscomp dev) < unat (max_hw_overlays (counts dev0))"
    using takes_overlay_room [OF t] inv fr by (simp add: pipes_inv_def)
  moreover have "mgr_ix (cfg (os ! i)) = 0" if "i < 5" for i
  proof -
    have "is_valid_format (iFormat (mem (handle l)))" using takes_overlay_valid [OF t] valid_layer_format by blast
    then have "mgr_ix (cfg (?os1 ! i)) = mgr_ix (cfg (ovls (dsscomp dev) ! i))"
      using that inv by (cases "i = num_ovls (dsscomp dev)") (simp_all add: layer_overlay_fields pipes_inv_def)
    then show ?thesis using same_but_ixD(3) [OF os, of i] r inv that by (simp add: room_inv_def pipes_inv_def)
  qed
  ultimately show "room_inv mem dev0 (ds @ [l']) dev' ps'"
    using assign_overlay_step [OF inv t mh a] r d' dck by (auto simp: room_inv_def)
next
  fix ds dev ps and l :: hwc_layer_1_t and dev' ps'
  assume r: "room_inv mem dev0 ds dev ps" and l: "compositionType l = HWC_FRAMEBUFFER"
    and f: "into_framebuffer dev ps = (dev', ps')"
  have "num_ovls (dsscomp dev') = num_ovls (dsscomp dev)" "ps_ix_docking ps' = ps_ix_docking ps" "fb_dis dev' = fb_dis dev"
    using f by (auto simp: into_framebuffer_def split: if_splits prod.splits)
  moreover have "mgr_ix (cfg (ovls (dsscomp dev') ! i)) = mgr_ix (cfg (ovls (dsscomp dev) ! i))" for i
    using f raise_fb_mgr_ix by (auto simp: into_framebuffer_def split: if_splits prod.splits)
  ultimately show "room_inv mem dev0 (ds @ [l]) dev' ps'"
    using into_framebuffer_step [OF _ _ f, of dev0 ds l] r l by (simp add: room_inv_def is_ovl_def)
qed

end
