(* ===== verification/Hwc_Frame.thy ===== *)
theory Hwc_Frame
  imports Hwc_Count
begin

text \<open>
  What the device looks like after \<open>hwc_prepare\<close>: the overlays of the internal display use each
  z-position below their number once, and each overlay has a pipe of its own (\<open>internal_ok\<close>); the overlays
  of the external display come behind them (\<open>overlays_ok\<close>).  \<open>prepare_frame\<close> shows this of every frame,
  whoever composes it; the properties of the composer rest on it.
\<close>

section \<open>The frame before cloning\<close>

text \<open>The part of the device that blitting does not touch.\<close>

definition nonblit :: "omap_hwc_device \<Rightarrow> omap_hwc_device" where
  "nonblit dev = dev\<lparr>buffers := [], blit_flags := False, blit_num := 0, post2_blit_buffers := 0, blit_ops := [],
     grgz := blank_rgz, use_sgx := False, swap_rb := False\<rparr>"

lemma nonblit_fields:
  assumes "nonblit dev' = nonblit dev"
  shows "dsscomp dev' = dsscomp dev" "counts dev' = counts dev" "ext dev' = ext dev"
    "primary_transform dev' = primary_transform dev" "ext_ovls dev' = ext_ovls dev" "last_ext_ovls dev' = last_ext_ovls dev"
    "last_int_ovls dev' = last_int_ovls dev" "ext_ovls_wanted dev' = ext_ovls_wanted dev" "fb_format dev' = fb_format dev"
    "blt_policy dev' = blt_policy dev"
  using arg_cong [OF assms, of dsscomp] arg_cong [OF assms, of counts] arg_cong [OF assms, of ext]
    arg_cong [OF assms, of primary_transform] arg_cong [OF assms, of ext_ovls] arg_cong [OF assms, of last_ext_ovls]
    arg_cong [OF assms, of last_int_ovls] arg_cong [OF assms, of ext_ovls_wanted] arg_cong [OF assms, of fb_format]
    arg_cong [OF assms, of blt_policy]
  by (simp_all add: nonblit_def)

lemma nonblit_update [simp]:
  "nonblit (dev\<lparr>grgz := g\<rparr>) = nonblit dev" "nonblit (dev\<lparr>use_sgx := b\<rparr>) = nonblit dev"
  "nonblit (dev\<lparr>swap_rb := b\<rparr>) = nonblit dev" "nonblit (dev\<lparr>buffers := bs\<rparr>) = nonblit dev"
  "nonblit (dev\<lparr>blit_flags := b\<rparr>) = nonblit dev" "nonblit (dev\<lparr>blit_num := n\<rparr>) = nonblit dev"
  "nonblit (dev\<lparr>post2_blit_buffers := n\<rparr>) = nonblit dev" "nonblit (dev\<lparr>blit_ops := bo\<rparr>) = nonblit dev"
  by (simp_all add: nonblit_def)

lemma length_store_handles [simp]: "length (store_handles hs off bufs) = length bufs"
  by (induction hs off bufs rule: store_handles.induct) simp_all

lemma blitted_plain [simp]: "plain (blitted_layer l) = plain l"
  by (simp add: blitted_layer_def plain_def)

lemma blit_failed_result: "blit_failed ls dev = Inr (ls', dev', ok) \<longleftrightarrow> ls' = ls \<and> dev' = dev\<lparr>grgz := blank_rgz\<rparr> \<and> \<not> ok"
  by (auto simp: blit_failed_def rgz_release_def)

lemma blit_layers_frame:
  assumes "blit_layers mem env x ls off dev = Inr (ls', dev', ok)"
  shows "if ok then \<not> ext_enabled (ext_mirror (ext dev)) \<and> nonblit dev' = nonblit dev \<and> use_sgx dev' = use_sgx dev \<and>
      length (buffers dev') = length (buffers dev) \<and> map plain ls' = map plain ls
    else ls' = ls \<and> dev' = dev\<lparr>grgz := blank_rgz\<rparr>"
  using assms
  by (auto simp: blit_layers_def Let_def blit_failed_result andThen_eq_Inr split: if_splits option.splits prod.splits)

text \<open>Either the blitter drew the whole frame, or the loop put the layers on overlays.\<close>

definition with_ovls :: "nat \<Rightarrow> omap_hwc_device \<Rightarrow> omap_hwc_device" where
  "with_ovls n dev = dev\<lparr>dsscomp := (dsscomp dev)\<lparr>num_ovls := n\<rparr>\<rparr>"

lemma nonblit_with_ovls: "nonblit dev = nonblit dev' \<Longrightarrow> nonblit (with_ovls n dev) = nonblit (with_ovls n dev')"
proof -
  assume "nonblit dev = nonblit dev'"
  moreover have "nonblit (with_ovls n d) = with_ovls n (nonblit d)" for d by (simp add: nonblit_def with_ovls_def)
  ultimately show ?thesis by simp
qed

definition blitted_frame :: "omap_hwc_device \<Rightarrow> hwc_layer_1_t list \<Rightarrow> hwc_layer_1_t list \<Rightarrow> omap_hwc_device \<Rightarrow> pipe_state \<Rightarrow> bool \<Rightarrow> bool" where
  "blitted_frame dev ls ls' dev' ps fb \<longleftrightarrow>
     fb \<and> ps = start_pipes \<and> \<not> ext_enabled (ext_mirror (ext dev)) \<and> \<not> use_sgx dev' \<and> nonblit dev' = nonblit (with_ovls 1 dev) \<and>
     length (buffers dev') = length (buffers dev) \<and> map plain ls' = map plain ls \<and> blt_policy dev = BLTPOLICY_ALL"

definition overlay_frame :: "heap \<Rightarrow> omap_hwc_device \<Rightarrow> hwc_layer_1_t list \<Rightarrow> hwc_layer_1_t list \<Rightarrow> omap_hwc_device \<Rightarrow> pipe_state \<Rightarrow> bool \<Rightarrow> bool" where
  "overlay_frame mem dev ls ls' dev' ps fb \<longleftrightarrow>
     fb = use_sgx dev \<and>
     (\<exists>g ls1 dev1. setup_pipes mem ls (with_ovls (ovl_base dev) (dev\<lparr>grgz := g\<rparr>)) start_pipes = (ls1, dev1, ps) \<and>
        nonblit dev' = nonblit (move_scaled_gfx ps dev1) \<and> map plain ls' = map plain ls1 \<and>
        length (buffers dev') = length (buffers dev1) \<and>
        (use_sgx dev' = use_sgx dev1 \<and> ls' = ls1 \<and> buffers dev' = buffers dev1 \<or>
         \<not> use_sgx dev' \<and> use_sgx dev1 \<and> blt_policy dev = BLTPOLICY_DEFAULT \<and> \<not> ext_enabled (ext_mirror (ext dev1))))"

lemma blit_everything_cases:
  assumes "blit_everything mem env x lso dev = Inr (ls', dev', ok)" "ls = (case lso of None \<Rightarrow> [] | Some l \<Rightarrow> l)"
  shows "if ok then \<not> ext_enabled (ext_mirror (ext dev)) \<and> nonblit dev' = nonblit dev \<and> \<not> use_sgx dev' \<and>
      length (buffers dev') = length (buffers dev) \<and> map plain ls' = map plain ls \<and> blt_policy dev = BLTPOLICY_ALL
    else ls' = ls \<and> (\<exists>g. dev' = dev\<lparr>grgz := g\<rparr>)"
proof -
  have same: "\<exists>g. dev = dev\<lparr>grgz := g\<rparr>" by (rule exI [of _ "grgz dev"]) simp
  show ?thesis
  proof (cases "blt_policy dev = BLTPOLICY_ALL \<and> lso \<noteq> None")
    case False
    then have "ls' = ls \<and> (dev' = dev \<or> dev' = dev\<lparr>grgz := blank_rgz\<rparr>) \<and> \<not> ok"
      using assms by (auto simp: blit_everything_def blit_failed_result split: option.splits if_splits)
    then show ?thesis using same by auto
  next
    case True
    with assms obtain d ok' where b: "blit_layers mem env x ls 0 dev = Inr (ls', d, ok')"
      and r: "dev' = (if ok' then d\<lparr>use_sgx := False, swap_rb := False\<rparr> else d)" "ok = ok'"
      by (auto simp: blit_everything_def andThen_eq_Inr)
    from blit_layers_frame [OF b] r True show ?thesis by (cases ok') (simp, auto simp only: if_False)
  qed
qed

lemma blit_rest_cases:
  assumes "blit_rest mem env x has ls dev = Inr (ls', dev')"
  shows "nonblit dev' = nonblit dev \<and> map plain ls' = map plain ls \<and> length (buffers dev') = length (buffers dev) \<and>
    (use_sgx dev' = use_sgx dev \<and> ls' = ls \<and> buffers dev' = buffers dev \<or>
     \<not> use_sgx dev' \<and> use_sgx dev \<and> blt_policy dev = BLTPOLICY_DEFAULT \<and> \<not> ext_enabled (ext_mirror (ext dev)))"
proof (cases "blt_policy dev = BLTPOLICY_DEFAULT \<and> use_sgx dev \<and> has")
  case False
  consider "blt_policy dev \<noteq> BLTPOLICY_DEFAULT" | "blt_policy dev = BLTPOLICY_DEFAULT" "\<not> use_sgx dev"
    | "blt_policy dev = BLTPOLICY_DEFAULT" "use_sgx dev" "\<not> has" using False by blast
  then have "ls' = ls \<and> (dev' = dev \<or> dev' = dev\<lparr>grgz := blank_rgz\<rparr>)"
  proof cases
    case 3
    then show ?thesis using assms by (simp add: blit_rest_def blit_failed_def rgz_release_def Let_def)
  qed (use assms in \<open>simp_all add: blit_rest_def rgz_release_def\<close>)
  then show ?thesis by auto
next
  case True
  let ?n = "num_ovls (dsscomp dev)"
  from True assms obtain d ok where b: "blit_layers mem env x ls (if ?n = 1 then 0 else ?n) dev = Inr (ls', d, ok)"
    and r: "dev' = (if ok then d\<lparr>use_sgx := False\<rparr> else d)"
    by (auto simp: blit_rest_def andThen_eq_Inr Let_def simp del: One_nat_def split del: if_split)
  from blit_layers_frame [OF b] r True show ?thesis by (cases ok) simp_all
qed

lemma move_scaled_gfx_frame [simp]:
  "use_sgx (move_scaled_gfx ps dev) = use_sgx dev" "ext (move_scaled_gfx ps dev) = ext dev"
  "blt_policy (move_scaled_gfx ps dev) = blt_policy dev" "buffers (move_scaled_gfx ps dev) = buffers dev"
  "num_ovls (dsscomp (move_scaled_gfx ps dev)) = num_ovls (dsscomp dev)"
  by (simp_all add: move_scaled_gfx_def set_ovl_def)

lemma compose_frame_cases:
  assumes c: "compose_frame mem env x lso dev = Inr (ls', dev', ps, fb)"
    and ls: "ls = (case lso of None \<Rightarrow> [] | Some l \<Rightarrow> l)"
    and inv: "\<And>g ls1 dev1 ps. setup_pipes mem ls (with_ovls (ovl_base dev) (dev\<lparr>grgz := g\<rparr>)) start_pipes = (ls1, dev1, ps) \<Longrightarrow>
       blt_policy dev1 = blt_policy dev"
  shows "blitted_frame dev ls ls' dev' ps fb \<or> overlay_frame mem dev ls ls' dev' ps fb"
proof -
  from c obtain ls1 d1 ok where b: "blit_everything mem env x lso dev = Inr (ls1, d1, ok)"
    by (auto simp: compose_frame_def andThen_eq_Inr)
  let ?n = "if use_sgx dev \<or> ok then 1 else 0" and ?d = "with_ovls (if use_sgx dev \<or> ok then 1 else 0) d1"
  obtain ls2 d2 ps2 where p: "(if ok then (ls1, ?d, start_pipes) else setup_pipes mem ls1 ?d start_pipes) = (ls2, d2, ps2)"
    by (metis prod_cases3)
  have r: "blit_rest mem env x (lso \<noteq> None) ls2 (move_scaled_gfx ps2 d2) = Inr (ls', dev')" "ps = ps2" "fb = (use_sgx dev \<or> ok)"
    using c unfolding compose_frame_def b andThen_simps prod.case Let_def with_ovls_def [symmetric] p
    by (auto simp: andThen_eq_Inr)
  note be = blit_everything_cases [OF b ls] and br = blit_rest_cases [OF r(1)]
  show ?thesis
  proof (cases ok)
    case True
    with be have e: "\<not> ext_enabled (ext_mirror (ext dev))" "nonblit d1 = nonblit dev" "\<not> use_sgx d1"
      "length (buffers d1) = length (buffers dev)" "map plain ls1 = map plain ls" "blt_policy dev = BLTPOLICY_ALL" by simp_all
    have p': "ls2 = ls1" "d2 = with_ovls 1 d1" "ps2 = start_pipes" using p True by auto
    have m: "move_scaled_gfx ps2 d2 = d2" by (simp add: p' move_scaled_gfx_def start_pipes_def)
    have "blt_policy d2 = BLTPOLICY_ALL" "\<not> use_sgx d2" "length (buffers d2) = length (buffers dev)"
      using e nonblit_fields(10) [OF e(2)] by (simp_all add: p' with_ovls_def)
    then have "blitted_frame dev ls ls' dev' ps fb"
      using br e r True nonblit_with_ovls [OF e(2), of 1] unfolding blitted_frame_def m by (simp add: p')
    then show ?thesis ..
  next
    case False
    with be obtain g where e: "ls1 = ls" "d1 = dev\<lparr>grgz := g\<rparr>" by auto
    have p': "setup_pipes mem ls (with_ovls (ovl_base dev) (dev\<lparr>grgz := g\<rparr>)) start_pipes = (ls2, d2, ps2)"
      using p False e by simp
    from inv [OF p'] have "blt_policy d2 = blt_policy dev" .
    then have "overlay_frame mem dev ls ls' dev' ps fb"
      unfolding overlay_frame_def
      by (intro conjI exI [of _ g] exI [of _ ls2] exI [of _ d2]) (use p' br r False in simp_all)
    then show ?thesis ..
  qed
qed

section \<open>The overlays of the internal display\<close>

text \<open>
  The overlays of the internal display use the z-positions below their number, each once, and each
  a pipe of its own below the bound \<open>b\<close>.
\<close>

definition internal_ok :: "int \<Rightarrow> dss2_ovl_info list \<Rightarrow> nat \<Rightarrow> bool" where
  "internal_ok b os n \<longleftrightarrow> length os = 5 \<and> n \<le> 4 \<and>
     (\<forall>i < n. 0 \<le> zorder (cfg (os ! i)) \<and> zorder (cfg (os ! i)) < int n \<and> 0 \<le> ix (cfg (os ! i)) \<and>
        ix (cfg (os ! i)) < b \<and> mgr_ix (cfg (os ! i)) = 0) \<and>
     inj_on (\<lambda>i. zorder (cfg (os ! i))) {..<n} \<and> inj_on (\<lambda>i. ix (cfg (os ! i))) {..<n}"

lemma z_of_inj: "z_of dev ls i = z_of dev ls j \<Longrightarrow> i = j"
  by (auto simp: z_of_def split: if_splits)

lemma internal_no_fb:
  assumes inv: "pipe_inv mem d1 ls1 dev1 ps" and sgx: "\<not> use_sgx d1" and pt: "primary_transform d1 \<in> {0, 1}"
  shows "internal_ok (int (n_ovl ls1) + primary_transform d1 + (if ps_scaled_gfx ps then 1 else 0))
    (ovls (dsscomp (move_scaled_gfx ps dev1))) (n_ovl ls1)"
proof -
  let ?os = "ovls (dsscomp dev1)" and ?n = "n_ovl ls1" and ?os' = "ovls (dsscomp (move_scaled_gfx ps dev1))"
  have pi: "pipes_inv d1 ls1 dev1 ps" and ixi: "ix_inv mem d1 ls1 ?os (ps_scaled_gfx ps)" using inv by (simp_all add: pipe_inv_def)
  have len: "length ?os = 5" "num_ovls (dsscomp dev1) = ?n" "?n \<le> 4" using pi sgx by (simp_all add: pipes_inv_def)
  have z: "zorder (cfg (?os ! j)) = int j" if "j < ?n" for j
    using pi that sgx by (simp add: pipes_inv_def z_inv_def z_of_def has_fb_def)
  have m: "mgr_ix (cfg (?os ! j)) = 0" if "j < ?n" for j
    using pi that sgx by (simp add: pipes_inv_def shows_layer_def)
  have os': "?os' = (if ps_scaled_gfx ps then ?os[0 := set_ix (int ?n) (?os ! 0)] else ?os)"
    using len by (simp add: move_scaled_gfx_def set_ovl_def)
  have fields: "zorder (cfg (?os' ! j)) = int j \<and> mgr_ix (cfg (?os' ! j)) = 0" if "j < ?n" for j
    using z [OF that] m [OF that] that len by (auto simp: os' nth_list_update)
  consider "primary_transform d1 = 1" | "primary_transform d1 = 0" "ps_scaled_gfx ps"
    | "primary_transform d1 = 0" "\<not> ps_scaled_gfx ps" "?n = 0" | "primary_transform d1 = 0" "\<not> ps_scaled_gfx ps" "0 < ?n"
    using pt by blast
  then show ?thesis
  proof cases
    case 1
    then have "\<not> ps_scaled_gfx ps" "\<forall>j < ?n. ix (cfg (?os ! j)) = int j + 1" using ixi sgx by (simp_all add: ix_inv_def)
    then show ?thesis using 1 fields len os' by (auto simp: internal_ok_def inj_on_def)
  next
    case 2
    then have x: "0 < ?n" "\<forall>j < ?n. ix (cfg (?os ! j)) = int j" using ixi sgx by (simp_all add: ix_inv_def)
    then have "ix (cfg (?os' ! j)) = (if j = 0 then int ?n else int j)" if "j < ?n" for j
      using that len 2 by (simp add: os' nth_list_update)
    then show ?thesis using 2 fields len os' by (auto simp: internal_ok_def inj_on_def split: if_splits)
  next
    case 3
    then show ?thesis using len os' by (simp add: internal_ok_def)
  next
    case 4
    then obtain k where "k < ?n" "\<forall>j < ?n. ix (cfg (?os ! j)) = (if j = k then 0 else if j = 0 then int k else int j)"
      using ixi sgx by (auto simp: ix_inv_def)
    then show ?thesis using 4 fields len os' by (auto simp: internal_ok_def inj_on_def split: if_splits)
  qed
qed

lemma setup_fb_fields:
  assumes "is_valid_format (fb_format dev)" "0 < length (ovls (dsscomp dev))" "setup_fb_overlay True ps dev = (dev', z)"
  shows "ix (cfg (ovls (dsscomp dev') ! 0)) = primary_transform dev"
    "zorder (cfg (ovls (dsscomp dev') ! 0)) = (if ps_fb_z ps < 0 then ps_z ps else ps_fb_z ps)"
    "mgr_ix (cfg (ovls (dsscomp dev') ! 0)) = mgr_ix (cfg (ovls (dsscomp dev) ! 0))"
    "z = (if ps_fb_z ps < 0 then ps_z ps + 1 else ps_z ps)"
    "i \<noteq> 0 \<Longrightarrow> ovls (dsscomp dev') ! i = ovls (dsscomp dev) ! i"
    "length (ovls (dsscomp dev')) = length (ovls (dsscomp dev))"
  using assms by (auto simp: setup_fb_overlay_def Let_def set_ovl_def setup_layer_base_fields set_ix_def split: if_splits)

lemma internal_fb:
  assumes inv: "pipe_inv mem d1 ls1 dev1 ps" and sgx: "use_sgx d1" and pt: "primary_transform d1 \<in> {0, 1}"
    and fmt: "is_valid_format (fb_format dev)" and dev: "dsscomp dev = dsscomp dev1" "primary_transform dev = primary_transform d1"
    and first: "mgr_ix (cfg (ovls (dsscomp dev1) ! 0)) = 0"
    and fb: "setup_fb_overlay True ps dev = (dev', z)"
  shows "internal_ok (int (Suc (n_ovl ls1)) + primary_transform d1) (ovls (dsscomp dev')) (Suc (n_ovl ls1)) \<and>
    z = int (Suc (n_ovl ls1)) \<and> \<not> ps_scaled_gfx ps"
proof -
  let ?os = "ovls (dsscomp dev1)" and ?n = "n_ovl ls1" and ?os' = "ovls (dsscomp dev')"
  have pi: "pipes_inv d1 ls1 dev1 ps" and ixi: "ix_inv mem d1 ls1 ?os (ps_scaled_gfx ps)" using inv by (simp_all add: pipe_inv_def)
  have len: "length ?os = 5" "Suc ?n \<le> 4" using pi sgx by (simp_all add: pipes_inv_def)
  note f = setup_fb_fields [OF fmt _ fb, unfolded dev]
  have zi: "z_inv d1 ls1 ?os ps" using pi by (simp add: pipes_inv_def)
  let ?F = "if has_fb d1 ls1 then n_ovl (upto_fb ls1) else ?n"
  have F: "?F \<le> ?n" using n_ovl_upto [of ls1] by simp
  have z0: "zorder (cfg (?os' ! 0)) = int ?F" and z: "z = int (Suc ?n)" using f(2,4) zi len by (auto simp: z_inv_def)
  have zs: "zorder (cfg (?os' ! i)) = (if i = 0 then int ?F else if i \<le> ?F then int i - 1 else int i)" if "i < Suc ?n" for i
    using z0 f(5) [of i] zi that len sgx F by (cases i) (auto simp: z_inv_def z_of_def)
  have xs: "ix (cfg (?os' ! i)) = int i + primary_transform d1" if "i < Suc ?n" for i
    using f(1) f(5) [of i] ixi that len sgx by (cases i) (auto simp: ix_inv_def)
  have ms: "mgr_ix (cfg (?os' ! i)) = 0" if "i < Suc ?n" for i
    using f(3) f(5) [of i] first pi that len sgx by (cases i) (auto simp: pipes_inv_def shows_layer_def)
  have "inj_on (\<lambda>i. zorder (cfg (?os' ! i))) {..<Suc ?n}"
    by (rule inj_onI) (use F in \<open>auto simp: zs split: if_splits\<close>)
  moreover have "inj_on (\<lambda>i. ix (cfg (?os' ! i))) {..<Suc ?n}" by (rule inj_onI) (simp add: xs)
  moreover have "0 \<le> zorder (cfg (?os' ! i)) \<and> zorder (cfg (?os' ! i)) < int (Suc ?n)" if "i < Suc ?n" for i
    using zs [OF that] F that by auto
  moreover have "\<not> ps_scaled_gfx ps" using ixi sgx by (simp add: ix_inv_def)
  ultimately show ?thesis using z xs ms f(6) len pt by (auto simp: internal_ok_def)
qed

section \<open>The state a frame starts from\<close>

text \<open>The device with the statistics of the frame, and the device when the loop over the layers starts.\<close>

definition gathered :: "heap \<Rightarrow> hwc_layer_1_t list \<Rightarrow> omap_hwc_device \<Rightarrow> omap_hwc_device" where
  "gathered mem ls dev = snd (gather_layer_statistics mem ls
     (dev\<lparr>dsscomp := zero_dsscomp\<lparr>dss_sync_id := sync_id dev\<rparr>, sync_id := sync_id dev + 1\<rparr>))"

definition frame_start :: "heap \<Rightarrow> hwc_layer_1_t list \<Rightarrow> omap_hwc_device \<Rightarrow> omap_hwc_device" where
  "frame_start mem ls dev = blit_reset (choose_composition (decide_supported_cloning (gathered mem ls dev)))"

lemma gathered_fields [simp]:
  "last_ext_ovls (gathered mem ls dev) = last_ext_ovls dev" "last_int_ovls (gathered mem ls dev) = last_int_ovls dev"
  "primary_transform (gathered mem ls dev) = primary_transform dev" "buffers (gathered mem ls dev) = buffers dev"
  "fb_format (gathered mem ls dev) = fb_format dev" "ext (gathered mem ls dev) = ext dev"
  "limits (gathered mem ls dev) = limits dev" "fb_dis (gathered mem ls dev) = fb_dis dev"
  "dsscomp (gathered mem ls dev) = zero_dsscomp\<lparr>dss_sync_id := sync_id dev\<rparr>"
  "blt_policy (gathered mem ls dev) = blt_policy dev" "force_sgx (gathered mem ls dev) = force_sgx dev"
  "flags_rgb_order (gathered mem ls dev) = flags_rgb_order dev" "flags_nv12_only (gathered mem ls dev) = flags_nv12_only dev"
  "on_tv (gathered mem ls dev) = on_tv dev"
  by (simp_all add: gathered_def gather_layer_statistics_def Let_def)

lemma dev_ok_gathered [simp]: "dev_ok (gathered mem ls dev) = dev_ok dev"
  by (simp add: dev_ok_def)

lemma blit_reset_fields [simp]:
  "use_sgx (blit_reset dev) = use_sgx dev" "swap_rb (blit_reset dev) = swap_rb dev" "counts (blit_reset dev) = counts dev"
  "ext (blit_reset dev) = ext dev" "dsscomp (blit_reset dev) = dsscomp dev" "buffers (blit_reset dev) = buffers dev"
  "primary_transform (blit_reset dev) = primary_transform dev" "fb_format (blit_reset dev) = fb_format dev"
  "ext_ovls (blit_reset dev) = ext_ovls dev" "ext_ovls_wanted (blit_reset dev) = ext_ovls_wanted dev"
  "last_ext_ovls (blit_reset dev) = last_ext_ovls dev" "last_int_ovls (blit_reset dev) = last_int_ovls dev"
  "limits (blit_reset dev) = limits dev" "fb_dis (blit_reset dev) = fb_dis dev" "blt_policy (blit_reset dev) = blt_policy dev"
  "force_sgx (blit_reset dev) = force_sgx dev" "flags_rgb_order (blit_reset dev) = flags_rgb_order dev"
  "flags_nv12_only (blit_reset dev) = flags_nv12_only dev" "on_tv (blit_reset dev) = on_tv dev"
  by (simp_all add: blit_reset_def)

lemma choose_fields [simp]:
  "use_sgx (choose_composition dev) = (\<not> can_dss_render_all dev)"
  "swap_rb (choose_composition dev) = (if can_dss_render_all dev then n_BGR (counts dev) \<noteq> 0 else is_BGR_format (fb_format dev))"
  "counts (choose_composition dev) = counts dev"
  "ext (choose_composition dev) = ext dev" "dsscomp (choose_composition dev) = dsscomp dev" "buffers (choose_composition dev) = buffers dev"
  "primary_transform (choose_composition dev) = primary_transform dev" "fb_format (choose_composition dev) = fb_format dev"
  "ext_ovls (choose_composition dev) = ext_ovls dev" "ext_ovls_wanted (choose_composition dev) = ext_ovls_wanted dev"
  "last_ext_ovls (choose_composition dev) = last_ext_ovls dev" "last_int_ovls (choose_composition dev) = last_int_ovls dev"
  "limits (choose_composition dev) = limits dev" "fb_dis (choose_composition dev) = fb_dis dev"
  "blt_policy (choose_composition dev) = blt_policy dev" "force_sgx (choose_composition dev) = force_sgx dev"
  "flags_rgb_order (choose_composition dev) = flags_rgb_order dev"
  "flags_nv12_only (choose_composition dev) = flags_nv12_only dev" "on_tv (choose_composition dev) = on_tv dev"
  by (simp_all add: choose_composition_def)

lemma decide_fields:
  assumes "dev_ok dev"
  defines "dc \<equiv> decide_supported_cloning dev"
  shows "counts dc = (counts dev)\<lparr>max_hw_overlays := word_of_int (layer_overlays dev),
          max_scaling_overlays := word_of_int (layer_overlays dev -
            (if primary_transform dev \<noteq> 0 \<or> cloning_mode dev = Mirroring then 0 else 1))\<rparr>"
    "ext dc = (ext dev)\<lparr>current := next_transform dev\<rparr>"
    "ext_ovls dc = external_overlays dev" "ext_ovls_wanted dc = wanted_overlays dev"
    "dsscomp dc = dsscomp dev" "last_ext_ovls dc = last_ext_ovls dev" "last_int_ovls dc = last_int_ovls dev"
    "primary_transform dc = primary_transform dev" "buffers dc = buffers dev"
    "fb_format dc = fb_format dev" "limits dc = limits dev" "fb_dis dc = fb_dis dev" "blt_policy dc = blt_policy dev"
    "force_sgx dc = force_sgx dev" "flags_rgb_order dc = flags_rgb_order dev" "flags_nv12_only dc = flags_nv12_only dev"
    "on_tv dc = on_tv dev"
  unfolding dc_def decide_eq [OF assms(1)] by simp_all

lemma frame_start_fields:
  fixes mem :: heap and ls :: "hwc_layer_1_t list"
  assumes "dev_ok dev"
  defines "dg \<equiv> gathered mem ls dev"
  shows "counts (frame_start mem ls dev) = (counts dg)\<lparr>max_hw_overlays := word_of_int (layer_overlays dg),
          max_scaling_overlays := word_of_int (layer_overlays dg -
            (if primary_transform dev \<noteq> 0 \<or> cloning_mode dg = Mirroring then 0 else 1))\<rparr>"
    "ext (frame_start mem ls dev) = (ext dev)\<lparr>current := next_transform dg\<rparr>"
    "ext_ovls (frame_start mem ls dev) = external_overlays dg"
    "ext_ovls_wanted (frame_start mem ls dev) = wanted_overlays dg"
    "dsscomp (frame_start mem ls dev) = zero_dsscomp\<lparr>dss_sync_id := sync_id dev\<rparr>"
    "last_ext_ovls (frame_start mem ls dev) = last_ext_ovls dev" "last_int_ovls (frame_start mem ls dev) = last_int_ovls dev"
    "primary_transform (frame_start mem ls dev) = primary_transform dev" "buffers (frame_start mem ls dev) = buffers dev"
    "fb_format (frame_start mem ls dev) = fb_format dev" "limits (frame_start mem ls dev) = limits dev"
    "fb_dis (frame_start mem ls dev) = fb_dis dev" "blt_policy (frame_start mem ls dev) = blt_policy dev"
    "force_sgx (frame_start mem ls dev) = force_sgx dev" "flags_rgb_order (frame_start mem ls dev) = flags_rgb_order dev"
    "flags_nv12_only (frame_start mem ls dev) = flags_nv12_only dev" "on_tv (frame_start mem ls dev) = on_tv dev"
    "use_sgx (frame_start mem ls dev) = (\<not> can_dss_render_all (decide_supported_cloning dg))"
  using decide_fields [of dg] assms(1) unfolding frame_start_def dg_def by simp_all

section \<open>The overlays before cloning\<close>

lemma unat_layer_overlays:
  assumes "dev_ok dev"
  shows "unat (max_hw_overlays (counts (frame_start mem ls dev))) = nat (layer_overlays (gathered mem ls dev))"
proof -
  let ?dg = "gathered mem ls dev"
  have "0 \<le> layer_overlays ?dg" "layer_overlays ?dg < 2 ^ 32"
    using layer_overlays_bounds [of ?dg] assms by (auto simp: dev_ok_def)
  then show ?thesis by (simp add: frame_start_fields [OF assms] unat_word_of_small)
qed

text \<open>The invariants of the loop hold at its end, for a frame that starts from a good device.\<close>

lemma setup_pipes_invs:
  assumes ok: "dev_ok dev" and ls: "list_all (\<lambda>l. compositionType l = HWC_FRAMEBUFFER) ls0"
    and d1: "d1 = with_ovls (ovl_base d0) (d0\<lparr>grgz := g\<rparr>)" "d0 = frame_start mem ls dev"
    and p: "setup_pipes mem ls0 d1 start_pipes = (ls1, dev1, ps)"
  shows "pipe_inv mem d1 ls1 dev1 ps" "room_inv mem d1 ls1 dev1 ps" "layers_inv d1 ls1 dev1 ps"
proof -
  note fs = frame_start_fields [OF ok, where mem = mem and ls = ls]
  have sgx: "use_sgx d1 = use_sgx d0" and mh: "unat (max_hw_overlays (counts d1)) \<le> 4"
    using unat_layer_overlays [OF ok, of mem ls] layer_overlays_bounds [of "gathered mem ls dev"] ok
    by (auto simp: d1 with_ovls_def dev_ok_def)
  have start: "pipes_inv d1 [] d1 start_pipes"
    by (rule pipes_inv_start) (use ok fs in \<open>simp_all add: d1 with_ovls_def dev_ok_def zero_dsscomp_def\<close>)
  have "ix_inv mem d1 [] (ovls (dsscomp d1)) (ps_scaled_gfx start_pipes)" by (simp add: ix_inv_def start_pipes_def)
  then have "pipe_inv mem d1 [] d1 start_pipes" using start mh by (simp add: pipe_inv_def)
  from ix_loop.loop [OF this ls p] show "pipe_inv mem d1 ls1 dev1 ps" by simp
  have "mgr_ix (cfg (ovls (dsscomp d1) ! i)) = 0" if "i < 5" for i
    using that fs by (simp add: d1 with_ovls_def zero_dsscomp_def zero_ovl_def zero_cfg_def)
  then have "room_inv mem d1 [] d1 start_pipes"
    using start mh by (auto simp: room_inv_def start_pipes_def d1 with_ovls_def)
  from room_loop.loop [OF this ls p] show "room_inv mem d1 ls1 dev1 ps" by simp
  have "layers_inv d1 [] d1 start_pipes" using start mh by (simp add: layers_inv_def stack_ok_def)
  from stack_loop.loop [OF this ls p] show "layers_inv d1 ls1 dev1 ps" by simp
qed

text \<open>
  What the overlays of the internal display look like when cloning starts: \<open>b\<close> is the first pipe they
  leave alone.  A scaled layer on its own moves from the graphics pipe to the next one.
\<close>

definition internal_frame :: "omap_hwc_device \<Rightarrow> omap_hwc_device \<Rightarrow> bool \<Rightarrow> nat \<Rightarrow> int \<Rightarrow> bool" where
  "internal_frame dg d0 fb n b \<longleftrightarrow>
     n \<le> max (if fb then 1 else 0) (nat (layer_overlays dg)) \<and>
     (b = int n + primary_transform d0 \<or>
      b = int n + 1 \<and> primary_transform d0 = 0 \<and> \<not> use_sgx d0 \<and> 0 < n \<and> n \<le> unat (scaled_layers (counts d0)))"

lemma internal_blitted:
  assumes ok: "dev_ok dev" and d0: "d0 = frame_start mem ls dev" and b: "blitted_frame d0 ls0 ls' d1 ps fb"
    and f: "setup_fb_overlay fb ps d1 = (d2, z)"
  shows "internal_ok (1 + primary_transform d0) (ovls (dsscomp d2)) 1" "z = 1" "num_ovls (dsscomp d2) = 1"
proof -
  note fs = frame_start_fields [OF ok, where mem = mem and ls = ls]
  have fb: "fb" "ps = start_pipes" and n: "nonblit d1 = nonblit (with_ovls 1 d0)" using b by (simp_all add: blitted_frame_def)
  note nf = nonblit_fields [OF n]
  have dss: "ovls (dsscomp d1) = replicate 5 zero_ovl" "num_ovls (dsscomp d1) = 1" "is_valid_format (fb_format d1)"
    "primary_transform d1 = primary_transform d0"
    using nf fs ok by (simp_all add: d0 with_ovls_def zero_dsscomp_def dev_ok_def)
  note sf = setup_fb_fields [OF dss(3) _ f [unfolded fb eqTrueI [OF fb(1)]]]
  have pt: "0 \<le> primary_transform d0" using ok fs(8) by (auto simp: dev_ok_def d0)
  show "z = 1" using sf(4) dss(1) by (simp add: start_pipes_def)
  show "num_ovls (dsscomp d2) = 1" using f fb dss by (auto simp: setup_fb_overlay_def set_ovl_def Let_def split: if_splits)
  show "internal_ok (1 + primary_transform d0) (ovls (dsscomp d2)) 1"
    unfolding internal_ok_def using sf(1,2,3,6) dss pt by (simp add: inj_on_def start_pipes_def zero_ovl_def zero_cfg_def)
qed

lemma length_filter_implies: "list_all (\<lambda>x. P x \<longrightarrow> Q x) xs \<Longrightarrow> length (filter P xs) \<le> length (filter Q xs)"
  by (induction xs) auto

lemma length_filter_plain:
  assumes "map plain ls = map plain ls'" "\<And>l l'. plain l = plain l' \<Longrightarrow> P l = P l'"
  shows "length (filter P ls) = length (filter P ls')"
proof -
  have "P l = P (plain l)" for l using assms(2) [of l "plain l"] by (simp add: plain_def)
  then have "length (filter P l) = length (filter P (map plain l))" for l by (simp add: filter_map comp_def)
  then show ?thesis using assms(1) by metis
qed

lemma gathered_layers:
  "fst (gather_layer_statistics mem ls dev) = map (\<lambda>l. l\<lparr>compositionType := HWC_FRAMEBUFFER\<rparr>) ls"
  "list_all (\<lambda>l. compositionType l = HWC_FRAMEBUFFER) (map (\<lambda>l. l\<lparr>compositionType := HWC_FRAMEBUFFER\<rparr>) ls)"
  by (simp_all add: gather_layer_statistics_def Let_def list_all_iff)

lemma gathered_counts:
  fixes mem :: heap and ls :: "hwc_layer_1_t list"
  defines "ls0 \<equiv> map (\<lambda>l. l\<lparr>compositionType := HWC_FRAMEBUFFER\<rparr>) ls"
  shows "composited_layers (counts (gathered mem ls dev)) = of_nat (length ls0)"
    "possible_overlay_layers (counts (gathered mem ls dev)) = of_nat (length (valid_layers mem dev ls0))"
    "scaled_layers (counts (gathered mem ls dev)) = of_nat (length (filter (\<lambda>l. is_valid_layer mem dev l \<and>
       (needs_scaler mem l \<or> primary_transform dev \<noteq> 0)) ls0))"
    "n_BGR (counts (gathered mem ls dev)) = of_nat (length (filter (\<lambda>l. is_valid_layer mem dev l \<and> is_BGR (mem (handle l))) ls0))"
    "n_RGB (counts (gathered mem ls dev)) =
       of_nat (length (filter (\<lambda>l. is_valid_layer mem dev l \<and> is_RGB (iFormat (mem (handle l)))) ls0))"
    "n_NV12 (counts (gathered mem ls dev)) =
       of_nat (length (filter (\<lambda>l. is_valid_layer mem dev l \<and> hwc_is_NV12 (iFormat (mem (handle l)))) ls0))"
    "n_mem (counts (gathered mem ls dev)) =
       sum_list (map (\<lambda>l. if is_valid_layer mem dev l then mem1d mem (handle l) else 0) ls0)"
proof -
  let ?d = "dev\<lparr>dsscomp := zero_dsscomp\<lparr>dss_sync_id := sync_id dev\<rparr>, sync_id := sync_id dev + 1\<rparr>"
  have "is_valid_layer mem ?d = is_valid_layer mem dev" "primary_transform ?d = primary_transform dev"
    by (simp_all add: fun_eq_iff is_valid_layer_def can_scale_layer_def Let_def)
  note v = this
  have g: "gather_layer_statistics mem ls ?d = (ls0, gathered mem ls dev)"
    by (rule prod_eqI) (simp_all add: gathered_def ls0_def gathered_layers)
  note gc = gather_counts [OF g, unfolded v]
  show "composited_layers (counts (gathered mem ls dev)) = of_nat (length ls0)" using gc(3) by (simp add: ls0_def)
  show "possible_overlay_layers (counts (gathered mem ls dev)) = of_nat (length (valid_layers mem dev ls0))" by (rule gc(4))
  show "scaled_layers (counts (gathered mem ls dev)) = of_nat (length (filter (\<lambda>l. is_valid_layer mem dev l \<and>
       (needs_scaler mem l \<or> primary_transform dev \<noteq> 0)) ls0))" by (rule gc(5))
  show "n_BGR (counts (gathered mem ls dev)) =
       of_nat (length (filter (\<lambda>l. is_valid_layer mem dev l \<and> is_BGR (mem (handle l))) ls0))" by (rule gc(6))
  show "n_RGB (counts (gathered mem ls dev)) =
       of_nat (length (filter (\<lambda>l. is_valid_layer mem dev l \<and> is_RGB (iFormat (mem (handle l)))) ls0))" by (rule gc(7))
  show "n_NV12 (counts (gathered mem ls dev)) =
       of_nat (length (filter (\<lambda>l. is_valid_layer mem dev l \<and> hwc_is_NV12 (iFormat (mem (handle l)))) ls0))" by (rule gc(8))
  show "n_mem (counts (gathered mem ls dev)) =
       sum_list (map (\<lambda>l. if is_valid_layer mem dev l then mem1d mem (handle l) else 0) ls0)" by (rule gc(9))
qed

lemma unat_of_nat_small: "n < 2 ^ 32 \<Longrightarrow> unat (of_nat n :: 32 word) = n"
  by (simp add: unat_of_nat)

text \<open>When every overlay needs a scaler, there are no more of them than the statistics say.\<close>

lemma scaled_overlays_counted:
  assumes ok: "dev_ok dev" and len: "length ls < 2 ^ 32"
    and ls0: "ls0 = map (\<lambda>l. l\<lparr>compositionType := HWC_FRAMEBUFFER\<rparr>) ls"
    and d1: "d1 = with_ovls (ovl_base d0) (d0\<lparr>grgz := g\<rparr>)" "d0 = frame_start mem ls dev"
    and p: "setup_pipes mem ls0 d1 start_pipes = (ls1, dev1, ps)"
    and sc: "list_all (needs_scaler mem) (filter is_ovl ls1)"
  shows "n_ovl ls1 \<le> unat (scaled_layers (counts d0))"
proof -
  note inv = setup_pipes_invs [OF ok gathered_layers(2) [of ls, folded ls0] d1 p]
  note fs = frame_start_fields [OF ok, where mem = mem and ls = ls]
  let ?P = "\<lambda>l. is_valid_layer mem dev l \<and> (needs_scaler mem l \<or> primary_transform dev \<noteq> 0)"
  have "is_valid_layer mem d1 l = is_valid_layer mem dev l" for l
    by (rule valid_layer_plain) (simp_all add: d1 with_ovls_def fs)
  then have "list_all (\<lambda>l. is_ovl l \<longrightarrow> ?P l) ls1" using inv(2) sc by (simp add: room_inv_def list_all_iff)
  then have "n_ovl ls1 \<le> length (filter ?P ls1)" unfolding n_ovl_def by (rule length_filter_implies)
  moreover have "length (filter ?P ls1) = length (filter ?P ls0)"
    by (rule length_filter_plain [OF setup_pipes_plain [OF p]])
       (metis valid_layer_plain needs_scaler_plain)
  moreover have "length (filter ?P ls0) < 2 ^ 32" proof -
    have "length ls0 = length ls" by (simp add: ls0)
    then show ?thesis using length_filter_le [of ?P ls0] len by linarith
  qed
  ultimately have "n_ovl ls1 \<le> length (filter ?P ls0)" "length (filter ?P ls0) < 2 ^ 32" by simp_all
  then show ?thesis using gathered_counts(3) [of mem ls dev] fs(1) by (simp add: d1 ls0 unat_of_nat_small)
qed

lemma internal_overlays:
  assumes ok: "dev_ok dev" and len: "length ls < 2 ^ 32"
    and ls0: "ls0 = map (\<lambda>l. l\<lparr>compositionType := HWC_FRAMEBUFFER\<rparr>) ls"
    and d0: "d0 = frame_start mem ls dev" and o': "overlay_frame mem d0 ls0 ls' d1 ps fb"
    and f: "setup_fb_overlay fb ps d1 = (d2, z)"
  shows "\<exists>b. internal_ok b (ovls (dsscomp d2)) (num_ovls (dsscomp d2)) \<and> z = int (num_ovls (dsscomp d2)) \<and>
    internal_frame (gathered mem ls dev) d0 fb (num_ovls (dsscomp d2)) b"
proof -
  note fs = frame_start_fields [OF ok, where mem = mem and ls = ls]
  from o' obtain g ls1 dev1 where fb: "fb = use_sgx d0"
    and p: "setup_pipes mem ls0 (with_ovls (ovl_base d0) (d0\<lparr>grgz := g\<rparr>)) start_pipes = (ls1, dev1, ps)"
    and nb: "nonblit d1 = nonblit (move_scaled_gfx ps dev1)"
    by (auto simp: overlay_frame_def)
  let ?e = "with_ovls (ovl_base d0) (d0\<lparr>grgz := g\<rparr>)"
  have pt: "primary_transform ?e = primary_transform d0" "primary_transform d0 \<in> {0, 1}" and sgx: "use_sgx ?e = use_sgx d0"
    and fmt: "is_valid_format (fb_format ?e)" and mh: "max_hw_overlays (counts ?e) = max_hw_overlays (counts d0)"
    using ok by (simp_all add: with_ovls_def d0 fs dev_ok_def)
  note inv = setup_pipes_invs [OF ok gathered_layers(2) [of ls, folded ls0] refl d0 p]
  have dev1: "primary_transform dev1 = primary_transform d0" "fb_format dev1 = fb_format d0"
    using inv(1) pt(1) by (auto simp: pipe_inv_def pipes_inv_def with_ovls_def)
  note nf = nonblit_fields [OF nb]
  have room: "num_ovls (dsscomp dev1) \<le> max (if fb then 1 else 0) (nat (layer_overlays (gathered mem ls dev)))"
    using inv(2) unat_layer_overlays [OF ok, of mem ls, folded d0] unfolding room_inv_def mh sgx fb by simp
  show ?thesis
  proof (cases fb)
    case True
    have n: "num_ovls (dsscomp dev1) = Suc (n_ovl ls1)" using inv(1) True fb sgx by (simp add: pipe_inv_def pipes_inv_def)
    have gfx: "\<not> ps_scaled_gfx ps" using inv(1) True fb sgx by (simp add: pipe_inv_def ix_inv_def)
    have d1: "dsscomp d1 = dsscomp dev1" "primary_transform d1 = primary_transform ?e" "fb_format d1 = fb_format d0"
      using nf gfx dev1 pt by (simp_all add: move_scaled_gfx_def)
    have f0: "mgr_ix (cfg (ovls (dsscomp dev1) ! 0)) = 0" using inv(2) by (simp add: room_inv_def)
    have "internal_ok (int (Suc (n_ovl ls1)) + primary_transform ?e) (ovls (dsscomp d2)) (Suc (n_ovl ls1)) \<and>
        z = int (Suc (n_ovl ls1)) \<and> \<not> ps_scaled_gfx ps"
      by (rule internal_fb [OF inv(1) _ _ _ d1(1,2) f0]) (use True fb sgx pt fmt d1(3) f in \<open>simp_all add: with_ovls_def\<close>)
    moreover have "num_ovls (dsscomp d2) = num_ovls (dsscomp d1)"
      using f by (auto simp: setup_fb_overlay_def set_ovl_def Let_def split: if_splits)
    ultimately show ?thesis using room n d1(1) pt True
      by (intro exI [of _ "int (Suc (n_ovl ls1)) + primary_transform ?e"]) (simp add: internal_frame_def)
  next
    case False
    then have sgx0: "\<not> use_sgx ?e" using fb sgx by simp
    have n: "num_ovls (dsscomp dev1) = n_ovl ls1" using inv(1) sgx0 by (simp add: pipe_inv_def pipes_inv_def)
    have zz: "ps_z ps = int (n_ovl ls1)" using inv(1) sgx0 by (simp add: pipe_inv_def pipes_inv_def z_inv_def has_fb_def)
    have d2: "d2 = d1" "z = int (n_ovl ls1)" using f False zz by (simp_all add: setup_fb_overlay_def)
    have ds: "dsscomp d2 = dsscomp (move_scaled_gfx ps dev1)" using nf d2 by simp
    let ?b = "int (n_ovl ls1) + primary_transform ?e + (if ps_scaled_gfx ps then 1 else 0)"
    have i: "internal_ok ?b (ovls (dsscomp d2)) (n_ovl ls1)"
      unfolding ds by (rule internal_no_fb [OF inv(1) sgx0]) (use pt in simp)
    have "internal_frame (gathered mem ls dev) d0 fb (n_ovl ls1) ?b"
    proof (cases "ps_scaled_gfx ps")
      case True
      then have "primary_transform ?e = 0" "0 < n_ovl ls1" "list_all (needs_scaler mem) (filter is_ovl ls1)"
        using inv(1) sgx0 by (auto simp: pipe_inv_def ix_inv_def split: if_splits)
      then show ?thesis using scaled_overlays_counted [OF ok len ls0 refl d0 p] True False room n pt sgx0 sgx
        by (simp add: internal_frame_def)
    next
      case False
      then show ?thesis using room n pt by (simp add: internal_frame_def)
    qed
    then show ?thesis using i d2 ds n by auto
  qed
qed

section \<open>A whole frame\<close>

text \<open>
  The overlays that a prepared device has: \<open>n\<close> for the internal display, then \<open>m\<close> for the external one.
\<close>

definition overlays_ok :: "omap_hwc_device \<Rightarrow> omap_hwc_device \<Rightarrow> nat \<Rightarrow> int \<Rightarrow> nat \<Rightarrow> bool" where
  "overlays_ok dg dev n b m \<longleftrightarrow>
     (let os = ovls (dsscomp dev); dck = (cloning_mode dg = Docking)
      in internal_ok b os n \<and> n + m \<le> 4 \<and> m \<le> (if dck then 1 else n) \<and>
         (0 < m \<longrightarrow> cloning_mode dg \<noteq> Alone \<and>
            (n_protected (counts dg) = 0 \<and> external_overlays dg \<noteq> 0 \<or>
             wanted_overlays dg \<noteq> 0 \<and> wanted_overlays dg \<le> external_overlays dg)) \<and>
         (\<forall>j < m. clone_of j (int n) (if dck then 0 else zorder (cfg (os ! j))) (os ! (n + j))) \<and>
         post2_layers dev = n \<and> (num_ovls (dsscomp dev) = n + m \<or> num_ovls (dsscomp dev) = 0) \<and>
         (ext_ovls dev = int m \<or> ext_ovls dev = external_overlays dg))"

lemma next_transform_docking:
  assumes "dev_ok dg" "ext_enabled (next_transform dg)"
  shows "docking (next_transform dg) \<longleftrightarrow> cloning_mode dg = Docking" "cloning_mode dg \<noteq> Alone"
  using assms by (auto simp: next_transform_def cloning_mode_def dev_ok_def Let_def split: if_splits)

lemma cloned_frame_ok:
  assumes dg: "dev_ok dg" and int: "internal_ok b (ovls (dsscomp d3)) n"
    and n: "num_ovls (dsscomp d3) = n" "post2_layers d3 = n"
    and e: "current (ext d3) = next_transform dg" "ext_ovls d3 = external_overlays dg" "ext_ovls_wanted d3 = wanted_overlays dg"
      "n_protected (counts d3) = n_protected (counts dg)"
    and cl: "clones d3 new d4" "external_ok d3 new"
  shows "overlays_ok dg (finish_prepare (adjust_primary d4)) n b (length new)"
proof -
  let ?d5 = "adjust_primary d4" and ?d6 = "finish_prepare (adjust_primary d4)"
  let ?os = "ovls (dsscomp d4)" and ?os' = "ovls (dsscomp ?d5)" and ?m = "length new"
  have len: "length (ovls (dsscomp d3)) = 5" "n \<le> 4" using int by (simp_all add: internal_ok_def)
  have core: "core d4 = core d3" and num: "num_ovls (dsscomp d4) = n + ?m" and l4: "length ?os = 5"
    using cl(1) n len by (simp_all add: clones_def)
  note cf = core_fields [OF core]
  note af = core_fields [OF adjust_primary_frame(1) [of d4]]
  have m: "n + ?m \<le> 4" "?m \<le> (if docking (next_transform dg) then 1 else n)" "new \<noteq> [] \<Longrightarrow> may_clone d3"
    "\<forall>j < ?m. clone_of j (int n) (if docking (next_transform dg) then 0 else zorder (cfg (ovls (dsscomp d3) ! j))) (new ! j)"
    using cl(2) n e(1) by (auto simp: external_ok_def Let_def)
  have int_nth: "?os ! i = ovls (dsscomp d3) ! i" if "i < n" for i
    using clones_nth [OF cl(1), of i] that n len by simp
  have new_nth: "?os ! (n + j) = new ! j" if "j < ?m" for j
    using clones_nth_append [OF cl(1), of "n + j"] that n len by (simp add: nth_append)
  have same: "ix (cfg (?os' ! i)) = ix (cfg (?os ! i))" "zorder (cfg (?os' ! i)) = zorder (cfg (?os ! i))"
    "mgr_ix (cfg (?os' ! i)) = mgr_ix (cfg (?os ! i))" if "i < 5" for i
    using adjust_primary_nth [of i d4] that l4 by simp_all
  have "internal_ok b ?os' n"
  proof -
    have "inj_on (\<lambda>i. zorder (cfg (?os' ! i))) {..<n} = inj_on (\<lambda>i. zorder (cfg (ovls (dsscomp d3) ! i))) {..<n}"
      "inj_on (\<lambda>i. ix (cfg (?os' ! i))) {..<n} = inj_on (\<lambda>i. ix (cfg (ovls (dsscomp d3) ! i))) {..<n}"
      using len by (auto intro!: inj_on_cong simp: same int_nth)
    then show ?thesis using int len l4 by (simp add: internal_ok_def same int_nth adjust_primary_frame)
  qed
  moreover have "cloning_mode dg \<noteq> Alone \<and> (docking (next_transform dg) \<longleftrightarrow> cloning_mode dg = Docking) \<and>
      (n_protected (counts dg) = 0 \<and> external_overlays dg \<noteq> 0 \<or>
       wanted_overlays dg \<noteq> 0 \<and> wanted_overlays dg \<le> external_overlays dg)" if "new \<noteq> []"
    using m(3) [OF that] next_transform_docking [OF dg] e by (auto simp: may_clone_def)
  note guard = this
  moreover have "clone_of j (int n) (if cloning_mode dg = Docking then 0 else zorder (cfg (?os' ! j))) (?os' ! (n + j))"
    if "j < ?m" for j
  proof -
    have "new \<noteq> []" using that by auto
    with guard have d: "docking (next_transform dg) \<longleftrightarrow> cloning_mode dg = Docking" by blast
    have j: "j < n \<or> docking (next_transform dg)" using m(2) that by (auto split: if_splits)
    have "j < 5" "n + j < 5" using m(1) that by simp_all
    with m(4) that d j show ?thesis by (auto simp: clone_of_def same new_nth int_nth)
  qed
  moreover have "?m \<le> (if cloning_mode dg = Docking then 1 else n)"
    using guard m(2) by (cases "new = []") auto
  moreover have "num_ovls (dsscomp ?d6) = n + ?m \<or> num_ovls (dsscomp ?d6) = 0" using num by (simp add: adjust_primary_frame)
  moreover have "ext_ovls ?d6 = int ?m \<or> ext_ovls ?d6 = external_overlays dg"
    using num n cf af e by (simp add: adjust_primary_frame)
  moreover have "post2_layers ?d6 = n" using n cf af by simp
  ultimately show ?thesis using m(1) by (simp add: overlays_ok_def Let_def)
qed

text \<open>
  Every frame ends in such a device; \<open>dg\<close> is the device with the statistics of the frame, \<open>d0\<close> the one
  the loop over the layers starts from.
\<close>

lemma setup_fb_frame:
  "setup_fb_overlay fb ps d1 = (d2, z) \<Longrightarrow> ext d2 = ext d1 \<and> ext_ovls d2 = ext_ovls d1 \<and> ext_ovls_wanted d2 = ext_ovls_wanted d1 \<and>
     counts d2 = counts d1 \<and> last_ext_ovls d2 = last_ext_ovls d1 \<and> last_int_ovls d2 = last_int_ovls d1 \<and>
     primary_transform d2 = primary_transform d1 \<and> fb_format d2 = fb_format d1 \<and> length (buffers d2) = length (buffers d1) \<and>
     use_sgx d2 = use_sgx d1"
  by (auto simp: setup_fb_overlay_def set_ovl_def Let_def split: if_splits)

lemma compose_nonblit:
  assumes "blitted_frame d0 ls0 ls' d1 ps fb \<or> overlay_frame mem d0 ls0 ls' d1 ps fb"
    and "\<And>g ls1 dev1 ps. setup_pipes mem ls0 (with_ovls (ovl_base d0) (d0\<lparr>grgz := g\<rparr>)) start_pipes = (ls1, dev1, ps) \<Longrightarrow>
       pipes_inv (with_ovls (ovl_base d0) (d0\<lparr>grgz := g\<rparr>)) ls1 dev1 ps"
    and "length (buffers d0) = 32"
  shows "ext d1 = ext d0 \<and> ext_ovls d1 = ext_ovls d0 \<and> ext_ovls_wanted d1 = ext_ovls_wanted d0 \<and>
     counts d1 = counts d0 \<and> last_ext_ovls d1 = last_ext_ovls d0 \<and> last_int_ovls d1 = last_int_ovls d0 \<and>
     primary_transform d1 = primary_transform d0 \<and> fb_format d1 = fb_format d0 \<and> length (buffers d1) = 32"
proof -
  from assms(1) consider "nonblit d1 = nonblit (with_ovls 1 d0)" "length (buffers d1) = length (buffers d0)"
    | g ls1 dev1 where "setup_pipes mem ls0 (with_ovls (ovl_base d0) (d0\<lparr>grgz := g\<rparr>)) start_pipes = (ls1, dev1, ps)"
      "nonblit d1 = nonblit (move_scaled_gfx ps dev1)" "length (buffers d1) = length (buffers dev1)"
    by (auto simp: blitted_frame_def overlay_frame_def)
  then show ?thesis
  proof cases
    case 1
    then show ?thesis using nonblit_fields [OF 1(1)] assms(3) by (simp add: with_ovls_def)
  next
    case 2
    obtain bufs d where "dev1 = (with_ovls (ovl_base d0) (d0\<lparr>grgz := g\<rparr>))\<lparr>buffers := bufs, dsscomp := d\<rparr>"
      "length (buffers dev1) = 32"
      using assms(2) [OF 2(1)] by (auto simp: pipes_inv_def)
    then show ?thesis using nonblit_fields [OF 2(2)] 2(3) by (auto simp: move_scaled_gfx_def set_ovl_def with_ovls_def)
  qed
qed

lemma prepare_steps:
  assumes "hwc_prepare mem env (lst # rest) dev = Inr (displays', dev')"
    and ls: "ls = (case lst of None \<Rightarrow> [] | Some c \<Rightarrow> hwLayers c)"
  obtains ls' d1 ps fb d2 z where
    "compose_frame mem env (case lst of None \<Rightarrow> False | Some c \<Rightarrow> extended_api c)
       (map_option (\<lambda>_. map (\<lambda>l. l\<lparr>compositionType := HWC_FRAMEBUFFER\<rparr>) ls) lst) (frame_start mem ls dev) = Inr (ls', d1, ps, fb)"
    "setup_fb_overlay fb ps d1 = (d2, z)"
    "dev' = finish_prepare (adjust_primary (clone_overlays env ps z (d2\<lparr>post2_layers := num_ovls (dsscomp d2)\<rparr>)))"
    "displays' = map_option (\<lambda>c. c\<lparr>hwLayers := ls'\<rparr>) lst # rest"
proof -
  let ?d = "dev\<lparr>dsscomp := zero_dsscomp\<lparr>dss_sync_id := sync_id dev\<rparr>, sync_id := sync_id dev + 1\<rparr>"
  have l: "(case map_option hwLayers lst of None \<Rightarrow> [] | Some ls \<Rightarrow> ls) = ls" by (cases lst) (simp_all add: ls)
  have g: "gather_layer_statistics mem ls ?d = (map (\<lambda>l. l\<lparr>compositionType := HWC_FRAMEBUFFER\<rparr>) ls, gathered mem ls dev)"
    by (rule prod_eqI) (simp_all add: gathered_def gathered_layers)
  have "map_option (\<lambda>_. map (\<lambda>l. l\<lparr>compositionType := HWC_FRAMEBUFFER\<rparr>) ls) (map_option hwLayers lst) =
      map_option (\<lambda>_. map (\<lambda>l. l\<lparr>compositionType := HWC_FRAMEBUFFER\<rparr>) ls) lst"
    by (simp add: option.map_comp comp_def)
  note m = this
  from assms(1) obtain ls' d1 ps fb where
    c: "compose_frame mem env (case lst of None \<Rightarrow> False | Some c \<Rightarrow> extended_api c)
       (map_option (\<lambda>_. map (\<lambda>l. l\<lparr>compositionType := HWC_FRAMEBUFFER\<rparr>) ls) lst) (frame_start mem ls dev) = Inr (ls', d1, ps, fb)"
    and r: "(case setup_fb_overlay fb ps d1 of (dev, z) \<Rightarrow>
       Inr (map_option (\<lambda>c. c\<lparr>hwLayers := ls'\<rparr>) lst # rest,
            finish_prepare (adjust_primary (clone_overlays env ps z (dev\<lparr>post2_layers := num_ovls (dsscomp dev)\<rparr>))))) =
       (Inr (displays', dev') :: rgz_fault + hwc_display_contents option list \<times> omap_hwc_device)"
    unfolding hwc_prepare_def list.case Let_def l g prod.case frame_start_def [symmetric] m
    by (auto simp: andThen_eq_Inr)
  obtain d2 z where f: "setup_fb_overlay fb ps d1 = (d2, z)" by fastforce
  show thesis by (rule that [OF c f]) (use r f in simp_all)
qed

lemma map_option_layers:
  "ls = (case lst of None \<Rightarrow> [] | Some c \<Rightarrow> hwLayers c) \<Longrightarrow>
     map f ls = (case map_option (\<lambda>_. map f ls) lst of None \<Rightarrow> [] | Some l \<Rightarrow> l)"
  by (cases lst) simp_all

lemma prepare_frame:
  assumes p: "hwc_prepare mem env (lst # rest) dev = Inr (displays', dev')" and ok: "dev_ok dev"
    and ls: "ls = (case lst of None \<Rightarrow> [] | Some c \<Rightarrow> hwLayers c)" and len: "length ls < 2 ^ 32"
  obtains n b m fb where "overlays_ok (gathered mem ls dev) dev' n b m"
    "internal_frame (gathered mem ls dev) (frame_start mem ls dev) fb n b"
    "last_ext_ovls dev' = last_ext_ovls dev" "last_int_ovls dev' = last_int_ovls dev"
    "primary_transform dev' = primary_transform dev" "fb_format dev' = fb_format dev" "length (buffers dev') = 32"
    "plugs (ext dev') = plugs (ext dev)"
proof -
  let ?dg = "gathered mem ls dev" and ?d0 = "frame_start mem ls dev" and ?ls0 = "map (\<lambda>l. l\<lparr>compositionType := HWC_FRAMEBUFFER\<rparr>) ls"
  note fs = frame_start_fields [OF ok, where mem = mem and ls = ls]
  from prepare_steps [OF p ls] obtain ls' d1 ps fb d2 z where
    c: "compose_frame mem env (case lst of None \<Rightarrow> False | Some c \<Rightarrow> extended_api c) (map_option (\<lambda>_. ?ls0) lst) ?d0 =
      Inr (ls', d1, ps, fb)"
    and f: "setup_fb_overlay fb ps d1 = (d2, z)"
    and d': "dev' = finish_prepare (adjust_primary (clone_overlays env ps z (d2\<lparr>post2_layers := num_ovls (dsscomp d2)\<rparr>)))"
    by metis
  have inv: "pipes_inv (with_ovls (ovl_base ?d0) (?d0\<lparr>grgz := g\<rparr>)) ls1 dev1 ps1"
    if "setup_pipes mem ?ls0 (with_ovls (ovl_base ?d0) (?d0\<lparr>grgz := g\<rparr>)) start_pipes = (ls1, dev1, ps1)" for g ls1 dev1 ps1
    using setup_pipes_invs(1) [OF ok gathered_layers(2) refl refl that] by (simp add: pipe_inv_def)
  have cf: "blitted_frame ?d0 ?ls0 ls' d1 ps fb \<or> overlay_frame mem ?d0 ?ls0 ls' d1 ps fb"
    by (rule compose_frame_cases [OF c map_option_layers [OF ls]])
       (use inv in \<open>fastforce simp: pipes_inv_def with_ovls_def\<close>)
  have "length (buffers ?d0) = 32" using ok fs by (simp add: dev_ok_def)
  note cn = compose_nonblit [OF cf inv this] and sf = setup_fb_frame [OF f]
  let ?n = "num_ovls (dsscomp d2)"
  obtain b where b: "internal_ok b (ovls (dsscomp d2)) ?n" "z = int ?n" "internal_frame ?dg ?d0 fb ?n b"
  proof (cases "blitted_frame ?d0 ?ls0 ls' d1 ps fb")
    case True
    note ib = internal_blitted [OF ok refl True f]
    have "fb" using True by (simp add: blitted_frame_def)
    then have "internal_frame ?dg ?d0 fb 1 (1 + primary_transform ?d0)" by (simp add: internal_frame_def)
    with ib show ?thesis by (intro that [of "1 + primary_transform ?d0"]) simp_all
  next
    case False
    with cf have o': "overlay_frame mem ?d0 ?ls0 ls' d1 ps fb" by simp
    from internal_overlays [OF ok len refl refl o' f] that show ?thesis by blast
  qed
  let ?d3 = "d2\<lparr>post2_layers := ?n\<rparr>"
  have "length (ovls (dsscomp ?d3)) = 5" "post2_layers ?d3 \<le> 4" "z = int (post2_layers ?d3)"
    using b by (simp_all add: internal_ok_def)
  from clone_overlays_clones [OF this(1) _ this(2,3), of env ps] obtain new where
    new: "clones ?d3 new (clone_overlays env ps z ?d3)" "external_ok ?d3 new" by auto
  have fo: "overlays_ok ?dg dev' ?n b (length new)"
    unfolding d' by (rule cloned_frame_ok [OF _ _ _ _ _ _ _ _ new]) (use ok b cn sf fs in simp_all)
  have core: "core (adjust_primary (clone_overlays env ps z ?d3)) = core ?d3"
    using new(1) by (simp add: adjust_primary_frame clones_def)
  have pl: "plugs (ext dev') = plugs (ext dev)"
  proof -
    have "plugs (ext dev') = plugs (ext (clone_overlays env ps z ?d3))"
      unfolding d' by (simp add: plugs_def adjust_primary_frame)
    then show ?thesis using clone_overlays_plugs [of env ps z ?d3] cn sf fs by simp
  qed
  show thesis
    by (rule that [OF fo b(3) _ _ _ _ _ pl]) (use core_fields [OF core] cn sf fs in \<open>simp_all add: d'\<close>)
qed

end
