(* ===== verification/Hwc_Set.thy ===== *)
theory Hwc_Set
  imports Hwc_Frame
begin

text \<open>
  \<open>hwc_set\<close> of the hardware composer (\<^verbatim>\<open>hwc/hwc.c\<close>), which shows a prepared frame, and the part of the
  kernel's framebuffer driver that reads what it posts (\<open>ProcessFlipV2\<close> in
  \<^verbatim>\<open>imgtec/.../omaplfb_displayclass.c\<close>): which memory each overlay shows.

  A null pointer the code follows and an access beyond the array of buffers are faults.  What the
  system answers is in \<open>set_env\<close>: whether \<open>eglSwapBuffers\<close> succeeds and what \<open>Post2\<close> returns;
  the allocations of \<open>ProcessFlipV2\<close> are taken to succeed.
\<close>

datatype hwc_fault = Null_display nat | Null_procs | Buffers_overrun

record set_env =
  egl_ok :: bool
  post2_result :: int

section \<open>Showing a frame\<close>

definition reset_screen :: "omap_hwc_device \<Rightarrow> omap_hwc_device" where
  "reset_screen dev =
     (if first_set dev
      then dev\<lparr>first_set := False, calls := calls dev @ [Setup_dispc, Fb_blank True, Fb_blank False]\<rparr>
      else dev)"

text \<open>The file descriptors of a layer: the acquire fence is closed, both are reset.\<close>

fun check_fence :: "int \<times> int \<Rightarrow> (int \<times> int) \<times> hwc_call list" where
  "check_fence (acquire, release) =
     ((if 0 \<le> acquire then -1 else acquire, if 0 \<le> release then -1 else release),
      if 0 \<le> acquire then [Close_fence acquire] else [])"

fun check_sync_fds :: "nat \<Rightarrow> hwc_display_contents option list \<Rightarrow> omap_hwc_device \<Rightarrow>
    hwc_fault + hwc_display_contents option list \<times> omap_hwc_device" where
  "check_sync_fds i [] dev = Inr ([], dev)"
| "check_sync_fds i (None # ds) dev = Inl (Null_display i)"
| "check_sync_fds i (Some c # ds) dev =
     (let c = c\<lparr>retireFenceFd := (if 0 \<le> retireFenceFd c then -1 else retireFenceFd c)\<rparr>;
          fs = map check_fence (fences c);
          dev = dev\<lparr>calls := calls dev @ concat (map snd fs)\<rparr>
      in andThen (check_sync_fds (Suc i) ds dev) (\<lambda>(ds, dev).
           Inr (Some (c\<lparr>fences := map fst fs\<rparr>) # ds, dev)))"

text \<open>The loop that removes the empty entry at the front of the buffers.\<close>

function shift_buffers :: "nat \<Rightarrow> nat \<Rightarrow> nat list \<Rightarrow> hwc_fault + nat list" where
  "shift_buffers i n bufs =
     (if i < n
      then (if Suc i < length bufs then shift_buffers (Suc i) n (bufs[i := bufs ! Suc i]) else Inl Buffers_overrun)
      else Inr bufs)"
  by pat_completeness auto
termination
  by (relation "measure (\<lambda>(i, n, bufs). n - i)") auto

declare shift_buffers.simps [simp del]

text \<open>The overlay indexes: overlay \<open>j\<close> of the layers addresses buffer \<open>j\<close>.\<close>

definition renumber_overlays :: "nat \<Rightarrow> dss2_ovl_info list \<Rightarrow> dss2_ovl_info list" where
  "renumber_overlays n os =
     map (\<lambda>j. if 1 \<le> j \<and> j < n then (os ! j)\<lparr>ba := int j\<rparr> else os ! j) [0..<length os]"

definition fix_buffers :: "omap_hwc_device \<Rightarrow> hwc_fault + omap_hwc_device \<times> nat" where
  "fix_buffers dev =
     (if post2_blit_buffers dev = 0 then Inr (dev, post2_layers dev)
      else
        (let nbufs = post2_layers dev + (post2_blit_buffers dev - 1)
         in if post2_layers dev \<le> 1 then Inr (dev, nbufs)
            else andThen (shift_buffers 0 nbufs (buffers dev)) (\<lambda>bufs.
                   Inr (dev\<lparr>buffers := bufs,
                            dsscomp := (dsscomp dev)\<lparr>ovls := renumber_overlays (post2_layers dev) (ovls (dsscomp dev))\<rparr>\<rparr>,
                        nbufs))))"

text \<open>
  The part of \<open>hwc_set\<close> that runs with a display and a surface: the swap of the GPU's buffers, the signal
  to the event thread, the post.  The result has the error and whether the swap failed, in which
  case the rest of \<open>hwc_set\<close> is skipped.
\<close>

definition swap_buffers :: "omap_hwc_device \<Rightarrow> omap_hwc_device" where
  "swap_buffers dev = (if use_sgx dev then dev\<lparr>calls := calls dev @ [Egl_swap_buffers]\<rparr> else dev)"

definition signal_post :: "omap_hwc_device \<Rightarrow> omap_hwc_device" where
  "signal_post dev = dev\<lparr>calls := calls dev @ [Signal_event_thread],
     force_sgx := (if 0 < force_sgx dev then force_sgx dev - 1 else force_sgx dev)\<rparr>"

definition call_post2 :: "nat \<Rightarrow> omap_hwc_device \<Rightarrow> omap_hwc_device" where
  "call_post2 nbufs dev = dev\<lparr>calls := calls dev @ [Post2 (take nbufs (buffers dev)) (dsscomp dev) (blit_flags dev)
     (take (blit_num dev) (blit_ops dev))]\<rparr>"

definition post_frame :: "set_env \<Rightarrow> omap_hwc_device \<Rightarrow> hwc_fault + omap_hwc_device \<times> int \<times> bool" where
  "post_frame env dev =
     (let dev = swap_buffers dev
      in if use_sgx dev \<and> \<not> egl_ok env then Inr (dev, -1, True)
         else andThen (fix_buffers (signal_post dev)) (\<lambda>(dev, nbufs).
                Inr (call_post2 nbufs dev, post2_result env, False)))"

text \<open>Whether the client is asked for another frame.\<close>

definition wants_invalidate :: "omap_hwc_device \<Rightarrow> bool" where
  "wants_invalidate dev \<longleftrightarrow> ext_ovls_wanted dev \<noteq> 0 \<and> ext_ovls dev < ext_ovls_wanted dev \<and>
     (n_protected (counts dev) \<noteq> 0 \<or> ext_ovls dev = 0)"

definition finish_set :: "bool \<Rightarrow> int \<Rightarrow> hwc_display_contents option list \<times> omap_hwc_device \<Rightarrow>
    hwc_fault + hwc_display_contents option list \<times> omap_hwc_device \<times> int" where
  "finish_set invalidate err r =
     (case r of (displays, dev) \<Rightarrow>
        if \<not> invalidate then Inr (displays, dev, err)
        else if procs dev then Inr (displays, dev\<lparr>calls := calls dev @ [Invalidate]\<rparr>, err)
        else Inl Null_procs)"

definition hwc_set :: "set_env \<Rightarrow> hwc_display_contents option list \<Rightarrow> omap_hwc_device \<Rightarrow>
    hwc_fault + hwc_display_contents option list \<times> omap_hwc_device \<times> int" where
  "hwc_set env displays dev =
     (case displays of
        [] \<Rightarrow> Inr (displays, dev, 0)
      | lst # rest \<Rightarrow>
          (let dev = reset_screen dev; invalidate = wants_invalidate dev
           in andThen (if (case lst of None \<Rightarrow> False | Some c \<Rightarrow> dpy_and_sur c) then post_frame env dev
                       else Inr (dev, 0, False)) (\<lambda>(dev, err, failed).
              andThen (if failed then Inr (displays, dev)
                       else check_sync_fds 0 displays
                              (dev\<lparr>last_ext_ovls := ext_ovls dev, last_int_ovls := int (post2_layers dev)\<rparr>))
                (finish_set invalidate err))))"

section \<open>The framebuffer driver\<close>

text \<open>
  What the driver finds for an overlay: nothing, its own framebuffer for blits, or the memory of a
  posted buffer.  \<open>asMemInfo\<close> has five entries.
\<close>

datatype flip_mem = No_mem | Blit_fb | Buffer nat

fun fill_meminfos :: "nat list \<Rightarrow> nat \<Rightarrow> nat \<Rightarrow> flip_mem list \<Rightarrow> flip_mem list \<times> nat" where
  "fill_meminfos [] k num ms = (ms, k)"
| "fill_meminfos (h # hs) k num ms =
     (if k < 5 \<and> k < num then fill_meminfos hs (Suc k) num (ms[k := Buffer h]) else (ms, k))"

definition overlay_memory :: "flip_mem list \<Rightarrow> nat \<Rightarrow> dss2_ovl_info \<Rightarrow> flip_mem" where
  "overlay_memory ms k o' =
     (if addressing o' \<noteq> OMAP_DSS_BUFADDR_LAYER_IX \<or> int k \<le> ba o' then No_mem else ms ! nat (ba o'))"

text \<open>
  The memory of every overlay of a post; \<open>None\<close> is a post the driver refuses.
\<close>

definition ProcessFlipV2 :: "nat list \<Rightarrow> dsscomp_setup_dispc_data \<Rightarrow> bool \<Rightarrow> rgz_blt_entry list \<Rightarrow> flip_mem list option" where
  "ProcessFlipV2 handles d use_blt_fb blts =
     (if \<not> use_blt_fb \<and> blts \<noteq> [] then None
      else if num_ovls d = 0 \<or> handles = [] then None
      else
        (let ms = replicate 5 No_mem; ms = (if use_blt_fb then ms[0 := Blit_fb] else ms);
             (ms, k) = fill_meminfos handles (if use_blt_fb then 1 else 0) (num_ovls d) ms
         in Some (map (overlay_memory ms k) (take (num_ovls d) (ovls d)))))"

end
