(* ===== verification/Cnumber.thy ===== *)
theory Cnumber
  imports Prelude
begin

text \<open>
  The conversions of libc from text to numbers that the sources use: \<open>atoi\<close>, \<open>strtoull\<close> with base 0
  and the conversion \<open>%d\<close> of \<open>sscanf\<close>.  A text that denotes a number outside the range of \<open>int\<close> has no
  defined result in C; the model returns the number.
\<close>

definition is_space :: "char \<Rightarrow> bool" where
  "is_space c \<longleftrightarrow> (let n = of_char c :: nat in n = 32 \<or> 9 \<le> n \<and> n \<le> 13)"

definition is_digit :: "char \<Rightarrow> bool" where
  "is_digit c \<longleftrightarrow> (let n = of_char c :: nat in 48 \<le> n \<and> n \<le> 57)"

text \<open>The value of a digit in a base up to sixteen, if it is one.\<close>

definition digit_value :: "nat \<Rightarrow> char \<Rightarrow> nat option" where
  "digit_value base c =
     (let n = of_char c;
          v = (if 48 \<le> n \<and> n \<le> 57 then n - 48
               else if 97 \<le> n \<and> n \<le> 102 then n - 87
               else if 65 \<le> n \<and> n \<le> 70 then n - 55 else base)
      in if v < base then Some v else None)"

fun read_digits :: "nat \<Rightarrow> string \<Rightarrow> nat \<Rightarrow> nat" where
  "read_digits base [] acc = acc"
| "read_digits base (c # cs) acc =
     (case digit_value base c of None \<Rightarrow> acc | Some v \<Rightarrow> read_digits base cs (base * acc + v))"

definition read_sign :: "string \<Rightarrow> bool \<times> string" where
  "read_sign s = (case s of
     [] \<Rightarrow> (False, s)
   | c # cs \<Rightarrow> if c = CHR ''-'' then (True, cs) else if c = CHR ''+'' then (False, cs) else (False, s))"

definition atoi :: "string \<Rightarrow> int" where
  "atoi s = (case read_sign (dropWhile is_space s) of
     (neg, ds) \<Rightarrow> (let v = int (read_digits 10 ds 0) in if neg then - v else v))"

text \<open>Base 0: the prefix chooses the base.  The result saturates; a sign negates it modulo 2 to the 64.\<close>

definition strtoull :: "string \<Rightarrow> 64 word" where
  "strtoull s = (case read_sign (dropWhile is_space s) of
     (neg, ds) \<Rightarrow>
       (let (base, ds) =
              (if take 2 ds \<in> {''0x'', ''0X''} \<and> (case drop 2 ds of [] \<Rightarrow> False | c # _ \<Rightarrow> digit_value 16 c \<noteq> None)
               then (16, drop 2 ds) else if take 1 ds = ''0'' then (8, ds) else (10, ds));
            v = read_digits base ds 0;
            w = (if v < 2 ^ 64 then of_nat v else -1)
        in if neg \<and> v < 2 ^ 64 then - w else w))"

text \<open>\<open>%d\<close> reads a number and returns the rest of the text; \<open>None\<close> is a matching failure.\<close>

definition scan_int :: "string \<Rightarrow> (int \<times> string) option" where
  "scan_int s = (case read_sign (dropWhile is_space s) of
     (neg, ds) \<Rightarrow>
       if ds = [] \<or> \<not> is_digit (hd ds) then None
       else let v = int (read_digits 10 (takeWhile is_digit ds) 0)
            in Some (if neg then - v else v, dropWhile is_digit ds))"

section \<open>Reading what was printed\<close>

lemma digit_value_print: "d < 10 \<Longrightarrow> digit_value 10 (char_of (48 + d)) = Some d"
  by (simp add: digit_value_def Let_def of_char_of)

lemma is_digit_print: "d < 10 \<Longrightarrow> is_digit (char_of (48 + d :: nat))"
  by (simp add: is_digit_def Let_def of_char_of)

lemma print_nat_digits: "list_all is_digit (print_nat n)"
  by (induction n rule: print_nat.induct) (subst print_nat.simps, auto simp: is_digit_print)

lemma print_nat_ne: "print_nat n \<noteq> []"
  by (subst print_nat.simps) simp

lemma read_digits_append:
  assumes "list_all is_digit ds"
  shows "read_digits 10 (ds @ es) acc = read_digits 10 es (read_digits 10 ds acc)"
  using assms
proof (induction ds arbitrary: acc)
  case (Cons c cs)
  have "digit_value 10 c = Some (of_char c - 48)"
    using Cons.prems by (auto simp: digit_value_def is_digit_def Let_def)
  then show ?case using Cons by simp
qed simp

lemma read_print_nat: "read_digits 10 (print_nat n) 0 = n"
proof (induction n rule: print_nat.induct)
  case (1 n)
  show ?case
  proof (cases "n < 10")
    case True
    then show ?thesis by (subst print_nat.simps) (simp add: digit_value_print)
  next
    case False
    then have "read_digits 10 (print_nat (n div 10) @ [char_of (48 + n mod 10)]) 0 = n"
      using 1 by (simp add: read_digits_append print_nat_digits digit_value_print)
    then show ?thesis using False by (subst print_nat.simps) simp
  qed
qed

lemma digit_not_space: "is_digit c \<Longrightarrow> \<not> is_space c \<and> c \<noteq> CHR ''-'' \<and> c \<noteq> CHR ''+'' \<and> c \<noteq> NUL"
  by (auto simp: is_digit_def is_space_def Let_def)

lemma atoi_print: "atoi (print_nat n) = int n"
proof -
  obtain c cs where p: "print_nat n = c # cs" using print_nat_ne [of n] by (cases "print_nat n") auto
  have "is_digit c" using print_nat_digits [of n] p by simp
  then have "dropWhile is_space (print_nat n) = print_nat n" "read_sign (print_nat n) = (False, print_nat n)"
    using digit_not_space [of c] by (simp_all add: p read_sign_def)
  then show ?thesis by (simp add: atoi_def read_print_nat)
qed

lemma print_nat_no_NUL: "NUL \<notin> set (print_nat n)"
  using print_nat_digits [of n] digit_not_space by (auto simp: list_all_iff)

end
