(* ===== verification/Hwc_Hotplug.thy ===== *)
theory Hwc_Hotplug
  imports Hwc_Set Cnumber
begin

text \<open>
  The hardware composer between frames (\<^verbatim>\<open>hwc/hwc.c\<close>): plugging a screen in and out, the event thread
  with its idle timer, the small entry points, and opening the device.

  The event thread and the frames work on the same device under a lock; \<open>handle_hotplug\<close> and the idle
  timer are each one step here.  What the system answers is in \<open>hot_env\<close>: the system properties, the
  display query for the screen and for the primary display, and the two buffers the memory manager
  allocates.
\<close>

record hot_env =
  hot_query :: "dsscomp_display_info option"
  primary_query :: "dsscomp_display_info option"
  property :: "string \<Rightarrow> string option"
  ion_buffers :: "nat option \<times> nat option"

definition property_get :: "hot_env \<Rightarrow> string \<Rightarrow> string \<Rightarrow> string" where
  "property_get env key dflt = (case property env key of None \<Rightarrow> dflt | Some v \<Rightarrow> if v = '''' then dflt else v)"

section \<open>Buffers for a rotated copy of the framebuffer\<close>

definition free_tiler2d_buffers :: "omap_hwc_device \<Rightarrow> omap_hwc_device" where
  "free_tiler2d_buffers dev =
     dev\<lparr>ion_handles := (0, 0), calls := calls dev @ [Ion_free (fst (ion_handles dev)), Ion_free (snd (ion_handles dev))]\<rparr>"

definition allocate_tiler2d_buffers :: "hot_env \<Rightarrow> omap_hwc_device \<Rightarrow> omap_hwc_device \<times> int" where
  "allocate_tiler2d_buffers env dev =
     (if ion_fd dev < 0 then (dev, -1)
      else if fst (ion_handles dev) \<noteq> 0 \<or> snd (ion_handles dev) \<noteq> 0 then (dev, 0)
      else
        (let alloc = (\<lambda>dev. dev\<lparr>calls := calls dev @ [Ion_alloc (fb_width dev) (fb_height dev)]\<rparr>);
             dev = alloc dev
         in case fst (ion_buffers env) of
              None \<Rightarrow> (free_tiler2d_buffers dev, -1)
            | Some a \<Rightarrow>
                (let dev = alloc (dev\<lparr>ion_handles := (a, snd (ion_handles dev))\<rparr>)
                 in case snd (ion_buffers env) of
                      None \<Rightarrow> (free_tiler2d_buffers dev, -1)
                    | Some b \<Rightarrow> (dev\<lparr>ion_handles := (a, b)\<rparr>, 0))))"

section \<open>Plugging a screen in and out\<close>

text \<open>The primary display is the HDMI screen itself.\<close>

definition hotplug_primary :: "hot_env \<Rightarrow> omap_hwc_device \<Rightarrow> omap_hwc_device" where
  "hotplug_primary env dev =
     (if hdmi_state (ext dev) then
        (let (dev, _) = set_best_hdmi_mode (hot_query env) (word_of_int (fb_width dev)) (word_of_int (fb_height dev))
                          (lcd_xpy (ext dev)) dev;
             dev = set_primary_display_transform_matrix (primary_query env) dev;
             dev = dev\<lparr>calls := calls dev @ [Fb_blank False]\<rparr>
         in if procs dev then dev\<lparr>calls := calls dev @ [Invalidate]\<rparr> else dev)
      else dev\<lparr>ext := (ext dev)\<lparr>last_mode := 0\<rparr>\<rparr>)"

definition property_transform :: "string \<Rightarrow> ext_transform_t \<Rightarrow> ext_transform_t" where
  "property_transform v t = t\<lparr>ext_rotation := atoi v mod 4, hflip := bit (atoi v) 2\<rparr>"

text \<open>The transforms the properties allow; a forced dock restricts to docking without a transform.\<close>

definition plug_settings :: "hot_env \<Rightarrow> dsscomp_display_info \<Rightarrow> omap_hwc_ext \<Rightarrow> omap_hwc_ext" where
  "plug_settings env fbd e =
     (let flag = (\<lambda>key. atoi (property_get env key ''1'') > 0);
          e = e\<lparr>dock := (dock e)\<lparr>ext_enabled := flag ''persist.hwc.docking.enabled''\<rparr>,
                ext_mirror := (ext_mirror e)\<lparr>ext_enabled := flag ''persist.hwc.mirroring.enabled''\<rparr>,
                avoid_mode_change := flag ''persist.hwc.avoid_mode_change''\<rparr>;
          e = e\<lparr>dock := (property_transform (property_get env ''persist.hwc.docking.transform'' ''0'') (dock e))\<lparr>docking := True\<rparr>,
                ext_mirror := (property_transform (property_get env ''persist.hwc.mirroring.transform''
                                 (if x_res fbd < y_res fbd then ''3'' else ''0'')) (ext_mirror e))\<lparr>docking := False\<rparr>\<rparr>
      in if force_dock e
         then e\<lparr>ext_mirror := (ext_mirror e)\<lparr>ext_enabled := False\<rparr>,
                dock := (dock e)\<lparr>ext_rotation := 0, hflip := False\<rparr>\<rparr>
         else e)"

definition plug_in :: "hot_env \<Rightarrow> omap_hwc_device \<Rightarrow> omap_hwc_device" where
  "plug_in env dev =
     (let dev = dev\<lparr>ext := plug_settings env (fb_dis dev) (ext dev)\<rparr>;
          dev = (if force_dock (ext dev) then dev\<lparr>calls := calls dev @ [Load_dock_image]\<rparr> else dev);
          dev = (if \<not> ext_enabled (ext_mirror (ext dev)) then dev
                 else
                   (let dev = dev\<lparr>ext := (ext dev)\<lparr>current := ext_mirror (ext dev), mirror_mode := 0\<rparr>\<rparr>
                    in case setup_mirroring (hot_query env) dev of (dev, r) \<Rightarrow>
                         if r = 0
                         then dev\<lparr>ext := (ext dev)\<lparr>mirror_mode := last_mode (ext dev)\<rparr>, calls := calls dev @ [Hdmi_fb_unblank]\<rparr>
                         else dev\<lparr>ext := (ext dev)\<lparr>ext_mirror := (ext_mirror (ext dev))\<lparr>ext_enabled := False\<rparr>\<rparr>\<rparr>))
      in if ext_rotation (ext_mirror (ext dev)) \<noteq> 0 \<and> fbmem (limits dev) \<noteq> DSSCOMP_FBMEM_TILER2D
         then fst (allocate_tiler2d_buffers env dev) else dev)"

definition plug_out :: "omap_hwc_device \<Rightarrow> omap_hwc_device" where
  "plug_out dev =
     (let dev = dev\<lparr>ext := (ext dev)\<lparr>last_mode := 0\<rparr>\<rparr>
      in if ext_rotation (ext_mirror (ext dev)) \<noteq> 0 \<and> fbmem (limits dev) \<noteq> DSSCOMP_FBMEM_TILER2D
         then free_tiler2d_buffers dev else dev)"

definition handle_hotplug :: "hot_env \<Rightarrow> omap_hwc_device \<Rightarrow> omap_hwc_device" where
  "handle_hotplug env dev =
     (if on_tv dev then hotplug_primary env dev
      else
        (let dev = dev\<lparr>ext := (ext dev)\<lparr>dock := (dock (ext dev))\<lparr>ext_enabled := False\<rparr>,
                                        ext_mirror := (ext_mirror (ext dev))\<lparr>ext_enabled := False\<rparr>\<rparr>\<rparr>;
             dev = (if hdmi_state (ext dev) then plug_in env dev else plug_out dev)
         in if procs dev then dev\<lparr>calls := calls dev @ [Invalidate]\<rparr> else dev))"

section \<open>Kernel events\<close>

text \<open>
  One field of the message, then the loop over the fields.  \<open>s\<close> is the rest of the buffer and \<open>pos\<close> its
  offset; the buffer is longer than the message and ends in two zero bytes.
\<close>

definition after_prefix :: "string \<Rightarrow> string \<Rightarrow> string option" where
  "after_prefix key t = (if strncmp0 t key (length key) then Some (drop (length key) t) else None)"

definition uevent_field :: "string \<Rightarrow> int \<times> 64 word \<Rightarrow> int \<times> 64 word" where
  "uevent_field t st =
     (case after_prefix ''SWITCH_STATE='' t of
        Some v \<Rightarrow> (atoi v, snd st)
      | None \<Rightarrow>
          (case after_prefix ''SWITCH_TIME='' t of
             Some v \<Rightarrow> (fst st, strtoull v)
           | None \<Rightarrow>
               (case after_prefix ''VSYNC='' t of
                  Some v \<Rightarrow> (fst st, strtoull v)
                | None \<Rightarrow> st)))"

function uevent_fields :: "nat \<Rightarrow> nat \<Rightarrow> string \<Rightarrow> int \<times> 64 word \<Rightarrow> int \<times> 64 word" where
  "uevent_fields pos len s st =
     (if s = [] \<or> hd s = NUL then st
      else
        (let t = cstr s; st = uevent_field t st; n = length t + 1
         in if len \<le> pos + n then st else uevent_fields (pos + n) len (drop n s) st))"
  by pat_completeness auto
termination
  by (relation "measure (\<lambda>(pos, len, s, st). length s)") auto

declare uevent_fields.simps [simp del]

definition handle_uevents :: "hot_env \<Rightarrow> string \<Rightarrow> nat \<Rightarrow> omap_hwc_device \<Rightarrow> omap_hwc_device" where
  "handle_uevents env buff len dev =
     (let path = cstr buff;
          dck = (path = ''change@/devices/virtual/switch/dock'');
          hdmi = (path = ''change@/devices/virtual/switch/hdmi'');
          vsync = (path = ''change@/devices/platform/omapfb'' \<or> path = ''change@/devices/virtual/switch/omapfb-vsync'')
      in if \<not> dck \<and> \<not> vsync \<and> \<not> hdmi then dev
         else case uevent_fields (length path + 1) len (drop (length path + 1) buff) (0, 0) of
                (st, timestamp) \<Rightarrow>
                  if vsync then (if procs dev then dev\<lparr>calls := calls dev @ [Vsync timestamp]\<rparr> else dev)
                  else handle_hotplug env
                         (if dck then dev\<lparr>ext := (ext dev)\<lparr>force_dock := (st = 1)\<rparr>\<rparr>
                          else dev\<lparr>ext := (ext dev)\<lparr>hdmi_state := (st = 1)\<rparr>\<rparr>))"

text \<open>
  The event thread: one round of its loop.  A ready poll says whether the pipe from \<open>hwc_set\<close> has a
  byte and which message, if any, the kernel sent (the buffer and the length of the message).
\<close>

datatype poll_result = Poll_timeout | Poll_error | Poll_ready bool "(string \<times> nat) option"

definition hdmi_thread_start :: "omap_hwc_device \<Rightarrow> int" where
  "hdmi_thread_start dev = (if idle dev \<noteq> 0 then idle dev else -1)"

definition hdmi_thread_step :: "hot_env \<Rightarrow> poll_result \<Rightarrow> omap_hwc_device \<times> int \<Rightarrow> omap_hwc_device \<times> int" where
  "hdmi_thread_step env ev st =
     (case st of (dev, timeout) \<Rightarrow>
        (case ev of
           Poll_timeout \<Rightarrow>
             (if idle dev \<noteq> 0 \<and> procs dev \<and> last_int_ovls dev > 1 \<and> force_sgx dev = 0
              then (dev\<lparr>force_sgx := 2, calls := calls dev @ [Invalidate]\<rparr>, -1) else (dev, timeout))
         | Poll_error \<Rightarrow> (dev, timeout)
         | Poll_ready pipe_in uevent \<Rightarrow>
             (case uevent of None \<Rightarrow> dev | Some (buff, len) \<Rightarrow> handle_uevents env buff len dev,
              if idle dev \<noteq> 0 \<and> pipe_in \<and> force_sgx dev = 0 then idle dev else timeout)))"

section \<open>The other entry points\<close>

definition hwc_registerProcs :: "bool \<Rightarrow> omap_hwc_device \<Rightarrow> omap_hwc_device" where
  "hwc_registerProcs p dev = dev\<lparr>procs := p\<rparr>"

datatype hwc_what = HWC_BACKGROUND_LAYER_SUPPORTED | HWC_VSYNC_PERIOD | HWC_query_other

text \<open>The value and the return code; the period is computed in double precision and truncated.\<close>

definition hwc_query :: "(cfloat \<Rightarrow> int) \<Rightarrow> omap_hwc_device \<Rightarrow> hwc_what \<Rightarrow> int option \<times> int" where
  "hwc_query period_of dev what =
     (case what of
        HWC_BACKGROUND_LAYER_SUPPORTED \<Rightarrow> (Some 0, 0)
      | HWC_VSYNC_PERIOD \<Rightarrow> (Some (period_of (fb_fps dev)), 0)
      | HWC_query_other \<Rightarrow> (None, -22))"

text \<open>\<open>rv\<close> and \<open>errno\<close> of the \<open>ioctl\<close> that switches vertical sync events.\<close>

definition hwc_eventControl :: "int \<times> int \<Rightarrow> bool \<Rightarrow> bool \<Rightarrow> omap_hwc_device \<Rightarrow> omap_hwc_device \<times> int" where
  "hwc_eventControl ioctl_result vsync_event enable dev =
     (if \<not> vsync_event then (dev, -22)
      else if use_sw_vsync dev then (dev\<lparr>calls := calls dev @ [if enable then Start_sw_vsync else Stop_sw_vsync]\<rparr>, 0)
      else (dev\<lparr>calls := calls dev @ [Enable_vsync enable]\<rparr>,
            if fst ioctl_result < 0 then - snd ioctl_result else 0))"

definition hwc_blank :: "omap_hwc_device \<Rightarrow> omap_hwc_device \<times> int" where
  "hwc_blank dev = (dev, 0)"

section \<open>Opening and closing the device\<close>

text \<open>
  The answers of the system while the device is opened: the framebuffer module (\<open>Inl\<close> is its error), the
  platform, the display, the descriptors of the files (negative: the call failed), the switch files
  (\<open>None\<close>: not readable), the screen geometry, and what \<open>%f\<close> reads from the property of the video limit
  (\<open>None\<close>: nothing).  \<open>o_errno\<close> is \<open>errno\<close> after a call that failed.
\<close>

record open_env =
  o_hot :: hot_env
  o_name_ok :: bool
  o_fb :: "int + int \<times> int \<times> pixel_format \<times> cfloat"
  o_alloc :: bool
  o_dsscomp :: int
  o_platform :: "dsscomp_platform_info option"
  o_fb_fd :: int
  o_dock_image :: int
  o_buffers :: bool
  o_display :: "dsscomp_display_info option"
  o_ion_fd :: int
  o_hdmi_fb :: int
  o_threads :: bool
  o_errno :: int
  o_hdmi_switch :: "char option"
  o_dock_switch :: "char option"
  o_gc2d :: bool
  o_geometry :: "bvsurfgeom option"
  o_sw_vsync :: bool
  o_nv12_limit :: "cfloat option"

definition zero_transform :: ext_transform_t where
  "zero_transform = \<lparr>ext_rotation = 0, hflip = False, ext_enabled = False, docking = False\<rparr>"

definition zero_ext :: omap_hwc_ext where
  "zero_ext = \<lparr>ext_mirror = zero_transform, dock = zero_transform, lcd_xpy = Fin 0, avoid_mode_change = False,
     force_dock = False, hdmi_state = False, ext_on_tv = False, current = zero_transform, last_used = zero_transform,
     last_xres_used = 0, last_yres_used = 0, last_mode = 0, mirror_mode = 0, last_xpy = Fin 0, ext_width = 0,
     ext_height = 0, ext_xres = 0, ext_yres = 0,
     ext_m = ((Fin 0, Fin 0, Fin 0), (Fin 0, Fin 0, Fin 0)), mirror_region = zero_rect\<rparr>"

definition zero_platform :: dsscomp_platform_info where
  "zero_platform = \<lparr>max_xdecim_2d = 0, max_ydecim_2d = 0, max_xdecim_1d = 0, max_ydecim_1d = 0, fclk = 0, min_width = 0,
     max_downscale = 0, integer_scale_ratio_limit = 0, tiler1d_slot_size = 0, fbmem = DSSCOMP_FBMEM_TILER2D\<rparr>"

definition zero_display :: dsscomp_display_info where
  "zero_display = \<lparr>channel = OMAP_DSS_CHANNEL_LCD, x_res = 0, y_res = 0, pixel_clock = 0, width_in_mm = 0,
     height_in_mm = 0, modedb = []\<rparr>"

text \<open>The device after \<open>memset\<close>; \<open>geom\<close> is the screen geometry the module had before.\<close>

definition zero_device :: "int \<times> int \<times> pixel_format \<times> cfloat \<Rightarrow> bvsurfgeom \<Rightarrow> omap_hwc_device" where
  "zero_device fb geom =
     \<lparr>limits = zero_platform, fb_dis = zero_display, fb_width = fst fb, fb_height = fst (snd fb), fb_format = fst (snd (snd fb)),
      gscrngeom = geom, flags_rgb_order = False, flags_nv12_only = False, upscaled_nv12_limit = Fin 0, on_tv = False,
      force_sgx = 0, ext = zero_ext, idle = 0, primary_m = ((Fin 0, Fin 0, Fin 0), (Fin 0, Fin 0, Fin 0)),
      primary_transform = 0, primary_rotation = 0, primary_region = zero_rect, buffers = [],
      use_sgx = False, swap_rb = False, post2_layers = 0, post2_blit_buffers = 0, ext_ovls = 0, ext_ovls_wanted = 0,
      last_ext_ovls = 0, last_int_ovls = 0, blt_mode = BLTMODE_PAINT, blt_policy = BLTPOLICY_DISABLED,
      blit_flags = False, blit_num = 0, blit_ops = [], dsscomp = zero_dsscomp, counts = zero_counts,
      ion_handles = (0, 0), grgz = blank_rgz, sync_id = 0, first_set = True, procs = False,
      dsscomp_fd = 0, fb_fd = 0, hdmi_fb_fd = 0, ion_fd = 0,
      use_sw_vsync = False, fb_fps = snd (snd (snd fb)), calls = []\<rparr>"

text \<open>The label \<open>done\<close> with an error: the descriptors that are not negative are closed.\<close>

definition open_failed :: "int \<Rightarrow> omap_hwc_device \<Rightarrow> (int \<times> hwc_call list) + omap_hwc_device" where
  "open_failed err dev =
     Inl (err, calls dev @ map Close_fd (filter (\<lambda>fd. 0 \<le> fd) [dsscomp_fd dev, hdmi_fb_fd dev, fb_fd dev]))"

definition guard_open :: "bool \<Rightarrow> int \<Rightarrow> omap_hwc_device \<Rightarrow> (omap_hwc_device \<Rightarrow> (int \<times> hwc_call list) + omap_hwc_device) \<Rightarrow>
    (int \<times> hwc_call list) + omap_hwc_device" where
  "guard_open ok err dev k = (if ok then k dev else open_failed err dev)"

text \<open>The first part: files, limits, buffers, the display, the transform of the primary display.\<close>

definition open_displays :: "open_env \<Rightarrow> omap_hwc_device \<Rightarrow> (int \<times> hwc_call list) + omap_hwc_device" where
  "open_displays env dev =
     (let e = - o_errno env; dev = dev\<lparr>use_sw_vsync := o_sw_vsync env, dsscomp_fd := o_dsscomp env\<rparr>
      in guard_open (0 \<le> o_dsscomp env) e dev (\<lambda>dev.
         guard_open (o_platform env \<noteq> None) e dev (\<lambda>dev.
         guard_open (0 \<le> o_fb_fd env) e (dev\<lparr>limits := the (o_platform env), fb_fd := o_fb_fd env\<rparr>) (\<lambda>dev.
         guard_open (o_dock_image env = 0) (o_dock_image env) dev (\<lambda>dev.
         guard_open (o_buffers env) (-12) dev (\<lambda>dev.
         guard_open (o_display env \<noteq> None) e (dev\<lparr>buffers := replicate MAX_HWC_LAYERS 0\<rparr>) (\<lambda>dev.
           let d = the (o_display env);
               xpy = (if x_res d \<noteq> 0 \<and> height_in_mm d \<noteq> 0
                      then f_mul (f_div (f_div (float_of_uint (width_in_mm d)) (float_of_uint (x_res d)))
                             (float_of_uint (height_in_mm d))) (float_of_uint (y_res d))
                      else Fin 1);
               tv = (channel d = OMAP_DSS_CHANNEL_DIGIT);
               dev = dev\<lparr>fb_dis := d, ion_fd := o_ion_fd env, ion_handles := (0, 0), ext := (ext dev)\<lparr>lcd_xpy := xpy\<rparr>,
                         on_tv := tv, hdmi_fb_fd := (if tv then hdmi_fb_fd dev else o_hdmi_fb env)\<rparr>
           in guard_open (tv \<or> 0 \<le> o_hdmi_fb env) e dev (\<lambda>dev.
              guard_open (o_threads env) e (set_primary_display_transform_matrix (primary_query (o_hot env)) dev) Inr))))))))"

text \<open>The region that is mirrored: four numbers in a property, or the whole framebuffer.\<close>

fun scan_ints :: "nat \<Rightarrow> string \<Rightarrow> int list" where
  "scan_ints 0 s = []"
| "scan_ints (Suc n) s =
     (case scan_int s of
        None \<Rightarrow> []
      | Some (v, rest) \<Rightarrow>
          v # (case rest of [] \<Rightarrow> [] | c # cs \<Rightarrow> if c = CHR '':'' then scan_ints n cs else []))"

definition clone_region :: "string \<Rightarrow> int \<Rightarrow> int \<Rightarrow> blit_rect_t" where
  "clone_region v w h =
     (case scan_ints 4 v of
        [l, t, r, b] \<Rightarrow> if l < r \<and> t < b then \<lparr>left = l, top = t, right = r, bottom = b\<rparr>
                        else \<lparr>left = 0, top = 0, right = w, bottom = h\<rparr>
      | _ \<Rightarrow> \<lparr>left = 0, top = 0, right = w, bottom = h\<rparr>)"

definition bltmode_of :: "int \<Rightarrow> bltmode" where
  "bltmode_of v = (if v = 0 then BLTMODE_PAINT else if v = 1 then BLTMODE_REGION else BLTMODE_other)"

definition bltpolicy_of :: "int \<Rightarrow> bltpolicy" where
  "bltpolicy_of v = (if v = 0 then BLTPOLICY_DISABLED else if v = 1 then BLTPOLICY_DEFAULT
     else if v = 2 then BLTPOLICY_ALL else BLTPOLICY_other)"

text \<open>The second part: the properties and the switches, the first hotplug, the blitter and the video limit.\<close>

definition read_settings :: "open_env \<Rightarrow> omap_hwc_device \<Rightarrow> omap_hwc_device" where
  "read_settings env dev =
     (let prop = (\<lambda>key dflt. atoi (property_get (o_hot env) key dflt));
          switch = (\<lambda>c old. case c of None \<Rightarrow> old | Some ch \<Rightarrow> ch = CHR ''1'')
      in dev\<lparr>flags_rgb_order := (prop ''debug.hwc.rgb_order'' ''1'' \<noteq> 0),
             flags_nv12_only := (prop ''debug.hwc.nv12_only'' ''0'' \<noteq> 0), idle := prop ''debug.hwc.idle'' ''250'',
             ext := (ext dev)\<lparr>mirror_region := clone_region (property_get (o_hot env) ''persist.hwc.mirroring.region'' '''')
                                              (fb_width dev) (fb_height dev),
                             hdmi_state := switch (o_hdmi_switch env) (hdmi_state (ext dev)),
                             force_dock := switch (o_dock_switch env) (force_dock (ext dev))\<rparr>\<rparr>)"

definition nv12_limit :: "open_env \<Rightarrow> omap_hwc_device \<Rightarrow> cfloat" where
  "nv12_limit env dev =
     (let limit = (case o_nv12_limit env of None \<Rightarrow> upscaled_nv12_limit dev | Some x \<Rightarrow> x)
      in if f_less limit (Fin 0) \<or> f_greater limit (Fin 2048) then Fin 2 else limit)"

definition open_blitter :: "open_env \<Rightarrow> omap_hwc_device \<Rightarrow> (int \<times> hwc_call list) + omap_hwc_device" where
  "open_blitter env dev =
     (if \<not> o_gc2d env then Inr (dev\<lparr>blt_policy := BLTPOLICY_DISABLED, upscaled_nv12_limit := nv12_limit env dev\<rparr>)
      else
        (let prop = (\<lambda>key dflt. atoi (property_get (o_hot env) key dflt));
             dev = dev\<lparr>blt_mode := bltmode_of (prop ''persist.hwc.bltmode'' ''1''),
                       blt_policy := bltpolicy_of (prop ''persist.hwc.bltpolicy'' ''1'')\<rparr>
         in case o_geometry env of
              None \<Rightarrow> open_failed (-22) dev
            | Some g \<Rightarrow> Inr (dev\<lparr>gscrngeom := g, upscaled_nv12_limit := nv12_limit env dev\<rparr>)))"

definition open_settings :: "open_env \<Rightarrow> omap_hwc_device \<Rightarrow> (int \<times> hwc_call list) + omap_hwc_device" where
  "open_settings env dev = open_blitter env (handle_hotplug (o_hot env) (read_settings env dev))"

definition hwc_device_open :: "open_env \<Rightarrow> bvsurfgeom \<Rightarrow> (int \<times> hwc_call list) + omap_hwc_device" where
  "hwc_device_open env geom =
     (if \<not> o_name_ok env then Inl (-22, [])
      else case o_fb env of
        Inl err \<Rightarrow> Inl (err, [])
      | Inr fb \<Rightarrow>
          if \<not> o_alloc env then Inl (-12, [])
          else andThen (open_displays env (zero_device fb geom)) (open_settings env))"

text \<open>The calls \<open>hwc_device_close\<close> makes.\<close>

definition hwc_device_close :: "omap_hwc_device \<Rightarrow> hwc_call list" where
  "hwc_device_close dev =
     map Close_fd (filter (\<lambda>fd. 0 \<le> fd) [dsscomp_fd dev, hdmi_fb_fd dev, fb_fd dev]) @
     (if 0 \<le> ion_fd dev then [Ion_close (ion_fd dev)] else [])"

end
