(* ===== verification/Hwc_Life.thy ===== *)
theory Hwc_Life
  imports Hwc_Hotplug
begin

text \<open>
  The life of the composer: the steps of a device from its opening on, and the invariant \<open>hwc_inv\<close> that
  every step keeps.  A frame always has room for its overlays next to those that the last frame may
  still show (\<open>frame_room\<close>).
\<close>

section \<open>The life of the device\<close>

text \<open>
  What every operation of the composer keeps: \<open>dev_ok\<close>, and the numbers the next \<open>hwc_set\<close> will copy.
\<close>

definition hwc_inv :: "omap_hwc_device \<Rightarrow> bool" where
  "hwc_inv dev \<longleftrightarrow> dev_ok dev \<and> 0 \<le> ext_ovls dev \<and> ext_ovls dev \<le> 2 \<and> post2_layers dev \<le> 4"

text \<open>A frame has room: \<open>n\<close> overlays of the internal display and \<open>m\<close> of the external one.\<close>

lemma frame_room:
  assumes ok: "dev_ok dg" and f: "overlays_ok dg dev' n b m" and i: "internal_frame dg d0 fb n b"
  shows "int n + last_ext_ovls dg \<le> 4" "int m + last_int_ovls dg \<le> 4" "m \<le> 2" "n + m \<le> 4"
    "int n + primary_transform dg + int m \<le> 4"
proof -
  have n: "n \<le> max 1 (nat (layer_overlays dg))" using i by (auto simp: internal_frame_def split: if_splits)
  have m: "n + m \<le> 4" "m \<le> (if cloning_mode dg = Docking then 1 else n)"
    "0 < m \<Longrightarrow> cloning_mode dg \<noteq> Alone \<and> (n_protected (counts dg) = 0 \<and> external_overlays dg \<noteq> 0 \<or>
             wanted_overlays dg \<noteq> 0 \<and> wanted_overlays dg \<le> external_overlays dg)"
    using f by (auto simp: overlays_ok_def Let_def)
  have ob: "0 \<le> last_ext_ovls dg" "last_ext_ovls dg \<le> 2" "0 \<le> last_int_ovls dg" "last_int_ovls dg \<le> 4"
    "0 \<le> primary_transform dg" "primary_transform dg \<le> 1"
    using ok by (auto simp: dev_ok_def)
  note lb = layer_overlays_bounds [OF ok]
  have li: "layer_overlays dg + primary_transform dg \<ge> 1" if "cloning_mode dg = Mirroring"
      "external_overlays dg \<noteq> 0"
    using that overlays_bounds [OF ok] ob by (auto simp: layer_overlays_def external_overlays_def wanted_overlays_def)
  have eo: "external_overlays dg \<le> 4 - last_int_ovls dg" "external_overlays dg \<le> wanted_overlays dg" "0 \<le> external_overlays dg"
    using overlays_bounds(3) [OF ok] ob by (auto simp: external_overlays_def)
  show "int n + last_ext_ovls dg \<le> 4" using n lb(1,2) ob by auto
  show "n + m \<le> 4" by (rule m(1))
  have em: "int m \<le> external_overlays dg" if "0 < m"
  proof (cases "cloning_mode dg")
    case Docking
    then show ?thesis using m that eo by auto
  next
    case Mirroring
    then have "wanted_overlays dg = 2" by (simp add: wanted_overlays_def)
    then show ?thesis using m that Mirroring n lb(3,5) eo ob li by auto
  qed (use m that in auto)
  show "int m + last_int_ovls dg \<le> 4" using em eo ob by (cases "0 < m") auto
  show "m \<le> 2" using em eo overlays_bounds(4) [OF ok] by (cases "0 < m") auto
  show "int n + primary_transform dg + int m \<le> 4"
  proof (cases "cloning_mode dg")
    case Docking
    then show ?thesis using n m ob lb(1,2,4) eo em by (cases "0 < m") auto
  next
    case Mirroring
    then show ?thesis using n m ob lb(1,2,3) eo em overlays_bounds(4) [OF ok] by (cases "0 < m") auto
  next
    case Alone
    then show ?thesis using n m ob lb(1,2) by (cases "0 < m") auto
  qed
qed

lemma prepare_inv:
  assumes p: "hwc_prepare mem env ds dev = Inr (ds', dev')" and inv: "hwc_inv dev"
    and len: "\<And>c rest. ds = Some c # rest \<Longrightarrow> length (hwLayers c) < 2 ^ 32"
  shows "hwc_inv dev'"
proof (cases ds)
  case Nil
  then show ?thesis using p inv by (simp add: hwc_prepare_def)
next
  case (Cons lst rest)
  let ?ls = "case lst of None \<Rightarrow> [] | Some c \<Rightarrow> hwLayers c"
  have l: "length ?ls < 2 ^ 32" using len Cons by (auto split: option.splits)
  have ok: "dev_ok dev" using inv by (simp add: hwc_inv_def)
  from prepare_frame [OF p [unfolded Cons] ok refl l] obtain n b m fb where
    f: "overlays_ok (gathered mem ?ls dev) dev' n b m" "internal_frame (gathered mem ?ls dev) (frame_start mem ?ls dev) fb n b"
    and kept: "last_ext_ovls dev' = last_ext_ovls dev" "last_int_ovls dev' = last_int_ovls dev"
      "primary_transform dev' = primary_transform dev" "fb_format dev' = fb_format dev" "length (buffers dev') = 32"
      "plugs (ext dev') = plugs (ext dev)"
    by metis
  have dg: "dev_ok (gathered mem ?ls dev)" using ok by simp
  note r = frame_room [OF dg f]
  have eo: "0 \<le> external_overlays (gathered mem ?ls dev)" "external_overlays (gathered mem ?ls dev) \<le> 2"
    using overlays_bounds(3,4) [OF dg] ok by (auto simp: external_overlays_def dev_ok_def)
  have "ext_ovls dev' = int m \<or> ext_ovls dev' = external_overlays (gathered mem ?ls dev)" "post2_layers dev' = n"
    using f(1) by (auto simp: overlays_ok_def Let_def)
  moreover have "dev_ok dev'" using ok kept by (auto simp: dev_ok_def plugs_def)
  ultimately show ?thesis using r eo by (auto simp: hwc_inv_def)
qed

section \<open>Showing a frame keeps the invariant\<close>

lemma length_shift_buffers: "shift_buffers i n bufs = Inr bufs' \<Longrightarrow> length bufs' = length bufs"
proof (induction i n bufs arbitrary: bufs' rule: shift_buffers.induct)
  case (1 i n bufs)
  from "1.prems" show ?case by (subst (asm) shift_buffers.simps) (auto split: if_splits dest: "1.IH")
qed

text \<open>The fields \<open>hwc_set\<close> does not change before it copies the numbers of the frame.\<close>

definition set_view :: "omap_hwc_device \<Rightarrow> int \<times> nat \<times> int \<times> int \<times> int \<times> pixel_format \<times> omap_hwc_ext \<times> nat" where
  "set_view dev = (ext_ovls dev, post2_layers dev, last_ext_ovls dev, last_int_ovls dev, primary_transform dev,
     fb_format dev, ext dev, length (buffers dev))"

lemma fix_buffers_view: "fix_buffers dev = Inr (dev', n) \<Longrightarrow> set_view dev' = set_view dev"
  by (auto simp: fix_buffers_def Let_def andThen_eq_Inr set_view_def length_shift_buffers split: if_splits)

lemma post_parts_view [simp]:
  "set_view (swap_buffers dev) = set_view dev" "set_view (signal_post dev) = set_view dev"
  "set_view (call_post2 n dev) = set_view dev" "set_view (reset_screen dev) = set_view dev"
  by (simp_all add: swap_buffers_def signal_post_def call_post2_def reset_screen_def set_view_def)

lemma post_frame_view:
  assumes "post_frame env dev = Inr (dev', err, failed)"
  shows "set_view dev' = set_view dev"
proof (cases "use_sgx (swap_buffers dev) \<and> \<not> egl_ok env")
  case True
  then have "dev' = swap_buffers dev" using assms by (simp add: post_frame_def Let_def)
  then show ?thesis by simp
next
  case False
  with assms have a: "andThen (fix_buffers (signal_post (swap_buffers dev))) (\<lambda>(dev, nbufs).
      Inr (call_post2 nbufs dev, post2_result env, False)) = Inr (dev', err, failed)"
    unfolding post_frame_def Let_def by (simp only: if_False)
  then obtain r where r: "fix_buffers (signal_post (swap_buffers dev)) = Inr r"
    unfolding andThen_eq_Inr by blast
  obtain d n where "r = (d, n)" by (cases r)
  with r a have "dev' = call_post2 n d" by simp
  then show ?thesis using r \<open>r = (d, n)\<close> fix_buffers_view [of "signal_post (swap_buffers dev)" d n] by simp
qed

lemma check_sync_fds_dev: "check_sync_fds i ds dev = Inr (ds', dev') \<Longrightarrow> set_view dev' = set_view dev"
proof (induction i ds dev arbitrary: ds' dev' rule: check_sync_fds.induct)
  case (3 i c ds dev)
  let ?fs = "map check_fence (fences c)"
  let ?d = "dev\<lparr>calls := calls dev @ concat (map snd ?fs)\<rparr>"
  from "3.prems" obtain r where r: "check_sync_fds (Suc i) ds ?d = Inr r"
    unfolding check_sync_fds.simps Let_def andThen_eq_Inr by auto
  obtain ds1 d1 where e: "r = (ds1, d1)" by (cases r)
  have "dev' = d1" using "3.prems" r e by (simp add: Let_def del: map_map)
  then show ?case using "3.IH" [OF refl refl refl, of ds1 d1] r e by (simp add: set_view_def del: map_map)
qed simp_all

lemma set_viewD:
  "set_view a = set_view b \<Longrightarrow> ext_ovls a = ext_ovls b \<and> post2_layers a = post2_layers b \<and> last_ext_ovls a = last_ext_ovls b \<and>
     last_int_ovls a = last_int_ovls b \<and> primary_transform a = primary_transform b \<and> fb_format a = fb_format b \<and>
     ext a = ext b \<and> length (buffers a) = length (buffers b)"
  by (simp add: set_view_def)

lemma hwc_inv_view: "set_view a = set_view b \<Longrightarrow> hwc_inv a = hwc_inv b"
  using set_viewD [of a b] by (simp add: hwc_inv_def dev_ok_def)

lemma set_inv:
  assumes s: "hwc_set env ds dev = Inr (ds', dev', err)" and inv: "hwc_inv dev"
  shows "hwc_inv dev'"
proof (cases ds)
  case Nil
  then show ?thesis using s inv by (simp add: hwc_set_def)
next
  case (Cons lst rest)
  let ?d = "reset_screen dev"
  let ?p = "if (case lst of None \<Rightarrow> False | Some c \<Rightarrow> dpy_and_sur c) then post_frame env ?d else Inr (?d, 0, False)"
  let ?c = "\<lambda>d1 failed. if failed then Inr (ds, d1)
       else check_sync_fds 0 ds (d1\<lparr>last_ext_ovls := ext_ovls d1, last_int_ovls := int (post2_layers d1)\<rparr>)"
  have a: "andThen ?p (\<lambda>(d1, err, failed). andThen (?c d1 failed) (finish_set (wants_invalidate ?d) err)) = Inr (ds', dev', err)"
    using s unfolding hwc_set_def Cons list.case Let_def .
  then obtain r1 where "?p = Inr r1" unfolding andThen_eq_Inr by blast
  then obtain d1 err1 failed where p: "?p = Inr (d1, err1, failed)" by (metis prod_cases3)
  from a have a1: "andThen (?c d1 failed) (finish_set (wants_invalidate ?d) err1) = Inr (ds', dev', err)"
    unfolding p by simp
  then obtain r2 where "?c d1 failed = Inr r2" unfolding andThen_eq_Inr by blast
  then obtain ds1 d2 where c: "?c d1 failed = Inr (ds1, d2)" by (metis surj_pair)
  from a1 have r: "finish_set (wants_invalidate ?d) err1 (ds1, d2) = Inr (ds', dev', err)" unfolding c by simp
  have v1: "set_view d1 = set_view dev" using p post_frame_view by (auto split: if_splits)
  have i1: "hwc_inv d1" using hwc_inv_view [OF v1] inv by simp
  have i2: "hwc_inv (d1\<lparr>last_ext_ovls := ext_ovls d1, last_int_ovls := int (post2_layers d1)\<rparr>)"
    using i1 by (simp add: hwc_inv_def dev_ok_def)
  have "hwc_inv d2"
  proof (cases failed)
    case True
    then show ?thesis using c i1 by simp
  next
    case False
    then have "check_sync_fds 0 ds (d1\<lparr>last_ext_ovls := ext_ovls d1, last_int_ovls := int (post2_layers d1)\<rparr>) = Inr (ds1, d2)"
      using c by simp
    from hwc_inv_view [OF check_sync_fds_dev [OF this]] i2 show ?thesis by simp
  qed
  moreover have "set_view dev' = set_view d2"
    using r by (cases "wants_invalidate ?d"; cases "procs d2") (auto simp: finish_set_def set_view_def)
  ultimately show ?thesis using hwc_inv_view by blast
qed

section \<open>Plugging keeps the invariant\<close>

text \<open>The fields the event thread does not change; the transforms of the two clone modes stay well formed.\<close>

definition plug_view :: "omap_hwc_device \<Rightarrow> int \<times> nat \<times> int \<times> int \<times> pixel_format \<times> nat" where
  "plug_view dev = (ext_ovls dev, post2_layers dev, last_ext_ovls dev, last_int_ovls dev, fb_format dev, length (buffers dev))"

definition plugs_ok :: "omap_hwc_ext \<Rightarrow> bool" where
  "plugs_ok e \<longleftrightarrow> (ext_enabled (dock e) \<longrightarrow> docking (dock e)) \<and> (ext_enabled (ext_mirror e) \<longrightarrow> \<not> docking (ext_mirror e))"

lemma hwc_inv_split:
  "hwc_inv dev \<longleftrightarrow> primary_transform dev \<in> {0, 1} \<and> plugs_ok (ext dev) \<and>
     (case plug_view dev of (eo, p2, le, li, fmt, n) \<Rightarrow> 0 \<le> eo \<and> eo \<le> 2 \<and> p2 \<le> 4 \<and> 0 \<le> le \<and> le \<le> 2 \<and> 0 \<le> li \<and> li \<le> 4 \<and>
        is_valid_format fmt \<and> n = 32)"
  by (auto simp: hwc_inv_def dev_ok_def plug_view_def plugs_ok_def)

lemma plugs_okI: "plugs e = plugs e' \<Longrightarrow> plugs_ok e = plugs_ok e'"
  by (simp add: plugs_def plugs_ok_def)

lemma core_plug_view: "core a = core b \<Longrightarrow> plug_view a = plug_view b \<and> primary_transform a = primary_transform b"
  using core_fields [of a b] by (simp add: plug_view_def)

lemma tiler_view:
  "plug_view (free_tiler2d_buffers dev) = plug_view dev" "ext (free_tiler2d_buffers dev) = ext dev"
  "primary_transform (free_tiler2d_buffers dev) = primary_transform dev"
  "plug_view (fst (allocate_tiler2d_buffers env dev)) = plug_view dev"
  "ext (fst (allocate_tiler2d_buffers env dev)) = ext dev"
  "primary_transform (fst (allocate_tiler2d_buffers env dev)) = primary_transform dev"
  by (simp_all add: free_tiler2d_buffers_def allocate_tiler2d_buffers_def Let_def plug_view_def split: option.splits)

lemma primary_matrix_view:
  "plug_view (set_primary_display_transform_matrix q d) = plug_view d" "ext (set_primary_display_transform_matrix q d) = ext d"
  "primary_transform (set_primary_display_transform_matrix q d) \<in> {0, 1}"
  by (simp_all add: set_primary_display_transform_matrix_def Let_def plug_view_def split: option.splits prod.splits)

lemma hotplug_primary_inv:
  assumes "hwc_inv dev"
  shows "hwc_inv (hotplug_primary env dev)"
proof (cases "hdmi_state (ext dev)")
  case False
  then show ?thesis using assms by (simp add: hotplug_primary_def hwc_inv_def dev_ok_def)
next
  case True
  obtain d r where b: "set_best_hdmi_mode (hot_query env) (word_of_int (fb_width dev)) (word_of_int (fb_height dev))
      (lcd_xpy (ext dev)) dev = (d, r)" by fastforce
  have d: "core d = core dev" "plugs (ext d) = plugs (ext dev)"
    using best_mode_frame(1) [of "hot_query env" "word_of_int (fb_width dev)" "word_of_int (fb_height dev)" "lcd_xpy (ext dev)" dev]
      best_mode_plugs [of "hot_query env" "word_of_int (fb_width dev)" "word_of_int (fb_height dev)" "lcd_xpy (ext dev)" dev] b
    by simp_all
  have d1: "hwc_inv d" using assms core_plug_view [OF d(1)] plugs_okI [OF d(2)] by (simp add: hwc_inv_split)
  let ?d = "set_primary_display_transform_matrix (primary_query env) d"
  have "hwc_inv ?d" using d1 primary_matrix_view [of "primary_query env" d] by (simp add: hwc_inv_split)
  then show ?thesis using True b by (simp add: hotplug_primary_def Let_def hwc_inv_def dev_ok_def)
qed

lemma plug_settings_ok: "plugs_ok (plug_settings env fbd e)"
  by (simp add: plug_settings_def plugs_ok_def Let_def property_transform_def)

lemma mirroring_inv:
  assumes "setup_mirroring q dev = (dev', r)" "hwc_inv dev"
  shows "hwc_inv dev'"
proof -
  have f: "core dev' = core dev" "plugs (ext dev') = plugs (ext dev)"
    using mirroring_frame(1) [of q dev] mirroring_plugs [of q dev] assms(1) by simp_all
  show ?thesis using assms(2) core_plug_view [OF f(1)] plugs_okI [OF f(2)] by (simp add: hwc_inv_split)
qed

lemma hwc_inv_ext: "hwc_inv dev \<Longrightarrow> plugs_ok e \<Longrightarrow> hwc_inv (dev\<lparr>ext := e\<rparr>)"
  "hwc_inv (dev\<lparr>calls := c\<rparr>) = hwc_inv dev"
  by (simp_all add: hwc_inv_split plug_view_def)

lemma plug_in_inv:
  assumes "hwc_inv dev"
  shows "hwc_inv (plug_in env dev)"
proof -
  let ?d0 = "dev\<lparr>ext := plug_settings env (fb_dis dev) (ext dev)\<rparr>"
  let ?d1 = "if force_dock (ext ?d0) then ?d0\<lparr>calls := calls ?d0 @ [Load_dock_image]\<rparr> else ?d0"
  have i1: "hwc_inv ?d1" using hwc_inv_ext(1) [OF assms plug_settings_ok] by (simp add: hwc_inv_ext)
  let ?d2 = "?d1\<lparr>ext := (ext ?d1)\<lparr>current := ext_mirror (ext ?d1), mirror_mode := 0\<rparr>\<rparr>"
  have i2: "hwc_inv ?d2" using i1 by (intro hwc_inv_ext(1)) (auto simp: hwc_inv_split plugs_ok_def)
  obtain d3 r where m: "setup_mirroring (hot_query env) ?d2 = (d3, r)" by fastforce
  from mirroring_inv [OF m i2] have i3: "hwc_inv d3" .
  let ?d4 = "if r = 0 then d3\<lparr>ext := (ext d3)\<lparr>mirror_mode := last_mode (ext d3)\<rparr>, calls := calls d3 @ [Hdmi_fb_unblank]\<rparr>
     else d3\<lparr>ext := (ext d3)\<lparr>ext_mirror := (ext_mirror (ext d3))\<lparr>ext_enabled := False\<rparr>\<rparr>\<rparr>"
  have i4: "hwc_inv ?d4" using i3 by (auto simp: hwc_inv_split plugs_ok_def plug_view_def)
  define d5 where "d5 = (if \<not> ext_enabled (ext_mirror (ext ?d1)) then ?d1 else ?d4)"
  have i5: "hwc_inv d5" using i1 i4 unfolding d5_def by (cases "ext_enabled (ext_mirror (ext ?d1))") simp_all
  have "plug_in env dev = (if ext_rotation (ext_mirror (ext d5)) \<noteq> 0 \<and> fbmem (limits d5) \<noteq> DSSCOMP_FBMEM_TILER2D
      then fst (allocate_tiler2d_buffers env d5) else d5)"
    unfolding plug_in_def Let_def m prod.case d5_def ..
  then show ?thesis using i5 by (simp add: hwc_inv_split tiler_view)
qed

lemma plug_out_inv: "hwc_inv dev \<Longrightarrow> hwc_inv (plug_out dev)"
  by (simp add: plug_out_def Let_def hwc_inv_split tiler_view plug_view_def [of "dev\<lparr>ext := _\<rparr>"])
     (simp add: plugs_ok_def plug_view_def)

lemma hotplug_inv:
  assumes "hwc_inv dev"
  shows "hwc_inv (handle_hotplug env dev)"
proof (cases "on_tv dev")
  case True
  then show ?thesis using hotplug_primary_inv [OF assms] by (simp add: handle_hotplug_def)
next
  case False
  let ?d = "dev\<lparr>ext := (ext dev)\<lparr>dock := (dock (ext dev))\<lparr>ext_enabled := False\<rparr>,
      ext_mirror := (ext_mirror (ext dev))\<lparr>ext_enabled := False\<rparr>\<rparr>\<rparr>"
  have "hwc_inv ?d" using assms by (intro hwc_inv_ext(1)) (simp_all add: plugs_ok_def)
  then have "hwc_inv (if hdmi_state (ext ?d) then plug_in env ?d else plug_out ?d)"
    using plug_in_inv plug_out_inv by simp
  then show ?thesis using False unfolding handle_hotplug_def Let_def by (simp add: hwc_inv_ext(2))
qed

lemma uevents_inv: "hwc_inv dev \<Longrightarrow> hwc_inv (handle_uevents env buff len dev)"
proof -
  assume i: "hwc_inv dev"
  have "plugs_ok (ext dev)" using i by (simp add: hwc_inv_split)
  then have "hwc_inv (dev\<lparr>ext := (ext dev)\<lparr>force_dock := b\<rparr>\<rparr>)" "hwc_inv (dev\<lparr>ext := (ext dev)\<lparr>hdmi_state := b\<rparr>\<rparr>)" for b
    using i by (auto intro!: hwc_inv_ext(1) simp: plugs_ok_def)
  then have h: "hwc_inv (handle_hotplug env (dev\<lparr>ext := (ext dev)\<lparr>force_dock := b\<rparr>\<rparr>))"
    "hwc_inv (handle_hotplug env (dev\<lparr>ext := (ext dev)\<lparr>hdmi_state := b\<rparr>\<rparr>))" for b
    using hotplug_inv by blast+
  obtain st ts where u: "uevent_fields (length (cstr buff) + 1) len (drop (length (cstr buff) + 1) buff) (0, 0) = (st, ts)"
    by fastforce
  show ?thesis unfolding handle_uevents_def Let_def u prod.case using i h by (simp add: hwc_inv_ext(2))
qed

lemma thread_inv: "hwc_inv dev \<Longrightarrow> hwc_inv (fst (hdmi_thread_step env ev (dev, timeout)))"
proof (cases ev)
  case Poll_timeout
  assume "hwc_inv dev"
  moreover from this have "hwc_inv (dev\<lparr>force_sgx := 2, calls := c\<rparr>)" for c by (simp add: hwc_inv_def dev_ok_def)
  ultimately show ?thesis using Poll_timeout by (simp add: hdmi_thread_step_def)
next
  case (Poll_ready p u)
  assume "hwc_inv dev"
  then show ?thesis using Poll_ready uevents_inv by (cases u) (auto simp: hdmi_thread_step_def)
qed (simp add: hdmi_thread_step_def)

section \<open>Every reachable device\<close>

text \<open>
  The steps of a device: frames are prepared and shown, the event thread runs, the client registers its
  callbacks and switches events.  Calls of the client and the event thread interleave in any order.
\<close>

inductive hwc_step :: "omap_hwc_device \<Rightarrow> omap_hwc_device \<Rightarrow> bool" where
  prepare: "hwc_prepare mem env ds dev = Inr (ds', dev') \<Longrightarrow>
    list_all (\<lambda>d. case d of None \<Rightarrow> True | Some c \<Rightarrow> length (hwLayers c) < 2 ^ 32) ds \<Longrightarrow> hwc_step dev dev'"
| set: "hwc_set env ds dev = Inr (ds', dev', err) \<Longrightarrow> hwc_step dev dev'"
| thread: "hdmi_thread_step env ev (dev, timeout) = (dev', timeout') \<Longrightarrow> hwc_step dev dev'"
| register: "hwc_step dev (hwc_registerProcs p dev)"
| control: "hwc_eventControl r vs on dev = (dev', rv) \<Longrightarrow> hwc_step dev dev'"

text \<open>A device that was opened, on a framebuffer in a format that the display controller knows.\<close>

definition hwc_opened :: "omap_hwc_device \<Rightarrow> bool" where
  "hwc_opened dev \<longleftrightarrow> (\<exists>env geom w h fmt fps. o_fb env = Inr (w, h, fmt, fps) \<and> is_valid_format fmt \<and>
     hwc_device_open env geom = Inr dev)"

lemma step_inv: "hwc_step dev dev' \<Longrightarrow> hwc_inv dev \<Longrightarrow> hwc_inv dev'"
proof (induction rule: hwc_step.induct)
  case (prepare mem env ds dev ds' dev')
  then show ?case by (intro prepare_inv [OF prepare.hyps(1)]) auto
next
  case (set env ds dev ds' dev' err)
  then show ?case by (intro set_inv [OF set.hyps])
next
  case (thread env ev dev timeout dev' timeout')
  then show ?case using thread_inv [OF thread.prems, of env ev timeout] by simp
next
  case (register dev p)
  then show ?case by (simp add: hwc_registerProcs_def hwc_inv_def dev_ok_def)
next
  case (control r vs on dev dev' rv)
  then show ?case by (auto simp: hwc_eventControl_def hwc_inv_ext(2) split: if_splits)
qed

text \<open>The fields that opening leaves at zero, apart from those \<open>hwc_inv\<close> bounds.\<close>

lemma guard_open_Inr: "guard_open ok err dev k = Inr r \<longleftrightarrow> ok \<and> k dev = Inr r"
  by (simp add: guard_open_def open_failed_def)

lemma open_displays_steps:
  assumes "open_displays env dev = Inr dev'"
  obtains d where "dev' = set_primary_display_transform_matrix (primary_query (o_hot env)) d"
    "plug_view d = (ext_ovls dev, post2_layers dev, last_ext_ovls dev, last_int_ovls dev, fb_format dev, 32)"
    "plugs (ext d) = plugs (ext dev)"
  using assms unfolding open_displays_def Let_def guard_open_Inr
  by (elim conjE) (rule that, erule Inr_inject [symmetric], simp_all add: plug_view_def plugs_def)

lemma open_blitter_inv: "open_blitter env dev = Inr dev' \<Longrightarrow> hwc_inv dev \<Longrightarrow> hwc_inv dev'"
  by (auto simp: open_blitter_def Let_def open_failed_def hwc_inv_def dev_ok_def split: if_splits option.splits)

lemma open_settings_inv:
  assumes "open_settings env dev = Inr dev'" "hwc_inv dev"
  shows "hwc_inv dev'"
proof -
  have "hwc_inv (read_settings env dev)" using assms(2) by (simp add: read_settings_def Let_def hwc_inv_def dev_ok_def)
  from hotplug_inv [OF this] show ?thesis using assms(1) unfolding open_settings_def by (rule open_blitter_inv [rotated])
qed

lemma opened_inv:
  assumes "hwc_opened dev"
  shows "hwc_inv dev"
proof -
  from assms obtain env geom w h fmt fps where o': "o_fb env = Inr (w, h, fmt, fps)" "is_valid_format fmt"
    "hwc_device_open env geom = Inr dev" unfolding hwc_opened_def by blast
  let ?z = "zero_device (w, h, fmt, fps) geom"
  from o'(1,3) have "andThen (open_displays env ?z) (open_settings env) = Inr dev"
    by (simp add: hwc_device_open_def split: if_splits)
  then obtain d1 where d1: "open_displays env ?z = Inr d1" "open_settings env d1 = Inr dev"
    unfolding andThen_eq_Inr by blast
  from open_displays_steps [OF d1(1)] obtain d where
    d: "d1 = set_primary_display_transform_matrix (primary_query (o_hot env)) d"
    "plug_view d = (ext_ovls ?z, post2_layers ?z, last_ext_ovls ?z, last_int_ovls ?z, fb_format ?z, 32)"
    "plugs (ext d) = plugs (ext ?z)" by metis
  have "plugs_ok (ext ?z)" by (simp add: plugs_ok_def zero_device_def zero_ext_def zero_transform_def)
  then have "hwc_inv d1" unfolding d(1) hwc_inv_split
    using d(2) plugs_okI [OF d(3)] primary_matrix_view [of "primary_query (o_hot env)" d] o'(2)
    by (simp add: zero_device_def)
  from open_settings_inv [OF d1(2) this] show ?thesis .
qed

interpretation hwc_life: transition_invariant hwc_opened hwc_step hwc_inv
  by unfold_locales (auto intro: opened_inv step_inv)

end
