(* ===== verification/Hwc_Properties.thy ===== *)
theory Hwc_Properties
  imports Hwc_Life
begin

text \<open>
  The properties of the hardware composer, each with a run on the example device: the invariant of its
  life, the overlays and pipes of a frame, the picture, and what reaches the framebuffer driver.
\<close>

section \<open>Z-positions and pipes are used once\<close>

lemma check_pipes_distinct:
  assumes "distinct (map (\<lambda>o'. zorder (cfg o')) os)" "distinct (map (\<lambda>o'. ix (cfg o')) os)"
    and "\<forall>o' \<in> set os. 0 \<le> zorder (cfg o') \<and> 0 \<le> ix (cfg o') \<and> \<not> bit z (nat (zorder (cfg o'))) \<and> \<not> bit i (nat (ix (cfg o')))"
  shows "check_pipes z i os"
  using assms
proof (induction os arbitrary: z i)
  case (Cons o' os)
  have "0 \<le> zorder (cfg p) \<and> 0 \<le> ix (cfg p) \<and> \<not> bit (set_bit (nat (zorder (cfg o'))) z) (nat (zorder (cfg p))) \<and>
      \<not> bit (set_bit (nat (ix (cfg o'))) i) (nat (ix (cfg p)))" if p: "p \<in> set os" for p
  proof -
    have "zorder (cfg p) \<noteq> zorder (cfg o')" "ix (cfg p) \<noteq> ix (cfg o')" using Cons.prems(1,2) p by (auto simp: image_iff)
    then show ?thesis using Cons.prems(3) p by (auto simp: bit_set_bit_iff nat_eq_iff2)
  qed
  then show ?case using Cons by simp
qed simp

lemma clone_ix: "clone_of k n z o' \<Longrightarrow> ix (cfg o') = 3 - int k" "clone_of k n z o' \<Longrightarrow> zorder (cfg o') = z + n"
  by (simp_all add: clone_of_def)

lemma frame_distinct:
  assumes f: "overlays_ok dg dev n b m" and b: "b + int m \<le> 4"
  shows "check_pipes 0 0 (take (num_ovls (dsscomp dev)) (ovls (dsscomp dev)))"
proof -
  let ?os = "ovls (dsscomp dev)" and ?num = "num_ovls (dsscomp dev)"
  let ?dck = "cloning_mode dg = Docking"
  have int: "internal_ok b ?os n" and nm: "n + m \<le> 4" "m \<le> (if ?dck then 1 else n)" and num: "?num = n + m \<or> ?num = 0"
    and cl: "\<And>j. j < m \<Longrightarrow> clone_of j (int n) (if ?dck then 0 else zorder (cfg (?os ! j))) (?os ! (n + j))"
    using f by (auto simp: overlays_ok_def Let_def)
  have len: "length ?os = 5" using int by (simp add: internal_ok_def)
  have io: "0 \<le> zorder (cfg (?os ! i))" "zorder (cfg (?os ! i)) < int n" "0 \<le> ix (cfg (?os ! i))" "ix (cfg (?os ! i)) < b"
    if "i < n" for i using int that by (simp_all add: internal_ok_def)
  have inj: "i < n \<Longrightarrow> j < n \<Longrightarrow> zorder (cfg (?os ! i)) = zorder (cfg (?os ! j)) \<Longrightarrow> i = j"
    "i < n \<Longrightarrow> j < n \<Longrightarrow> ix (cfg (?os ! i)) = ix (cfg (?os ! j)) \<Longrightarrow> i = j" for i j
    using int by (auto simp: internal_ok_def inj_on_def)
  have ez: "zorder (cfg (?os ! i)) = (if ?dck then 0 else zorder (cfg (?os ! (i - n)))) + int n"
    "ix (cfg (?os ! i)) = 3 - int (i - n)" if "n \<le> i" "i < n + m" for i
    using clone_ix [OF cl [of "i - n"]] that by simp_all
  have small: "i - n < n \<or> ?dck \<and> i = n" if "n \<le> i" "i < n + m" for i using that nm(2) by (auto split: if_splits)
  have zi: "0 \<le> zorder (cfg (?os ! i))" "0 \<le> ix (cfg (?os ! i))" if "i < n + m" for i
    using io [of i] io(1) [of "i - n"] ez [of i] small [of i] nm that by (cases "i < n", auto)+
  have zd: "zorder (cfg (?os ! i)) \<noteq> zorder (cfg (?os ! j))" "ix (cfg (?os ! i)) \<noteq> ix (cfg (?os ! j))"
    if "i < j" "j < n + m" for i j
  proof -
    consider "j < n" | "i < n" "n \<le> j" | "n \<le> i" using that by linarith
    then have "zorder (cfg (?os ! i)) \<noteq> zorder (cfg (?os ! j)) \<and> ix (cfg (?os ! i)) \<noteq> ix (cfg (?os ! j))"
    proof cases
      case 1
      then show ?thesis using inj [of i j] that by auto
    next
      case 2
      then show ?thesis using io [of i] io(1) [of "j - n"] ez [of j] small [of j] that b by auto
    next
      case 3
      then show ?thesis using ez [of i] ez [of j] small [of j] small [of i] inj(1) [of "i - n" "j - n"] nm(2) that by (cases ?dck) auto
    qed
    then show "zorder (cfg (?os ! i)) \<noteq> zorder (cfg (?os ! j))" "ix (cfg (?os ! i)) \<noteq> ix (cfg (?os ! j))" by simp_all
  qed
  show ?thesis
  proof (cases "?num = 0")
    case False
    then have e: "?num = n + m" using num by simp
    have d: "distinct (map (\<lambda>o'. g (cfg o')) (take (n + m) ?os))"
      if "\<And>i j. i < j \<Longrightarrow> j < n + m \<Longrightarrow> g (cfg (?os ! i)) \<noteq> g (cfg (?os ! j))" for g :: "dss2_ovl_cfg \<Rightarrow> int"
      unfolding distinct_conv_nth using that len nm by (auto simp: neq_iff)
    have "0 \<le> zorder (cfg o') \<and> 0 \<le> ix (cfg o')" if "o' \<in> set (take (n + m) ?os)" for o'
      using that zi by (auto simp: in_set_conv_nth)
    then show ?thesis unfolding e using d [of zorder, OF zd(1)] d [of ix, OF zd(2)] by (intro check_pipes_distinct) auto
  qed simp
qed

text \<open>The number of layers that need a scaler bounds the first free pipe.\<close>

lemma first_free_pipe:
  assumes ok: "dev_ok dev" and f: "overlays_ok dg dev' n b m" and i: "internal_frame dg d0 fb n b"
    and dg: "dg = gathered mem ls dev" and d0: "d0 = frame_start mem ls dev"
    and one: "ext_enabled (ext_mirror (ext dev)) \<Longrightarrow> unat (scaled_layers (counts dg)) \<le> 1"
  shows "b + int m \<le> 4"
proof (cases "b = int n + primary_transform d0")
  case True
  then show ?thesis using frame_room(5) [OF _ f i] ok frame_start_fields(8) [OF ok] by (simp add: dg d0)
next
  case False
  then have g: "b = int n + 1" "primary_transform d0 = 0" "\<not> use_sgx d0" "n \<le> unat (scaled_layers (counts d0))"
    using i by (auto simp: internal_frame_def)
  have okg: "dev_ok dg" using ok by (simp add: dg)
  note fs = frame_start_fields [OF ok, where mem = mem and ls = ls, folded dg d0]
  have s: "scaled_layers (counts d0) = scaled_layers (counts dg)" by (simp add: fs(1))
  have m: "m \<le> (if cloning_mode dg = Docking then 1 else n)"
    "0 < m \<Longrightarrow> cloning_mode dg \<noteq> Alone" using f by (auto simp: overlays_ok_def Let_def)
  note lb = layer_overlays_bounds [OF okg] and fr = frame_room [OF okg f i]
  show ?thesis
  proof (cases "cloning_mode dg = Mirroring")
    case True
    then have "ext_enabled (ext_mirror (ext dev))" by (auto simp: cloning_mode_def Let_def dg split: if_splits)
    with one have "n \<le> 1" using g(4) s by simp
    then show ?thesis using g(1) m True by auto
  next
    case False
    have pt: "primary_transform dev = 0" using g(2) fs(8) by simp
    have lo: "2 \<le> layer_overlays dg" "layer_overlays dg \<le> 4"
      using False overlays_bounds(1) [OF okg] pt lb(1,2) okg by (auto simp: layer_overlays_def dg dev_ok_def)
    have "can_dss_render_all (decide_supported_cloning dg)" using g(3) fs(18) by simp
    then have "scaled_layers (counts dg) \<le> word_of_int (layer_overlays dg - 1)"
      using decide_fields(1) [OF okg] False pt by (simp add: can_dss_render_all_def Let_def dg)
    moreover have "unat (word_of_int (layer_overlays dg - 1) :: 32 word) = nat (layer_overlays dg - 1)"
      by (rule unat_word_of_small) (use lo in simp_all)
    ultimately have "unat (scaled_layers (counts dg)) \<le> nat (layer_overlays dg - 1)"
      by (simp only: word_le_nat_alt)
    then have n: "int n + 1 \<le> layer_overlays dg" using g(4) s lo by simp
    show ?thesis
    proof (cases "0 < m")
      case True
      then have D: "cloning_mode dg = Docking" using m False by (cases "cloning_mode dg") auto
      have "external_overlays dg \<noteq> 0 \<or> wanted_overlays dg \<noteq> 0" using True f by (auto simp: overlays_ok_def Let_def)
      moreover have "external_overlays dg = 0" if "wanted_overlays dg = 0"
        using that okg by (simp add: external_overlays_def dev_ok_def)
      ultimately have "0 < wanted_overlays dg" using overlays_bounds(3) [OF okg] by fastforce
      then show ?thesis using lb(4) D n m g pt True by (simp add: dg)
    next
      case False
      then show ?thesis using n g lo by simp
    qed
  qed
qed

lemma scaled_count:
  assumes "length ls < 2 ^ 32"
  shows "unat (scaled_layers (counts (gathered mem ls dev))) \<le>
    length (filter (\<lambda>l. needs_scaler mem l \<or> primary_transform dev \<noteq> 0) ls)"
proof -
  let ?f = "\<lambda>l. l\<lparr>compositionType := HWC_FRAMEBUFFER\<rparr>"
  let ?P = "\<lambda>l. is_valid_layer mem dev l \<and> (needs_scaler mem l \<or> primary_transform dev \<noteq> 0)"
  have "length (filter ?P (map ?f ls)) \<le> length (map ?f ls)" by (rule length_filter_le)
  then have "length (filter ?P (map ?f ls)) < 2 ^ 32" using assms by (simp only: length_map)
  then have "unat (scaled_layers (counts (gathered mem ls dev))) = length (filter ?P (map ?f ls))"
    unfolding gathered_counts(3) by (rule unat_of_nat_small)
  also have "\<dots> \<le> length (filter (\<lambda>l. needs_scaler mem l \<or> primary_transform dev \<noteq> 0) (map ?f ls))"
    by (rule length_filter_implies) (simp add: list_all_iff)
  also have "\<dots> = length (filter (\<lambda>l. needs_scaler mem l \<or> primary_transform dev \<noteq> 0) ls)"
    by (simp add: filter_map comp_def needs_scaler_def scaled_def)
  finally show ?thesis .
qed

section \<open>A device for the examples\<close>

text \<open>The phone: a display of 540 by 960 pixels without a transform, no blitter, no external screen.\<close>

definition demo_hot :: hot_env where
  "demo_hot = \<lparr>hot_query = None, primary_query = None, property = (\<lambda>_. None), ion_buffers = (None, None)\<rparr>"

definition demo_plat :: dsscomp_platform_info where
  "demo_plat = \<lparr>max_xdecim_2d = 16, max_ydecim_2d = 16, max_xdecim_1d = 16, max_ydecim_1d = 16, fclk = 170666666, min_width = 2,
     max_downscale = 4, integer_scale_ratio_limit = 2048, tiler1d_slot_size = 16777216, fbmem = DSSCOMP_FBMEM_TILER2D\<rparr>"

definition demo_lcd :: dsscomp_display_info where
  "demo_lcd = \<lparr>channel = OMAP_DSS_CHANNEL_LCD, x_res = 540, y_res = 960, pixel_clock = 40000, width_in_mm = 50,
     height_in_mm = 89, modedb = []\<rparr>"

definition demo_geom :: bvsurfgeom where
  "demo_geom = \<lparr>g_format = OCDFMT_BGRA24, g_width = 540, g_height = 960, g_orientation = 0, g_virtstride = 2176\<rparr>"

definition demo_open :: open_env where
  "demo_open = \<lparr>o_hot = demo_hot, o_name_ok = True, o_fb = Inr (540, 960, BGRA_8888, Fin 60), o_alloc = True, o_dsscomp = 5,
     o_platform = Some demo_plat, o_fb_fd = 6, o_dock_image = 0, o_buffers = True, o_display = Some demo_lcd,
     o_ion_fd = 7, o_hdmi_fb = 8, o_threads = True, o_errno = 0, o_hdmi_switch = Some CHR ''0'', o_dock_switch = None,
     o_gc2d = False, o_geometry = None, o_sw_vsync = False, o_nv12_limit = Some (Fin 2)\<rparr>"

definition demo_opened :: omap_hwc_device where
  "demo_opened = (case hwc_device_open demo_open demo_geom of Inr d \<Rightarrow> d | Inl _ \<Rightarrow> zero_device (0, 0, BGRA_8888, Fin 0) demo_geom)"

lemma demo_opens: "hwc_device_open demo_open demo_geom = Inr demo_opened"
  by (simp add: demo_opened_def hwc_device_open_def demo_open_def open_displays_def guard_open_def open_settings_def open_blitter_def
      demo_lcd_def)

lemma demo_hwc_opened: "hwc_opened demo_opened"
  unfolding hwc_opened_def
  by (intro exI [of _ demo_open] exI [of _ demo_geom] exI [of _ 540] exI [of _ 960] exI [of _ BGRA_8888] exI [of _ "Fin 60"])
     (simp add: demo_opens, simp add: demo_open_def)

definition demo_dev :: omap_hwc_device where
  "demo_dev = (zero_device (540, 960, BGRA_8888, Fin 60) demo_geom)\<lparr>limits := demo_plat, fb_dis := demo_lcd,
     buffers := replicate 32 0, flags_rgb_order := True, upscaled_nv12_limit := Fin 2, procs := True, idle := 250\<rparr>"

lemma demo_dev_inv: "hwc_inv demo_dev"
  by (simp add: hwc_inv_def dev_ok_def demo_dev_def zero_device_def zero_ext_def zero_transform_def)

text \<open>A window over the whole screen and a translucent bar in front of it.\<close>

definition demo_heap :: heap where
  "demo_heap p = \<lparr>iWidth = 540, iHeight = 960, iFormat = (if p = 9 then TI_NV12 else BGRA_8888), usage_protected = False,
     usage_external_disp = False\<rparr>"

definition demo_layer :: "nat \<Rightarrow> blend \<Rightarrow> int \<Rightarrow> hwc_layer_1_t" where
  "demo_layer h b bt = \<lparr>compositionType = HWC_FRAMEBUFFER, hint_clear_fb = False, hint_triple_buffer = False, skip_layer = False,
     handle = h, transform = 0, blending = b, sourceCrop = \<lparr>left = 0, top = 0, right = 540, bottom = bt\<rparr>,
     displayFrame = \<lparr>left = 0, top = 0, right = 540, bottom = bt\<rparr>\<rparr>"

definition demo_env :: hwc_env where
  "demo_env = \<lparr>query_display = None, layer_identity = None, env_alloc = True, dock_image = (0, 0, 0)\<rparr>"

definition demo_list :: hwc_display_contents where
  "demo_list = \<lparr>hwLayers = [demo_layer 7 HWC_BLENDING_NONE 960, demo_layer 8 HWC_BLENDING_PREMULT 50],
     extended_api = False, dpy_and_sur = True, retireFenceFd = -1, fences = [(-1, -1), (-1, -1)]\<rparr>"

definition prepared :: "heap \<Rightarrow> hwc_env \<Rightarrow> hwc_display_contents \<Rightarrow> omap_hwc_device \<Rightarrow> hwc_display_contents \<times> omap_hwc_device" where
  "prepared mem env c dev = (case hwc_prepare mem env [Some c] dev of Inr (Some c' # _, dev') \<Rightarrow> (c', dev') | _ \<Rightarrow> (c, dev))"

lemma preparedI:
  assumes "\<not> isl (hwc_prepare mem env [Some c] dev)"
  shows "hwc_prepare mem env [Some c] dev = Inr ([Some (fst (prepared mem env c dev))], snd (prepared mem env c dev))"
proof -
  obtain ds d where p: "hwc_prepare mem env [Some c] dev = Inr (ds, d)" using assms by (cases "hwc_prepare mem env [Some c] dev") auto
  from prepare_steps [OF p refl] obtain ls' where "ds = map_option (\<lambda>c. c\<lparr>hwLayers := ls'\<rparr>) (Some c) # []" by metis
  then show ?thesis by (simp add: prepared_def p)
qed

lemma demo_prepares: "\<not> isl (hwc_prepare demo_heap demo_env [Some demo_list] demo_dev)"
  by code_simp

section \<open>Properties of the composer\<close>



text \<open>C5: A frame never claims an overlay that the display controller may still use for the other
  display: the overlays of the internal display fit next to those the external display had in the last
  frame, and those of the external display next to those the internal display had; the frame itself uses
  at most four.\<close>

theorem overlay_budget:
  assumes "hwc_inv dev" "hwc_prepare mem env (Some c # rest) dev = Inr (ds', dev')" "length (hwLayers c) < 2 ^ 32"
  shows "int (post2_layers dev') + last_ext_ovls dev \<le> 4 \<and>
    int (num_ovls (dsscomp dev') - post2_layers dev') + last_int_ovls dev \<le> 4 \<and> num_ovls (dsscomp dev') \<le> 4"
proof -
  have ok: "dev_ok dev" using assms(1) by (simp add: hwc_inv_def)
  obtain n b m fb where
    f: "overlays_ok (gathered mem (hwLayers c) dev) dev' n b m"
      "internal_frame (gathered mem (hwLayers c) dev) (frame_start mem (hwLayers c) dev) fb n b"
    by (rule prepare_frame [OF assms(2) ok, of "hwLayers c"]) (use assms(3) in simp_all)
  have "post2_layers dev' = n" "num_ovls (dsscomp dev') = n + m \<or> num_ovls (dsscomp dev') = 0"
    using f(1) by (auto simp: overlays_ok_def Let_def)
  then show ?thesis using frame_room [OF _ f] ok by (auto simp: dev_ok_def)
qed

theorem overlay_budget_witness:
  "int (post2_layers (snd (prepared demo_heap demo_env demo_list demo_dev))) + last_ext_ovls demo_dev \<le> 4"
  using overlay_budget [OF demo_dev_inv preparedI [OF demo_prepares]] by (simp add: demo_list_def)

text \<open>C6: The check at the end of \<open>hwc_prepare\<close> never reports a z-position or a pipe that is used twice,
  as long as at most one layer needs a scaler while the screen is mirrored.\<close>

theorem pipes_distinct:
  assumes "hwc_inv dev" "hwc_prepare mem env (Some c # rest) dev = Inr (ds', dev')" "length (hwLayers c) < 2 ^ 32"
    and "ext_enabled (ext_mirror (ext dev)) \<Longrightarrow>
      length (filter (\<lambda>l. needs_scaler mem l \<or> primary_transform dev \<noteq> 0) (hwLayers c)) \<le> 1"
  shows "check_pipes 0 0 (take (num_ovls (dsscomp dev')) (ovls (dsscomp dev')))"
proof -
  have ok: "dev_ok dev" using assms(1) by (simp add: hwc_inv_def)
  let ?ls = "hwLayers c"
  obtain n b m fb where
    f: "overlays_ok (gathered mem ?ls dev) dev' n b m"
      "internal_frame (gathered mem ?ls dev) (frame_start mem ?ls dev) fb n b"
    by (rule prepare_frame [OF assms(2) ok, of ?ls]) (use assms(3) in simp_all)
  have "unat (scaled_layers (counts (gathered mem ?ls dev))) \<le> 1" if "ext_enabled (ext_mirror (ext dev))"
    using scaled_count [OF assms(3), of mem dev] assms(4) [OF that] by simp
  then have "b + int m \<le> 4" by (rule first_free_pipe [OF ok f refl refl])
  then show ?thesis by (rule frame_distinct [OF f(1)])
qed

theorem pipes_distinct_witness:
  "check_pipes 0 0 (take (num_ovls (dsscomp (snd (prepared demo_heap demo_env demo_list demo_dev))))
     (ovls (dsscomp (snd (prepared demo_heap demo_env demo_list demo_dev)))))"
  using pipes_distinct [OF demo_dev_inv preparedI [OF demo_prepares]]
  by (simp add: demo_list_def demo_dev_def zero_device_def zero_ext_def zero_transform_def)

section \<open>No layer is lost\<close>

lemma unat_32_less: "unat (w :: 32 word) < 2 ^ 32"
  using unsigned_less [of w] by simp

lemma unat_add_small: "unat (a :: 32 word) + unat b < 2 ^ 32 \<Longrightarrow> unat (a + b) = unat a + unat b"
  by (simp add: unat_word_ariths)

lemma can_render_frame:
  "can_dss_render_layer mem (dev\<lparr>buffers := b, dsscomp := d\<rparr>) l = can_dss_render_layer mem dev l"
  by (simp add: can_dss_render_layer_def is_valid_layer_def can_scale_layer_def Let_def)

lemma setup_pipes_all:
  assumes "\<not> use_sgx dev" "force_sgx dev = 0" "list_all (can_dss_render_layer mem dev) ls" "num_ovls (dsscomp dev) \<le> 4"
    and "num_ovls (dsscomp dev) + length ls \<le> unat (max_hw_overlays (counts dev))" "unat (max_hw_overlays (counts dev)) \<le> 4"
    and "unat (ps_mem ps) + sum_list (map (\<lambda>l. unat (mem1d mem (handle l))) ls) \<le> unat (tiler1d_slot_size (limits dev))"
    and "ps_fb_z ps < 0" and "setup_pipes mem ls dev ps = (ls', dev', ps')"
  shows "list_all is_ovl ls'"
  using assms
proof (induction ls arbitrary: dev ps ls')
  case (Cons l ls)
  have sum: "unat (ps_mem ps) + unat (mem1d mem (handle l)) \<le> unat (tiler1d_slot_size (limits dev))"
    using Cons.prems(7) by simp
  then have nw: "unat (ps_mem ps + mem1d mem (handle l)) = unat (ps_mem ps) + unat (mem1d mem (handle l))"
    using unat_32_less [of "tiler1d_slot_size (limits dev)"] by (intro unat_add_small) linarith
  have t: "takes_overlay mem dev ps l"
    using Cons.prems sum nw by (simp add: takes_overlay_def word_less_nat_alt word_le_nat_alt unat_of_nat_small)
  obtain l1 dev1 ps1 where a: "assign_overlay mem dev ps l = (l1, dev1, ps1)" by (metis prod_cases3)
  then obtain os where l1: "l1 = l\<lparr>compositionType := HWC_OVERLAY, hint_triple_buffer := True,
            hint_clear_fb := (hint_clear_fb l \<or> (use_sgx dev \<and> \<not> is_BLENDED l))\<rparr>"
    and d1: "dev1 = dev\<lparr>buffers := (buffers dev)[num_ovls (dsscomp dev) := handle l],
                dsscomp := (dsscomp dev)\<lparr>ovls := os, num_ovls := Suc (num_ovls (dsscomp dev))\<rparr>\<rparr>"
    and ps1: "ps_fb_z ps1 = ps_fb_z ps" "ps_mem ps1 = ps_mem ps + mem1d mem (handle l)"
    by (rule assign_overlay_result)
  from Cons.prems(9) t a obtain ls1 where r: "setup_pipes mem ls dev1 ps1 = (ls1, dev', ps')" "ls' = l1 # ls1"
    by (auto split: prod.splits)
  have "list_all is_ovl ls1"
    by (rule Cons.IH [OF _ _ _ _ _ _ _ _ r(1)]) (use Cons.prems nw in \<open>simp_all add: d1 ps1 can_render_frame\<close>)
  then show ?case by (simp add: r(2) l1 is_ovl_def [of "l\<lparr>compositionType := _, hint_triple_buffer := _, hint_clear_fb := _\<rparr>"])
qed simp

text \<open>Every layer that the decision to use overlays only counted can be shown by an overlay.\<close>

definition untransformed :: "ext_transform_t \<Rightarrow> bool" where
  "untransformed t \<longleftrightarrow> ext_rotation t = 0 \<and> \<not> hflip t"

lemma filter_all:
  "length (filter P xs) = length xs \<Longrightarrow> list_all P xs"
  by (metis filter_True length_filter_less less_irrefl list_all_iff)

lemma of_nat_eq_small: "a < 2 ^ 32 \<Longrightarrow> b < 2 ^ 32 \<Longrightarrow> (of_nat a :: 32 word) = of_nat b \<Longrightarrow> a = b"
  by (metis unat_of_nat_small)

lemma filter_none: "length xs < 2 ^ 32 \<Longrightarrow> (of_nat (length (filter P xs)) :: 32 word) = 0 \<Longrightarrow> list_all (\<lambda>x. \<not> P x) xs"
proof -
  assume "length xs < 2 ^ 32" and z: "(of_nat (length (filter P xs)) :: 32 word) = 0"
  then have "length (filter P xs) < 2 ^ 32" using length_filter_le [of P xs] by linarith
  from of_nat_eq_small [OF this, of 0] z have "filter P xs = []" by simp
  then show ?thesis by (simp add: list_all_iff filter_empty_conv)
qed

lemma sum_list_words:
  assumes "sum_list (map (\<lambda>l. unat (f l :: 32 word)) ls) < 2 ^ 32"
  shows "unat (sum_list (map f ls)) = sum_list (map (\<lambda>l. unat (f l)) ls)"
  using assms
proof (induction ls)
  case (Cons l ls)
  then have IH: "unat (sum_list (map f ls)) = sum_list (map (\<lambda>l. unat (f l)) ls)" by simp
  then have "unat (f l) + unat (sum_list (map f ls)) < 2 ^ 32" using Cons.prems by simp
  then have "unat (f l + sum_list (map f ls)) = unat (f l) + unat (sum_list (map f ls))"
    by (rule unat_add_small)
  then show ?case using IH by simp
qed simp

lemma renderable_layers:
  assumes ok: "dev_ok dev" and len: "length ls < 2 ^ 32" and ls0: "ls0 = map (\<lambda>l. l\<lparr>compositionType := HWC_FRAMEBUFFER\<rparr>) ls"
    and d0: "d0 = frame_start mem ls dev" and sgx: "\<not> use_sgx d0"
    and rgb: "flags_rgb_order dev"
    and dck: "ext_enabled (dock (ext dev)) \<Longrightarrow> untransformed (dock (ext dev)) \<and> untransformed (ext_mirror (ext dev))"
  shows "list_all (can_dss_render_layer mem d0) ls0" "force_sgx d0 = 0"
    "length ls \<le> unat (max_hw_overlays (counts d0))"
    "n_mem (counts (gathered mem ls dev)) \<le> tiler1d_slot_size (limits d0)" "list_all (is_valid_layer mem dev) ls0"
proof -
  let ?dg = "gathered mem ls dev" and ?dc = "decide_supported_cloning (gathered mem ls dev)"
  note fs = frame_start_fields [OF ok, where mem = mem and ls = ls, folded d0]
  have okg: "dev_ok ?dg" using ok by simp
  note dc = decide_fields [OF okg]
  have all: "can_dss_render_all ?dc" using sgx fs(18) by simp
  let ?t = "next_transform ?dg"
  let ?tv = "on_tv dev \<or> ext_on_tv (ext dev) \<and> ext_enabled ?t"
  have a: "force_sgx dev = 0" "possible_overlay_layers (counts ?dg) \<le> word_of_int (layer_overlays ?dg)"
    "possible_overlay_layers (counts ?dg) = composited_layers (counts ?dg)"
    "n_mem (counts ?dg) \<le> tiler1d_slot_size (limits dev)"
    "\<not> (ext_enabled ?t \<and> (ext_rotation ?t \<noteq> 0 \<or> hflip ?t)) \<or> n_NV12 (counts ?dg) = possible_overlay_layers (counts ?dg) \<or>
       (n_NV12 (counts ?dg) \<noteq> 0 \<and> docking ?t)"
    "n_BGR (counts ?dg) = 0 \<or> n_RGB (counts ?dg) = 0 \<and> \<not> ?tv"
    using all rgb unfolding can_dss_render_all_def Let_def dc by auto
  have len0: "length ls0 = length ls" by (simp add: ls0)
  note gc = gathered_counts [of mem ls dev, folded ls0]
  have le: "length (filter P ls0) < 2 ^ 32" for P using length_filter_le [of P ls0] len len0 by linarith
  have v: "list_all (is_valid_layer mem dev) ls0"
    by (rule filter_all, rule of_nat_eq_small [OF le]) (use len len0 a(3) gc in simp_all)
  then show "list_all (is_valid_layer mem dev) ls0" .
  show "force_sgx d0 = 0" using a(1) fs(14) by simp
  have "length (valid_layers mem dev ls0) = length ls0" using v by (simp add: list_all_iff)
  then have "of_nat (length ls) \<le> (word_of_int (layer_overlays ?dg) :: 32 word)" using a(2) gc(2) len0 by simp
  then show "length ls \<le> unat (max_hw_overlays (counts d0))"
    using len fs(1) by (simp add: word_le_nat_alt unat_of_nat_small)
  show "n_mem (counts ?dg) \<le> tiler1d_slot_size (limits d0)" using a(4) fs(11) by simp
  have sw: "swap_rb d0 \<longleftrightarrow> n_BGR (counts ?dg) \<noteq> 0" using all by (simp add: d0 frame_start_def dc(1))
  have nv: "list_all (\<lambda>l. hwc_is_NV12 (iFormat (mem (handle l)))) ls0"
    if "n_NV12 (counts ?dg) = possible_overlay_layers (counts ?dg)"
  proof -
    let ?P = "\<lambda>l. is_valid_layer mem dev l \<and> hwc_is_NV12 (iFormat (mem (handle l)))"
    have "length (filter ?P ls0) = length (valid_layers mem dev ls0)"
      by (rule of_nat_eq_small [OF le le]) (use that gc in simp)
    then have "length (filter ?P ls0) = length ls0" using v by (simp add: list_all_iff)
    from filter_all [OF this] show ?thesis by (simp add: list_all_iff)
  qed
  have none: "list_all (\<lambda>l. \<not> Q l) ls0"
    if "(of_nat (length (filter (\<lambda>l. is_valid_layer mem dev l \<and> Q l) ls0)) :: 32 word) = 0" for Q
  proof -
    from filter_none [OF _ that] len len0 have "list_all (\<lambda>l. \<not> (is_valid_layer mem dev l \<and> Q l)) ls0" by simp
    then show ?thesis using v unfolding list_all_iff by blast
  qed
  have bgr: "list_all (\<lambda>l. \<not> is_BGR (mem (handle l))) ls0" if "n_BGR (counts ?dg) = 0"
    by (rule none) (use gc(4) that in simp)
  have rgb0: "list_all (\<lambda>l. \<not> is_RGB (iFormat (mem (handle l)))) ls0" if "n_RGB (counts ?dg) = 0"
    by (rule none) (use gc(5) that in simp)
  have tr: "list_all (\<lambda>l. hwc_is_NV12 (iFormat (mem (handle l)))) ls0" if "ext_enabled ?t" "ext_rotation ?t \<noteq> 0 \<or> hflip ?t"
  proof -
    have "\<not> docking ?t"
    proof
      assume "docking ?t"
      then have "cloning_mode ?dg = Docking" using next_transform_docking(1) [OF okg that(1)] by simp
      moreover from this have "ext_enabled (dock (ext dev))" by (auto simp: cloning_mode_def Let_def split: if_splits)
      ultimately have "untransformed ?t" using dck by (auto simp: next_transform_def untransformed_def)
      then show False using that(2) by (simp add: untransformed_def)
    qed
    then show ?thesis using a(5) that nv by blast
  qed
  show "list_all (can_dss_render_layer mem d0) ls0"
    unfolding list_all_iff
  proof
    fix l assume l: "l \<in> set ls0"
    have vl: "is_valid_layer mem d0 l"
      using v l valid_layer_plain [of l l d0 dev mem] fs(11,12) by (simp add: list_all_iff)
    have e: "current (ext d0) = ?t" "ext_on_tv (ext d0) = ext_on_tv (ext dev)" using fs(2) by simp_all
    show "can_dss_render_layer mem d0 l"
    proof (cases "n_BGR (counts ?dg) = 0")
      case True
      then have "\<not> is_BGR (mem (handle l))" "\<not> swap_rb d0" using bgr sw l by (simp_all add: list_all_iff)
      then show ?thesis using vl tr l sgx e unfolding can_dss_render_layer_def Let_def by (auto simp: list_all_iff)
    next
      case False
      then have "\<not> is_RGB (iFormat (mem (handle l)))" "\<not> ?tv" "swap_rb d0" using a(6) rgb0 sw l by (auto simp: list_all_iff)
      then show ?thesis using vl tr l sgx e fs(17) unfolding can_dss_render_layer_def Let_def by (auto simp: list_all_iff)
    qed
  qed
qed

lemma all_layers_shown:
  assumes ok: "dev_ok dev" and len: "length ls < 2 ^ 32" and ls0: "ls0 = map (\<lambda>l. l\<lparr>compositionType := HWC_FRAMEBUFFER\<rparr>) ls"
    and d0: "d0 = frame_start mem ls dev" and sgx: "\<not> use_sgx d0" and rgb: "flags_rgb_order dev"
    and dck: "ext_enabled (dock (ext dev)) \<Longrightarrow> untransformed (dock (ext dev)) \<and> untransformed (ext_mirror (ext dev))"
    and sum: "sum_list (map (\<lambda>l. unat (mem1d mem (handle l))) ls) < 2 ^ 32"
    and p: "setup_pipes mem ls0 (with_ovls (ovl_base d0) (d0\<lparr>grgz := g\<rparr>)) start_pipes = (ls1, dev1, ps)"
  shows "list_all is_ovl ls1"
proof -
  note r = renderable_layers [OF ok len ls0 d0 sgx rgb dck]
  let ?e = "with_ovls (ovl_base d0) (d0\<lparr>grgz := g\<rparr>)"
  have can: "can_dss_render_layer mem ?e l = can_dss_render_layer mem d0 l" for l
    by (simp add: can_dss_render_layer_def is_valid_layer_def can_scale_layer_def Let_def with_ovls_def)
  have m0: "map (\<lambda>l. unat (mem1d mem (handle l))) ls0 = map (\<lambda>l. unat (mem1d mem (handle l))) ls" by (simp add: ls0)
  have "n_mem (counts (gathered mem ls dev)) = sum_list (map (\<lambda>l. mem1d mem (handle l)) ls0)"
    unfolding gathered_counts(7) ls0 [symmetric]
    using r(5) by (intro arg_cong [of _ _ sum_list] map_cong refl) (auto simp: list_all_iff)
  then have "sum_list (map (\<lambda>l. unat (mem1d mem (handle l))) ls0) \<le> unat (tiler1d_slot_size (limits d0))"
    using r(4) sum sum_list_words [of "\<lambda>l. mem1d mem (handle l)" ls0] by (simp add: word_le_nat_alt m0)
  moreover have "unat (max_hw_overlays (counts d0)) \<le> 4"
    using unat_layer_overlays [OF ok, of mem ls, folded d0] layer_overlays_bounds [of "gathered mem ls dev"] ok
    by (auto simp: dev_ok_def)
  moreover have "num_ovls (dsscomp ?e) = 0" using sgx by (simp add: with_ovls_def)
  ultimately show ?thesis
    by (intro setup_pipes_all [OF _ _ _ _ _ _ _ _ p])
       (use sgx r can in \<open>simp_all add: with_ovls_def start_pipes_def ls0 list_all_iff\<close>)
qed

section \<open>The picture of a frame\<close>

lemma display_pixel_cong:
  assumes "\<And>i. i < n \<Longrightarrow> zorder (cfg (os ! i)) = zorder (cfg (os' ! i))"
  shows "display_pixel fb x y ls os n = display_pixel fb x y ls os' n"
proof -
  have "filter (\<lambda>i. zorder (cfg (os ! i)) = int z) [0..<n] = filter (\<lambda>i. zorder (cfg (os' ! i)) = int z) [0..<n]" for z
    using assms by (intro filter_cong) auto
  then show ?thesis by (simp add: display_pixel_def z_sequence_def)
qed

lemma set_ix_shows: "shows_layer bufs (os[0 := set_ix k (os ! 0)]) i l = shows_layer bufs os i l"
proof (cases "i = 0 \<and> 0 < length os")
  case False
  then have "os[0 := set_ix k (os ! 0)] ! i = os ! i" by (cases os) (auto simp: nth_list_update)
  then show ?thesis by (simp add: shows_layer_def)
qed (simp add: shows_layer_def)

lemma set_ix_zorder: "zorder (cfg (os[0 := set_ix k (os ! 0)] ! i)) = zorder (cfg (os ! i))"
  by (cases "i = 0 \<and> 0 < length os") (cases os; auto simp: nth_list_update)+

text \<open>The internal display shows the frame, and each overlay the layer it stands for.\<close>

lemma composed_pixels:
  assumes ok: "dev_ok dev" and ls: "list_all (\<lambda>l. compositionType l = HWC_FRAMEBUFFER) ls0"
    and d0: "d0 = frame_start mem ls dev"
    and p: "setup_pipes mem ls0 (with_ovls (ovl_base d0) (d0\<lparr>grgz := g\<rparr>)) start_pipes = (ls1, dev1, ps)"
    and nb: "nonblit d1 = nonblit (move_scaled_gfx ps dev1)" and bufs: "buffers d1 = buffers dev1" and sgx: "use_sgx d1 = use_sgx d0"
    and f: "setup_fb_overlay (use_sgx d0) ps d1 = (d2, z)"
    and all: "use_sgx d0 \<or> list_all is_ovl ls1"
  shows "display_pixel (use_sgx d0) x y ls1 (ovls (dsscomp d2)) (num_ovls (dsscomp d2)) = frame_pixel x y ls1"
    "\<forall>j < n_ovl ls1. shows_layer (buffers d2) (ovls (dsscomp d2)) (ovl_base d0 + j) (filter is_ovl ls1 ! j)"
    "num_ovls (dsscomp d2) = ovl_base d0 + n_ovl ls1"
proof -
  let ?e = "with_ovls (ovl_base d0) (d0\<lparr>grgz := g\<rparr>)"
  note fs = frame_start_fields [OF ok, where mem = mem and ls = ls, folded d0]
  note inv = setup_pipes_invs [OF ok ls refl d0 p]
  have e: "use_sgx ?e = use_sgx d0" by (simp add: with_ovls_def)
  have pi: "pipes_inv ?e ls1 dev1 ps" using inv(1) by (simp add: pipe_inv_def)
  have zi: "z_inv ?e ls1 (ovls (dsscomp dev1)) ps" and num: "num_ovls (dsscomp dev1) = ovl_base d0 + n_ovl ls1"
    and len: "length (ovls (dsscomp dev1)) = 5" "length (buffers dev1) = 32"
    and sh: "\<forall>j < n_ovl ls1. shows_layer (buffers dev1) (ovls (dsscomp dev1)) (ovl_base d0 + j) (filter is_ovl ls1 ! j)"
    using pi e by (simp_all add: pipes_inv_def)
  note nf = nonblit_fields [OF nb]
  have os1: "ovls (dsscomp (move_scaled_gfx ps dev1)) =
      (if ps_scaled_gfx ps then (ovls (dsscomp dev1))[0 := set_ix (int (num_ovls (dsscomp dev1))) (ovls (dsscomp dev1) ! 0)] else ovls (dsscomp dev1))"
    by (simp add: move_scaled_gfx_def set_ovl_def)
  show "num_ovls (dsscomp d2) = ovl_base d0 + n_ovl ls1"
    using f nf(1) num by (auto simp: setup_fb_overlay_def set_ovl_def Let_def split: if_splits)
  note n2 = this
  have zs: "zorder (cfg (ovls (dsscomp d1) ! i)) = zorder (cfg (ovls (dsscomp dev1) ! i))" for i
    unfolding nf(1) os1 by (simp add: set_ix_zorder)
  have shs: "shows_layer bs (ovls (dsscomp d1)) i l = shows_layer bs (ovls (dsscomp dev1)) i l" for bs i l
    unfolding nf(1) os1 by (simp add: set_ix_shows)
  show "display_pixel (use_sgx d0) x y ls1 (ovls (dsscomp d2)) (num_ovls (dsscomp d2)) = frame_pixel x y ls1"
  proof (cases "use_sgx d0")
    case True
    have fmt: "is_valid_format (fb_format d1)" "0 < length (ovls (dsscomp d1))"
      using nf(1,9) ok len pi fs(10) by (auto simp: pipes_inv_def with_ovls_def dev_ok_def move_scaled_gfx_def set_ovl_def)
    note sf = setup_fb_fields [OF fmt f [unfolded eqTrueI [OF True]]]
    have "display_pixel True x y ls1 (ovls (dsscomp d2)) (Suc (n_ovl ls1)) = frame_pixel x y ls1"
    proof (rule display_fb [of ?e])
      show "stack_ok ls1" using inv(3) True e by (simp add: layers_inv_def)
      show "zorder (cfg (ovls (dsscomp d2) ! 0)) = (if has_fb ?e ls1 then int (n_ovl (upto_fb ls1)) else int (n_ovl ls1))"
        using sf(2) zi by (auto simp: z_inv_def)
      show "zorder (cfg (ovls (dsscomp d2) ! Suc j)) = z_of ?e ls1 j" if "j < n_ovl ls1" for j
        using sf(5) [of "Suc j"] zs [of "Suc j"] zi that True e by (simp add: z_inv_def)
    qed (use True e in simp_all)
    then show ?thesis using True n2 by simp
  next
    case False
    then have d2: "d2 = d1" using f by (simp add: setup_fb_overlay_def)
    have "display_pixel False x y ls1 (ovls (dsscomp d2)) (n_ovl ls1) = frame_pixel x y (filter is_ovl ls1)"
      by (rule display_no_fb [of ?e]) (use False e zs zi d2 in \<open>simp_all add: z_inv_def\<close>)
    moreover have "filter is_ovl ls1 = ls1" using all False by (simp add: list_all_iff filter_id_conv)
    ultimately show ?thesis using False n2 by simp
  qed
  show "\<forall>j < n_ovl ls1. shows_layer (buffers d2) (ovls (dsscomp d2)) (ovl_base d0 + j) (filter is_ovl ls1 ! j)"
  proof (cases "use_sgx d0")
    case True
    then have "buffers d2 = (buffers d1)[0 := 0]" and o2: "\<And>i. i \<noteq> 0 \<Longrightarrow> ovls (dsscomp d2) ! i = ovls (dsscomp d1) ! i"
      using f sgx by (auto simp: setup_fb_overlay_def set_ovl_def Let_def split: if_splits)
    then have b2: "buffers d2 ! Suc j = buffers dev1 ! Suc j" for j using bufs by simp
    show ?thesis
    proof (intro allI impI)
      fix j assume "j < n_ovl ls1"
      then have "shows_layer (buffers dev1) (ovls (dsscomp d1)) (Suc j) (filter is_ovl ls1 ! j)" using sh shs True by simp
      then show "shows_layer (buffers d2) (ovls (dsscomp d2)) (ovl_base d0 + j) (filter is_ovl ls1 ! j)"
        using True by (simp add: shows_layer_def o2 b2)
    qed
  next
    case False
    then have "d2 = d1" using f by (simp add: setup_fb_overlay_def)
    then show ?thesis using sh shs bufs False by simp
  qed
qed

text \<open>
  Without the blitter, the layers of the frame are those of the loop over the layers, and the overlays of
  the internal display those of the loop and the framebuffer's, whatever is cloned behind them.
\<close>

definition no_blitter :: "omap_hwc_device \<Rightarrow> bool" where
  "no_blitter dev \<longleftrightarrow> blt_policy dev \<noteq> BLTPOLICY_DEFAULT \<and> blt_policy dev \<noteq> BLTPOLICY_ALL"

lemma prepare_plain_frame:
  assumes p: "hwc_prepare mem env (Some c # rest) dev = Inr (Some c' # rest', dev')" and ok: "dev_ok dev"
    and len: "length (hwLayers c) < 2 ^ 32" and pol: "no_blitter dev"
    and d0: "d0 = frame_start mem (hwLayers c) dev"
  obtains g dev1 ps d1 d2 z where
    "setup_pipes mem (map (\<lambda>l. l\<lparr>compositionType := HWC_FRAMEBUFFER\<rparr>) (hwLayers c)) (with_ovls (ovl_base d0) (d0\<lparr>grgz := g\<rparr>)) start_pipes =
       (hwLayers c', dev1, ps)"
    "nonblit d1 = nonblit (move_scaled_gfx ps dev1)" "buffers d1 = buffers dev1" "use_sgx d1 = use_sgx d0"
    "setup_fb_overlay (use_sgx d0) ps d1 = (d2, z)"
    "use_sgx dev' = use_sgx d0" "post2_layers dev' = num_ovls (dsscomp d2)" "buffers dev' = buffers d2"
    "\<And>i. i < num_ovls (dsscomp d2) \<Longrightarrow> zorder (cfg (ovls (dsscomp dev') ! i)) = zorder (cfg (ovls (dsscomp d2) ! i))"
    "\<And>i. i < num_ovls (dsscomp d2) \<Longrightarrow> primary_transform dev = 0 \<Longrightarrow> ovls (dsscomp dev') ! i = ovls (dsscomp d2) ! i"
proof -
  let ?l = "hwLayers c" and ?m = "map (\<lambda>l. l\<lparr>compositionType := HWC_FRAMEBUFFER\<rparr>) (hwLayers c)"
  note fs = frame_start_fields [OF ok, where mem = mem and ls = ?l, folded d0]
  from prepare_steps [OF p refl, unfolded option.case option.map, folded d0] obtain ls' d1 ps fb d2 z where
    cc: "compose_frame mem env (extended_api c) (Some ?m) d0 = Inr (ls', d1, ps, fb)"
    and f: "setup_fb_overlay fb ps d1 = (d2, z)"
    and d': "dev' = finish_prepare (adjust_primary (clone_overlays env ps z (d2\<lparr>post2_layers := num_ovls (dsscomp d2)\<rparr>)))"
    and c': "Some c' # rest' = Some (c\<lparr>hwLayers := ls'\<rparr>) # rest" by blast
  have inv: "pipes_inv (with_ovls (ovl_base d0) (d0\<lparr>grgz := g\<rparr>)) ls1 dev1 ps1"
    if "setup_pipes mem ?m (with_ovls (ovl_base d0) (d0\<lparr>grgz := g\<rparr>)) start_pipes = (ls1, dev1, ps1)" for g ls1 dev1 ps1
    using setup_pipes_invs(1) [OF ok gathered_layers(2) refl d0 that] by (simp add: pipe_inv_def)
  have "blitted_frame d0 ?m ls' d1 ps fb \<or> overlay_frame mem d0 ?m ls' d1 ps fb"
    by (rule compose_frame_cases [OF cc]) (use inv in \<open>fastforce simp: pipes_inv_def with_ovls_def\<close>)+
  then have o': "overlay_frame mem d0 ?m ls' d1 ps fb" using pol fs(13) by (auto simp: blitted_frame_def no_blitter_def)
  obtain g ls1 dev1 where s: "setup_pipes mem ?m (with_ovls (ovl_base d0) (d0\<lparr>grgz := g\<rparr>)) start_pipes = (ls1, dev1, ps)"
    and o: "fb = use_sgx d0" "nonblit d1 = nonblit (move_scaled_gfx ps dev1)" "use_sgx d1 = use_sgx dev1" "ls' = ls1" "buffers d1 = buffers dev1"
    using o' pol fs(13) by (auto simp: overlay_frame_def no_blitter_def)
  have sgx: "use_sgx dev1 = use_sgx d0" using inv [OF s] by (auto simp: pipes_inv_def with_ovls_def)
  let ?n = "num_ovls (dsscomp d2)" and ?d3 = "d2\<lparr>post2_layers := num_ovls (dsscomp d2)\<rparr>"
  from internal_overlays [OF ok len refl d0 o' f] obtain b where
    b: "internal_ok b (ovls (dsscomp d2)) ?n" "z = int ?n" by blast
  then have l5: "length (ovls (dsscomp ?d3)) = 5" "post2_layers ?d3 \<le> 4" "z = int (post2_layers ?d3)" by (simp_all add: internal_ok_def)
  from clone_overlays_clones [OF this(1) _ this(2,3), of env ps] obtain new where
    new: "clones ?d3 new (clone_overlays env ps z ?d3)" by auto
  let ?d4 = "clone_overlays env ps z ?d3"
  have core: "core ?d4 = core ?d3" and l4: "length (ovls (dsscomp ?d4)) = 5" using new l5 by (simp_all add: clones_def)
  have n5: "?n < 5" using l5 by simp
  have nth: "ovls (dsscomp ?d4) ! i = ovls (dsscomp d2) ! i" if "i < ?n" for i
    using clones_nth [OF new, of i] that l5 by simp
  have pt: "primary_transform ?d4 = primary_transform dev"
    using core_fields(3) [OF core] setup_fb_frame [OF f] compose_nonblit [OF disjI2 [OF o'] inv] ok fs(8,9) by (simp add: dev_ok_def)
  show thesis
  proof (rule that [OF _ o(2,5) _ f [unfolded o(1)]])
    show "ovls (dsscomp dev') ! i = ovls (dsscomp d2) ! i" if "i < ?n" "primary_transform dev = 0" for i
      using adjust_primary_nth(4) [of i ?d4] nth [of i] that n5 l4 pt by (simp add: d')
    show "zorder (cfg (ovls (dsscomp dev') ! i)) = zorder (cfg (ovls (dsscomp d2) ! i))" if "i < ?n" for i
      using adjust_primary_nth(2) [of i ?d4] nth [of i] that n5 l4 by (simp add: d')
    have e: "use_sgx dev' = use_sgx ?d4" "post2_layers dev' = post2_layers ?d4" "buffers dev' = buffers ?d4"
      using core_fields [OF adjust_primary_frame(1) [of ?d4]] by (simp_all add: d')
    show "use_sgx dev' = use_sgx d0" "post2_layers dev' = num_ovls (dsscomp d2)" "buffers dev' = buffers d2"
      unfolding e using core_fields [OF core] setup_fb_frame [OF f] o(3) sgx by simp_all
  qed (use s o sgx c' in simp_all)
qed

lemma prepared_overlays:
  assumes p: "hwc_prepare mem env (Some c # rest) dev = Inr (Some c' # rest', dev')" and ok: "dev_ok dev"
    and len: "length (hwLayers c) < 2 ^ 32" and pol: "no_blitter dev" and rgb: "flags_rgb_order dev"
    and dck: "ext_enabled (dock (ext dev)) \<Longrightarrow> untransformed (dock (ext dev)) \<and> untransformed (ext_mirror (ext dev))"
    and sum: "sum_list (map (\<lambda>l. unat (mem1d mem (handle l))) (hwLayers c)) < 2 ^ 32"
  shows "display_pixel (use_sgx dev') x y (hwLayers c') (ovls (dsscomp dev')) (post2_layers dev') = frame_pixel x y (hwLayers c)"
    "use_sgx dev' \<or> list_all is_ovl (hwLayers c')"
    "primary_transform dev = 0 \<Longrightarrow> j < n_ovl (hwLayers c') \<Longrightarrow>
       shows_layer (buffers dev') (ovls (dsscomp dev')) (ovl_base dev' + j) (filter is_ovl (hwLayers c') ! j)"
    "post2_layers dev' = ovl_base dev' + n_ovl (hwLayers c')"
proof -
  let ?l = "hwLayers c" and ?m = "map (\<lambda>l. l\<lparr>compositionType := HWC_FRAMEBUFFER\<rparr>) (hwLayers c)"
  define d0 where d0: "d0 = frame_start mem ?l dev"
  obtain g dev1 ps d1 d2 z where s: "setup_pipes mem ?m (with_ovls (ovl_base d0) (d0\<lparr>grgz := g\<rparr>)) start_pipes = (hwLayers c', dev1, ps)"
    and n: "nonblit d1 = nonblit (move_scaled_gfx ps dev1)" "buffers d1 = buffers dev1" "use_sgx d1 = use_sgx d0"
    and f: "setup_fb_overlay (use_sgx d0) ps d1 = (d2, z)"
    and r: "use_sgx dev' = use_sgx d0" "post2_layers dev' = num_ovls (dsscomp d2)" "buffers dev' = buffers d2"
    and z: "\<And>i. i < num_ovls (dsscomp d2) \<Longrightarrow> zorder (cfg (ovls (dsscomp dev') ! i)) = zorder (cfg (ovls (dsscomp d2) ! i))"
    and o: "\<And>i. i < num_ovls (dsscomp d2) \<Longrightarrow> primary_transform dev = 0 \<Longrightarrow> ovls (dsscomp dev') ! i = ovls (dsscomp d2) ! i"
    using prepare_plain_frame [OF p ok len pol d0] by blast
  have all: "use_sgx d0 \<or> list_all is_ovl (hwLayers c')"
    using all_layers_shown [OF ok len refl d0 _ rgb dck sum s] by blast
  then show "use_sgx dev' \<or> list_all is_ovl (hwLayers c')" by (simp add: r)
  note cp = composed_pixels [OF ok gathered_layers(2) d0 s n f all]
  have "display_pixel (use_sgx dev') x y (hwLayers c') (ovls (dsscomp dev')) (post2_layers dev') =
      display_pixel (use_sgx d0) x y (hwLayers c') (ovls (dsscomp d2)) (num_ovls (dsscomp d2))"
    unfolding r using z by (rule display_pixel_cong)
  also have "\<dots> = frame_pixel x y (hwLayers c')" by (rule cp(1))
  also have "\<dots> = frame_pixel x y ?m" by (rule frame_pixel_plain [OF setup_pipes_plain [OF s]])
  also have "\<dots> = frame_pixel x y ?l" by (rule frame_pixel_plain) (simp add: plain_def)
  finally show "display_pixel (use_sgx dev') x y (hwLayers c') (ovls (dsscomp dev')) (post2_layers dev') = frame_pixel x y ?l" .
  show "post2_layers dev' = ovl_base dev' + n_ovl (hwLayers c')" using cp(3) r by simp
  show "shows_layer (buffers dev') (ovls (dsscomp dev')) (ovl_base dev' + j) (filter is_ovl (hwLayers c') ! j)"
    if "primary_transform dev = 0" "j < n_ovl (hwLayers c')"
  proof -
    have "shows_layer (buffers d2) (ovls (dsscomp d2)) (ovl_base d0 + j) (filter is_ovl (hwLayers c') ! j)" using cp(2) that(2) by blast
    moreover have "ovls (dsscomp dev') ! (ovl_base d0 + j) = ovls (dsscomp d2) ! (ovl_base d0 + j)" using o that cp(3) by simp
    ultimately show ?thesis by (simp add: shows_layer_def r)
  qed
qed

lemma prepared_dev_inv: "hwc_inv dev \<Longrightarrow> dev_ok dev"
  by (simp add: hwc_inv_def)


lemma demo_frame:
  "length (hwLayers demo_list) < 2 ^ 32" "no_blitter demo_dev" "flags_rgb_order demo_dev" "primary_transform demo_dev = 0"
  "\<not> ext_enabled (dock (ext demo_dev))"
  "sum_list (map (\<lambda>l. unat (mem1d demo_heap (handle l))) (hwLayers demo_list)) < 2 ^ 32"
proof -
  have "mem1d demo_heap 7 = 2088960" "mem1d demo_heap 8 = 2088960"
    by (simp_all add: mem1d_def demo_heap_def hw_align_def)
  then show "sum_list (map (\<lambda>l. unat (mem1d demo_heap (handle l))) (hwLayers demo_list)) < 2 ^ 32"
    by (simp add: demo_list_def demo_layer_def)
qed (simp_all add: demo_list_def demo_dev_def zero_device_def zero_ext_def zero_transform_def no_blitter_def)




section \<open>From the prepared frame to the framebuffer driver\<close>

text \<open>Without the blitter a frame has no blits.\<close>

definition blit_view :: "omap_hwc_device \<Rightarrow> bool \<times> nat \<times> nat" where
  "blit_view dev = (blit_flags dev, blit_num dev, post2_blit_buffers dev)"

lemma core_blit_view: "core dev' = core dev \<Longrightarrow> blit_view dev' = blit_view dev"
proof -
  assume "core dev' = core dev"
  then have "blit_view (core dev') = blit_view (core dev)" by simp
  then show ?thesis by (simp add: core_def blit_view_def)
qed

lemma clone_parts_core:
  "core (set_ovl i f dev) = core dev" "core (fst (clone_layer i dev)) = core dev"
  "core (fst (clone_external_layer q i dev)) = core dev" "core (mirror_layers is dev) = core dev"
proof -
  show "core (set_ovl i f dev) = core dev" for i f dev by (simp add: set_ovl_def)
  show l: "core (fst (clone_layer i dev)) = core dev" for i dev by (simp add: clone_layer_def Let_def)
  show "core (mirror_layers is dev) = core dev"
  proof (induction "is" dev rule: mirror_layers.induct)
    case (2 i "is" dev)
    then show ?case using l [of i dev] by (auto split: prod.splits)
  qed simp
  have bm: "set_best_hdmi_mode q xr yr xpy dev = (d, r) \<Longrightarrow> core d = core dev" for q xr yr xpy d r
    using best_mode_frame(1) [of q xr yr xpy dev] by simp
  show "core (fst (clone_external_layer q i dev)) = core dev"
    unfolding clone_external_layer_def Let_def by (auto split: prod.splits simp: l dest: bm)
qed

lemma clone_overlays_core: "core (clone_overlays env ps z dev) = core dev"
proof -
  have ce: "core d' = core d" if "clone_external_layer q i d = (d', r)" for q i d d' r
    using clone_parts_core(3) [of q i d] that by simp
  have sm: "core d' = core d" if "setup_mirroring q d = (d', r)" for q d d' r
    using mirroring_frame(1) [of q d] that by simp
  have sd: "core (show_dock_image env dev) = core dev"
    unfolding show_dock_image_def Let_def by (auto simp: clone_parts_core(1) split: prod.splits dest!: ce)
  show ?thesis
  proof (cases "docking (current (ext dev))")
    case True
    then show ?thesis unfolding clone_overlays_def Let_def by (auto simp: sd clone_parts_core(1) split: prod.splits dest!: ce)
  next
    case False
    then show ?thesis unfolding clone_overlays_def Let_def by (auto simp: clone_parts_core(4) split: prod.splits dest!: sm)
  qed
qed

lemma prepare_no_blits:
  assumes p: "hwc_prepare mem env (Some c # rest) dev = Inr (ds', dev')" and ok: "dev_ok dev"
    and len: "length (hwLayers c) < 2 ^ 32" and pol: "no_blitter dev"
  shows "\<not> blit_flags dev'" "blit_num dev' = 0" "post2_blit_buffers dev' = 0"
proof -
  let ?l = "hwLayers c" and ?m = "map (\<lambda>l. l\<lparr>compositionType := HWC_FRAMEBUFFER\<rparr>) (hwLayers c)"
  define d0 where d0: "d0 = frame_start mem ?l dev"
  note fs = frame_start_fields [OF ok, where mem = mem and ls = ?l, folded d0]
  from prepare_steps [OF p refl, unfolded option.case option.map, folded d0] obtain ls' d1 ps fb d2 z where
    cc: "compose_frame mem env (extended_api c) (Some ?m) d0 = Inr (ls', d1, ps, fb)"
    and f: "setup_fb_overlay fb ps d1 = (d2, z)"
    and d': "dev' = finish_prepare (adjust_primary (clone_overlays env ps z (d2\<lparr>post2_layers := num_ovls (dsscomp d2)\<rparr>)))"
    and "ds' = Some (c\<lparr>hwLayers := ls'\<rparr>) # rest"
    by blast
  let ?e = "with_ovls (ovl_base d0) d0"
  obtain ls1 dev1 ps1 where s: "setup_pipes mem ?m ?e start_pipes = (ls1, dev1, ps1)" by (metis prod_cases3)
  have e: "with_ovls (ovl_base d0) (d0\<lparr>grgz := grgz d0\<rparr>) = ?e" by simp
  have "pipes_inv ?e ls1 dev1 ps1"
    using setup_pipes_invs(1) [OF ok gathered_layers(2) e [symmetric] d0 s] by (simp add: pipe_inv_def)
  then obtain b k where dev1: "dev1 = ?e\<lparr>buffers := b, dsscomp := k\<rparr>" by (auto simp: pipes_inv_def)
  have "blt_policy d0 = blt_policy dev" by (rule fs)
  then have d1: "d1 = move_scaled_gfx ps1 dev1"
    using cc s pol by (simp add: compose_frame_def blit_everything_def blit_rest_def no_blitter_def with_ovls_def Let_def dev1
        move_scaled_gfx_def set_ovl_def split: if_splits)
  let ?d3 = "d2\<lparr>post2_layers := num_ovls (dsscomp d2)\<rparr>"
  have v0: "blit_view d0 = (False, 0, 0)" by (simp add: d0 frame_start_def blit_reset_def blit_view_def)
  have "blit_view d1 = blit_view d0" by (simp add: blit_view_def d1 dev1 set_ovl_def move_scaled_gfx_def with_ovls_def)
  moreover have "blit_view d2 = blit_view d1" using f by (auto simp: blit_view_def setup_fb_overlay_def set_ovl_def Let_def split: if_splits)
  moreover have "core (adjust_primary (clone_overlays env ps z ?d3)) = core ?d3"
    using clone_overlays_core by (simp add: adjust_primary_frame)
  moreover have "blit_view dev' = blit_view (adjust_primary (clone_overlays env ps z ?d3))"
    by (simp add: d' finish_prepare_def blit_view_def Let_def)
  moreover have "blit_view ?d3 = blit_view d2" by (simp add: blit_view_def)
  ultimately have "blit_view dev' = (False, 0, 0)" using v0 core_blit_view by metis
  then show "\<not> blit_flags dev'" "blit_num dev' = 0" "post2_blit_buffers dev' = 0" by (simp_all add: blit_view_def)
qed

lemma fill_meminfos_all:
  "length ms = 5 \<Longrightarrow> k + length hs \<le> 5 \<Longrightarrow> k + length hs \<le> num \<Longrightarrow>
     fill_meminfos hs k num ms = (take k ms @ map Buffer hs @ drop (k + length hs) ms, k + length hs)"
proof (induction hs arbitrary: k ms)
  case (Cons h hs)
  then have "fill_meminfos (h # hs) k num ms = fill_meminfos hs (Suc k) num (ms[k := Buffer h])" by simp
  also have "\<dots> = (take (Suc k) (ms[k := Buffer h]) @ map Buffer hs @ drop (Suc k + length hs) (ms[k := Buffer h]), Suc k + length hs)"
    using Cons by simp
  finally show ?case using Cons.prems by (simp add: take_Suc_conv_app_nth take_update_cancel)
qed simp

text \<open>Each overlay of the internal display reads the buffer its address names.\<close>

lemma flip_overlay:
  assumes "length hs \<le> 5" "length hs \<le> num_ovls d" "hs \<noteq> []" "i < num_ovls d" "num_ovls d \<le> length (ovls d)"
    and "addressing (ovls d ! i) = OMAP_DSS_BUFADDR_LAYER_IX" "ba (ovls d ! i) = int k" "k < length hs"
  shows "\<exists>ms. ProcessFlipV2 hs d False [] = Some ms \<and> ms ! i = Buffer (hs ! k)"
proof -
  let ?ms = "map Buffer hs @ drop (length hs) (replicate 5 No_mem)"
  have "fill_meminfos hs 0 (num_ovls d) (replicate 5 No_mem) = (?ms, length hs)"
    using fill_meminfos_all [of "replicate 5 No_mem" 0 hs "num_ovls d"] assms by simp
  then have "ProcessFlipV2 hs d False [] = Some (map (overlay_memory ?ms (length hs)) (take (num_ovls d) (ovls d)))"
    using assms by (auto simp: ProcessFlipV2_def)
  moreover have "map (overlay_memory ?ms (length hs)) (take (num_ovls d) (ovls d)) ! i = Buffer (hs ! k)"
    using assms by (simp add: overlay_memory_def nth_append)
  ultimately show ?thesis by blast
qed

lemma check_sync_fds_calls: "check_sync_fds i ds dev = Inr (ds', dev') \<Longrightarrow> \<exists>cs. calls dev' = calls dev @ cs"
proof (induction i ds dev arbitrary: ds' dev' rule: check_sync_fds.induct)
  case (3 i c ds dev)
  let ?fs = "map check_fence (fences c)"
  let ?d = "dev\<lparr>calls := calls dev @ concat (map snd ?fs)\<rparr>"
  from "3.prems" obtain r where r: "check_sync_fds (Suc i) ds ?d = Inr r"
    unfolding check_sync_fds.simps Let_def andThen_eq_Inr by auto
  obtain ds1 d1 where e: "r = (ds1, d1)" by (cases r)
  have "dev' = d1" using "3.prems" r e by (simp add: Let_def del: map_map)
  then show ?case using "3.IH" [OF refl refl refl, of ds1 d1] r e by (auto simp del: map_map)
qed simp_all

text \<open>The post of a frame without blits.\<close>

lemma set_posts:
  assumes s: "hwc_set env (Some c # rest) dev = Inr (ds', dev', err)" and "dpy_and_sur c" "use_sgx dev \<Longrightarrow> egl_ok env"
    and "post2_blit_buffers dev = 0"
  shows "Post2 (take (post2_layers dev) (buffers dev)) (dsscomp dev) (blit_flags dev) (take (blit_num dev) (blit_ops dev)) \<in> set (calls dev')"
proof -
  let ?d = "call_post2 (post2_layers dev) (signal_post (swap_buffers (reset_screen dev)))"
  have r: "use_sgx (reset_screen dev) = use_sgx dev" "use_sgx (swap_buffers (reset_screen dev)) = use_sgx dev"
    "post2_blit_buffers (signal_post (swap_buffers (reset_screen dev))) = post2_blit_buffers dev"
    "post2_layers (signal_post (swap_buffers (reset_screen dev))) = post2_layers dev"
    by (simp_all add: reset_screen_def swap_buffers_def signal_post_def)
  have "post_frame env (reset_screen dev) = Inr (?d, post2_result env, False)"
    unfolding post_frame_def Let_def fix_buffers_def r using assms(3,4) by simp
  then have h: "andThen (check_sync_fds 0 (Some c # rest) (?d\<lparr>last_ext_ovls := ext_ovls ?d, last_int_ovls := int (post2_layers ?d)\<rparr>))
      (finish_set (wants_invalidate (reset_screen dev)) (post2_result env)) = Inr (ds', dev', err)"
    using s assms(2) unfolding hwc_set_def list.case option.case Let_def by (simp only: if_True if_False andThen_simps prod.case)
  then obtain q where q: "check_sync_fds 0 (Some c # rest) (?d\<lparr>last_ext_ovls := ext_ovls ?d, last_int_ovls := int (post2_layers ?d)\<rparr>) = Inr q"
    "finish_set (wants_invalidate (reset_screen dev)) (post2_result env) q = Inr (ds', dev', err)"
    unfolding andThen_eq_Inr by blast
  obtain ds1 d1 where e: "q = (ds1, d1)" by (cases q)
  from check_sync_fds_calls [OF q(1) [unfolded e]] obtain cs where cs: "calls d1 = calls ?d @ cs" by auto
  have "set (calls d1) \<subseteq> set (calls dev')"
    using q(2) unfolding e finish_set_def prod.case by (auto split: if_splits)
  moreover have "Post2 (take (post2_layers dev) (buffers dev)) (dsscomp dev) (blit_flags dev) (take (blit_num dev) (blit_ops dev)) \<in> set (calls ?d)"
    by (simp add: call_post2_def signal_post_def swap_buffers_def reset_screen_def)
  ultimately show ?thesis using cs by auto
qed

lemma prepared_num_ovls:
  assumes "hwc_prepare mem env (Some c # rest) dev = Inr (ds', dev')" "dev_ok dev" "length (hwLayers c) < 2 ^ 32"
    and "num_ovls (dsscomp dev') \<noteq> 0"
  shows "post2_layers dev' \<le> num_ovls (dsscomp dev')" "num_ovls (dsscomp dev') \<le> 4" "length (ovls (dsscomp dev')) = 5"
    "length (buffers dev') = 32"
proof -
  obtain n b m fb where f: "overlays_ok (gathered mem (hwLayers c) dev) dev' n b m" "length (buffers dev') = 32"
    by (rule prepare_frame [OF assms(1,2), of "hwLayers c"]) (use assms(3) in simp_all)
  then show "post2_layers dev' \<le> num_ovls (dsscomp dev')" "num_ovls (dsscomp dev') \<le> 4" "length (ovls (dsscomp dev')) = 5"
      "length (buffers dev') = 32"
    using assms(4) by (auto simp: overlays_ok_def internal_ok_def Let_def)
qed


definition demo_senv :: set_env where
  "demo_senv = \<lparr>egl_ok = True, post2_result = 0\<rparr>"

definition demo_shown :: "omap_hwc_device option" where
  "demo_shown = (case hwc_set demo_senv [Some (fst (prepared demo_heap demo_env demo_list demo_dev))]
      (snd (prepared demo_heap demo_env demo_list demo_dev)) of Inr (_, d, _) \<Rightarrow> Some d | Inl _ \<Rightarrow> None)"

lemma demo_evaluates:
  "case prepared demo_heap demo_env demo_list demo_dev of (c, d) \<Rightarrow>
     \<not> isl (hwc_set demo_senv [Some c] d) \<and> dpy_and_sur c \<and> num_ovls (dsscomp d) = 2 \<and>
     map handle (filter is_ovl (hwLayers c)) = [7, 8]"
  by code_simp

lemma demo_set:
  "demo_shown \<noteq> None" "dpy_and_sur (fst (prepared demo_heap demo_env demo_list demo_dev))"
  "num_ovls (dsscomp (snd (prepared demo_heap demo_env demo_list demo_dev))) = 2"
  "map handle (filter is_ovl (hwLayers (fst (prepared demo_heap demo_env demo_list demo_dev)))) = [7, 8]"
  using demo_evaluates by (auto simp: demo_shown_def split: prod.splits sum.splits)


end
