(* ===== verification/Omx_Core.thy ===== *)
theory Omx_Core
  imports Prelude
begin

text \<open>
  The OpenMAX core (\<^verbatim>\<open>domx/omx_core/src/OMX_Core.c\<close> and \<^verbatim>\<open>OMX_Core_Wrapper.c\<close>): the table of components and
  their roles, the handles of loaded components, tunnels.  The build has \<open>STATIC_TABLE\<close> and
  \<open>CHECK_SECURE_STATE\<close> (\<^verbatim>\<open>omx_core/Android.mk\<close>) and not \<open>USE_ITTIAM_AAC\<close> (\<^verbatim>\<open>BoardConfig.mk\<close>).

  Pointers are numbers, 0 is \<open>NULL\<close>.  The dynamic linker, \<open>malloc\<close> and the components are not part of
  the core: what they answer is in the environments \<open>get_env\<close> and \<open>tunnel_env\<close>, and the calls they get
  are logged in \<open>omx_calls\<close>.  The two locks make each operation one step.
\<close>

section \<open>Data\<close>

datatype OMX_ERRORTYPE = OMX_ErrorNone | OMX_ErrorInsufficientResources | OMX_ErrorUndefined
  | OMX_ErrorInvalidComponentName | OMX_ErrorComponentNotFound | OMX_ErrorInvalidComponent
  | OMX_ErrorBadParameter | OMX_ErrorNotImplemented | OMX_ErrorNoMore | OMX_ErrorOther int

definition MAXCOMP :: nat where
  "MAXCOMP = 50"

definition MAXNAMESIZE :: nat where
  "MAXNAMESIZE = 128"

definition MAX_ROLES :: nat where
  "MAX_ROLES = 20"

definition MAX_TABLE_SIZE :: nat where
  "MAX_TABLE_SIZE = 50"

record ComponentTable =
  ct_name :: "string option"
  nRoles :: nat
  pRoleArray :: "string option list"

datatype omx_call = Dlopen string nat | Dlclose nat | Free nat | Component_init nat | Set_callbacks nat
  | Component_deinit nat | Tunnel_request nat nat nat nat bool

record omx_core =
  omx_count :: int
  pModules :: "nat list"
  pComponents :: "nat list"
  tableCount :: nat
  componentTable :: "ComponentTable list"
  omx_calls :: "omx_call list"

definition empty_entry :: ComponentTable where
  "empty_entry = \<lparr>ct_name = None, nRoles = 0, pRoleArray = replicate MAX_ROLES None\<rparr>"

definition initial_core :: omx_core where
  "initial_core = \<lparr>omx_count = 0, pModules = replicate MAXCOMP 0, pComponents = replicate MAXCOMP 0, tableCount = 0,
     componentTable = replicate MAX_TABLE_SIZE empty_entry, omx_calls = []\<rparr>"

text \<open>A row of the table is the name of a component and its roles, without the closing \<open>NULL\<close>.\<close>

definition tComponentName :: "string list list" where
  "tComponentName =
     [[''OMX.TI.DUCATI1.VIDEO.DECODER'', ''video_decoder.mpeg4'', ''video_decoder.avc'', ''video_decoder.h263'',
       ''video_decoder.wmv'', ''video_decoder.mpeg2'', ''video_decoder.svc'', ''video_decoder.sorspk'', ''video_decoder.mjpeg''],
      [''OMX.TI.DUCATI1.VIDEO.DECODER.secure'', ''video_decoder.mpeg4'', ''video_decoder.avc'', ''video_decoder.h263''],
      [''OMX.TI.DUCATI1.VIDEO.H264E'', ''video_encoder.avc''],
      [''OMX.TI.DUCATI1.VIDEO.H264E.secure'', ''video_encoder.avc''],
      [''OMX.TI.DUCATI1.VIDEO.H264SVCE'', ''video_encoder.svc''],
      [''OMX.TI.DUCATI1.VIDEO.VC1E'', ''video_encoder.wmv''],
      [''OMX.TI.DUCATI1.VIDEO.MPEG4E'', ''video_encoder.mpeg4'', ''video_encoder.h263''],
      [''OMX.TI.DUCATI1.VIDEO.CAMERA'', '' camera.omx''],
      [''OMX.ITTIAM.WMA.decode'', '' audio_decoder.wma''],
      [''OMX.ITTIAM.WMALSL.decode'', '' audio_decoder.wmalsl''],
      [''OMX.ITTIAM.WMAPRO.decode'', '' audio_decoder.wmapro'']]"

section \<open>The component table\<close>

text \<open>
  One row of \<open>OMX_BuildComponentTable\<close>: the roles go to the front of the entry's array.  The flag
  \<open>componentfound\<close> is set by the first name that is there already, and is never reset.
\<close>

definition fill_entry :: "string list \<Rightarrow> ComponentTable \<Rightarrow> ComponentTable" where
  "fill_entry row t =
     \<lparr>ct_name = Some (hd row), nRoles = length (tl row),
      pRoleArray = map Some (tl row) @ drop (length (tl row)) (pRoleArray t)\<rparr>"

fun build_rows :: "string list list \<Rightarrow> bool \<Rightarrow> ComponentTable list \<Rightarrow> nat \<Rightarrow> ComponentTable list \<times> nat" where
  "build_rows [] componentfound table n = (table, n)"
| "build_rows (row # rows) componentfound table n =
     (let componentfound = (componentfound \<or> Some (hd row) \<in> ct_name ` set (take n table))
      in if componentfound then build_rows rows componentfound table n
         else build_rows rows componentfound (table[n := fill_entry row (table ! n)]) (Suc n))"

definition OMX_BuildComponentTable :: "omx_core \<Rightarrow> omx_core" where
  "OMX_BuildComponentTable s =
     (case build_rows tComponentName False (componentTable s) 0 of
        (table, n) \<Rightarrow> s\<lparr>componentTable := table, tableCount := n\<rparr>)"

text \<open>\<open>obtained\<close> and \<open>released\<close>: what the operations on the initialisation mutex return.\<close>

definition OMX_Init :: "bool \<Rightarrow> bool \<Rightarrow> omx_core \<Rightarrow> omx_core \<times> OMX_ERRORTYPE" where
  "OMX_Init obtained released s =
     (if \<not> obtained then (s, OMX_ErrorInsufficientResources)
      else
        (let s = s\<lparr>omx_count := omx_count s + 1\<rparr>;
             s = (if omx_count s = 1 then OMX_BuildComponentTable s else s)
         in (s, if released then OMX_ErrorNone else OMX_ErrorInsufficientResources)))"

definition OMX_Deinit :: "omx_core \<Rightarrow> omx_core \<times> OMX_ERRORTYPE" where
  "OMX_Deinit s = (if omx_count s > 0 then s\<lparr>omx_count := omx_count s - 1\<rparr> else s, OMX_ErrorNone)"

text \<open>The name of an entry; the length of the caller's buffer is not looked at.\<close>

datatype omx_fault = Null_role | Table_overrun | Null_name

definition OMX_ComponentNameEnum :: "bool \<Rightarrow> nat \<Rightarrow> nat \<Rightarrow> omx_core \<Rightarrow> omx_fault + OMX_ERRORTYPE \<times> string option" where
  "OMX_ComponentNameEnum has_buffer nNameLength nIndex s =
     (if \<not> has_buffer then Inr (OMX_ErrorBadParameter, None)
      else if \<not> omx_count s > 0 then Inr (OMX_ErrorUndefined, None)
      else if tableCount s \<le> nIndex then Inr (OMX_ErrorNoMore, None)
      else case ct_name (componentTable s ! nIndex) of
             None \<Rightarrow> Inl Null_name
           | Some name \<Rightarrow> Inr (OMX_ErrorNone, Some name))"

fun find_component :: "string \<Rightarrow> nat \<Rightarrow> ComponentTable list \<Rightarrow> nat" where
  "find_component name i [] = i"
| "find_component name i (t # ts) = (if ct_name t = Some name then i else find_component name (Suc i) ts)"

text \<open>
  The number of roles that is written, and the roles; \<open>roles\<close> says whether the caller passed an array
  for them.  The entry behind the last one is read when the name is not in the table.
\<close>

fun copy_roles :: "string option list \<Rightarrow> omx_fault + string list" where
  "copy_roles [] = Inr []"
| "copy_roles (None # rs) = Inl Null_role"
| "copy_roles (Some r # rs) = andThen (copy_roles rs) (\<lambda>cs. Inr (r # cs))"

definition OMX_GetRolesOfComponent :: "string option \<Rightarrow> nat option \<Rightarrow> bool \<Rightarrow> omx_core \<Rightarrow>
    omx_fault + OMX_ERRORTYPE \<times> nat option \<times> string list" where
  "OMX_GetRolesOfComponent cComponentName pNumRoles roles s =
     (case (cComponentName, pNumRoles) of
        (None, _) \<Rightarrow> Inr (OMX_ErrorBadParameter, pNumRoles, [])
      | (Some _, None) \<Rightarrow> Inr (OMX_ErrorBadParameter, None, [])
      | (Some name, Some num) \<Rightarrow>
          if \<not> length name < MAXNAMESIZE then Inr (OMX_ErrorInvalidComponentName, Some num, [])
          else if \<not> omx_count s > 0 then Inr (OMX_ErrorUndefined, Some num, [])
          else
            (let i = find_component name 0 (take (tableCount s) (componentTable s)); bFound = (i < tableCount s)
             in if \<not> roles then
                  (if i < MAX_TABLE_SIZE then Inr (OMX_ErrorNone, Some (nRoles (componentTable s ! i)), [])
                   else Inl Table_overrun)
                else if bFound \<and> num = nRoles (componentTable s ! i) then
                  andThen (copy_roles (take num (pRoleArray (componentTable s ! i)))) (\<lambda>rs.
                    Inr (OMX_ErrorNone, Some num, rs))
                else Inr (OMX_ErrorNone, Some num, [])))"

text \<open>
  The roles of an entry that are the given one: one copy of the entry's name for each, at most
  \<open>MAXNAMESIZE\<close> characters of it.
\<close>

fun match_roles :: "string \<Rightarrow> string option \<Rightarrow> string option list \<Rightarrow> omx_fault + string option list" where
  "match_roles role name [] = Inr []"
| "match_roles role name (None # rs) = Inl Null_role"
| "match_roles role name (Some r # rs) =
     andThen (match_roles role name rs) (\<lambda>cs. Inr (if r = role then map_option (take MAXNAMESIZE) name # cs else cs))"

fun components_of_role :: "string \<Rightarrow> ComponentTable list \<Rightarrow> omx_fault + string option list" where
  "components_of_role role [] = Inr []"
| "components_of_role role (t # ts) =
     andThen (match_roles role (ct_name t) (take (nRoles t) (pRoleArray t))) (\<lambda>cs.
     andThen (components_of_role role ts) (\<lambda>cs'. Inr (cs @ cs')))"

text \<open>The number of components that is written, and the names, if the caller passed an array for them.\<close>

definition OMX_GetComponentsOfRole :: "string option \<Rightarrow> nat option \<Rightarrow> bool \<Rightarrow> omx_core \<Rightarrow>
    omx_fault + OMX_ERRORTYPE \<times> nat option \<times> string list" where
  "OMX_GetComponentsOfRole role pNumComps compNames s =
     (case (role, pNumComps) of
        (None, _) \<Rightarrow> Inr (OMX_ErrorBadParameter, pNumComps, [])
      | (Some _, None) \<Rightarrow> Inr (OMX_ErrorBadParameter, None, [])
      | (Some r, Some num) \<Rightarrow>
          if \<not> omx_count s > 0 then Inr (OMX_ErrorUndefined, Some num, [])
          else if pRoleArray (componentTable s ! 0) ! 0 = None then Inr (OMX_ErrorBadParameter, Some num, [])
          else andThen (components_of_role r (take (tableCount s) (componentTable s))) (\<lambda>cs.
                 if compNames \<and> None \<in> set cs then Inl Null_name
                 else Inr (OMX_ErrorNone, if tableCount s = 0 then Some num else Some (length cs),
                           if compNames then map the cs else [])))"

section \<open>Handles\<close>

definition lib_name :: "string \<Rightarrow> string" where
  "lib_name cComponentName = ''lib'' @ cComponentName @ ''.so''"

text \<open>
  What the system answers to \<open>OMX_GetHandle\<close>: whether the driver reports the secure mode, the module
  (0 if it cannot be loaded), whether it has the entry point, the memory for the handle (0 if there is
  none), and the results of the component.
\<close>

record get_env =
  secure_mode :: bool
  dl_module :: nat
  dl_init :: bool
  new_handle :: nat
  init_result :: OMX_ERRORTYPE
  callbacks_result :: OMX_ERRORTYPE

fun first_index :: "nat \<Rightarrow> nat list \<Rightarrow> nat" where
  "first_index v [] = 0"
| "first_index v (x # xs) = (if x = v then 0 else Suc (first_index v xs))"

definition omx_log :: "omx_call list \<Rightarrow> omx_core \<Rightarrow> omx_core" where
  "omx_log cs s = s\<lparr>omx_calls := omx_calls s @ cs\<rparr>"

text \<open>The end of \<open>OMX_GetHandle\<close>, from the module in slot \<open>i\<close> on; the result has the value of \<open>*pHandle\<close>.\<close>

definition start_component :: "get_env \<Rightarrow> nat \<Rightarrow> omx_core \<Rightarrow> omx_core \<times> OMX_ERRORTYPE \<times> nat option" where
  "start_component env i s =
     (if \<not> dl_init env then (s, OMX_ErrorInvalidComponent, None)
      else if new_handle env = 0 then (s, OMX_ErrorInsufficientResources, Some 0)
      else
        (let h = new_handle env; s = omx_log [Component_init h] (s\<lparr>pComponents := (pComponents s)[i := h]\<rparr>)
         in if init_result env = OMX_ErrorNone then
              (omx_log [Set_callbacks h] s, callbacks_result env, Some h)
            else (omx_log [Free h, Dlclose (pModules s ! i)] (s\<lparr>pComponents := (pComponents s)[i := 0]\<rparr>), init_result env, Some 0)))"

definition OMX_GetHandle :: "get_env \<Rightarrow> string option \<Rightarrow> bool \<Rightarrow> bool \<Rightarrow> omx_core \<Rightarrow> omx_core \<times> OMX_ERRORTYPE \<times> nat option" where
  "OMX_GetHandle env cComponentName has_handle has_callbacks s =
     (case cComponentName of
        None \<Rightarrow> (s, OMX_ErrorBadParameter, None)
      | Some name \<Rightarrow>
          if \<not> has_handle \<or> \<not> has_callbacks then (s, OMX_ErrorBadParameter, None)
          else if \<not> omx_count s > 0 then (s, OMX_ErrorUndefined, None)
          else if \<not> length name < MAXNAMESIZE then (s, OMX_ErrorInvalidComponentName, None)
          else
            (let i = first_index 0 (pModules s)
             in if i = MAXCOMP then (s, OMX_ErrorInsufficientResources, None)
                else if secure_mode env \<and> \<not> strstr name ''secure'' then (s, OMX_ErrorComponentNotFound, None)
                else
                  (let s = omx_log [Dlopen (lib_name name) (dl_module env)] (s\<lparr>pModules := (pModules s)[i := dl_module env]\<rparr>)
                   in if dl_module env = 0 then (s, OMX_ErrorComponentNotFound, None)
                      else start_component env i s)))"

definition OMX_FreeHandle :: "nat \<Rightarrow> omx_core \<Rightarrow> omx_core \<times> OMX_ERRORTYPE" where
  "OMX_FreeHandle hComponent s =
     (if hComponent = 0 then (s, OMX_ErrorBadParameter)
      else if \<not> omx_count s > 0 then (s, OMX_ErrorUndefined)
      else
        (let i = first_index hComponent (pComponents s)
         in if i = MAXCOMP then (s, OMX_ErrorBadParameter)
            else (omx_log [Component_deinit hComponent, Dlclose (pModules s ! i), Free (pComponents s ! i)]
                    (s\<lparr>pModules := (pModules s)[i := 0], pComponents := (pComponents s)[i := 0]\<rparr>), OMX_ErrorNone)))"

section \<open>Tunnels\<close>

record tunnel_env =
  out_result :: OMX_ERRORTYPE
  in_result :: OMX_ERRORTYPE

definition OMX_SetupTunnel :: "tunnel_env \<Rightarrow> nat \<Rightarrow> nat \<Rightarrow> nat \<Rightarrow> nat \<Rightarrow> omx_core \<Rightarrow> omx_core \<times> OMX_ERRORTYPE" where
  "OMX_SetupTunnel env hOutput nPortOutput hInput nPortInput s =
     (if hOutput = 0 \<and> hInput = 0 then (s, OMX_ErrorBadParameter)
      else
        (let (s, eError) = (if hOutput \<noteq> 0 then (omx_log [Tunnel_request hOutput nPortOutput hInput nPortInput True] s, out_result env)
                            else (s, OMX_ErrorNotImplemented))
         in if eError = OMX_ErrorNone \<and> hInput \<noteq> 0 then
              (let s = omx_log [Tunnel_request hInput nPortInput hOutput nPortOutput True] s
               in (if in_result env \<noteq> OMX_ErrorNone \<and> hOutput \<noteq> 0
                   then omx_log [Tunnel_request hOutput nPortOutput 0 0 False] s else s, in_result env))
            else (s, eError)))"

section \<open>The wrapper\<close>

definition TIOMX_Init :: "bool \<Rightarrow> bool \<Rightarrow> omx_core \<Rightarrow> omx_core \<times> OMX_ERRORTYPE" where
  "TIOMX_Init = OMX_Init"

definition TIOMX_Deinit :: "omx_core \<Rightarrow> omx_core \<times> OMX_ERRORTYPE" where
  "TIOMX_Deinit = OMX_Deinit"

definition TIOMX_GetHandle :: "get_env \<Rightarrow> string option \<Rightarrow> bool \<Rightarrow> bool \<Rightarrow> omx_core \<Rightarrow> omx_core \<times> OMX_ERRORTYPE \<times> nat option" where
  "TIOMX_GetHandle = OMX_GetHandle"

definition TIOMX_FreeHandle :: "nat \<Rightarrow> omx_core \<Rightarrow> omx_core \<times> OMX_ERRORTYPE" where
  "TIOMX_FreeHandle = OMX_FreeHandle"

end
