(* ===== verification/Omx_Properties.thy ===== *)
theory Omx_Properties
  imports Omx_Core
begin

text \<open>
  Properties of the OpenMAX core: the slots of the handles and the libraries behind them, in every state a
  client can reach; opening and closing; the two views of the role table.
\<close>

section \<open>The table\<close>

definition entry_roles :: "ComponentTable \<Rightarrow> string list" where
  "entry_roles t = map the (take (nRoles t) (pRoleArray t))"

definition entry_ok :: "ComponentTable \<Rightarrow> bool" where
  "entry_ok t \<longleftrightarrow> (case ct_name t of None \<Rightarrow> False | Some name \<Rightarrow> length name < MAXNAMESIZE) \<and>
     list_all (\<lambda>r. r \<noteq> None) (take (nRoles t) (pRoleArray t)) \<and> nRoles t \<le> length (pRoleArray t)"

definition built_table :: "ComponentTable list" where
  "built_table = fst (build_rows tComponentName False (replicate MAX_TABLE_SIZE empty_entry) 0)"

text \<open>The table is either untouched or the whole static table; it is the latter once the core is initialised.\<close>

definition table_ok :: "omx_core \<Rightarrow> bool" where
  "table_ok s \<longleftrightarrow> componentTable s = built_table \<and> tableCount s = 11 \<or>
     componentTable s = replicate MAX_TABLE_SIZE empty_entry \<and> tableCount s = 0 \<and> omx_count s = 0"

lemma build_again:
  "build_rows tComponentName False (replicate MAX_TABLE_SIZE empty_entry) 0 = (built_table, 11)"
  "build_rows tComponentName False built_table 0 = (built_table, 11)"
  by code_simp+

lemma built_entries:
  "list_all entry_ok (take 11 built_table)" "distinct (map ct_name (take 11 built_table))" "length built_table = 50"
  "pRoleArray (built_table ! 0) ! 0 \<noteq> None" "nRoles (built_table ! 11) = 0"
  by code_simp+

lemma build_table_ok: "table_ok s \<Longrightarrow> table_ok (OMX_BuildComponentTable s)"
  by (auto simp: table_ok_def OMX_BuildComponentTable_def build_again)

lemma copy_roles_ok: "list_all (\<lambda>r. r \<noteq> None) rs \<Longrightarrow> copy_roles rs = Inr (map the rs)"
  by (induction rs rule: copy_roles.induct) simp_all

lemma match_roles_ok:
  "list_all (\<lambda>r. r \<noteq> None) rs \<Longrightarrow>
     match_roles role name rs = Inr (replicate (count_list (map the rs) role) (map_option (take MAXNAMESIZE) name))"
  by (induction role name rs rule: match_roles.induct) simp_all

lemma components_of_role_ok:
  "list_all entry_ok ts \<Longrightarrow>
     components_of_role role ts = Inr (concat (map (\<lambda>t. replicate (count_list (entry_roles t) role) (ct_name t)) ts))"
proof (induction ts)
  case (Cons t ts)
  then obtain name where n: "ct_name t = Some name" "length name < MAXNAMESIZE"
    and r: "list_all (\<lambda>r. r \<noteq> None) (take (nRoles t) (pRoleArray t))"
    by (auto simp: entry_ok_def split: option.splits)
  then have "map_option (take MAXNAMESIZE) (ct_name t) = ct_name t" by simp
  with Cons match_roles_ok [OF r, of role "ct_name t"] show ?case by (simp add: entry_roles_def)
qed simp

lemma set_replicate_count: "set (replicate (count_list xs r) a) = (if r \<in> set xs then {a} else {})"
  by (simp add: set_replicate_conv_if count_list_0_iff)

lemma find_component_nth:
  "i < length ts \<Longrightarrow> ct_name (ts ! i) = Some name \<Longrightarrow> distinct (map ct_name ts) \<Longrightarrow> find_component name k ts = k + i"
proof (induction ts arbitrary: i k)
  case (Cons t ts)
  then show ?case by (cases i) (auto, metis image_eqI nth_mem)
qed simp

lemma find_component_none: "Some name \<notin> ct_name ` set ts \<Longrightarrow> find_component name k ts = k + length ts"
  by (induction ts arbitrary: k) auto

section \<open>Slots\<close>

definition opens :: "nat \<Rightarrow> omx_call list \<Rightarrow> nat" where
  "opens m cs = length (filter (\<lambda>c. case c of Dlopen _ m' \<Rightarrow> m' = m | _ \<Rightarrow> False) cs)"

definition closes :: "nat \<Rightarrow> omx_call list \<Rightarrow> nat" where
  "closes m cs = length (filter (\<lambda>c. c = Dlclose m) cs)"

text \<open>The components that live in module \<open>m\<close>.\<close>

definition live :: "nat \<Rightarrow> omx_core \<Rightarrow> nat" where
  "live m s = length (filter (\<lambda>i. pComponents s ! i \<noteq> 0 \<and> pModules s ! i = m) [0..<MAXCOMP])"

definition free_slots :: "omx_core \<Rightarrow> nat" where
  "free_slots s = length (filter (\<lambda>m. m = 0) (pModules s))"

definition slots_ok :: "omx_core \<Rightarrow> bool" where
  "slots_ok s \<longleftrightarrow> length (pModules s) = MAXCOMP \<and> length (pComponents s) = MAXCOMP \<and>
     (\<forall>i < MAXCOMP. pComponents s ! i \<noteq> 0 \<longrightarrow> pModules s ! i \<noteq> 0) \<and>
     (\<forall>i < MAXCOMP. \<forall>j < MAXCOMP. pComponents s ! i \<noteq> 0 \<longrightarrow> pComponents s ! i = pComponents s ! j \<longrightarrow> i = j)"

definition omx_inv :: "omx_core \<Rightarrow> bool" where
  "omx_inv s \<longleftrightarrow> slots_ok s \<and> 0 \<le> omx_count s \<and> table_ok s \<and>
     (\<forall>m. m \<noteq> 0 \<longrightarrow> closes m (omx_calls s) + live m s \<le> opens m (omx_calls s))"

lemma opens_append [simp]: "opens m (cs @ ds) = opens m cs + opens m ds"
  and closes_append [simp]: "closes m (cs @ ds) = closes m cs + closes m ds"
  by (simp_all add: opens_def closes_def)

lemma opens_simps [simp]:
  "opens m [] = 0" "opens m (Dlopen f k # cs) = (if k = m then Suc (opens m cs) else opens m cs)"
  "opens m (Dlclose k # cs) = opens m cs" "opens m (Free k # cs) = opens m cs" "opens m (Component_init k # cs) = opens m cs"
  "opens m (Set_callbacks k # cs) = opens m cs" "opens m (Component_deinit k # cs) = opens m cs"
  "opens m (Tunnel_request a b c d e # cs) = opens m cs"
  by (simp_all add: opens_def)

lemma closes_simps [simp]:
  "closes m [] = 0" "closes m (Dlclose k # cs) = (if k = m then Suc (closes m cs) else closes m cs)"
  "closes m (Dlopen f k # cs) = closes m cs" "closes m (Free k # cs) = closes m cs" "closes m (Component_init k # cs) = closes m cs"
  "closes m (Set_callbacks k # cs) = closes m cs" "closes m (Component_deinit k # cs) = closes m cs"
  "closes m (Tunnel_request a b c d e # cs) = closes m cs"
  by (simp_all add: closes_def)

lemma first_index_spec:
  "first_index v xs \<le> length xs" "first_index v xs = length xs \<longleftrightarrow> v \<notin> set xs"
  "first_index v xs < length xs \<Longrightarrow> xs ! first_index v xs = v"
proof (induction xs)
  case (Cons x xs)
  { case 1 then show ?case using Cons by simp }
  { case 2 then show ?case using Cons by auto }
  { case 3 then show ?case using Cons by (auto split: if_splits) }
qed simp_all

text \<open>A slot that changes changes the number of live components by its own part.\<close>

lemma filter_upt_split:
  "k < n \<Longrightarrow> length (filter P [0..<n]) = length (filter P [0..<k]) + (if P k then 1 else 0) + length (filter P [Suc k..<n])"
proof -
  assume k: "k < n"
  then have "[0..<n] = [0..<k] @ k # [Suc k..<n]" using upt_add_eq_append [of 0 k "n - k"] by (simp add: upt_conv_Cons)
  then show ?thesis by simp
qed

lemma live_slot:
  assumes k: "k < MAXCOMP" and same: "\<And>i. i < MAXCOMP \<Longrightarrow> i \<noteq> k \<Longrightarrow>
      pComponents s' ! i = pComponents s ! i \<and> pModules s' ! i = pModules s ! i"
  shows "live m s' + (if pComponents s ! k \<noteq> 0 \<and> pModules s ! k = m then 1 else 0) =
    live m s + (if pComponents s' ! k \<noteq> 0 \<and> pModules s' ! k = m then 1 else 0)"
proof -
  have "filter (\<lambda>i. pComponents s' ! i \<noteq> 0 \<and> pModules s' ! i = m) [0..<k] = filter (\<lambda>i. pComponents s ! i \<noteq> 0 \<and> pModules s ! i = m) [0..<k]"
    "filter (\<lambda>i. pComponents s' ! i \<noteq> 0 \<and> pModules s' ! i = m) [Suc k..<MAXCOMP] =
       filter (\<lambda>i. pComponents s ! i \<noteq> 0 \<and> pModules s ! i = m) [Suc k..<MAXCOMP]"
    using k same by (auto intro!: filter_cong)
  then show ?thesis unfolding live_def filter_upt_split [OF k] by simp
qed

section \<open>Opening and closing\<close>

text \<open>The slot that \<open>OMX_GetHandle\<close> takes, and what it leaves there.\<close>

definition slot_taken :: "nat \<Rightarrow> nat \<Rightarrow> nat \<Rightarrow> omx_call list \<Rightarrow> omx_core \<Rightarrow> omx_core \<Rightarrow> bool" where
  "slot_taken i m h cs s s' \<longleftrightarrow> i < MAXCOMP \<and> pModules s ! i = 0 \<and>
     s' = s\<lparr>pModules := (pModules s)[i := m], pComponents := (pComponents s)[i := h], omx_calls := omx_calls s @ cs\<rparr>"

lemma get_handle_cases:
  assumes g: "OMX_GetHandle env name p c s = (s', e, r)" and ok: "slots_ok s"
  shows "s' = s \<and> e \<noteq> OMX_ErrorNone \<and> r = None \<or>
    (\<exists>h cs. slot_taken (first_index 0 (pModules s)) (dl_module env) h cs s s' \<and>
       (h \<noteq> 0 \<longrightarrow> dl_module env \<noteq> 0 \<and> h = new_handle env \<and> r = Some h \<and> closes (dl_module env) cs = 0) \<and>
       (h = 0 \<longrightarrow> e \<noteq> OMX_ErrorNone \<and> r \<in> {None, Some 0} \<and> closes (dl_module env) cs \<le> 1) \<and>
       opens (dl_module env) cs = 1 \<and> (\<forall>m. m \<noteq> dl_module env \<longrightarrow> opens m cs = 0 \<and> closes m cs = 0))"
proof -
  let ?i = "first_index 0 (pModules s)" and ?m = "dl_module env"
  let ?s1 = "omx_log [Dlopen (lib_name (the name)) ?m] (s\<lparr>pModules := (pModules s)[?i := ?m]\<rparr>)"
  have l: "length (pModules s) = MAXCOMP" "length (pComponents s) = MAXCOMP" using ok by (simp_all add: slots_ok_def)
  consider "s' = s" "e \<noteq> OMX_ErrorNone" "r = None"
    | "?i \<noteq> MAXCOMP" "?m = 0" "s' = ?s1" "e = OMX_ErrorComponentNotFound" "r = None"
    | "?i \<noteq> MAXCOMP" "?m \<noteq> 0" "start_component env ?i ?s1 = (s', e, r)"
  proof (cases "\<exists>nm. name = Some nm \<and> p \<and> c \<and> omx_count s > 0 \<and> length nm < MAXNAMESIZE \<and> ?i \<noteq> MAXCOMP \<and>
      \<not> (secure_mode env \<and> \<not> strstr nm ''secure'')")
    case True
    then have "(if ?m = 0 then (?s1, OMX_ErrorComponentNotFound, None) else start_component env ?i ?s1) = (s', e, r)" "?i \<noteq> MAXCOMP"
      using g by (auto simp: OMX_GetHandle_def Let_def)
    then show thesis using that(2,3) by (cases "?m = 0") simp_all
  next
    case False
    then have "\<exists>e0. e0 \<noteq> OMX_ErrorNone \<and> OMX_GetHandle env name p c s = (s, e0, None)"
      by (cases name) (simp_all add: OMX_GetHandle_def Let_def, blast)
    then show thesis using g that(1) by auto
  qed
  then show ?thesis
  proof cases
    case 1
    then show ?thesis by blast
  next
    case 2
    then have i: "?i < MAXCOMP" "pModules s ! ?i = 0" using first_index_spec [of 0 "pModules s"] l by (auto simp: le_less)
    then have "pComponents s ! ?i = 0" using ok by (auto simp: slots_ok_def)
    then have "slot_taken ?i ?m 0 [Dlopen (lib_name (the name)) ?m] s s'"
      using 2 i l list_update_id [of "pComponents s" ?i] by (simp add: slot_taken_def omx_log_def)
    then show ?thesis using 2 by (intro disjI2 exI conjI) auto
  next
    case 3
    then have i: "?i < MAXCOMP" "pModules s ! ?i = 0" using first_index_spec [of 0 "pModules s"] l by (auto simp: le_less)
    then have c0: "pComponents s ! ?i = 0" using ok by (auto simp: slots_ok_def)
    let ?h = "new_handle env" and ?o = "Dlopen (lib_name (the name)) ?m"
    consider "s' = ?s1" "e \<noteq> OMX_ErrorNone" "r \<in> {None, Some 0}"
      | "?h \<noteq> 0" "slot_taken ?i ?m ?h [?o, Component_init ?h, Set_callbacks ?h] s s'" "r = Some ?h"
      | "slot_taken ?i ?m 0 [?o, Component_init ?h, Free ?h, Dlclose ?m] s s'" "e \<noteq> OMX_ErrorNone" "r = Some 0"
      using 3(3) i l c0
      by (auto simp: start_component_def slot_taken_def omx_log_def Let_def list_update_same_conv split: if_splits)
    then show ?thesis
    proof cases
      case 1
      then have "slot_taken ?i ?m 0 [?o] s s'" using i c0 l list_update_id [of "pComponents s" ?i] by (simp add: slot_taken_def omx_log_def)
      then show ?thesis using 1 by (intro disjI2 exI conjI) auto
    next
      case 2
      then show ?thesis using \<open>?m \<noteq> 0\<close> by (intro disjI2 exI conjI) auto
    next
      case 3
      then show ?thesis by (intro disjI2 exI conjI) auto
    qed
  qed
qed

lemma slot_taken_inv:
  assumes t: "slot_taken i m h cs s s'" and inv: "omx_inv s" and h: "h \<noteq> 0 \<Longrightarrow> m \<noteq> 0 \<and> h \<notin> set (pComponents s)"
    and cs: "opens m cs = 1" "\<And>k. k \<noteq> m \<Longrightarrow> opens k cs = 0 \<and> closes k cs = 0"
      "closes m cs \<le> (if h = 0 then 1 else 0)"
  shows "omx_inv s'"
proof -
  have ok: "slots_ok s" and tab: "table_ok s" "0 \<le> omx_count s"
    and led: "\<And>k. k \<noteq> 0 \<Longrightarrow> closes k (omx_calls s) + live k s \<le> opens k (omx_calls s)" using inv by (simp_all add: omx_inv_def)
  have i: "i < MAXCOMP" "pModules s ! i = 0" and s': "s' = s\<lparr>pModules := (pModules s)[i := m], pComponents := (pComponents s)[i := h],
      omx_calls := omx_calls s @ cs\<rparr>" using t by (simp_all add: slot_taken_def)
  have l: "length (pModules s) = MAXCOMP" "length (pComponents s) = MAXCOMP" using ok by (simp_all add: slots_ok_def)
  have c0: "pComponents s ! i = 0" using ok i by (auto simp: slots_ok_def)
  have fresh: "h = 0 \<or> pComponents s ! j \<noteq> h" if "j < MAXCOMP" for j using h that l by (metis nth_mem)
  have "slots_ok s'"
    using ok i l h fresh c0 unfolding slots_ok_def s' by (auto simp: nth_list_update)
  moreover have "closes k (omx_calls s') + live k s' \<le> opens k (omx_calls s')" if "k \<noteq> 0" for k
  proof -
    have "live k s' = live k s + (if h \<noteq> 0 \<and> m = k then 1 else 0)"
      using live_slot [of i s' s k] i l c0 by (simp add: s' nth_list_update)
    then show ?thesis using led [OF that] cs(1,3) cs(2) [of k] by (cases "k = m") (auto simp: s' split: if_splits)
  qed
  ultimately show ?thesis using tab by (simp add: omx_inv_def s' table_ok_def)
qed

lemma get_handle_inv:
  assumes g: "OMX_GetHandle env name p c s = (s', e, r)" and inv: "omx_inv s" and fresh: "new_handle env \<notin> set (pComponents s) - {0}"
  shows "omx_inv s'"
proof -
  have "slots_ok s" using inv by (simp add: omx_inv_def)
  from get_handle_cases [OF g this] show ?thesis
  proof (elim disjE exE conjE)
    fix h cs
    assume a: "slot_taken (first_index 0 (pModules s)) (dl_module env) h cs s s'"
      "h \<noteq> 0 \<longrightarrow> dl_module env \<noteq> 0 \<and> h = new_handle env \<and> r = Some h \<and> closes (dl_module env) cs = 0"
      "h = 0 \<longrightarrow> e \<noteq> OMX_ErrorNone \<and> r \<in> {None, Some 0} \<and> closes (dl_module env) cs \<le> 1"
      "opens (dl_module env) cs = 1" "\<forall>m. m \<noteq> dl_module env \<longrightarrow> opens m cs = 0 \<and> closes m cs = 0"
    show ?thesis by (rule slot_taken_inv [OF a(1) inv]) (use a(2-5) fresh in auto)
  qed (use inv in simp)
qed

text \<open>The slot of a handle, and what \<open>OMX_FreeHandle\<close> leaves of it.\<close>

lemma handle_slot:
  assumes "slots_ok s" "i < MAXCOMP" "pComponents s ! i = h" "h \<noteq> 0"
  shows "first_index h (pComponents s) = i"
proof -
  let ?k = "first_index h (pComponents s)"
  have "h \<in> set (pComponents s)" using assms by (auto simp: slots_ok_def in_set_conv_nth)
  then have "?k < MAXCOMP" "pComponents s ! ?k = h"
    using first_index_spec [of h "pComponents s"] assms(1) by (auto simp: slots_ok_def le_less)
  then show ?thesis using assms by (auto simp: slots_ok_def)
qed

lemma free_handle_slot:
  assumes "slots_ok s" "i < MAXCOMP" "pComponents s ! i = h" "h \<noteq> 0" "omx_count s > 0"
  shows "OMX_FreeHandle h s = (s\<lparr>pModules := (pModules s)[i := 0], pComponents := (pComponents s)[i := 0],
      omx_calls := omx_calls s @ [Component_deinit h, Dlclose (pModules s ! i), Free h]\<rparr>, OMX_ErrorNone)"
  using handle_slot [OF assms(1-4)] assms by (simp add: OMX_FreeHandle_def omx_log_def)

lemma free_handle_inv:
  assumes f: "OMX_FreeHandle h s = (s', e)" and inv: "omx_inv s"
  shows "omx_inv s'"
proof (cases "h = 0 \<or> \<not> omx_count s > 0 \<or> first_index h (pComponents s) = MAXCOMP")
  case True
  then have "s' = s" using f by (auto simp: OMX_FreeHandle_def Let_def split: if_splits)
  then show ?thesis using inv by simp
next
  case False
  have ok: "slots_ok s" and tab: "table_ok s" "0 \<le> omx_count s"
    and led: "\<And>k. k \<noteq> 0 \<Longrightarrow> closes k (omx_calls s) + live k s \<le> opens k (omx_calls s)" using inv by (simp_all add: omx_inv_def)
  have l: "length (pModules s) = MAXCOMP" "length (pComponents s) = MAXCOMP" using ok by (simp_all add: slots_ok_def)
  define i where "i = first_index h (pComponents s)"
  have i: "i < MAXCOMP" "pComponents s ! i = h" using False first_index_spec [of h "pComponents s"] l by (auto simp: le_less i_def)
  have s': "s' = s\<lparr>pModules := (pModules s)[i := 0], pComponents := (pComponents s)[i := 0],
      omx_calls := omx_calls s @ [Component_deinit h, Dlclose (pModules s ! i), Free h]\<rparr>"
    using free_handle_slot [OF ok i] False f by simp
  have "slots_ok s'" using ok i l unfolding slots_ok_def s' by (auto simp: nth_list_update)
  moreover have "closes k (omx_calls s') + live k s' \<le> opens k (omx_calls s')" if "k \<noteq> 0" for k
  proof -
    have "live k s' + (if pModules s ! i = k then 1 else 0) = live k s"
      using live_slot [of i s' s k] i l False by (simp add: s' nth_list_update)
    then show ?thesis using led [OF that] by (auto simp: s' split: if_splits)
  qed
  ultimately show ?thesis using tab by (simp add: omx_inv_def s' table_ok_def)
qed

section \<open>What a client can do\<close>

text \<open>\<open>malloc\<close> returns memory that is not in use: the new handle is none of the core's.\<close>

inductive omx_step :: "omx_core \<Rightarrow> omx_core \<Rightarrow> bool" where
  init: "omx_step s (fst (OMX_Init obtained released s))"
| deinit: "omx_step s (fst (OMX_Deinit s))"
| get_handle: "new_handle env \<notin> set (pComponents s) - {0} \<Longrightarrow> omx_step s (fst (OMX_GetHandle env name p c s))"
| free_handle: "omx_step s (fst (OMX_FreeHandle h s))"
| tunnel: "omx_step s (fst (OMX_SetupTunnel tenv h1 p1 h2 p2 s))"

lemma omx_init_inv: "omx_inv s \<Longrightarrow> omx_inv (fst (OMX_Init a b s))"
proof -
  assume inv: "omx_inv s"
  let ?s = "s\<lparr>omx_count := omx_count s + 1\<rparr>"
  have "slots_ok (OMX_BuildComponentTable t) = slots_ok t" "omx_count (OMX_BuildComponentTable t) = omx_count t"
    "omx_calls (OMX_BuildComponentTable t) = omx_calls t" "live m (OMX_BuildComponentTable t) = live m t" for t m
    by (simp_all add: OMX_BuildComponentTable_def slots_ok_def live_def split: prod.splits)
  note b = this
  have "table_ok (OMX_BuildComponentTable ?s)" using inv by (auto simp: omx_inv_def table_ok_def OMX_BuildComponentTable_def build_again)
  moreover have "table_ok ?s" if "omx_count s \<noteq> 0" using inv that by (simp add: omx_inv_def table_ok_def)
  moreover have "slots_ok ?s" "\<And>m. live m ?s = live m s" using inv by (simp_all add: omx_inv_def slots_ok_def live_def)
  ultimately show ?thesis using inv by (auto simp: OMX_Init_def Let_def omx_inv_def b)
qed

lemma omx_deinit_inv: "omx_inv s \<Longrightarrow> omx_inv (fst (OMX_Deinit s))"
  by (auto simp: OMX_Deinit_def omx_inv_def table_ok_def slots_ok_def live_def)

lemma omx_tunnel_inv: "omx_inv s \<Longrightarrow> omx_inv (fst (OMX_SetupTunnel env a b c d s))"
  by (simp add: OMX_SetupTunnel_def Let_def omx_log_def omx_inv_def table_ok_def slots_ok_def live_def)

lemma omx_step_inv:
  assumes "omx_step s t" "omx_inv s"
  shows "omx_inv t"
  using assms(1)
proof (cases rule: omx_step.cases)
  case (get_handle env name p c)
  obtain s' e r where g: "OMX_GetHandle env name p c s = (s', e, r)" by (rule prod_cases3)
  then show ?thesis using get_handle_inv [OF g assms(2)] get_handle by simp
next
  case (free_handle h)
  then show ?thesis using free_handle_inv [OF prod.collapse [symmetric] assms(2)] by simp
qed (use assms(2) in \<open>simp_all add: omx_init_inv omx_deinit_inv omx_tunnel_inv\<close>)

lemma initial_core_inv: "omx_inv initial_core"
  by (simp add: omx_inv_def slots_ok_def table_ok_def live_def initial_core_def)

interpretation omx_life: transition_invariant "\<lambda>s. s = initial_core" omx_step omx_inv
  by unfold_locales (auto simp: initial_core_inv intro: omx_step_inv)

lemma live_pos: "i < MAXCOMP \<Longrightarrow> pComponents s ! i \<noteq> 0 \<Longrightarrow> pModules s ! i = m \<Longrightarrow> 0 < live m s"
  by (auto simp: live_def filter_empty_conv)

section \<open>Properties of the core\<close>

text \<open>C19: Whatever clients do, in any order, the library of a component that has not been freed stays
  loaded: it was opened more often than it was closed; and no two components share a handle.\<close>

theorem omx_component_loaded:
  assumes "omx_step\<^sup>*\<^sup>* initial_core s" "i < MAXCOMP" "pComponents s ! i \<noteq> 0"
  shows "closes (pModules s ! i) (omx_calls s) < opens (pModules s ! i) (omx_calls s) \<and>
    (\<forall>j < MAXCOMP. pComponents s ! j = pComponents s ! i \<longrightarrow> j = i)"
proof -
  have inv: "omx_inv s" by (rule omx_life.reachable_inv [OF refl assms(1)])
  then have m: "pModules s ! i \<noteq> 0" using assms(2,3) by (simp add: omx_inv_def slots_ok_def)
  then have "closes (pModules s ! i) (omx_calls s) + live (pModules s ! i) s \<le> opens (pModules s ! i) (omx_calls s)"
    using inv by (simp add: omx_inv_def)
  then have "closes (pModules s ! i) (omx_calls s) < opens (pModules s ! i) (omx_calls s)"
    using live_pos [OF assms(2,3) refl] by linarith
  then show ?thesis using inv assms(2,3) by (auto simp: omx_inv_def slots_ok_def)
qed

text \<open>C22: Opening and closing a component leaves no trace.  Once \<open>OMX_GetHandle\<close> has returned a handle (even
  with an error from the component's callbacks), \<open>OMX_FreeHandle\<close> succeeds with it and gives back the slot, and
  every library is closed as often as it was opened in between.\<close>

theorem omx_handle_roundtrip:
  assumes reach: "omx_step\<^sup>*\<^sup>* initial_core s" and g: "OMX_GetHandle env name p c s = (s', e, Some h)" "h \<noteq> 0"
    and fresh: "new_handle env \<notin> set (pComponents s) - {0}"
  shows "\<exists>s''. OMX_FreeHandle h s' = (s'', OMX_ErrorNone) \<and> pModules s'' = pModules s \<and> pComponents s'' = pComponents s \<and>
    (\<forall>m. opens m (omx_calls s'') - opens m (omx_calls s) = closes m (omx_calls s'') - closes m (omx_calls s))"
proof -
  have inv: "omx_inv s" by (rule omx_life.reachable_inv [OF refl reach])
  then have ok: "slots_ok s" by (simp add: omx_inv_def)
  let ?i = "first_index 0 (pModules s)" and ?m = "dl_module env"
  have cnt: "omx_count s > 0" using g by (cases name) (auto simp: OMX_GetHandle_def Let_def split: if_splits)
  from get_handle_cases [OF g(1) ok] obtain cs where t: "slot_taken ?i ?m h cs s s'" and cs: "closes ?m cs = 0" "opens ?m cs = 1"
      "\<And>m. m \<noteq> ?m \<Longrightarrow> opens m cs = 0 \<and> closes m cs = 0" using g(2) by auto
  have l: "length (pModules s) = MAXCOMP" "length (pComponents s) = MAXCOMP" using ok by (simp_all add: slots_ok_def)
  have i: "?i < MAXCOMP" "pModules s ! ?i = 0" "pComponents s ! ?i = 0" using t ok by (auto simp: slot_taken_def slots_ok_def)
  have "slots_ok s'" using get_handle_inv [OF g(1) inv fresh] by (simp add: omx_inv_def)
  then have f: "OMX_FreeHandle h s' = (s'\<lparr>pModules := (pModules s')[?i := 0], pComponents := (pComponents s')[?i := 0],
      omx_calls := omx_calls s' @ [Component_deinit h, Dlclose (pModules s' ! ?i), Free h]\<rparr>, OMX_ErrorNone)"
    by (rule free_handle_slot) (use t i l g(2) cnt in \<open>auto simp: slot_taken_def\<close>)
  have "(pModules s)[?i := 0] = pModules s" "(pComponents s)[?i := 0] = pComponents s"
    using list_update_id [of "pModules s" ?i] list_update_id [of "pComponents s" ?i] i(2,3) by simp_all
  moreover have "opens m cs = closes m cs + (if m = ?m then 1 else 0)" for m using cs by (cases "m = ?m") auto
  ultimately show ?thesis unfolding f using t i l by (auto simp: slot_taken_def)
qed

text \<open>Witnesses: a client that initialises the core and opens the H.264 encoder.\<close>

definition demo_get :: get_env where
  "demo_get = \<lparr>secure_mode = False, dl_module = 100, dl_init = True, new_handle = 200, init_result = OMX_ErrorNone,
     callbacks_result = OMX_ErrorNone\<rparr>"

definition demo_core :: omx_core where
  "demo_core = fst (OMX_Init True True initial_core)"

definition demo_opened_core :: omx_core where
  "demo_opened_core = fst (OMX_GetHandle demo_get (Some ''OMX.TI.DUCATI1.VIDEO.H264E'') True True demo_core)"

lemma demo_core_components: "set (pComponents demo_core) - {0} = {}" "omx_count demo_core = 1" "table_ok demo_core"
  by (auto simp: demo_core_def OMX_Init_def initial_core_def OMX_BuildComponentTable_def Let_def build_again table_ok_def)

lemma demo_core_reached: "omx_step\<^sup>*\<^sup>* initial_core demo_core"
  unfolding demo_core_def by (rule r_into_rtranclp) (rule omx_step.init)

lemma demo_opened_reached: "omx_step\<^sup>*\<^sup>* initial_core demo_opened_core"
  unfolding demo_opened_core_def
  by (rule rtranclp.rtrancl_into_rtrancl [OF demo_core_reached]) (rule omx_step.get_handle, use demo_core_components(1) in blast)

lemma demo_opens_component:
  "OMX_GetHandle demo_get (Some ''OMX.TI.DUCATI1.VIDEO.H264E'') True True demo_core = (demo_opened_core, OMX_ErrorNone, Some 200)"
  "pComponents demo_opened_core ! 0 = 200" "pModules demo_opened_core ! 0 = 100"
proof -
  have m: "pModules demo_core = replicate 50 0" "pComponents demo_core = replicate 50 0"
    by (simp_all add: demo_core_def OMX_Init_def initial_core_def OMX_BuildComponentTable_def Let_def build_again MAXCOMP_def)
  have i: "first_index 0 (replicate 50 (0 :: nat)) = 0" by (simp add: numeral_eq_Suc)
  show "OMX_GetHandle demo_get (Some ''OMX.TI.DUCATI1.VIDEO.H264E'') True True demo_core = (demo_opened_core, OMX_ErrorNone, Some 200)"
    "pComponents demo_opened_core ! 0 = 200" "pModules demo_opened_core ! 0 = 100"
    by (simp_all add: demo_opened_core_def OMX_GetHandle_def demo_core_components(2) m i MAXCOMP_def MAXNAMESIZE_def demo_get_def
        start_component_def omx_log_def Let_def)
qed

theorem omx_component_loaded_witness: "closes 100 (omx_calls demo_opened_core) < opens 100 (omx_calls demo_opened_core)"
  using omx_component_loaded [OF demo_opened_reached, of 0] demo_opens_component by (simp add: MAXCOMP_def)

theorem omx_handle_roundtrip_witness:
  "\<exists>s''. OMX_FreeHandle 200 demo_opened_core = (s'', OMX_ErrorNone) \<and> pModules s'' = pModules demo_core"
  using omx_handle_roundtrip [OF demo_core_reached demo_opens_component(1)] demo_core_components(1) by auto

text \<open>The answers on the built table: the components of a role, and the roles of a component.\<close>

lemma built_components:
  assumes cnt: "omx_count s > 0" and t: "componentTable s = built_table" "tableCount s = 11"
  obtains names where
    "OMX_GetComponentsOfRole (Some role) (Some k) True s = Inr (OMX_ErrorNone, Some (length names), names)"
    "\<And>name. name \<in> set names \<longleftrightarrow> (\<exists>t \<in> set (take 11 built_table). ct_name t = Some name \<and> role \<in> set (entry_roles t))"
proof -
  let ?ts = "take 11 built_table"
  let ?cs = "concat (map (\<lambda>t. replicate (count_list (entry_roles t) role) (ct_name t)) ?ts)"
  have names: "t \<in> set ?ts \<Longrightarrow> ct_name t \<noteq> None" for t using built_entries(1) by (auto simp: list_all_iff entry_ok_def split: option.splits)
  then have no: "None \<notin> set ?cs" by force
  have comp: "OMX_GetComponentsOfRole (Some role) (Some k) True s = Inr (OMX_ErrorNone, Some (length (map the ?cs)), map the ?cs)"
    using cnt t built_entries(4) no by (simp add: OMX_GetComponentsOfRole_def components_of_role_ok [OF built_entries(1)] del: set_concat)
  have mem: "name \<in> set (map the ?cs) \<longleftrightarrow> (\<exists>t \<in> set ?ts. ct_name t = Some name \<and> role \<in> set (entry_roles t))" for name
  proof -
    have "set (map the ?cs) = (\<Union>t \<in> set ?ts. if role \<in> set (entry_roles t) then {the (ct_name t)} else {})"
      by (auto simp: set_replicate_count image_UN split: if_splits)
    then have "name \<in> set (map the ?cs) \<longleftrightarrow> (\<exists>t \<in> set ?ts. role \<in> set (entry_roles t) \<and> the (ct_name t) = name)"
      by (simp only:) (simp, blast)
    moreover have "the (ct_name t) = name \<longleftrightarrow> ct_name t = Some name" if "t \<in> set ?ts" for t
      using names [OF that] by auto
    ultimately show ?thesis by (simp only: conj_commute cong: bex_cong)
  qed
  show thesis by (rule that [OF comp mem])
qed

lemma built_roles:
  assumes cnt: "omx_count s > 0" and t: "componentTable s = built_table" "tableCount s = 11" and nm: "length name < MAXNAMESIZE"
  obtains num rs where
    "OMX_GetRolesOfComponent (Some name) (Some l) False s = Inr (OMX_ErrorNone, Some num, [])"
    "OMX_GetRolesOfComponent (Some name) (Some num) True s = Inr (OMX_ErrorNone, Some num, rs)"
    "\<And>role. role \<in> set rs \<longleftrightarrow> (\<exists>t \<in> set (take 11 built_table). ct_name t = Some name \<and> role \<in> set (entry_roles t))"
proof -
  let ?ts = "take 11 built_table"
  show thesis
  proof (cases "\<exists>i < 11. ct_name (?ts ! i) = Some name")
    case True
    then obtain i where i: "i < 11" "ct_name (?ts ! i) = Some name" by blast
    have f: "find_component name 0 ?ts = i"
      using find_component_nth [of i ?ts name 0] i built_entries(2,3) by simp
    have e: "entry_ok (built_table ! i)" using built_entries(1,3) i(1) by (simp add: list_all_length)
    let ?n = "nRoles (built_table ! i)" and ?rs = "entry_roles (built_table ! i)"
    have "OMX_GetRolesOfComponent (Some name) (Some l) False s = Inr (OMX_ErrorNone, Some ?n, [])"
      using cnt t nm i f by (simp add: OMX_GetRolesOfComponent_def MAX_TABLE_SIZE_def)
    moreover have "OMX_GetRolesOfComponent (Some name) (Some ?n) True s = Inr (OMX_ErrorNone, Some ?n, ?rs)"
      using cnt t nm i f e by (simp add: OMX_GetRolesOfComponent_def entry_ok_def copy_roles_ok entry_roles_def)
    moreover have "role \<in> set ?rs \<longleftrightarrow> (\<exists>t \<in> set ?ts. ct_name t = Some name \<and> role \<in> set (entry_roles t))" for role
    proof (rule iffI [rotated])
      assume "\<exists>t \<in> set ?ts. ct_name t = Some name \<and> role \<in> set (entry_roles t)"
      then obtain t where tt: "t \<in> set ?ts" "ct_name t = Some name" "role \<in> set (entry_roles t)" by blast
      from tt(1) obtain j where "j < length ?ts" "?ts ! j = t" by (auto simp: in_set_conv_nth)
      with tt have j: "j < 11" "ct_name (?ts ! j) = Some name" "role \<in> set (entry_roles (?ts ! j))" by simp_all
      then have "j = i" using built_entries(2,3) i by (simp add: distinct_conv_nth) metis
      then show "role \<in> set ?rs" using j i by simp
    next
      assume "role \<in> set ?rs"
      moreover have "?ts ! i \<in> set ?ts" by (rule nth_mem) (use i built_entries(3) in simp)
      moreover have "?ts ! i = built_table ! i" using i by simp
      ultimately show "\<exists>t \<in> set ?ts. ct_name t = Some name \<and> role \<in> set (entry_roles t)" using i(2) by metis
    qed
    ultimately show ?thesis by (rule that)
  next
    case False
    then have none: "ct_name t \<noteq> Some name" if "t \<in> set ?ts" for t
      using that built_entries(3) by (auto simp: in_set_conv_nth)
    then have "Some name \<notin> ct_name ` set ?ts" by (metis imageE)
    then have f: "find_component name 0 ?ts = 11" using find_component_none [of name ?ts 0] built_entries(3) by simp
    have "OMX_GetRolesOfComponent (Some name) (Some l) False s = Inr (OMX_ErrorNone, Some 0, [])"
      using cnt t nm f built_entries(5) by (simp add: OMX_GetRolesOfComponent_def MAX_TABLE_SIZE_def)
    moreover have "OMX_GetRolesOfComponent (Some name) (Some 0) True s = Inr (OMX_ErrorNone, Some 0, [])"
      using cnt t nm f by (simp add: OMX_GetRolesOfComponent_def)
    ultimately show ?thesis by (rule that) (use none in auto)
  qed
qed

text \<open>C21: The two queries of the table agree.  In every state with an initialised core, a component is among
  those that \<open>OMX_GetComponentsOfRole\<close> reports for a role iff the role is among those that
  \<open>OMX_GetRolesOfComponent\<close> reports for the component, asked first for the number and then for the roles.\<close>

theorem omx_roles_agree:
  assumes reach: "omx_step\<^sup>*\<^sup>* initial_core s" and cnt: "omx_count s > 0" and nm: "length name < MAXNAMESIZE"
  shows "\<exists>names num rs.
    OMX_GetComponentsOfRole (Some role) (Some k) True s = Inr (OMX_ErrorNone, Some (length names), names) \<and>
    OMX_GetRolesOfComponent (Some name) (Some l) False s = Inr (OMX_ErrorNone, Some num, []) \<and>
    OMX_GetRolesOfComponent (Some name) (Some num) True s = Inr (OMX_ErrorNone, Some num, rs) \<and>
    (name \<in> set names \<longleftrightarrow> role \<in> set rs)"
proof -
  have "omx_inv s" by (rule omx_life.reachable_inv [OF refl reach])
  then have t: "componentTable s = built_table" "tableCount s = 11" using cnt by (auto simp: omx_inv_def table_ok_def)
  from built_components [OF cnt t, of role k] built_roles [OF cnt t nm, of l] show ?thesis by metis
qed

theorem omx_roles_agree_witness:
  "\<exists>names num rs.
    OMX_GetComponentsOfRole (Some ''video_encoder.avc'') (Some 0) True demo_core = Inr (OMX_ErrorNone, Some (length names), names) \<and>
    OMX_GetRolesOfComponent (Some ''OMX.TI.DUCATI1.VIDEO.H264E'') (Some 0) False demo_core = Inr (OMX_ErrorNone, Some num, []) \<and>
    OMX_GetRolesOfComponent (Some ''OMX.TI.DUCATI1.VIDEO.H264E'') (Some num) True demo_core = Inr (OMX_ErrorNone, Some num, rs) \<and>
    (''OMX.TI.DUCATI1.VIDEO.H264E'' \<in> set names \<longleftrightarrow> ''video_encoder.avc'' \<in> set rs)"
  by (rule omx_roles_agree [OF demo_core_reached]) (simp_all add: demo_core_components MAXNAMESIZE_def)

text \<open>A component whose initialisation fails.\<close>

definition failing :: "get_env \<Rightarrow> bool" where
  "failing env \<longleftrightarrow> \<not> secure_mode env \<and> dl_module env \<noteq> 0 \<and> dl_init env \<and> new_handle env \<noteq> 0 \<and> init_result env \<noteq> OMX_ErrorNone"

definition try_handle :: "get_env \<Rightarrow> string \<Rightarrow> omx_core \<Rightarrow> omx_core" where
  "try_handle env name s = fst (OMX_GetHandle env (Some name) True True s)"

lemma free_slots_update:
  "i < length (pModules s) \<Longrightarrow> pModules s ! i = 0 \<Longrightarrow> m \<noteq> 0 \<Longrightarrow> Suc (free_slots (s\<lparr>pModules := (pModules s)[i := m]\<rparr>)) = free_slots s"
proof -
  assume a: "i < length (pModules s)" "pModules s ! i = 0" "m \<noteq> 0"
  let ?a = "take i (pModules s)" and ?b = "drop (Suc i) (pModules s)"
  have e: "pModules s = ?a @ 0 # ?b" using id_take_nth_drop [OF a(1)] a(2) by simp
  have u: "(pModules s)[i := m] = ?a @ m # ?b" by (rule upd_conv_take_nth_drop [OF a(1)])
  have "length (filter (\<lambda>x. x = 0) (pModules s)) = length (filter (\<lambda>x. x = 0) (?a @ 0 # ?b))" using e by argo
  then show ?thesis unfolding free_slots_def omx_core.simps u using a(3) by simp
qed

lemma full_refused:
  assumes "slots_ok s" "free_slots s = 0" "omx_count s > 0" "length name < MAXNAMESIZE"
  shows "OMX_GetHandle env (Some name) True True s = (s, OMX_ErrorInsufficientResources, None)"
proof -
  have "0 \<notin> set (pModules s)" using assms(2) by (auto simp: free_slots_def filter_empty_conv)
  then have "first_index 0 (pModules s) = MAXCOMP" using first_index_spec(2) [of 0 "pModules s"] assms(1) by (simp add: slots_ok_def)
  then show ?thesis using assms(3,4) by (simp add: OMX_GetHandle_def)
qed

lemma try_failing:
  assumes ok: "slots_ok s" and f: "failing env" and cnt: "omx_count s > 0" and nm: "length name < MAXNAMESIZE"
  shows "slots_ok (try_handle env name s)" "omx_count (try_handle env name s) = omx_count s"
    "pComponents (try_handle env name s) = pComponents s" "free_slots (try_handle env name s) = free_slots s - 1"
proof -
  let ?i = "first_index 0 (pModules s)"
  have l: "length (pModules s) = MAXCOMP" "length (pComponents s) = MAXCOMP" using ok by (simp_all add: slots_ok_def)
  have "slots_ok (try_handle env name s) \<and> omx_count (try_handle env name s) = omx_count s \<and>
    pComponents (try_handle env name s) = pComponents s \<and> free_slots (try_handle env name s) = free_slots s - 1"
  proof (cases "?i = MAXCOMP")
    case True
    then have "0 \<notin> set (pModules s)" using first_index_spec(2) [of 0 "pModules s"] l by simp
    then have z: "free_slots s = 0" unfolding free_slots_def by (metis (mono_tags, lifting) filter_False length_0_conv)
    then show ?thesis using full_refused [OF ok z cnt nm] ok by (simp add: try_handle_def)
  next
    case False
    then have i: "?i < MAXCOMP" "pModules s ! ?i = 0" using first_index_spec [of 0 "pModules s"] l by (auto simp: le_less)
    then have "pComponents s ! ?i = 0" using ok by (auto simp: slots_ok_def)
    then have c: "(pComponents s)[?i := 0] = pComponents s" by (metis list_update_id)
    obtain cs where t: "try_handle env name s = s\<lparr>pModules := (pModules s)[?i := dl_module env], omx_calls := cs\<rparr>"
      using f cnt nm False c by (auto simp: try_handle_def OMX_GetHandle_def start_component_def failing_def omx_log_def Let_def)
    have "slots_ok (try_handle env name s)" using ok i l f unfolding slots_ok_def t failing_def by (auto simp: nth_list_update)
    moreover have "Suc (free_slots (try_handle env name s)) = free_slots s"
      using free_slots_update [of ?i s "dl_module env"] i l f by (simp add: t failing_def free_slots_def)
    ultimately show ?thesis by (simp add: t)
  qed
  then show "slots_ok (try_handle env name s)" "omx_count (try_handle env name s) = omx_count s"
    "pComponents (try_handle env name s) = pComponents s" "free_slots (try_handle env name s) = free_slots s - 1" by simp_all
qed

text \<open>C40: Each failed start of a component costs a slot for good: \<open>OMX_GetHandle\<close> closes the library but does
  not clear its slot.  After as many failures as there were free slots no component can be opened any
  more, although no more are in use than before.\<close>

theorem omx_failures_use_up_slots:
  assumes reach: "omx_step\<^sup>*\<^sup>* initial_core s" and "omx_count s > 0" "failing env" "length name < MAXNAMESIZE"
    and n: "free_slots s \<le> n" and "length other < MAXNAMESIZE"
  shows "pComponents ((try_handle env name ^^ n) s) = pComponents s \<and>
    OMX_GetHandle env' (Some other) True True ((try_handle env name ^^ n) s) =
      ((try_handle env name ^^ n) s, OMX_ErrorInsufficientResources, None)"
proof -
  have ok: "slots_ok s" using omx_life.reachable_inv [OF refl reach] by (simp add: omx_inv_def)
  have "slots_ok ((try_handle env name ^^ k) s) \<and> omx_count ((try_handle env name ^^ k) s) = omx_count s \<and>
      pComponents ((try_handle env name ^^ k) s) = pComponents s \<and> free_slots ((try_handle env name ^^ k) s) = free_slots s - k" for k
  proof (induction k)
    case (Suc k)
    then show ?case using try_failing [of "(try_handle env name ^^ k) s" env name] assms(2-4) by simp
  qed (use ok in simp)
  then show ?thesis using full_refused [of "(try_handle env name ^^ n) s" other env'] assms(2,6) n by simp
qed

theorem omx_failures_use_up_slots_witness:
  "OMX_GetHandle demo_get (Some ''OMX.TI.DUCATI1.VIDEO.H264E'') True True
     ((try_handle (demo_get\<lparr>init_result := OMX_ErrorUndefined\<rparr>) ''OMX.TI.DUCATI1.VIDEO.VC1E'' ^^ 50) demo_core) =
   ((try_handle (demo_get\<lparr>init_result := OMX_ErrorUndefined\<rparr>) ''OMX.TI.DUCATI1.VIDEO.VC1E'' ^^ 50) demo_core,
    OMX_ErrorInsufficientResources, None)"
proof -
  have "free_slots demo_core \<le> length (pModules demo_core)" by (simp add: free_slots_def)
  also have "\<dots> = 50" by (simp add: demo_core_def OMX_Init_def initial_core_def OMX_BuildComponentTable_def Let_def build_again MAXCOMP_def)
  finally show ?thesis
    using omx_failures_use_up_slots [OF demo_core_reached] by (simp add: demo_core_components failing_def demo_get_def MAXNAMESIZE_def)
qed

end
