(* ===== verification/Osal_Pipes.thy ===== *)
theory Osal_Pipes
  imports Prelude
begin

text \<open>
  The message pipes of the OS abstraction (\<^verbatim>\<open>domx/mm_osal/src/timm_osal_pipes.c\<close>), which the OpenMAX proxies
  use between threads: messages are bytes in a pipe of the kernel, next to a count of messages and of
  bytes.

  The kernel's pipe is a parameter in its documented behaviour: it keeps the bytes in order and has room
  for \<open>cap\<close> of them; a write that does not fit and a read of an empty pipe block.  An operation that
  blocks has the value \<open>None\<close>; \<open>fails\<close> says that a system call returns -1.
\<close>

datatype TIMM_OSAL_ERRORTYPE = TIMM_OSAL_ERR_NONE | TIMM_OSAL_ERR | TIMM_OSAL_ERR_ALLOC | TIMM_OSAL_ERR_PARAMETER
  | TIMM_OSAL_ERR_NOT_READY | TIMM_OSAL_ERR_PIPE_EMPTY | TIMM_OSAL_ERR_UNKNOWN

definition TIMM_OSAL_SUSPEND :: "32 word" where
  "TIMM_OSAL_SUSPEND = 0xFFFFFFFF"

definition TIMM_OSAL_NO_SUSPEND :: "32 word" where
  "TIMM_OSAL_NO_SUSPEND = 0"

section \<open>The pipe of the kernel\<close>

definition pipe_write :: "nat \<Rightarrow> bool \<Rightarrow> byte list \<Rightarrow> byte list \<Rightarrow> (byte list \<times> int) option" where
  "pipe_write cap fails data buf =
     (if fails then Some (buf, -1)
      else if cap < length buf + length data then None
      else Some (buf @ data, int (length data)))"

definition pipe_read :: "bool \<Rightarrow> nat \<Rightarrow> byte list \<Rightarrow> (byte list \<times> int \<times> byte list) option" where
  "pipe_read fails n buf =
     (if fails then Some ([], -1, buf)
      else if n = 0 then Some ([], 0, buf)
      else if buf = [] then None
      else Some (take n buf, int (min n (length buf)), drop n buf))"

section \<open>The operations\<close>

record TIMM_OSAL_PIPE =
  pipe_data :: "byte list"
  pipeSize :: "32 word"
  messageSize :: "32 word"
  isFixedMessage :: byte
  messageCount :: int
  totalBytesInPipe :: int

text \<open>A sum that is stored in an \<open>int\<close>.\<close>

definition wrap32 :: "int \<Rightarrow> int" where
  "wrap32 x = sint (word_of_int x :: 32 word)"

definition TIMM_OSAL_CreatePipe :: "bool \<Rightarrow> bool \<Rightarrow> 32 word \<Rightarrow> 32 word \<Rightarrow> byte \<Rightarrow> TIMM_OSAL_PIPE option \<times> TIMM_OSAL_ERRORTYPE" where
  "TIMM_OSAL_CreatePipe malloc_ok pipe_ok psize msize fixed =
     (if \<not> malloc_ok then (None, TIMM_OSAL_ERR_ALLOC)
      else if \<not> pipe_ok then (None, TIMM_OSAL_ERR_UNKNOWN)
      else (Some \<lparr>pipe_data = [], pipeSize = psize, messageSize = msize, isFixedMessage = fixed, messageCount = 0,
                  totalBytesInPipe = 0\<rparr>, TIMM_OSAL_ERR_NONE))"

definition TIMM_OSAL_DeletePipe :: "bool \<Rightarrow> bool \<Rightarrow> TIMM_OSAL_PIPE option \<Rightarrow> TIMM_OSAL_ERRORTYPE" where
  "TIMM_OSAL_DeletePipe close0 close1 pPipe =
     (case pPipe of
        None \<Rightarrow> TIMM_OSAL_ERR_PARAMETER
      | Some _ \<Rightarrow> if close0 \<and> close1 then TIMM_OSAL_ERR_NONE else TIMM_OSAL_ERR_UNKNOWN)"

text \<open>\<open>size\<close> is the length of the message.\<close>

abbreviation msg_size :: "byte list \<Rightarrow> 32 word" where
  "msg_size m \<equiv> of_nat (length m)"

definition TIMM_OSAL_WriteToPipe :: "nat \<Rightarrow> bool \<Rightarrow> byte list \<Rightarrow> TIMM_OSAL_PIPE \<Rightarrow> (TIMM_OSAL_PIPE \<times> TIMM_OSAL_ERRORTYPE) option" where
  "TIMM_OSAL_WriteToPipe cap fails pMessage p =
     (if msg_size pMessage = 0 then Some (p, TIMM_OSAL_ERR_PARAMETER)
      else case pipe_write cap fails pMessage (pipe_data p) of
        None \<Rightarrow> None
      | Some (buf, lSizeWritten) \<Rightarrow>
          Some (if (word_of_int lSizeWritten :: 32 word) \<noteq> msg_size pMessage
                then (p\<lparr>pipe_data := buf\<rparr>, TIMM_OSAL_ERR_PARAMETER)
                else (p\<lparr>pipe_data := buf, messageCount := wrap32 (messageCount p + 1),
                        totalBytesInPipe := wrap32 (totalBytesInPipe p + uint (msg_size pMessage))\<rparr>, TIMM_OSAL_ERR_NONE)))"

text \<open>
  Writing to the front: the message is written behind the others, then these are read and written again.
  \<open>temp\<close> is what the new memory holds behind the bytes that were read.
\<close>

definition rotate_pipe :: "nat \<Rightarrow> bool \<Rightarrow> byte list \<Rightarrow> byte list \<Rightarrow> TIMM_OSAL_PIPE \<Rightarrow> (TIMM_OSAL_PIPE \<times> TIMM_OSAL_ERRORTYPE) option" where
  "rotate_pipe cap malloc_ok temp pMessage p =
     (if \<not> malloc_ok then Some (p, TIMM_OSAL_ERR_PARAMETER)
      else
        (let n = unat (word_of_int (totalBytesInPipe p) :: 32 word)
         in case pipe_read False n (pipe_data p) of
              None \<Rightarrow> None
            | Some (bytes, _, buf) \<Rightarrow>
                (case pipe_write cap False (take n (bytes @ temp)) buf of
                   None \<Rightarrow> None
                 | Some (buf, lSizeWritten) \<Rightarrow>
                     Some (if (word_of_int lSizeWritten :: 32 word) \<noteq> msg_size pMessage
                           then (p\<lparr>pipe_data := buf\<rparr>, TIMM_OSAL_ERR_PARAMETER)
                           else (p\<lparr>pipe_data := buf, totalBytesInPipe := wrap32 (totalBytesInPipe p + uint (msg_size pMessage))\<rparr>,
                                 TIMM_OSAL_ERR_UNKNOWN)))))"

definition TIMM_OSAL_WriteToFrontOfPipe :: "nat \<Rightarrow> bool \<Rightarrow> bool \<Rightarrow> byte list \<Rightarrow> byte list \<Rightarrow> TIMM_OSAL_PIPE \<Rightarrow>
    (TIMM_OSAL_PIPE \<times> TIMM_OSAL_ERRORTYPE) option" where
  "TIMM_OSAL_WriteToFrontOfPipe cap fails malloc_ok temp pMessage p =
     (if msg_size pMessage = 0 then Some (p, TIMM_OSAL_ERR_PARAMETER)
      else case pipe_write cap fails pMessage (pipe_data p) of
        None \<Rightarrow> None
      | Some (buf, lSizeWritten) \<Rightarrow>
          if (word_of_int lSizeWritten :: 32 word) \<noteq> msg_size pMessage then Some (p\<lparr>pipe_data := buf\<rparr>, TIMM_OSAL_ERR_PARAMETER)
          else
            (let p = p\<lparr>pipe_data := buf, messageCount := wrap32 (messageCount p + 1)\<rparr>
             in if messageCount p > 1 then rotate_pipe cap malloc_ok temp pMessage p
                else Some (p, TIMM_OSAL_ERR_UNKNOWN)))"

text \<open>The result has the bytes that were read and the value of \<open>*actualSize\<close>, if it is written.\<close>

definition TIMM_OSAL_ReadFromPipe :: "bool \<Rightarrow> 32 word \<Rightarrow> 32 word \<Rightarrow> TIMM_OSAL_PIPE \<Rightarrow>
    (TIMM_OSAL_PIPE \<times> TIMM_OSAL_ERRORTYPE \<times> byte list \<times> 32 word option) option" where
  "TIMM_OSAL_ReadFromPipe fails sz timeout p =
     (if sz = 0 then Some (p, TIMM_OSAL_ERR_PARAMETER, [], None)
      else if messageCount p = 0 \<and> timeout = TIMM_OSAL_NO_SUSPEND then Some (p, TIMM_OSAL_ERR_PIPE_EMPTY, [], None)
      else case pipe_read fails (unat sz) (pipe_data p) of
        None \<Rightarrow> None
      | Some (bytes, n, buf) \<Rightarrow>
          (let lSizeRead = word_of_int n :: 32 word
           in Some (if lSizeRead = 0 then (p\<lparr>pipe_data := buf\<rparr>, TIMM_OSAL_ERR_PARAMETER, bytes, Some lSizeRead)
                    else (p\<lparr>pipe_data := buf, messageCount := wrap32 (messageCount p - 1),
                            totalBytesInPipe := wrap32 (totalBytesInPipe p - uint sz)\<rparr>, TIMM_OSAL_ERR_NONE, bytes, Some lSizeRead))))"

definition TIMM_OSAL_ClearPipe :: "TIMM_OSAL_PIPE \<Rightarrow> TIMM_OSAL_ERRORTYPE" where
  "TIMM_OSAL_ClearPipe p = TIMM_OSAL_ERR"

definition TIMM_OSAL_IsPipeReady :: "TIMM_OSAL_PIPE \<Rightarrow> TIMM_OSAL_ERRORTYPE" where
  "TIMM_OSAL_IsPipeReady p = (if messageCount p \<le> 0 then TIMM_OSAL_ERR_NOT_READY else TIMM_OSAL_ERR_NONE)"

definition TIMM_OSAL_GetPipeReadyMessageCount :: "TIMM_OSAL_PIPE \<Rightarrow> 32 word" where
  "TIMM_OSAL_GetPipeReadyMessageCount p = word_of_int (messageCount p)"

section \<open>The pipe as a queue\<close>

text \<open>The sequences of requests a queue gets, from any of its threads, and the replies.\<close>

datatype 'm queue_op = Send 'm | Receive

datatype 'm reply = Sent | Received 'm | Refused

fun queue_run :: "('m \<Rightarrow> 's \<Rightarrow> 's option) \<Rightarrow> ('s \<Rightarrow> ('m \<times> 's) option) \<Rightarrow> 'm queue_op list \<Rightarrow> 's \<Rightarrow> 'm reply list" where
  "queue_run snd_op rcv_op [] s = []"
| "queue_run snd_op rcv_op (Send m # ops) s =
     (case snd_op m s of None \<Rightarrow> Refused # queue_run snd_op rcv_op ops s | Some s' \<Rightarrow> Sent # queue_run snd_op rcv_op ops s')"
| "queue_run snd_op rcv_op (Receive # ops) s =
     (case rcv_op s of None \<Rightarrow> Refused # queue_run snd_op rcv_op ops s | Some (m, s') \<Rightarrow> Received m # queue_run snd_op rcv_op ops s')"

text \<open>The specification: a list with a bound on its length.\<close>

definition list_send :: "nat \<Rightarrow> 'm \<Rightarrow> 'm list \<Rightarrow> 'm list option" where
  "list_send room m q = (if length q < room then Some (q @ [m]) else None)"

fun list_receive :: "'m list \<Rightarrow> ('m \<times> 'm list) option" where
  "list_receive [] = None"
| "list_receive (m # q) = Some (m, q)"

text \<open>
  What a provider of a queue promises: a state stands for a list of messages, and the two operations
  do on it what they do on the list.
\<close>

locale message_queue =
  fixes send :: "'m \<Rightarrow> 's \<Rightarrow> 's option" and receive :: "'s \<Rightarrow> ('m \<times> 's) option"
    and ok :: "'m \<Rightarrow> bool" and rep :: "'s \<Rightarrow> 'm list \<Rightarrow> bool" and room :: nat
  assumes send_rep: "rep s q \<Longrightarrow> ok m \<Longrightarrow> rel_option rep (send m s) (list_send room m q)"
    and receive_rep: "rep s q \<Longrightarrow> rel_option (rel_prod (=) rep) (receive s) (list_receive q)"
begin

lemma run_refines:
  "rep s q \<Longrightarrow> (\<And>m. Send m \<in> set ops \<Longrightarrow> ok m) \<Longrightarrow> queue_run send receive ops s = queue_run (list_send room) list_receive ops q"
proof (induction ops arbitrary: s q)
  case (Cons op ops)
  show ?case
  proof (cases op)
    case (Send m)
    have "rel_option rep (send m s) (list_send room m q)" using send_rep Cons.prems Send by simp
    then show ?thesis using Cons Send by (cases rule: option.rel_cases) auto
  next
    case Receive
    have "rel_option (rel_prod (=) rep) (receive s) (list_receive q)" using receive_rep Cons.prems by blast
    then show ?thesis using Cons Receive by (cases rule: option.rel_cases) auto
  qed
qed simp

end

text \<open>The pipe for messages of \<open>k\<close> bytes: an operation counts when it reports success.\<close>

definition pipe_send :: "nat \<Rightarrow> byte list \<Rightarrow> TIMM_OSAL_PIPE \<Rightarrow> TIMM_OSAL_PIPE option" where
  "pipe_send cap m p =
     (case TIMM_OSAL_WriteToPipe cap False m p of Some (p', TIMM_OSAL_ERR_NONE) \<Rightarrow> Some p' | _ \<Rightarrow> None)"

definition pipe_receive :: "nat \<Rightarrow> 32 word \<Rightarrow> TIMM_OSAL_PIPE \<Rightarrow> (byte list \<times> TIMM_OSAL_PIPE) option" where
  "pipe_receive k timeout p =
     (case TIMM_OSAL_ReadFromPipe False (of_nat k) timeout p of
        Some (p', TIMM_OSAL_ERR_NONE, bytes, n) \<Rightarrow> Some (bytes, p') | _ \<Rightarrow> None)"

definition pipe_rep :: "nat \<Rightarrow> nat \<Rightarrow> TIMM_OSAL_PIPE \<Rightarrow> byte list list \<Rightarrow> bool" where
  "pipe_rep k cap p q \<longleftrightarrow> 0 < k \<and> cap < 2 ^ 31 \<and> pipe_data p = concat q \<and> (\<forall>m \<in> set q. length m = k) \<and> k * length q \<le> cap \<and>
     messageCount p = int (length q) \<and> totalBytesInPipe p = int (k * length q)"

lemma word_of_size: "0 < k \<Longrightarrow> k < 2 ^ 31 \<Longrightarrow> uint (of_nat k :: 32 word) = int k \<and> (of_nat k :: 32 word) \<noteq> 0 \<and> unat (of_nat k :: 32 word) = k"
  by (simp add: unsigned_of_nat take_bit_nat_eq_self word_of_nat_eq_0_iff nat_dvd_not_less)

lemma wrap32_small: "0 \<le> x \<Longrightarrow> x < 2 ^ 31 \<Longrightarrow> wrap32 x = x"
  by (simp add: wrap32_def sint_small)

lemma length_concat_same: "\<forall>m \<in> set q. length m = k \<Longrightarrow> length (concat q) = k * length q"
  by (induction q) auto

lemma pipe_send_rep:
  assumes r: "pipe_rep k cap p q" and m: "length m = k"
  shows "rel_option (pipe_rep k cap) (pipe_send cap m p) (list_send (cap div k) m q)"
proof -
  have k: "0 < k" "cap < 2 ^ 31" "k * length q \<le> cap" and c: "length (pipe_data p) = k * length q"
    using r length_concat_same [of q k] by (auto simp: pipe_rep_def)
  have n: "length q < cap div k \<longleftrightarrow> k * length q + k \<le> cap"
    using k(1) by (simp add: Suc_le_eq [symmetric] less_eq_div_iff_mult_less_eq algebra_simps)
  show ?thesis
  proof (cases "length q < cap div k")
    case False
    then have "\<not> k * length q + k \<le> cap" using n by simp
    then have "TIMM_OSAL_WriteToPipe cap False m p = None \<or> (\<exists>p'. TIMM_OSAL_WriteToPipe cap False m p = Some (p', TIMM_OSAL_ERR_PARAMETER))"
      using c m by (simp add: TIMM_OSAL_WriteToPipe_def pipe_write_def)
    then show ?thesis using False by (auto simp: pipe_send_def list_send_def)
  next
    case True
    then have room: "k * length q + k \<le> cap" using n by simp
    then have k31: "k < 2 ^ 31" using k by linarith
    note u = word_of_size [OF k(1) k31]
    have "length q \<le> k * length q" using k(1) by simp
    then have "length q + 1 < 2 ^ 31" using room k by linarith
    then have "wrap32 (int (length q) + 1) = int (length q) + 1" "wrap32 (int (k * length q) + int k) = int (k * length q) + int k"
      using room k by (auto intro!: wrap32_small simp flip: of_nat_add of_nat_mult)
    then have "pipe_send cap m p = Some (p\<lparr>pipe_data := concat q @ m, messageCount := int (length q) + 1,
        totalBytesInPipe := int (k * length q) + int k\<rparr>)"
      using r m c room u by (simp add: pipe_send_def TIMM_OSAL_WriteToPipe_def pipe_write_def pipe_rep_def)
    moreover have "pipe_rep k cap (p\<lparr>pipe_data := concat q @ m, messageCount := int (length q) + 1,
        totalBytesInPipe := int (k * length q) + int k\<rparr>) (q @ [m])"
      using r m room k by (auto simp: pipe_rep_def algebra_simps)
    ultimately show ?thesis using True by (simp add: list_send_def)
  qed
qed

lemma pipe_receive_rep:
  assumes r: "pipe_rep k cap p q"
  shows "rel_option (rel_prod (=) (pipe_rep k cap)) (pipe_receive k timeout p) (list_receive q)"
proof (cases q)
  case Nil
  then have "pipe_data p = []" using r by (simp add: pipe_rep_def)
  then show ?thesis using Nil by (auto simp: pipe_receive_def TIMM_OSAL_ReadFromPipe_def pipe_read_def)
next
  case (Cons m q')
  have k: "0 < k" "cap < 2 ^ 31" "k * length q \<le> cap" "length m = k" "pipe_data p = m @ concat q'" "\<forall>m \<in> set q'. length m = k"
    and n: "messageCount p = int (length q') + 1" "totalBytesInPipe p = int (k * length q') + int k"
    using r Cons by (auto simp: pipe_rep_def algebra_simps)
  then have k31: "k < 2 ^ 31" using Cons by (simp add: mult_le_mono2 order_le_less_trans)
  have l: "length q' \<le> k * length q'" "k * length q' < 2 ^ 31" using k Cons by simp_all
  then have "length q' < 2 ^ 31" by linarith
  then have "wrap32 (int (length q')) = int (length q')" "wrap32 (int (k * length q')) = int (k * length q')"
    using l(2) by (auto intro!: wrap32_small simp flip: of_nat_mult)
  moreover have "(word_of_int (int k) :: 32 word) \<noteq> 0" using word_of_size [OF k(1) k31] by simp
  ultimately have "pipe_receive k timeout p = Some (m, p\<lparr>pipe_data := concat q', messageCount := int (length q'),
      totalBytesInPipe := int (k * length q')\<rparr>)"
    using word_of_size [OF k(1) k31] k n by (auto simp: pipe_receive_def TIMM_OSAL_ReadFromPipe_def pipe_read_def min_def)
  moreover have "pipe_rep k cap (p\<lparr>pipe_data := concat q', messageCount := int (length q'),
      totalBytesInPipe := int (k * length q')\<rparr>) q'" using k Cons by (simp add: pipe_rep_def)
  ultimately show ?thesis using Cons by simp
qed

interpretation osal_queue: message_queue "pipe_send cap" "pipe_receive k timeout" "\<lambda>m. length m = k" "pipe_rep k cap" "cap div k"
  for cap k timeout
  by unfold_locales (auto intro: pipe_send_rep pipe_receive_rep)

section \<open>Properties of the pipes\<close>



text \<open>Writing to the front of a pipe never reports success: whatever the pipe holds and the system
  answers, \<open>TIMM_OSAL_WriteToFrontOfPipe\<close> blocks or returns an error, also when the message is in the pipe.\<close>

theorem front_write_never_succeeds:
  "TIMM_OSAL_WriteToFrontOfPipe cap fails malloc_ok temp m p \<noteq> Some (p', TIMM_OSAL_ERR_NONE)"
  by (auto simp: TIMM_OSAL_WriteToFrontOfPipe_def rotate_pipe_def Let_def split: option.splits if_splits prod.splits)

text \<open>On an empty pipe the message does get in, with a byte count that is too small.\<close>

lemma front_write_on_empty:
  assumes "TIMM_OSAL_CreatePipe True True psize msize fixed = (Some p, e)" "0 < length m" "length m < 2 ^ 31" "length m \<le> cap"
  shows "TIMM_OSAL_WriteToFrontOfPipe cap False malloc_ok temp m p = Some (p\<lparr>pipe_data := m, messageCount := 1\<rparr>, TIMM_OSAL_ERR_UNKNOWN)"
  using assms word_of_size [of "length m"]
  by (auto simp: TIMM_OSAL_WriteToFrontOfPipe_def TIMM_OSAL_CreatePipe_def pipe_write_def wrap32_small)

end
