(* ===== verification/Osal_Events.thy ===== *)
theory Osal_Events
  imports Osal_Pipes "HOL-Library.Multiset"
begin

text \<open>
  The event groups of the OS abstraction (\<^verbatim>\<open>domx/mm_osal/src/timm_osal_events.c\<close>): 32 flags that threads
  set and wait for, under a mutex and a condition variable.

  A call that waits is cut at its waits: \<open>retrieve_start\<close> runs from taking the mutex to the first wait or to
  the end, \<open>retrieve_wake\<close> from the return of a wait to the next one or to the end; in between the mutex is
  free.  What the pthread calls answer are parameters.  The condition variable behaves as POSIX says: a
  signal wakes at least one of the threads that wait, and a thread may wake without a signal.
\<close>

unbundle bit_operations_syntax

section \<open>The operations\<close>

datatype TIMM_OSAL_EVENT_OPERATION = TIMM_OSAL_EVENT_AND | TIMM_OSAL_EVENT_AND_CONSUME | TIMM_OSAL_EVENT_OR
  | TIMM_OSAL_EVENT_OR_CONSUME

record TIMM_OSAL_THREAD_EVENT =
  bSignaled :: bool
  eFlags :: "32 word"

definition TIMM_OSAL_EventCreate :: "bool \<Rightarrow> bool \<Rightarrow> bool \<Rightarrow> TIMM_OSAL_THREAD_EVENT option \<times> TIMM_OSAL_ERRORTYPE" where
  "TIMM_OSAL_EventCreate malloc_ok mutex_ok cond_ok =
     (if \<not> malloc_ok then (None, TIMM_OSAL_ERR_ALLOC)
      else if \<not> mutex_ok then (None, TIMM_OSAL_ERR_UNKNOWN)
      else if \<not> cond_ok then (None, TIMM_OSAL_ERR_UNKNOWN)
      else (Some \<lparr>bSignaled = False, eFlags = 0\<rparr>, TIMM_OSAL_ERR_NONE))"

definition TIMM_OSAL_EventDelete :: "bool \<Rightarrow> bool \<Rightarrow> bool \<Rightarrow> bool \<Rightarrow> TIMM_OSAL_THREAD_EVENT option \<Rightarrow> TIMM_OSAL_ERRORTYPE" where
  "TIMM_OSAL_EventDelete lock_ok cond_ok unlock_ok mutex_ok pEvents =
     (case pEvents of
        None \<Rightarrow> TIMM_OSAL_ERR_PARAMETER
      | Some _ \<Rightarrow> if lock_ok \<and> cond_ok \<and> unlock_ok \<and> mutex_ok then TIMM_OSAL_ERR_NONE else TIMM_OSAL_ERR_UNKNOWN)"

text \<open>The last component of the result says whether the condition variable is signalled.\<close>

definition TIMM_OSAL_EventSet :: "bool \<Rightarrow> bool \<Rightarrow> bool \<Rightarrow> TIMM_OSAL_THREAD_EVENT option \<Rightarrow> 32 word \<Rightarrow> TIMM_OSAL_EVENT_OPERATION \<Rightarrow>
    TIMM_OSAL_THREAD_EVENT option \<times> TIMM_OSAL_ERRORTYPE \<times> bool" where
  "TIMM_OSAL_EventSet lock_ok signal_ok unlock_ok pEvents uEventFlags eOperation =
     (case pEvents of
        None \<Rightarrow> (None, TIMM_OSAL_ERR_PARAMETER, False)
      | Some ev \<Rightarrow>
          if \<not> lock_ok then (Some ev, TIMM_OSAL_ERR_UNKNOWN, False)
          else
            (let set_flags = \<lambda>flags. (Some (ev\<lparr>bSignaled := True, eFlags := flags\<rparr>),
                   if signal_ok \<and> unlock_ok then TIMM_OSAL_ERR_NONE else TIMM_OSAL_ERR_UNKNOWN, signal_ok)
             in case eOperation of
                  TIMM_OSAL_EVENT_AND \<Rightarrow> set_flags (eFlags ev AND uEventFlags)
                | TIMM_OSAL_EVENT_OR \<Rightarrow> set_flags (eFlags ev OR uEventFlags)
                | _ \<Rightarrow> (Some ev, TIMM_OSAL_ERR_PARAMETER, False)))"

definition and_operation :: "TIMM_OSAL_EVENT_OPERATION \<Rightarrow> bool" where
  "and_operation eOperation \<longleftrightarrow> eOperation = TIMM_OSAL_EVENT_AND \<or> eOperation = TIMM_OSAL_EVENT_AND_CONSUME"

definition is_consume :: "TIMM_OSAL_EVENT_OPERATION \<Rightarrow> bool" where
  "is_consume op \<longleftrightarrow> op = TIMM_OSAL_EVENT_AND_CONSUME \<or> op = TIMM_OSAL_EVENT_OR_CONSUME"

definition isolatedFlags :: "TIMM_OSAL_EVENT_OPERATION \<Rightarrow> 32 word \<Rightarrow> TIMM_OSAL_THREAD_EVENT \<Rightarrow> 32 word" where
  "isolatedFlags eOperation uRequestedEvents ev =
     (let isolated = eFlags ev AND uRequestedEvents
      in if and_operation eOperation then (if isolated = uRequestedEvents then 1 else 0) else isolated)"

text \<open>The absolute time at which a wait ends, in seconds and nanoseconds; all sums are of 32 bits.\<close>

type_synonym timespec = "32 word \<times> 32 word"

definition wait_until :: "32 word \<Rightarrow> 32 word \<Rightarrow> 32 word \<Rightarrow> timespec" where
  "wait_until tv_sec tv_usec uTimeOutMsec =
     (let timeout_us = tv_usec + 1000 * uTimeOutMsec
      in (tv_sec + timeout_us div 1000000, (timeout_us mod 1000000) * 1000))"

text \<open>
  A call has returned, with a status and what it wrote to \<open>pRetrievedEvents\<close>, or waits, with a deadline or
  without.
\<close>

datatype retrieve_state = Returned TIMM_OSAL_ERRORTYPE "32 word option" | Waiting "timespec option"

text \<open>The end of the call: flags that were asked for with \<open>CONSUME\<close> are reset, the mutex is released.\<close>

definition retrieve_leave :: "bool \<Rightarrow> TIMM_OSAL_EVENT_OPERATION \<Rightarrow> 32 word \<Rightarrow> TIMM_OSAL_ERRORTYPE \<Rightarrow> 32 word \<Rightarrow>
    TIMM_OSAL_THREAD_EVENT \<Rightarrow> TIMM_OSAL_THREAD_EVENT \<times> retrieve_state" where
  "retrieve_leave unlock_ok eOperation isolated status retrieved ev =
     (if isolated \<noteq> 0 \<and> is_consume eOperation then ev\<lparr>eFlags := 0\<rparr> else ev,
      Returned (if unlock_ok then status else TIMM_OSAL_ERR_UNKNOWN) (Some retrieved))"

definition retrieve_start :: "bool \<Rightarrow> 32 word \<times> 32 word \<Rightarrow> TIMM_OSAL_EVENT_OPERATION \<Rightarrow> 32 word \<Rightarrow> 32 word \<Rightarrow>
    TIMM_OSAL_THREAD_EVENT \<Rightarrow> TIMM_OSAL_THREAD_EVENT \<times> retrieve_state" where
  "retrieve_start unlock_ok now eOperation uRequestedEvents uTimeOutMsec ev =
     (let isolated = isolatedFlags eOperation uRequestedEvents ev
      in if isolated \<noteq> 0 then retrieve_leave unlock_ok eOperation isolated TIMM_OSAL_ERR_NONE (eFlags ev) ev
         else if uTimeOutMsec = TIMM_OSAL_NO_SUSPEND
         then retrieve_leave unlock_ok eOperation isolated TIMM_OSAL_ERR_NONE 0 ev
         else if uTimeOutMsec = TIMM_OSAL_SUSPEND then (ev, Waiting None)
         else (ev, Waiting (Some (wait_until (fst now) (snd now) uTimeOutMsec))))"

datatype wait_status = SUCCESS | ETIMEDOUT | wait_error

definition retrieve_wake :: "bool \<Rightarrow> TIMM_OSAL_EVENT_OPERATION \<Rightarrow> 32 word \<Rightarrow> timespec option \<Rightarrow> wait_status \<Rightarrow>
    TIMM_OSAL_THREAD_EVENT \<Rightarrow> TIMM_OSAL_THREAD_EVENT \<times> retrieve_state" where
  "retrieve_wake unlock_ok eOperation uRequestedEvents deadline status ev =
     (if deadline \<noteq> None \<and> status \<noteq> SUCCESS
      then retrieve_leave unlock_ok eOperation 0
             (if status = ETIMEDOUT then TIMM_OSAL_ERR_NONE else TIMM_OSAL_ERR_UNKNOWN) 0 ev
      else
        (let isolated = isolatedFlags eOperation uRequestedEvents ev
         in if isolated = 0 then (ev, Waiting deadline)
            else if deadline = None
            then retrieve_leave unlock_ok eOperation isolated TIMM_OSAL_ERR_NONE (eFlags ev) ev
            else (fst (retrieve_leave unlock_ok eOperation isolated TIMM_OSAL_ERR_UNKNOWN 0 ev),
                  Returned TIMM_OSAL_ERR_UNKNOWN None)))"

text \<open>
  The whole call.  \<open>wakes\<close> are the returns of its waits, each with the flags the other threads left while the
  mutex was free; a call that still waits when they are used up has not returned.
\<close>

fun retrieve_waits :: "bool \<Rightarrow> TIMM_OSAL_EVENT_OPERATION \<Rightarrow> 32 word \<Rightarrow> (wait_status \<times> 32 word) list \<Rightarrow>
    TIMM_OSAL_THREAD_EVENT \<times> retrieve_state \<Rightarrow> TIMM_OSAL_THREAD_EVENT \<times> retrieve_state" where
  "retrieve_waits unlock_ok eOperation uRequestedEvents ((status, flags) # wakes) (ev, Waiting deadline) =
     retrieve_waits unlock_ok eOperation uRequestedEvents wakes
       (retrieve_wake unlock_ok eOperation uRequestedEvents deadline status (ev\<lparr>eFlags := flags\<rparr>))"
| "retrieve_waits unlock_ok eOperation uRequestedEvents wakes r = r"

definition TIMM_OSAL_EventRetrieve :: "bool \<Rightarrow> bool \<Rightarrow> 32 word \<times> 32 word \<Rightarrow> (wait_status \<times> 32 word) list \<Rightarrow>
    TIMM_OSAL_THREAD_EVENT option \<Rightarrow> 32 word \<Rightarrow> TIMM_OSAL_EVENT_OPERATION \<Rightarrow> 32 word \<Rightarrow>
    TIMM_OSAL_THREAD_EVENT option \<times> retrieve_state" where
  "TIMM_OSAL_EventRetrieve lock_ok unlock_ok now wakes pEvents uRequestedEvents eOperation uTimeOutMsec =
     (case pEvents of
        None \<Rightarrow> (None, Returned TIMM_OSAL_ERR_PARAMETER None)
      | Some ev \<Rightarrow>
          if \<not> lock_ok then (Some ev, Returned TIMM_OSAL_ERR_UNKNOWN None)
          else apfst Some (retrieve_waits unlock_ok eOperation uRequestedEvents wakes
                 (retrieve_start unlock_ok now eOperation uRequestedEvents uTimeOutMsec ev)))"

section \<open>Threads\<close>

text \<open>
  The threads at one event group: those that wait at the condition variable and those whose wait is over and
  who compete for the mutex, with the status their wait returns.
\<close>

record waiter =
  w_events :: "32 word"
  w_operation :: TIMM_OSAL_EVENT_OPERATION
  w_deadline :: "timespec option"

record event_system =
  group :: TIMM_OSAL_THREAD_EVENT
  asleep :: "waiter multiset"
  woken :: "(waiter \<times> wait_status) multiset"

definition satisfied :: "event_system \<Rightarrow> waiter \<Rightarrow> bool" where
  "satisfied s w \<longleftrightarrow> isolatedFlags (w_operation w) (w_events w) (group s) \<noteq> 0"

definition initial_group :: "event_system \<Rightarrow> bool" where
  "initial_group s \<longleftrightarrow> TIMM_OSAL_EventCreate True True True = (Some (group s), TIMM_OSAL_ERR_NONE) \<and> asleep s = {#} \<and> woken s = {#}"

inductive event_step :: "event_system \<Rightarrow> event_system \<Rightarrow> bool" where
  set_wakes:
    "TIMM_OSAL_EventSet True True True (Some (group s)) flags op = (Some ev, e, True) \<Longrightarrow> ws \<subseteq># asleep s \<Longrightarrow>
     (asleep s \<noteq> {#} \<Longrightarrow> ws \<noteq> {#}) \<Longrightarrow>
     event_step s (s\<lparr>group := ev, asleep := asleep s - ws, woken := woken s + image_mset (\<lambda>w. (w, SUCCESS)) ws\<rparr>)"
| set_refused:
    "TIMM_OSAL_EventSet True True True (Some (group s)) flags op = (Some ev, e, False) \<Longrightarrow> event_step s (s\<lparr>group := ev\<rparr>)"
| retrieve_returns:
    "retrieve_start True now op events msec (group s) = (ev, Returned e r) \<Longrightarrow> event_step s (s\<lparr>group := ev\<rparr>)"
| retrieve_sleeps:
    "retrieve_start True now op events msec (group s) = (ev, Waiting d) \<Longrightarrow>
     event_step s (s\<lparr>group := ev, asleep := add_mset \<lparr>w_events = events, w_operation = op, w_deadline = d\<rparr> (asleep s)\<rparr>)"
| wakes_up:
    "w \<in># asleep s \<Longrightarrow> st = SUCCESS \<or> w_deadline w \<noteq> None \<Longrightarrow>
     event_step s (s\<lparr>asleep := asleep s - {#w#}, woken := add_mset (w, st) (woken s)\<rparr>)"
| resumes_returns:
    "(w, st) \<in># woken s \<Longrightarrow> retrieve_wake True (w_operation w) (w_events w) (w_deadline w) st (group s) = (ev, Returned e r) \<Longrightarrow>
     event_step s (s\<lparr>group := ev, woken := woken s - {#(w, st)#}\<rparr>)"
| resumes_sleeps:
    "(w, st) \<in># woken s \<Longrightarrow> retrieve_wake True (w_operation w) (w_events w) (w_deadline w) st (group s) = (ev, Waiting d) \<Longrightarrow>
     event_step s (s\<lparr>group := ev, asleep := add_mset w (asleep s), woken := woken s - {#(w, st)#}\<rparr>)"

text \<open>The steps in which at most one thread at a time is inside a retrieve that waits.\<close>

definition waiters :: "event_system \<Rightarrow> nat" where
  "waiters s = size (asleep s) + size (woken s)"

definition single_step :: "event_system \<Rightarrow> event_system \<Rightarrow> bool" where
  "single_step s t \<longleftrightarrow> event_step s t \<and> waiters t \<le> 1"

definition awake_if_satisfied :: "event_system \<Rightarrow> bool" where
  "awake_if_satisfied s \<longleftrightarrow> waiters s \<le> 1 \<and> (\<forall>w \<in># asleep s. \<not> satisfied s w)"

section \<open>The steps of a retrieve\<close>

lemma isolated_iff:
  "isolatedFlags op req ev \<noteq> 0 \<longleftrightarrow> (if and_operation op then eFlags ev AND req = req else eFlags ev AND req \<noteq> 0)"
  by (simp add: isolatedFlags_def Let_def)

lemma start_waiting: "retrieve_start u now op req ms ev = (ev', Waiting d) \<Longrightarrow> ev' = ev \<and> isolatedFlags op req ev = 0"
  by (auto simp: retrieve_start_def Let_def retrieve_leave_def split: if_splits)

lemma wake_waiting:
  "retrieve_wake u op req d st ev = (ev', Waiting d') \<Longrightarrow> ev' = ev \<and> d' = d \<and> isolatedFlags op req ev = 0"
  by (auto simp: retrieve_wake_def Let_def retrieve_leave_def split: if_splits)

lemma consumed_unsatisfied: "isolatedFlags op req ev = 0 \<Longrightarrow> isolatedFlags op req (ev\<lparr>eFlags := 0\<rparr>) = 0"
  by (auto simp: isolatedFlags_def Let_def split: if_splits)

lemma leave_unsatisfied:
  "retrieve_start u now op' req' ms ev = (ev', Returned e r) \<Longrightarrow> isolatedFlags op req ev = 0 \<Longrightarrow> isolatedFlags op req ev' = 0"
  by (auto simp: retrieve_start_def Let_def retrieve_leave_def consumed_unsatisfied split: if_splits)

lemma set_refused_same: "TIMM_OSAL_EventSet True True True (Some ev) flags op = (Some ev', e, False) \<Longrightarrow> ev' = ev"
  by (auto simp: TIMM_OSAL_EventSet_def Let_def split: TIMM_OSAL_EVENT_OPERATION.splits)

lemma signal_wakes_the_one: "size M \<le> 1 \<Longrightarrow> ws \<subseteq># M \<Longrightarrow> (M \<noteq> {#} \<Longrightarrow> ws \<noteq> {#}) \<Longrightarrow> M - ws = {#}"
  by (cases "M = {#}") (auto simp: Suc_le_eq nonempty_has_size size_Diff_submset size_eq_0_iff_empty [symmetric] simp del: size_eq_0_iff_empty)

lemma single_step_awake:
  assumes "single_step s t" "awake_if_satisfied s"
  shows "awake_if_satisfied t"
proof -
  have step: "event_step s t" and one: "waiters t \<le> 1" "waiters s \<le> 1" and unsat: "\<forall>w \<in># asleep s. \<not> satisfied s w"
    using assms by (auto simp: single_step_def awake_if_satisfied_def)
  have "\<forall>w \<in># asleep t. \<not> satisfied t w"
    using step
  proof cases
    case (set_wakes flags op ev e ws)
    then show ?thesis using signal_wakes_the_one [of "asleep s" ws] one(2) by (simp add: waiters_def)
  next
    case (set_refused flags op ev e)
    then show ?thesis using unsat by (simp add: satisfied_def set_refused_same [OF set_refused(2)])
  next
    case (retrieve_returns now op events msec ev e r)
    then show ?thesis using unsat by (auto simp: satisfied_def dest: leave_unsatisfied [OF retrieve_returns(2)])
  next
    case (retrieve_sleeps now op events msec ev d)
    then have "asleep s = {#}" using one(1) by (simp add: waiters_def)
    then show ?thesis using retrieve_sleeps(1) start_waiting [OF retrieve_sleeps(2)] by (simp add: satisfied_def)
  next
    case (wakes_up w st)
    then show ?thesis using unsat by (auto simp: satisfied_def dest: in_diffD)
  next
    case (resumes_returns w st ev e r)
    then have "asleep s = {#}" using one(2) by (auto simp: waiters_def dest!: multi_member_split)
    then show ?thesis using resumes_returns by simp
  next
    case (resumes_sleeps w st ev d)
    then have "asleep s = {#}" using one(2) by (auto simp: waiters_def dest!: multi_member_split)
    then show ?thesis using resumes_sleeps(1) wake_waiting [OF resumes_sleeps(3)] by (simp add: satisfied_def)
  qed
  then show ?thesis using one by (simp add: awake_if_satisfied_def)
qed

lemma initial_awake: "initial_group s \<Longrightarrow> awake_if_satisfied s"
  by (simp add: initial_group_def awake_if_satisfied_def waiters_def)

interpretation single_waiter: transition_invariant initial_group single_step awake_if_satisfied
  by unfold_locales (fact initial_awake, fact single_step_awake)

section \<open>Properties of the event groups\<close>

text \<open>C20: With one waiting thread at a time no wakeup is lost.  However sets, retrieves, spurious wakeups and
  timeouts interleave, a thread that sleeps at the condition variable asks for a combination of flags the
  group does not have; as soon as a set completes the combination the thread is woken, and when it gets the
  mutex before the flags change again, a wait without a deadline returns them.\<close>

theorem no_lost_wakeup:
  assumes "initial_group s" "single_step\<^sup>*\<^sup>* s t"
  shows "(\<forall>w \<in># asleep t. \<not> satisfied t w) \<and>
    (\<forall>w \<in># asleep t. \<forall>flags u. TIMM_OSAL_EventSet True True True (Some (group t)) flags TIMM_OSAL_EVENT_OR = (Some u, TIMM_OSAL_ERR_NONE, True) \<longrightarrow>
       isolatedFlags (w_operation w) (w_events w) u \<noteq> 0 \<longrightarrow> w_deadline w = None \<longrightarrow>
       (\<exists>v. single_step t v \<and> (w, SUCCESS) \<in># woken v \<and>
          snd (retrieve_wake True (w_operation w) (w_events w) None SUCCESS (group v)) = Returned TIMM_OSAL_ERR_NONE (Some (eFlags u))))"
proof (intro conjI ballI allI impI)
  have inv: "awake_if_satisfied t" using assms by (rule single_waiter.reachable_inv)
  fix w assume w: "w \<in># asleep t"
  show "\<not> satisfied t w" using inv w by (simp add: awake_if_satisfied_def)
  fix flags u
  assume set: "TIMM_OSAL_EventSet True True True (Some (group t)) flags TIMM_OSAL_EVENT_OR = (Some u, TIMM_OSAL_ERR_NONE, True)"
    and sat: "isolatedFlags (w_operation w) (w_events w) u \<noteq> 0" and d: "w_deadline w = None"
  have one: "asleep t = {#w#}" "woken t = {#}"
    using inv w by (auto simp: awake_if_satisfied_def waiters_def dest!: multi_member_split)
  let ?v = "t\<lparr>group := u, asleep := asleep t - {#w#}, woken := woken t + image_mset (\<lambda>w. (w, SUCCESS)) {#w#}\<rparr>"
  have "event_step t ?v" using set one by (intro event_step.set_wakes) auto
  then have "single_step t ?v" using one by (simp add: single_step_def waiters_def)
  moreover have "(w, SUCCESS) \<in># woken ?v" "snd (retrieve_wake True (w_operation w) (w_events w) None SUCCESS (group ?v)) =
      Returned TIMM_OSAL_ERR_NONE (Some (eFlags u))"
    using sat by (simp_all add: retrieve_wake_def Let_def retrieve_leave_def)
  ultimately show "\<exists>v. single_step t v \<and> (w, SUCCESS) \<in># woken v \<and>
      snd (retrieve_wake True (w_operation w) (w_events w) None SUCCESS (group v)) = Returned TIMM_OSAL_ERR_NONE (Some (eFlags u))"
    by blast
qed

theorem no_lost_wakeup_witness:
  "\<exists>v. single_step \<lparr>group = \<lparr>bSignaled = False, eFlags = 0\<rparr>, asleep = {#\<lparr>w_events = 4, w_operation = TIMM_OSAL_EVENT_OR, w_deadline = None\<rparr>#}, woken = {#}\<rparr> v \<and>
     (\<lparr>w_events = 4, w_operation = TIMM_OSAL_EVENT_OR, w_deadline = None\<rparr>, SUCCESS) \<in># woken v"
proof -
  define s where "s = \<lparr>group = \<lparr>bSignaled = False, eFlags = 0\<rparr>, asleep = {#}, woken = {#}\<rparr>"
  define w where "w = \<lparr>w_events = 4, w_operation = TIMM_OSAL_EVENT_OR, w_deadline = None\<rparr>"
  have start: "retrieve_start True (0, 0) TIMM_OSAL_EVENT_OR 4 TIMM_OSAL_SUSPEND (group s) = (group s, Waiting None)"
    by (simp add: s_def retrieve_start_def isolatedFlags_def and_operation_def TIMM_OSAL_SUSPEND_def TIMM_OSAL_NO_SUSPEND_def)
  have "single_step s (s\<lparr>group := group s, asleep := add_mset w (asleep s)\<rparr>)" (is "single_step s ?t")
    using event_step.retrieve_sleeps [OF start] by (simp add: single_step_def waiters_def s_def w_def)
  moreover have "initial_group s" by (simp add: initial_group_def s_def TIMM_OSAL_EventCreate_def)
  ultimately have nlw: "w \<in># asleep ?t \<Longrightarrow> TIMM_OSAL_EventSet True True True (Some (group ?t)) flags TIMM_OSAL_EVENT_OR = (Some u, TIMM_OSAL_ERR_NONE, True) \<Longrightarrow>
      isolatedFlags (w_operation w) (w_events w) u \<noteq> 0 \<Longrightarrow> w_deadline w = None \<Longrightarrow>
      \<exists>v. single_step ?t v \<and> (w, SUCCESS) \<in># woken v" for flags u
    using no_lost_wakeup [of s ?t] by blast
  have "\<exists>v. single_step ?t v \<and> (w, SUCCESS) \<in># woken v"
    by (rule nlw [of 4 "\<lparr>bSignaled = True, eFlags = 4\<rparr>"])
      (simp_all add: s_def w_def TIMM_OSAL_EventSet_def isolatedFlags_def and_operation_def)
  then show ?thesis by (simp add: s_def w_def)
qed

text \<open>
  With two waiting threads a wakeup can be lost: the signal of a set may wake the thread that waits for
  other flags, which goes back to sleep; nothing wakes the one whose flags are there.
\<close>

lemma two_waiters_lose_wakeup:
  "\<exists>s t w. initial_group s \<and> event_step\<^sup>*\<^sup>* s t \<and> w \<in># asleep t \<and> satisfied t w \<and> w_deadline w = None \<and> woken t = {#}"
proof -
  define a where "a = \<lparr>w_events = 1, w_operation = TIMM_OSAL_EVENT_OR, w_deadline = None\<rparr>"
  define b where "b = \<lparr>w_events = 2, w_operation = TIMM_OSAL_EVENT_OR, w_deadline = None\<rparr>"
  define S where "S = (\<lambda>flags as ws. \<lparr>group = \<lparr>bSignaled = flags \<noteq> 0, eFlags = flags\<rparr>, asleep = as, woken = ws\<rparr>)"
  have start: "retrieve_start True (0, 0) TIMM_OSAL_EVENT_OR n TIMM_OSAL_SUSPEND (group (S 0 as ws)) = (group (S 0 as ws), Waiting None)" for n as ws
    by (simp add: S_def retrieve_start_def isolatedFlags_def and_operation_def TIMM_OSAL_SUSPEND_def TIMM_OSAL_NO_SUSPEND_def)
  have 1: "event_step (S 0 {#} {#}) (S 0 {#a#} {#})"
    using event_step.retrieve_sleeps [OF start, of "{#}" "{#}" 1] by (simp add: S_def a_def)
  have 2: "event_step (S 0 {#a#} {#}) (S 0 {#b, a#} {#})"
    using event_step.retrieve_sleeps [OF start, of "{#a#}" "{#}" 2] by (simp add: S_def b_def)
  have 3: "event_step (S 0 {#b, a#} {#}) (S 1 {#a#} {#(b, SUCCESS)#})"
    using event_step.set_wakes [of "S 0 {#b, a#} {#}" 1 TIMM_OSAL_EVENT_OR _ _ "{#b#}"]
    by (simp add: S_def TIMM_OSAL_EventSet_def)
  have 4: "event_step (S 1 {#a#} {#(b, SUCCESS)#}) (S 1 {#b, a#} {#})"
    using event_step.resumes_sleeps [of b SUCCESS "S 1 {#a#} {#(b, SUCCESS)#}" "group (S 1 {#a#} {#(b, SUCCESS)#})" None]
    by (simp add: S_def b_def retrieve_wake_def isolatedFlags_def and_operation_def)
  have "event_step\<^sup>*\<^sup>* (S 0 {#} {#}) (S 1 {#b, a#} {#})" using 1 2 3 4 by (meson converse_rtranclp_into_rtranclp r_into_rtranclp)
  moreover have "initial_group (S 0 {#} {#})" by (simp add: initial_group_def S_def TIMM_OSAL_EventCreate_def)
  moreover have "satisfied (S 1 {#b, a#} {#}) a" by (simp add: satisfied_def S_def a_def isolatedFlags_def and_operation_def)
  ultimately show ?thesis by (intro exI [of _ "S 0 {#} {#}"] exI [of _ "S 1 {#b, a#} {#}"] exI [of _ a]) (simp add: S_def a_def)
qed

lemma retrieve_waits_early:
  "\<forall>(st, flags) \<in> set early. st = SUCCESS \<and> isolatedFlags op req (ev\<lparr>eFlags := flags\<rparr>) = 0 \<Longrightarrow>
   retrieve_waits u op req (early @ (SUCCESS, flags) # rest) (ev, Waiting d) =
   retrieve_waits u op req rest (retrieve_wake u op req d SUCCESS (ev\<lparr>eFlags := flags\<rparr>))"
proof (induction early arbitrary: ev)
  case (Cons x early)
  obtain st fl where x: "x = (st, fl)" by force
  then have "st = SUCCESS" "isolatedFlags op req (ev\<lparr>eFlags := fl\<rparr>) = 0" using Cons.prems by auto
  then have "retrieve_waits u op req ((x # early) @ (SUCCESS, flags) # rest) (ev, Waiting d) =
      retrieve_waits u op req (early @ (SUCCESS, flags) # rest) (ev\<lparr>eFlags := fl\<rparr>, Waiting d)"
    by (simp add: x retrieve_wake_def Let_def)
  then show ?case using Cons.IH [of "ev\<lparr>eFlags := fl\<rparr>"] Cons.prems by simp
qed simp

text \<open>C39: A retrieve with a timeout that has to wait and gets its flags in time reports
  \<open>TIMM_OSAL_ERR_UNKNOWN\<close> and leaves \<open>pRetrievedEvents\<close> as it was, and with \<open>CONSUME\<close> all flags of
  the group are lost on the way; the same wait without a timeout returns them.\<close>

theorem timed_wait_reports_error:
  assumes "isolatedFlags op req ev = 0" "isolatedFlags op req (ev\<lparr>eFlags := flags\<rparr>) \<noteq> 0"
    and "\<forall>(st, fl) \<in> set early. st = SUCCESS \<and> isolatedFlags op req (ev\<lparr>eFlags := fl\<rparr>) = 0"
  shows "TIMM_OSAL_EventRetrieve True True now (early @ (SUCCESS, flags) # rest) (Some ev) req op msec =
      (if msec = TIMM_OSAL_NO_SUSPEND then (Some ev, Returned TIMM_OSAL_ERR_NONE (Some 0))
       else (Some (ev\<lparr>eFlags := if is_consume op then 0 else flags\<rparr>),
             if msec = TIMM_OSAL_SUSPEND then Returned TIMM_OSAL_ERR_NONE (Some flags) else Returned TIMM_OSAL_ERR_UNKNOWN None))"
proof -
  have leave: "retrieve_waits True op req rest (retrieve_wake True op req d SUCCESS (ev\<lparr>eFlags := flags\<rparr>)) =
      (ev\<lparr>eFlags := if is_consume op then 0 else flags\<rparr>,
       if d = None then Returned TIMM_OSAL_ERR_NONE (Some flags) else Returned TIMM_OSAL_ERR_UNKNOWN None)" for d
    using assms(2) by (simp add: retrieve_wake_def Let_def retrieve_leave_def is_consume_def)
  show ?thesis
    using assms(1) retrieve_waits_early [OF assms(3), of True flags rest] leave
    by (simp add: TIMM_OSAL_EventRetrieve_def retrieve_start_def Let_def retrieve_leave_def)
qed

theorem timed_wait_reports_error_witness:
  "TIMM_OSAL_EventRetrieve True True (100, 0) ([(SUCCESS, 2)] @ (SUCCESS, 6) # []) (Some \<lparr>bSignaled = False, eFlags = 0\<rparr>) 4
     TIMM_OSAL_EVENT_OR_CONSUME 50 = (Some \<lparr>bSignaled = False, eFlags = 0\<rparr>, Returned TIMM_OSAL_ERR_UNKNOWN None)"
  by (subst timed_wait_reports_error) (simp_all add: isolatedFlags_def and_operation_def is_consume_def TIMM_OSAL_SUSPEND_def TIMM_OSAL_NO_SUSPEND_def)

text \<open>The deadline of a timed wait is a valid time, and the time from now to it is the timeout reduced to
  32 bits of microseconds: exactly the timeout for up to 71 minutes, less than was asked for beyond.\<close>

theorem wait_until_time:
  assumes "uint tv_usec < 1000000" "uint tv_sec + 4295 < 2 ^ 31"
  shows "(case wait_until tv_sec tv_usec msec of (sec, nsec) \<Rightarrow>
      uint nsec < 1000000000 \<and>
      uint sec * 1000000 + uint nsec div 1000 = uint tv_sec * 1000000 + (uint tv_usec + 1000 * uint msec) mod 2 ^ 32)"
proof -
  define us where "us = tv_usec + 1000 * msec"
  have us: "uint us = (uint tv_usec + 1000 * uint msec) mod 2 ^ 32"
    by (simp add: us_def uint_word_ariths mod_simps)
  have "uint us < 2 ^ 32" using uint_lt2p [of us] by simp
  then have q: "uint us div 1000000 \<le> 4294" "uint us mod 1000000 < 1000000" by simp_all
  have n: "uint ((us mod 1000000) * 1000) = (uint us mod 1000000) * 1000"
    using q(2) by (simp add: uint_word_ariths uint_mod)
  have "0 \<le> uint tv_sec + uint us div 1000000" "uint tv_sec + uint us div 1000000 < 2 ^ 32"
    using q(1) assms(2) by (simp_all add: pos_imp_zdiv_nonneg_iff)
  then have s: "uint (tv_sec + us div 1000000) = uint tv_sec + uint us div 1000000"
    by (simp add: uint_word_ariths uint_div)
  show ?thesis
    using q(2) us by (simp add: wait_until_def Let_def us_def [symmetric] n s)
qed

end
