(* ===== verification/Lights.thy ===== *)
theory Lights
  imports Prelude
begin

text \<open>
  The lights module (\<^verbatim>\<open>liblight/lights.c\<close>): backlight, keyboard, buttons and the RGB LED that battery and
  notifications share, each a file of the kernel into which a number is written.

  \<open>io path\<close> is what a write to a file answers: 0 for success, the negative error number otherwise.
\<close>

unbundle bit_operations_syntax

section \<open>The operations\<close>

record light_state_t =
  color :: "32 word"
  flashMode :: int

abbreviation "LIGHT_FLASH_NONE \<equiv> (0 :: int)"
abbreviation "EINVAL \<equiv> (22 :: int)"

datatype led_file = LCD_FILE | BUTTON_ON_FILE | KEYBOARD_FILE | RED_LED_FILE | RED_BLINK_FILE | GREEN_LED_FILE | BLUE_LED_FILE

record lights =
  g_init :: bool
  g_battery :: light_state_t
  g_notification :: light_state_t
  g_charge_led_active :: int
  g_last_button_brightness :: int
  g_last_keyboard_brightness :: int
  files :: "led_file \<rightharpoonup> int"

definition zero_state :: light_state_t where
  "zero_state = \<lparr>color = 0, flashMode = 0\<rparr>"

definition loaded_lights :: lights where
  "loaded_lights = \<lparr>g_init = False, g_battery = zero_state, g_notification = zero_state, g_charge_led_active = 0,
     g_last_button_brightness = 0, g_last_keyboard_brightness = 0, files = Map.empty\<rparr>"

definition init_globals :: "lights \<Rightarrow> lights" where
  "init_globals s = s\<lparr>g_battery := zero_state, g_notification := zero_state, g_charge_led_active := 0,
     g_last_button_brightness := -1, g_last_keyboard_brightness := -1\<rparr>"

definition write_int :: "(led_file \<Rightarrow> int) \<Rightarrow> led_file \<Rightarrow> int \<Rightarrow> lights \<Rightarrow> lights \<times> int" where
  "write_int io path v s = (if io path = 0 then (s\<lparr>files := (files s)(path \<mapsto> v)\<rparr>, 0) else (s, io path))"

definition is_lit :: "light_state_t \<Rightarrow> bool" where
  "is_lit st \<longleftrightarrow> color st AND 0x00ffffff \<noteq> 0"

definition red :: "light_state_t \<Rightarrow> int" where
  "red st = uint (drop_bit 16 (color st) AND 0xff)"

definition green :: "light_state_t \<Rightarrow> int" where
  "green st = uint (drop_bit 8 (color st) AND 0xff)"

definition blue :: "light_state_t \<Rightarrow> int" where
  "blue st = uint (color st AND 0xff)"

definition rgb_to_brightness :: "light_state_t \<Rightarrow> int" where
  "rgb_to_brightness st = (77 * red st + 150 * green st + 29 * blue st) div 2 ^ 8"

definition set_light_backlight :: "(led_file \<Rightarrow> int) \<Rightarrow> light_state_t \<Rightarrow> lights \<Rightarrow> lights \<times> int" where
  "set_light_backlight io st s = write_int io LCD_FILE (rgb_to_brightness st) s"

text \<open>The files of the keys are written when the light goes on or off, and the first time.\<close>

definition key_changes :: "int \<Rightarrow> int \<Rightarrow> bool" where
  "key_changes g_last brightness \<longleftrightarrow> g_last < 0 \<or> g_last = 0 \<and> brightness > 0 \<or> g_last > 0 \<and> brightness = 0"

definition key_level :: "int \<Rightarrow> int" where
  "key_level brightness = (if brightness \<noteq> 0 then 255 else 0)"

definition set_light_keyboard :: "(led_file \<Rightarrow> int) \<Rightarrow> light_state_t \<Rightarrow> lights \<Rightarrow> lights \<times> int" where
  "set_light_keyboard io st s =
     (let brightness = rgb_to_brightness st;
          (s, err) = (if key_changes (g_last_keyboard_brightness s) brightness
                      then write_int io KEYBOARD_FILE (key_level brightness) s else (s, 0))
      in (s\<lparr>g_last_keyboard_brightness := brightness\<rparr>, err))"

definition set_light_buttons :: "(led_file \<Rightarrow> int) \<Rightarrow> light_state_t \<Rightarrow> lights \<Rightarrow> lights \<times> int" where
  "set_light_buttons io st s =
     (let brightness = rgb_to_brightness st;
          (s, err) = (if key_changes (g_last_button_brightness s) brightness
                      then write_int io KEYBOARD_FILE (key_level brightness)
                             (fst (write_int io BUTTON_ON_FILE (key_level brightness) s))
                      else (s, 0))
      in (s\<lparr>g_last_button_brightness := brightness\<rparr>, err))"

definition set_light_locked :: "(led_file \<Rightarrow> int) \<Rightarrow> light_state_t \<Rightarrow> lights \<Rightarrow> lights \<times> int" where
  "set_light_locked io st s =
     (let (s, err) = write_int io RED_BLINK_FILE 0 s;
          (s, err) = write_int io RED_LED_FILE (red st) s;
          (s, err) = write_int io GREEN_LED_FILE (green st) s;
          (s, err) = write_int io BLUE_LED_FILE (blue st) s
      in if flashMode st \<noteq> LIGHT_FLASH_NONE then write_int io RED_BLINK_FILE 255 s else (s, err))"

definition handle_light_locked :: "(led_file \<Rightarrow> int) \<Rightarrow> lights \<Rightarrow> lights \<times> int" where
  "handle_light_locked io s =
     (if is_lit (g_notification s) then set_light_locked io (g_notification s) s else set_light_locked io (g_battery s) s)"

definition set_light_battery :: "(led_file \<Rightarrow> int) \<Rightarrow> light_state_t \<Rightarrow> lights \<Rightarrow> lights \<times> int" where
  "set_light_battery io st s = (fst (handle_light_locked io (s\<lparr>g_battery := st\<rparr>)), 0)"

definition set_light_notification :: "(led_file \<Rightarrow> int) \<Rightarrow> light_state_t \<Rightarrow> lights \<Rightarrow> lights \<times> int" where
  "set_light_notification io st s = (fst (handle_light_locked io (s\<lparr>g_notification := st\<rparr>)), 0)"

definition set_light_attention :: "(led_file \<Rightarrow> int) \<Rightarrow> light_state_t \<Rightarrow> lights \<Rightarrow> lights \<times> int" where
  "set_light_attention io st s = (s, 0)"

text \<open>
  A device holds the function that was chosen when it was opened.  The memory of the device is not checked:
  without it the call writes through a null pointer, the value \<open>None\<close>.
\<close>

datatype light_device_t = Backlight | Keyboard | Buttons | Battery | Notifications | Attention

definition set_light :: "(led_file \<Rightarrow> int) \<Rightarrow> light_device_t \<Rightarrow> light_state_t \<Rightarrow> lights \<Rightarrow> lights \<times> int" where
  "set_light io dev = (case dev of
     Backlight \<Rightarrow> set_light_backlight io | Keyboard \<Rightarrow> set_light_keyboard io | Buttons \<Rightarrow> set_light_buttons io
   | Battery \<Rightarrow> set_light_battery io | Notifications \<Rightarrow> set_light_notification io | Attention \<Rightarrow> set_light_attention io)"

definition light_of_name :: "string \<Rightarrow> light_device_t option" where
  "light_of_name name =
     (if name = ''backlight'' then Some Backlight
      else if name = ''keyboard'' then Some Keyboard
      else if name = ''buttons'' then Some Buttons
      else if name = ''battery'' then Some Battery
      else if name = ''notifications'' then Some Notifications
      else if name = ''attention'' then Some Attention
      else None)"

definition open_lights :: "bool \<Rightarrow> string \<Rightarrow> lights \<Rightarrow> (lights \<times> int \<times> light_device_t option) option" where
  "open_lights malloc_ok name s =
     (case light_of_name name of
        None \<Rightarrow> Some (s, - EINVAL, None)
      | Some dev \<Rightarrow>
          (let s = (if g_init s then s else (init_globals s)\<lparr>g_init := True\<rparr>)
           in if malloc_ok then Some (s, 0, Some dev) else None))"

section \<open>What the lights show\<close>

text \<open>Calls of open devices, and the reference: the last state each light was set to.\<close>

type_synonym light_call = "light_device_t \<times> light_state_t"

definition run_lights :: "(led_file \<Rightarrow> int) \<Rightarrow> light_call list \<Rightarrow> lights \<Rightarrow> lights" where
  "run_lights io calls s = fold (\<lambda>(dev, st) s. fst (set_light io dev st s)) calls s"

definition last_set :: "light_device_t \<Rightarrow> light_call list \<Rightarrow> light_state_t option" where
  "last_set dev calls = map_of (rev calls) dev"

text \<open>The LED shows the notification when it is lit, the battery otherwise.\<close>

definition led_shows :: "light_call list \<Rightarrow> light_state_t option" where
  "led_shows calls =
     (case last_set Notifications calls of
        Some n \<Rightarrow> if is_lit n then Some n else Some (case last_set Battery calls of Some b \<Rightarrow> b | None \<Rightarrow> zero_state)
      | None \<Rightarrow> last_set Battery calls)"

definition lights_show :: "light_call list \<Rightarrow> led_file \<rightharpoonup> int" where
  "lights_show calls file =
     (case file of
        LCD_FILE \<Rightarrow> map_option rgb_to_brightness (last_set Backlight calls)
      | BUTTON_ON_FILE \<Rightarrow> map_option (\<lambda>st. key_level (rgb_to_brightness st)) (last_set Buttons calls)
      | KEYBOARD_FILE \<Rightarrow> map_option (\<lambda>st. key_level (rgb_to_brightness st)) (last_set Keyboard calls)
      | RED_LED_FILE \<Rightarrow> map_option red (led_shows calls)
      | GREEN_LED_FILE \<Rightarrow> map_option green (led_shows calls)
      | BLUE_LED_FILE \<Rightarrow> map_option blue (led_shows calls)
      | RED_BLINK_FILE \<Rightarrow> map_option (\<lambda>st. if flashMode st = LIGHT_FLASH_NONE then 0 else 255) (led_shows calls))"

abbreviation all_writable :: "led_file \<Rightarrow> int" where
  "all_writable \<equiv> \<lambda>_. 0"

definition opened_lights :: lights where
  "opened_lights = (init_globals loaded_lights)\<lparr>g_init := True\<rparr>"

definition last_level :: "light_device_t \<Rightarrow> light_call list \<Rightarrow> int" where
  "last_level dev calls = (case last_set dev calls of None \<Rightarrow> -1 | Some st \<Rightarrow> rgb_to_brightness st)"

definition lights_rep :: "light_call list \<Rightarrow> lights \<Rightarrow> bool" where
  "lights_rep calls s \<longleftrightarrow>
     g_battery s = (case last_set Battery calls of Some b \<Rightarrow> b | None \<Rightarrow> zero_state) \<and>
     g_notification s = (case last_set Notifications calls of Some n \<Rightarrow> n | None \<Rightarrow> zero_state) \<and>
     g_last_button_brightness s = last_level Buttons calls \<and> g_last_keyboard_brightness s = last_level Keyboard calls \<and>
     (\<forall>file. file \<noteq> KEYBOARD_FILE \<longrightarrow> files s file = lights_show calls file)"

lemma last_set_simps [simp]:
  "last_set dev [] = None" "last_set dev (calls @ [(d, st)]) = (if d = dev then Some st else last_set dev calls)"
  by (simp_all add: last_set_def)

lemma channel_bounds:
  "0 \<le> red st \<and> red st \<le> 255" "0 \<le> green st \<and> green st \<le> 255" "0 \<le> blue st \<and> blue st \<le> 255"
proof -
  have "uint (x AND 0xff) \<le> 255" for x :: "32 word"
    using word_and_le1 [of x "0xff"] by (simp add: word_le_def)
  then show "0 \<le> red st \<and> red st \<le> 255" "0 \<le> green st \<and> green st \<le> 255" "0 \<le> blue st \<and> blue st \<le> 255"
    by (simp_all add: red_def green_def blue_def)
qed

lemma brightness_range: "0 \<le> rgb_to_brightness st" "rgb_to_brightness st \<le> 255"
  using channel_bounds [of st] by (auto simp: rgb_to_brightness_def)

lemma not_lit_zero [simp]: "\<not> is_lit zero_state"
  by (simp add: is_lit_def zero_state_def)

lemma key_unchanged:
  "\<not> key_changes (last_level dev calls) (rgb_to_brightness st) \<Longrightarrow>
   \<exists>old. last_set dev calls = Some old \<and> key_level (rgb_to_brightness old) = key_level (rgb_to_brightness st)"
  using brightness_range(1) [of st]
  by (auto simp: key_changes_def key_level_def last_level_def brightness_range(1) order_less_le split: option.splits)

lemma write_ok [simp]: "write_int all_writable path v s = (s\<lparr>files := (files s)(path \<mapsto> v)\<rparr>, 0)"
  by (simp add: write_int_def)

lemma locked_writes:
  "fst (set_light_locked all_writable st s) =
     s\<lparr>files := (files s)(RED_LED_FILE \<mapsto> red st, GREEN_LED_FILE \<mapsto> green st, BLUE_LED_FILE \<mapsto> blue st,
       RED_BLINK_FILE \<mapsto> (if flashMode st = LIGHT_FLASH_NONE then 0 else 255))\<rparr>"
  by (auto simp: set_light_locked_def fun_upd_twist)

lemma handle_writes:
  "fst (handle_light_locked all_writable s) =
     (let st = if is_lit (g_notification s) then g_notification s else g_battery s
      in s\<lparr>files := (files s)(RED_LED_FILE \<mapsto> red st, GREEN_LED_FILE \<mapsto> green st, BLUE_LED_FILE \<mapsto> blue st,
       RED_BLINK_FILE \<mapsto> (if flashMode st = LIGHT_FLASH_NONE then 0 else 255))\<rparr>)"
  by (simp add: handle_light_locked_def locked_writes Let_def)

lemma led_shows_simps:
  "d \<noteq> Battery \<Longrightarrow> d \<noteq> Notifications \<Longrightarrow> led_shows (calls @ [(d, st)]) = led_shows calls"
  "led_shows (calls @ [(Battery, st)]) =
     Some (case last_set Notifications calls of Some n \<Rightarrow> if is_lit n then n else st | None \<Rightarrow> st)"
  "led_shows (calls @ [(Notifications, st)]) =
     Some (if is_lit st then st else case last_set Battery calls of Some b \<Rightarrow> b | None \<Rightarrow> zero_state)"
  by (simp_all add: led_shows_def cong: option.case_cong split: option.splits)

lemma all_files:
  "(\<forall>file. file \<noteq> KEYBOARD_FILE \<longrightarrow> P file) \<longleftrightarrow>
     P LCD_FILE \<and> P BUTTON_ON_FILE \<and> P RED_LED_FILE \<and> P RED_BLINK_FILE \<and> P GREEN_LED_FILE \<and> P BLUE_LED_FILE"
  by (metis led_file.exhaust led_file.distinct)

lemmas lights_defs = led_shows_simps all_files lights_rep_def lights_show_def last_level_def set_light_def

lemma lights_rep_step:
  assumes "lights_rep calls s"
  shows "lights_rep (calls @ [(dev, st)]) (fst (set_light all_writable dev st s))"
proof (cases dev)
  case Backlight
  then show ?thesis using assms
    by (auto simp: lights_defs set_light_backlight_def)
next
  case Keyboard
  then show ?thesis using assms
    by (auto simp: lights_defs set_light_keyboard_def Let_def)
next
  case Buttons
  then show ?thesis
  proof (cases "key_changes (last_level Buttons calls) (rgb_to_brightness st)")
    case True
    then show ?thesis using assms Buttons by (simp add: lights_defs set_light_buttons_def Let_def)
  next
    case False
    obtain old where "last_set Buttons calls = Some old" "key_level (rgb_to_brightness old) = key_level (rgb_to_brightness st)"
      using key_unchanged [OF False] by blast
    then show ?thesis using assms Buttons False by (simp add: lights_defs set_light_buttons_def Let_def)
  qed
next
  case Battery
  then show ?thesis using assms
    by (auto simp: lights_defs set_light_battery_def handle_writes Let_def split: option.splits)
next
  case Notifications
  then show ?thesis using assms
    by (auto simp: lights_defs set_light_notification_def handle_writes Let_def split: option.splits)
next
  case Attention
  then show ?thesis using assms by (simp add: lights_defs set_light_attention_def)
qed

lemma lights_rep_run: "lights_rep calls (run_lights all_writable calls opened_lights)"
proof (induction calls rule: rev_induct)
  case Nil
  show ?case
    by (simp add: run_lights_def lights_defs led_shows_def opened_lights_def init_globals_def loaded_lights_def)
next
  case (snoc c calls)
  obtain dev st where "c = (dev, st)" by force
  then show ?case using lights_rep_step [OF snoc, of dev st] by (simp add: run_lights_def)
qed

lemma run_lights_snoc:
  "run_lights io (calls @ [(dev, st)]) s = fst (set_light io dev st (run_lights io calls s))"
  by (simp add: run_lights_def)

lemma keyboard_run:
  "last_set Buttons calls = None \<Longrightarrow>
   files (run_lights all_writable calls opened_lights) KEYBOARD_FILE = lights_show calls KEYBOARD_FILE"
proof (induction calls rule: rev_induct)
  case Nil
  show ?case by (simp add: run_lights_def lights_show_def opened_lights_def init_globals_def loaded_lights_def)
next
  case (snoc c calls)
  obtain dev st where c: "c = (dev, st)" by force
  have nb: "dev \<noteq> Buttons" "last_set Buttons calls = None" using snoc.prems c by (auto split: if_splits)
  let ?s = "run_lights all_writable calls opened_lights"
  have IH: "files ?s KEYBOARD_FILE = lights_show calls KEYBOARD_FILE" using snoc.IH nb(2) .
  have last: "g_last_keyboard_brightness ?s = last_level Keyboard calls"
    using lights_rep_run [of calls] by (simp add: lights_rep_def)
  show ?case
  proof (cases "dev = Keyboard")
    case True
    then show ?thesis
      using IH last key_unchanged [of Keyboard calls st]
      by (auto simp: c run_lights_snoc set_light_def set_light_keyboard_def Let_def lights_show_def)
  next
    case False
    then show ?thesis
      using IH nb(1)
      by (cases dev) (simp_all add: c run_lights_snoc set_light_def lights_show_def set_light_backlight_def
          set_light_battery_def set_light_notification_def set_light_attention_def handle_writes Let_def)
  qed
qed

section \<open>Properties of the lights\<close>



text \<open>The keyboard can stay dark although it is asked to be lit: after the buttons have been switched off,
  which darkens the keyboard too, the module takes a lit keyboard for unchanged and does not write its file.\<close>

theorem keyboard_stays_dark:
  assumes "last_set Buttons calls = None" "rgb_to_brightness on > 0" "rgb_to_brightness off = 0" "rgb_to_brightness again > 0"
  shows "files (run_lights all_writable (calls @ [(Keyboard, on), (Buttons, off), (Keyboard, again)]) opened_lights) KEYBOARD_FILE = Some 0"
proof -
  let ?s = "run_lights all_writable (calls @ [(Keyboard, on)]) opened_lights"
  have "g_last_button_brightness ?s = -1" "g_last_keyboard_brightness ?s = rgb_to_brightness on"
    using lights_rep_run [of "calls @ [(Keyboard, on)]"] assms(1) by (simp_all add: lights_rep_def last_level_def)
  then have "files (fst (set_light all_writable Keyboard again (fst (set_light all_writable Buttons off ?s)))) KEYBOARD_FILE = Some 0"
    using assms(2-4) by (simp add: set_light_def set_light_buttons_def set_light_keyboard_def Let_def key_changes_def key_level_def)
  then show ?thesis using run_lights_snoc [of all_writable "calls @ [(Keyboard, on), (Buttons, off)]" Keyboard again]
      run_lights_snoc [of all_writable "calls @ [(Keyboard, on)]" Buttons off] by simp
qed

end
