(* ===== verification/Com_Alarm.thy ===== *)
theory Com_Alarm
  imports Prelude "HOL-Library.Multiset" "HOL-Library.Signed_Division"
begin

text \<open>
  The timers of the charge-only mode (\<^verbatim>\<open>charge_only_mode/alarm.c\<close>): a list of alarms in the order of their
  times, each with the function to call.  Times are those of \<open>gettimeofday\<close>; the cookies, which all callers
  leave null, are left out, and the differences between times are taken to fit the 32 bits of
  \<open>long\<close>, which they do below 24 days.  The list is used through the interface \<open>timer_queue\<close>.
\<close>

section \<open>Times\<close>

datatype timeval = Timeval (tv_sec: int) (tv_usec: int)

instantiation timeval :: linorder
begin

definition less_eq_timeval :: "timeval \<Rightarrow> timeval \<Rightarrow> bool" where
  "t \<le> u \<longleftrightarrow> tv_sec t < tv_sec u \<or> tv_sec t = tv_sec u \<and> tv_usec t \<le> tv_usec u"

definition less_timeval :: "timeval \<Rightarrow> timeval \<Rightarrow> bool" where
  "t < u \<longleftrightarrow> tv_sec t < tv_sec u \<or> tv_sec t = tv_sec u \<and> tv_usec t < tv_usec u"

instance
  by intro_classes (auto simp: less_eq_timeval_def less_timeval_def timeval.expand)

end

text \<open>The time in microseconds.\<close>

definition microseconds :: "timeval \<Rightarrow> int" where
  "microseconds t = tv_sec t * 1000000 + tv_usec t"

definition valid_time :: "timeval \<Rightarrow> bool" where
  "valid_time t \<longleftrightarrow> 0 \<le> tv_usec t \<and> tv_usec t < 1000000"

section \<open>The list of alarms\<close>

record 'f alarm_node =
  alarm_time :: timeval
  alarm_f :: 'f

definition is_due :: "timeval \<Rightarrow> 'f alarm_node \<Rightarrow> bool" where
  "is_due now a \<longleftrightarrow> \<not> (tv_sec now < tv_sec (alarm_time a)) \<and>
     \<not> (tv_sec now = tv_sec (alarm_time a) \<and> tv_usec now < tv_usec (alarm_time a))"

definition alarm_get_time_until_next :: "timeval \<Rightarrow> 'f alarm_node list \<Rightarrow> int" where
  "alarm_get_time_until_next now alarms =
     (case alarms of
        [] \<Rightarrow> 0x7fffffff
      | a # _ \<Rightarrow> (tv_sec (alarm_time a) - tv_sec now) * 1000 + (tv_usec (alarm_time a) - tv_usec now) sdiv 1000)"

definition time_after :: "timeval \<Rightarrow> int \<Rightarrow> timeval" where
  "time_after now ms =
     (let usec = tv_usec now + ms * 1000
      in if usec \<ge> 1000000 then Timeval (tv_sec now + usec div 1000000) (usec mod 1000000) else Timeval (tv_sec now) usec)"

fun alarm_insert :: "'f alarm_node \<Rightarrow> 'f alarm_node list \<Rightarrow> 'f alarm_node list" where
  "alarm_insert a [] = [a]"
| "alarm_insert a (c # cs) =
     (if tv_sec (alarm_time c) > tv_sec (alarm_time a) then a # c # cs
      else if tv_sec (alarm_time c) = tv_sec (alarm_time a) \<and> tv_usec (alarm_time c) > tv_usec (alarm_time a) then a # c # cs
      else c # alarm_insert a cs)"

definition alarm_set_relative :: "bool \<Rightarrow> timeval \<Rightarrow> 'f \<Rightarrow> int \<Rightarrow> 'f alarm_node list \<Rightarrow> 'f alarm_node list \<times> int" where
  "alarm_set_relative malloc_ok now f ms alarms =
     (if \<not> malloc_ok then (alarms, -1)
      else (alarm_insert \<lparr>alarm_time = time_after now ms, alarm_f = f\<rparr> alarms, 0))"

fun alarm_cancel :: "'f \<Rightarrow> 'f alarm_node list \<Rightarrow> 'f alarm_node list \<times> nat" where
  "alarm_cancel f [] = ([], 0)"
| "alarm_cancel f (c # cs) =
     (let (rest, cancelled) = alarm_cancel f cs
      in if alarm_f c = f then (rest, cancelled + 1) else (c # rest, cancelled))"

section \<open>The interface\<close>

text \<open>
  What the main program relies on: setting and cancelling change what is pending in no other way, and the
  first alarm is the earliest.
\<close>

locale timer_queue =
  fixes add :: "'a \<Rightarrow> 'q \<Rightarrow> 'q"
    and cancel :: "'f \<Rightarrow> 'q \<Rightarrow> 'q"
    and items :: "'q \<Rightarrow> 'a list"
    and time :: "'a \<Rightarrow> 't :: linorder"
    and fn :: "'a \<Rightarrow> 'f"
    and inv :: "'q \<Rightarrow> bool"
  assumes add_items: "mset (items (add a q)) = add_mset a (mset (items q))"
    and cancel_items: "items (cancel f q) = filter (\<lambda>a. fn a \<noteq> f) (items q)"
    and add_keeps: "inv q \<Longrightarrow> inv (add a q)"
    and cancel_keeps: "inv q \<Longrightarrow> inv (cancel f q)"
    and inv_sorted: "inv q \<Longrightarrow> sorted_wrt (\<lambda>a b. time a \<le> time b) (items q)"
begin

definition pending :: "'f \<Rightarrow> 'q \<Rightarrow> nat" where
  "pending f q = length (filter (\<lambda>a. fn a = f) (items q))"

lemma pending_mset: "pending f q = size (filter_mset (\<lambda>a. fn a = f) (mset (items q)))"
  by (simp add: pending_def flip: mset_filter)

lemma pending_add: "pending f (add a q) = pending f q + (if fn a = f then 1 else 0)"
  by (simp add: pending_mset add_items)

lemma pending_cancel: "pending f (cancel g q) = (if f = g then 0 else pending f q)"
  by (auto simp: pending_def cancel_items intro!: arg_cong [where f = length] filter_cong)

lemma items_add: "set (items (add a q)) = insert a (set (items q))"
  using arg_cong [OF add_items [of a q], of set_mset] by simp

lemma none_due: "inv q \<Longrightarrow> items q = a # as \<Longrightarrow> now < time a \<Longrightarrow> b \<in> set (items q) \<Longrightarrow> now < time b"
  using inv_sorted [of q] by fastforce

end

section \<open>The list implements the interface\<close>

definition alarms_sorted :: "'f alarm_node list \<Rightarrow> bool" where
  "alarms_sorted alarms \<longleftrightarrow> sorted_wrt (\<lambda>a b. alarm_time a \<le> alarm_time b) alarms"

lemma is_due_iff: "is_due now a \<longleftrightarrow> alarm_time a \<le> now"
  by (auto simp: is_due_def less_eq_timeval_def)

lemma alarm_insert_Cons:
  "alarm_insert a (c # cs) = (if alarm_time a < alarm_time c then a # c # cs else c # alarm_insert a cs)"
  by (simp add: less_timeval_def)

lemma mset_alarm_insert: "mset (alarm_insert a cs) = add_mset a (mset cs)"
  by (induction cs) (auto simp: alarm_insert_Cons simp del: alarm_insert.simps(2))

lemma set_alarm_insert: "set (alarm_insert a cs) = insert a (set cs)"
  using arg_cong [OF mset_alarm_insert [of a cs], of set_mset] by simp

lemma alarm_insert_sorted: "alarms_sorted cs \<Longrightarrow> alarms_sorted (alarm_insert a cs)"
  unfolding alarms_sorted_def
  by (induction cs) (auto simp: alarm_insert_Cons set_alarm_insert not_less simp del: alarm_insert.simps(2) dest: less_imp_le order_trans)

lemma alarm_cancel_filter:
  "alarm_cancel f cs = (filter (\<lambda>a. alarm_f a \<noteq> f) cs, length (filter (\<lambda>a. alarm_f a = f) cs))"
  by (induction cs) auto

lemma alarm_cancel_sorted: "alarms_sorted cs \<Longrightarrow> alarms_sorted (fst (alarm_cancel f cs))"
  by (simp add: alarm_cancel_filter alarms_sorted_def sorted_wrt_filter)

interpretation com_timers: timer_queue alarm_insert "\<lambda>f cs. fst (alarm_cancel f cs)" "\<lambda>cs. cs" alarm_time alarm_f alarms_sorted
proof unfold_locales
  show "alarms_sorted q \<Longrightarrow> sorted_wrt (\<lambda>a b. alarm_time a \<le> alarm_time b) q" for q :: "'f alarm_node list"
    by (simp add: alarms_sorted_def)
qed (simp_all add: mset_alarm_insert alarm_insert_sorted alarm_cancel_sorted, simp add: alarm_cancel_filter)

section \<open>Properties of the timers\<close>

lemma time_after_microseconds: "valid_time now \<Longrightarrow> 0 \<le> ms \<Longrightarrow> microseconds (time_after now ms) = microseconds now + ms * 1000"
  by (auto simp: microseconds_def time_after_def Let_def valid_time_def)

lemma time_after_valid: "valid_time now \<Longrightarrow> 0 \<le> ms \<Longrightarrow> valid_time (time_after now ms)"
  by (auto simp: time_after_def Let_def valid_time_def)

lemma microseconds_less: "valid_time t \<Longrightarrow> valid_time u \<Longrightarrow> t < u \<longleftrightarrow> microseconds t < microseconds u"
  by (auto simp: microseconds_def less_timeval_def valid_time_def)

lemma time_after_later: "valid_time now \<Longrightarrow> 0 < ms \<Longrightarrow> now < time_after now ms"
  by (simp add: microseconds_less time_after_valid time_after_microseconds)

text \<open>The delay until the next alarm is right to the millisecond: it differs from the time that remains by less
  than a millisecond, so the main loop neither sleeps past an alarm by more than that nor wakes up earlier.\<close>

theorem time_until_next_exact:
  "\<bar>alarm_get_time_until_next now (a # alarms) * 1000 - (microseconds (alarm_time a) - microseconds now)\<bar> < 1000"
proof -
  define d where "d = tv_usec (alarm_time a) - tv_usec now"
  have "\<bar>d smod 1000\<bar> < 1000" by (simp add: signed_modulo_int_def abs_mult sgn_if)
  then have "\<bar>d sdiv 1000 * 1000 - d\<bar> < 1000" using sdiv_mult_smod_eq [of d 1000] by linarith
  then show ?thesis
    by (simp add: alarm_get_time_until_next_def microseconds_def d_def algebra_simps)
qed

end
