(* ===== verification/Com_Main.thy ===== *)
theory Com_Main
  imports Com_Alarm Cnumber
begin

text \<open>
  The charge-only mode (\<^verbatim>\<open>charge_only_mode/main.c\<close> with the logic of \<^verbatim>\<open>hardware.c\<close> and \<^verbatim>\<open>events.c\<close>): the
  program that runs while a phone that was off is charged.  It shows the charge level, darkens the screen
  after a while, powers off without a charger and restarts the phone for a long press of the power key.

  The state \<open>com\<close> holds the static variables, the alarms, the file of the mode, and what the program sets:
  brightness, blanking, the picture, the LED, and how it ended.  What it reads are the clock and the files
  of the kernel; they change between two rounds of the main loop.  \<open>poweroff_ok\<close> and \<open>reboot_ok\<close> say
  whether the calls that end the program succeed; such a call does not return.  Memory for the alarms is
  taken to be available and the files of the lights to be writable.  The framebuffer behind the picture is not modelled.
\<close>

section \<open>The power supply\<close>

type_synonym sysfs = "string \<rightharpoonup> string"

definition sys_get_int_parameter :: "sysfs \<Rightarrow> string \<Rightarrow> int \<Rightarrow> int" where
  "sys_get_int_parameter fs path missing_value =
     (case fs path of None \<Rightarrow> missing_value | Some text \<Rightarrow> atoi (cstr (take 1023 text)))"

text \<open>A file that cannot be opened or read counts as a status that is none of the known ones.\<close>

definition battery_status :: "sysfs \<Rightarrow> string \<Rightarrow> bool" where
  "battery_status fs name =
     (case fs ''/sys/class/power_supply/battery/status'' of
        None \<Rightarrow> False
      | Some text \<Rightarrow> strncmp0 (cstr (take 127 text)) name (length name))"

record device_state =
  is_plugged_into_ac :: int
  is_plugged_into_usb :: int
  is_battery_present :: int
  is_charging :: bool
  is_discharging :: bool
  is_unknown :: bool
  charge_level :: int
  voltage_level :: int

definition get_device_state :: "sysfs \<Rightarrow> device_state" where
  "get_device_state fs =
     \<lparr>is_plugged_into_ac = sys_get_int_parameter fs ''/sys/class/power_supply/ac/online'' 0,
      is_plugged_into_usb = sys_get_int_parameter fs ''/sys/class/power_supply/usb/online'' 0,
      is_battery_present = sys_get_int_parameter fs ''/sys/class/power_supply/battery/present'' 0,
      is_charging = battery_status fs ''Charging'',
      is_discharging = battery_status fs ''Discharging'',
      is_unknown = battery_status fs ''Unknown'',
      charge_level = sys_get_int_parameter fs ''/sys/class/power_supply/battery/capacity'' 0,
      voltage_level = sys_get_int_parameter fs ''/sys/class/power_supply/battery/voltage_now'' 0\<rparr>"

text \<open>The LED: red, green and blinking.\<close>

type_synonym led = "int \<times> int \<times> bool"

definition set_led_state :: "32 word \<Rightarrow> int \<Rightarrow> int \<Rightarrow> led" where
  "set_led_state col on off =
     (let (on, off) = (if and col 0xff000000 = 0 \<or> and col 0x00ffffff = 0 then (0, 0) else (on, off))
      in (uint (and (drop_bit 16 col) 0xFF), uint (and (drop_bit 8 col) 0xFF), on > 0 \<and> off > 0))"

definition set_battery_led :: "device_state \<Rightarrow> led" where
  "set_battery_led d =
     (if charge_level d < 10 then set_led_state 0xFFFF0000 0 0
      else if charge_level d < 90 then set_led_state 0xFFFFFF00 0 0
      else set_led_state 0xFF00FF00 0 0)"

section \<open>State\<close>

datatype com_alarm = Animation | Brightness1 | Brightness2 | Power_key

datatype com_end = Powered_off | Restarted | Exited

record com =
  quit :: bool
  launched :: bool
  shutdown :: bool
  powerup :: bool
  powerup_latch :: bool
  counter :: nat
  alarms :: "com_alarm alarm_node list"
  mode_file :: "string option"
  brightness :: int
  button_brightness :: int
  blank :: bool
  picture :: "(int \<times> bool) option"
  battery_led :: "led option"
  memtest :: bool
  ended :: "com_end option"
  clock :: timeval
  files :: sysfs
  poweroff_ok :: bool
  reboot_ok :: bool

definition alarm_set :: "com_alarm \<Rightarrow> int \<Rightarrow> com \<Rightarrow> com" where
  "alarm_set f ms s = s\<lparr>alarms := fst (alarm_set_relative True (clock s) f ms (alarms s))\<rparr>"

definition cancel :: "com_alarm \<Rightarrow> com \<Rightarrow> com" where
  "cancel f s = s\<lparr>alarms := fst (alarm_cancel f (alarms s))\<rparr>"

text \<open>The level of the backlight for a fraction in tenths.\<close>

definition set_brightness :: "int \<Rightarrow> com \<Rightarrow> com" where
  "set_brightness tenths s = s\<lparr>brightness := 255 * tenths div 10\<rparr>"

definition set_button_brightness :: "int \<Rightarrow> com \<Rightarrow> com" where
  "set_button_brightness tenths s = s\<lparr>button_brightness := 255 * tenths div 10\<rparr>"

text \<open>The file is not truncated when it is opened: longer contents keep their end.\<close>

definition save_mode :: "bool \<Rightarrow> com \<Rightarrow> com" where
  "save_mode open_ok s =
     (if \<not> open_ok then s
      else (let text = ''charging'' @ [NUL]
            in s\<lparr>mode_file := Some (text @ drop (length text) (case mode_file s of None \<Rightarrow> [] | Some old \<Rightarrow> old))\<rparr>))"

definition clear_mode :: "com \<Rightarrow> com" where
  "clear_mode s = s\<lparr>mode_file := map_option (\<lambda>_. []) (mode_file s)\<rparr>"

definition display_blank :: "com \<Rightarrow> com" where
  "display_blank s = s\<lparr>blank := True\<rparr>"

definition display_unblank :: "com \<Rightarrow> com" where
  "display_unblank s = s\<lparr>blank := False\<rparr>"

section \<open>The alarms\<close>

definition screen_brightness_animation_alarm2 :: "com \<Rightarrow> com" where
  "screen_brightness_animation_alarm2 s =
     (let s = cancel Animation (set_brightness 0 s)
      in if shutdown s
         then (let s = clear_mode s
               in if poweroff_ok s then s\<lparr>ended := Some Powered_off\<rparr> else display_blank s)
         else display_blank s)"

definition screen_brightness_animation_alarm1 :: "com \<Rightarrow> com" where
  "screen_brightness_animation_alarm1 s = alarm_set Brightness2 10000 (set_brightness 4 s)"

definition screen_brightness_animation_start :: "int \<Rightarrow> com \<Rightarrow> com" where
  "screen_brightness_animation_start animation_timeout s =
     alarm_set Animation animation_timeout (alarm_set Brightness1 5000 (set_brightness 8 (display_unblank s)))"

definition power_key_alarm :: "com \<Rightarrow> com" where
  "power_key_alarm s =
     (let s = cancel Animation (cancel Brightness1 (cancel Brightness2 s));
          s = (if launched s then s\<lparr>memtest := True\<rparr> else s);
          s = clear_mode s
      in if reboot_ok s then s\<lparr>ended := Some Restarted\<rparr> else s)"

definition POWERUP_VOLTAGE :: int where
  "POWERUP_VOLTAGE = 3600000"

text \<open>The charge level is shown as 0 until the voltage has once been high enough to start the phone.\<close>

definition show_power :: "bool \<Rightarrow> device_state \<Rightarrow> com \<Rightarrow> com" where
  "show_power update_leds d s =
     (let level = (if charge_level d > 100 then 100 else if charge_level d < 0 then 0 else charge_level d);
          (s, level) = (if voltage_level d \<ge> POWERUP_VOLTAGE then (s\<lparr>powerup := True, powerup_latch := True\<rparr>, level)
                        else (s\<lparr>powerup := False\<rparr>, if powerup_latch s then level else 0));
          s = s\<lparr>picture := Some (level, is_discharging d \<and> (is_plugged_into_ac d \<noteq> 0 \<or> is_plugged_into_usb d \<noteq> 0) \<or>
                is_battery_present d = 0 \<or> is_unknown d)\<rparr>
      in if update_leds then s\<lparr>battery_led := Some (set_battery_led (d\<lparr>charge_level := level\<rparr>))\<rparr> else s)"

definition power_event :: "bool \<Rightarrow> com \<Rightarrow> com" where
  "power_event update_leds s =
     (let d = get_device_state (files s);
          s = show_power update_leds d s
      in if \<not> shutdown s \<and> is_plugged_into_ac d = 0 \<and> is_plugged_into_usb d = 0
         then screen_brightness_animation_alarm2 (cancel Brightness1 (cancel Brightness2 (s\<lparr>shutdown := True\<rparr>)))
         else s)"

definition animation_alarm :: "com \<Rightarrow> com" where
  "animation_alarm s = power_event False (alarm_set Animation 500 s)"

definition run_alarm :: "com_alarm \<Rightarrow> com \<Rightarrow> com" where
  "run_alarm f = (case f of
     Animation \<Rightarrow> animation_alarm | Brightness1 \<Rightarrow> screen_brightness_animation_alarm1
   | Brightness2 \<Rightarrow> screen_brightness_animation_alarm2 | Power_key \<Rightarrow> power_key_alarm)"

text \<open>The loop over the alarms that are due; a function it calls may set new ones.\<close>

partial_function (option) alarm_process :: "timeval \<Rightarrow> com \<Rightarrow> com option" where
  "alarm_process now s =
     (if ended s \<noteq> None then Some s
      else case alarms s of
        [] \<Rightarrow> Some s
      | a # rest \<Rightarrow> if is_due now a then alarm_process now (run_alarm (alarm_f a) (s\<lparr>alarms := rest\<rparr>)) else Some s)"

section \<open>Keys and the main loop\<close>

datatype event = EVENT_NONE | EVENT_QUIT | EVENT_BATTERY | EVENT_POWER_KEY_DOWN | EVENT_POWER_KEY_UP
  | EVENT_VOLUMEDOWN_KEY_DOWN | EVENT_VOLUMEDOWN_KEY_UP | EVENT_VOLUMEUP_KEY_DOWN | EVENT_VOLUMEUP_KEY_UP
  | EVENT_CAMERA_KEY_DOWN | EVENT_CAMERA_KEY_UP

text \<open>The event of a key (\<open>type\<close>, \<open>code\<close>, \<open>value\<close> as the kernel reports them).\<close>

definition key_event :: "int \<Rightarrow> int \<Rightarrow> int \<Rightarrow> event" where
  "key_event typ code v =
     (let key = (\<lambda>c x. typ = 1 \<and> code = c \<and> v = x)
      in if key 116 1 then EVENT_POWER_KEY_DOWN else if key 116 0 then EVENT_POWER_KEY_UP
         else if key 114 1 then EVENT_VOLUMEDOWN_KEY_DOWN else if key 114 0 then EVENT_VOLUMEDOWN_KEY_UP
         else if key 115 1 then EVENT_VOLUMEUP_KEY_DOWN else if key 115 0 then EVENT_VOLUMEUP_KEY_UP
         else if key 212 1 then EVENT_CAMERA_KEY_DOWN else if key 212 0 then EVENT_CAMERA_KEY_UP
         else EVENT_NONE)"

definition update_screen_on_wakeup_key :: "com \<Rightarrow> com" where
  "update_screen_on_wakeup_key s =
     (let s = cancel Animation (cancel Brightness2 s);
          cancelled = snd (alarm_cancel Brightness1 (alarms s));
          s = cancel Brightness1 s
      in if cancelled \<noteq> 0 then screen_brightness_animation_alarm2 s else screen_brightness_animation_start 500 s)"

definition update_screen_on_wakeup_key2 :: "com \<Rightarrow> com" where
  "update_screen_on_wakeup_key2 s =
     screen_brightness_animation_start 500 (cancel Animation (cancel Brightness1 (cancel Brightness2 s)))"

definition launch_keys :: "event list" where
  "launch_keys = [EVENT_VOLUMEUP_KEY_DOWN, EVENT_VOLUMEUP_KEY_DOWN, EVENT_VOLUMEDOWN_KEY_DOWN, EVENT_VOLUMEDOWN_KEY_DOWN,
     EVENT_VOLUMEUP_KEY_DOWN, EVENT_VOLUMEUP_KEY_DOWN, EVENT_VOLUMEDOWN_KEY_DOWN, EVENT_VOLUMEDOWN_KEY_DOWN, EVENT_POWER_KEY_DOWN]"

text \<open>The counter and whether the sequence is complete; \<open>None\<close> is a read behind the array of the keys.\<close>

definition launch_sequence :: "event \<Rightarrow> nat \<Rightarrow> (nat \<times> bool) option" where
  "launch_sequence r n =
     (if r \<in> {EVENT_VOLUMEDOWN_KEY_DOWN, EVENT_VOLUMEUP_KEY_DOWN, EVENT_POWER_KEY_DOWN}
      then if n \<ge> length launch_keys then None
           else (let n = (if launch_keys ! n = r then n + 1 else 0) in Some (n, n = length launch_keys))
      else Some (n, False))"

definition handle_event :: "event \<Rightarrow> com \<Rightarrow> com" where
  "handle_event r s = (case r of
     EVENT_POWER_KEY_DOWN \<Rightarrow> if powerup s then alarm_set Power_key 1000 s else s
   | EVENT_POWER_KEY_UP \<Rightarrow> update_screen_on_wakeup_key (cancel Power_key s)
   | EVENT_VOLUMEDOWN_KEY_DOWN \<Rightarrow> update_screen_on_wakeup_key2 s
   | EVENT_VOLUMEUP_KEY_DOWN \<Rightarrow> update_screen_on_wakeup_key2 s
   | EVENT_CAMERA_KEY_DOWN \<Rightarrow> update_screen_on_wakeup_key2 s
   | EVENT_BATTERY \<Rightarrow> power_event False s
   | EVENT_QUIT \<Rightarrow> s\<lparr>quit := True\<rparr>
   | _ \<Rightarrow> s)"

text \<open>One round of the main loop, with the event it gets when it waits for one.\<close>

definition com_main_round :: "event \<Rightarrow> com \<Rightarrow> com option" where
  "com_main_round r s =
     (if alarm_get_time_until_next (clock s) (alarms s) < 1 then alarm_process (clock s) s
      else case launch_sequence r (counter s) of
        None \<Rightarrow> None
      | Some (n, activated) \<Rightarrow>
          (let s = s\<lparr>counter := n, launched := launched s \<or> activated\<rparr> in Some (handle_event r s)))"

definition com_main_init :: "bool \<Rightarrow> bool \<Rightarrow> com \<Rightarrow> com" where
  "com_main_init open_ok screen_ok s =
     (let s = save_mode open_ok s
      in if \<not> screen_ok then (clear_mode s)\<lparr>ended := Some Exited\<rparr>
         else screen_brightness_animation_start 1500 (set_button_brightness 0 (display_unblank (display_blank s))))"

definition com_main_leave :: "device_state \<Rightarrow> com \<Rightarrow> com" where
  "com_main_leave old_state s =
     (clear_mode ((set_brightness 10 s)\<lparr>battery_led := Some (set_battery_led old_state)\<rparr>))\<lparr>ended := Some Exited\<rparr>"

end
