(* ===== verification/Boot_Mode.thy ===== *)
theory Boot_Mode
  imports Cnumber
begin

text \<open>
  The boot mode program (\<^verbatim>\<open>mot_boot_mode/mot_boot_mode.c\<close>): from the reason of the power-up it decides
  between the recovery of the factory command, charge-only mode and a normal start, and tells the rest of
  the system in properties.

  What it reads is the environment \<open>boot_env\<close>: the property \<open>ro.bootmode\<close> if it is set, the text of
  \<^verbatim>\<open>/proc/bootinfo\<close> and of the file of the charge-only mode if they can be opened and read.  \<open>property_get\<close>
  copies a value of any length to a buffer of 32 bytes; a longer value is the fault \<open>buffer_overrun\<close>.
\<close>

section \<open>The program\<close>

record boot_env =
  ro_bootmode :: "string option"
  proc_bootinfo :: "string option"
  com_file :: "string option"

datatype boot_fault = buffer_overrun

definition bootmode :: "boot_env \<Rightarrow> boot_fault + string" where
  "bootmode env = (let v = (case ro_bootmode env of Some v \<Rightarrow> v | None \<Rightarrow> ''unknown'')
                   in if length v < 32 then Inr v else Inl buffer_overrun)"

text \<open>The pointer \<open>strstr\<close> returns, as the text from there on.\<close>

fun strstr_from :: "string \<Rightarrow> string \<Rightarrow> string option" where
  "strstr_from [] pat = (if pat = [] then Some [] else None)"
| "strstr_from (x # xs) pat = (if is_prefix_of pat (x # xs) then Some (x # xs) else strstr_from xs pat)"

fun copy_value :: "nat \<Rightarrow> string \<Rightarrow> string" where
  "copy_value n [] = []"
| "copy_value n (c # x) =
     (if is_space c then [] else c # (if n + 1 = 31 then [] else copy_value (n + 1) x))"

definition check_bootinfo :: "boot_env \<Rightarrow> string \<Rightarrow> string \<Rightarrow> bool" where
  "check_bootinfo env field v =
     (case proc_bootinfo env of
        None \<Rightarrow> False
      | Some text \<Rightarrow>
          (let data = cstr (take 1023 text);
               bootreason = (case strstr_from data field of
                   None \<Rightarrow> []
                 | Some pwrup_rsn \<Rightarrow>
                     (case strstr_from pwrup_rsn '': '' of None \<Rightarrow> [] | Some x \<Rightarrow> copy_value 0 (drop 2 x)))
           in bootreason = v))"

abbreviation "MOTO_PU_REASON_CHARGE_ONLY \<equiv> ''0x00000100''"
abbreviation "MOTO_PU_REASON_CPCAP_RESET \<equiv> ''0x00040000''"
abbreviation "MOTO_PU_REASON_KPANIC \<equiv> ''0x00020000''"
abbreviation "MOTO_PU_REASON_WDRESET \<equiv> ''0x00008000''"
abbreviation "MOTO_CID_RECOVER_BOOT \<equiv> ''0x01''"

definition check_abnormal_reboot :: "boot_env \<Rightarrow> boot_fault + bool" where
  "check_abnormal_reboot env = andThen (bootmode env) (\<lambda>abnormal_boot.
     Inr (if strncmp0 abnormal_boot ''kpanic'' 6 \<or> strncmp0 abnormal_boot ''wdreset'' 7 \<or> strncmp0 abnormal_boot ''wdcpcap'' 7 then True
          else check_bootinfo env ''POWERUPREASON'' MOTO_PU_REASON_KPANIC \<or>
            check_bootinfo env ''POWERUPREASON'' MOTO_PU_REASON_WDRESET \<or>
            check_bootinfo env ''POWERUPREASON'' MOTO_PU_REASON_CPCAP_RESET))"

text \<open>The lines that would truncate the file and close it are behind the last return: the file is only read.\<close>

definition check_com_reset :: "boot_env \<Rightarrow> bool" where
  "check_com_reset env =
     (case com_file env of
        None \<Rightarrow> False
      | Some text \<Rightarrow> if take 20 text = [] then False else strncmp0 (cstr (take 20 text)) ''charging'' 8)"

definition boot_reason_charge_only :: "boot_env \<Rightarrow> boot_fault + bool" where
  "boot_reason_charge_only env = andThen (bootmode env) (\<lambda>powerup_reason.
     if strncmp0 powerup_reason ''charger'' 7 then Inr True
     else if check_bootinfo env ''POWERUPREASON'' MOTO_PU_REASON_CHARGE_ONLY then Inr True
     else andThen (check_abnormal_reboot env) (\<lambda>abnormal. Inr (abnormal \<and> check_com_reset env)))"

definition check_cid_recover_boot :: "boot_env \<Rightarrow> boot_fault + bool" where
  "check_cid_recover_boot env = andThen (bootmode env) (\<lambda>cid_recover_boot.
     if strncmp0 cid_recover_boot ''cidtcmd'' 7 then Inr True
     else Inr (check_bootinfo env (CHR 0x0A # ''CID_RECOVER_BOOT'') MOTO_CID_RECOVER_BOOT))"

definition check_data_12m :: bool where
  "check_data_12m = False"

text \<open>The properties that are set, in order.\<close>

definition boot_main :: "boot_env \<Rightarrow> boot_fault + (string \<times> string) list" where
  "boot_main env = andThen (check_cid_recover_boot env) (\<lambda>cid.
     if cid then Inr [(''tcmd.cid.recover.boot'', ''1''), (''tcmd.suspend'', ''1'')]
     else andThen (boot_reason_charge_only env) (\<lambda>charge_only.
       if charge_only then Inr [(''sys.chargeonly.mode'', ''1'')]
       else if check_data_12m then Inr [(''tcmd.12m.test'', ''1''), (''tcmd.suspend'', ''1'')]
       else Inr [(''tcmd.suspend'', ''0'')]))"

section \<open>Reading the boot information\<close>

lemma strstr_from_first:
  "(\<forall>i < length pre. \<not> is_prefix_of pat (drop i (pre @ rest))) \<Longrightarrow> is_prefix_of pat rest \<Longrightarrow> strstr_from (pre @ rest) pat = Some rest"
proof (induction pre)
  case Nil
  then show ?case by (cases rest) (simp_all add: is_prefix_of_iff)
next
  case (Cons c pre)
  have "\<not> is_prefix_of pat (c # pre @ rest)" using Cons.prems(1) by (metis append_Cons drop0 length_greater_0_conv list.discI)
  moreover have "\<forall>i < length pre. \<not> is_prefix_of pat (drop i (pre @ rest))" using Cons.prems(1) by force
  ultimately show ?case using Cons by simp
qed

lemma strncmp0_prefix: "length b = n \<Longrightarrow> strncmp0 a b n \<longleftrightarrow> take n a = b"
  by (induction a b n rule: strncmp0.induct) auto

lemma copy_value_take: "n < 31 \<Longrightarrow> copy_value n x = take (31 - n) (takeWhile (\<lambda>c. \<not> is_space c) x)"
  by (induction n x rule: copy_value.induct) (auto simp: take_Cons' Suc_diff_Suc)

lemma separator_after_field: "CHR '':'' \<notin> set field \<Longrightarrow> strstr_from (field @ '' : '' @ rest) '': '' = Some ('': '' @ rest)"
  by (induction field) auto

text \<open>A line of the boot information, with what comes before and after it.\<close>

definition has_field :: "boot_env \<Rightarrow> string \<Rightarrow> string \<Rightarrow> bool" where
  "has_field env field v \<longleftrightarrow> (\<exists>pre post. proc_bootinfo env = Some (pre @ field @ '' : '' @ v @ CHR 0x0A # post) \<and>
     length (pre @ field @ '' : '' @ v @ CHR 0x0A # post) \<le> 1023 \<and> NUL \<notin> set (pre @ field @ '' : '' @ v @ CHR 0x0A # post) \<and>
     (\<forall>i < length pre. \<not> is_prefix_of field (drop i (pre @ field @ '' : '' @ v @ CHR 0x0A # post))) \<and>
     length v \<le> 31 \<and> list_all (\<lambda>c. \<not> is_space c) v)"

lemma check_bootinfo_field:
  assumes "has_field env field v" "CHR '':'' \<notin> set field"
  shows "check_bootinfo env field w \<longleftrightarrow> w = v"
proof -
  obtain pre post t where def_t: "t = pre @ field @ '' : '' @ v @ CHR 0x0A # post" and
      t: "proc_bootinfo env = Some t" "length t \<le> 1023" "NUL \<notin> set t"
      "\<forall>i < length pre. \<not> is_prefix_of field (drop i t)" "length v \<le> 31" "list_all (\<lambda>c. \<not> is_space c) v"
    using assms(1) unfolding has_field_def by blast
  have "strstr_from t field = Some (field @ '' : '' @ v @ CHR 0x0A # post)"
    using strstr_from_first [OF t(4) [unfolded def_t]] by (simp add: def_t is_prefix_of_iff)
  moreover have "cstr (take 1023 t) = t" using t(2,3) by (simp add: cstr_id)
  moreover have "takeWhile (\<lambda>c. \<not> is_space c) (v @ CHR 0x0A # post) = v"
    using t(6) by (simp add: takeWhile_append2 list_all_iff is_space_def)
  moreover have "strstr_from (field @ '' : '' @ v @ CHR 0x0A # post) '': '' = Some ('': '' @ v @ CHR 0x0A # post)"
    by (rule separator_after_field [OF assms(2)])
  ultimately show ?thesis
    using t(1,5) by (auto simp: check_bootinfo_def copy_value_take Let_def)
qed

section \<open>Properties of the boot mode\<close>

text \<open>C24: With the reason of the power-up on a line of the boot information, the program sets the properties of
  exactly one mode.  The factory command comes first; charge-only mode is chosen for the boot mode
  \<open>charger\<close>, for the power-up reason of a charger, and after a panic or a watchdog or power reset when the
  phone was charging before it; a start that is none of these is normal.\<close>

theorem boot_mode_decision:
  assumes "has_field env ''POWERUPREASON'' reason" "bootmode env = Inr m"
  shows "boot_main env = Inr
    (if take 7 m = ''cidtcmd'' \<or> check_bootinfo env (CHR 0x0A # ''CID_RECOVER_BOOT'') ''0x01''
     then [(''tcmd.cid.recover.boot'', ''1''), (''tcmd.suspend'', ''1'')]
     else if take 7 m = ''charger'' \<or> reason = ''0x00000100'' \<or>
       (take 6 m = ''kpanic'' \<or> take 7 m = ''wdreset'' \<or> take 7 m = ''wdcpcap'' \<or> reason \<in> {''0x00020000'', ''0x00008000'', ''0x00040000''}) \<and>
       (\<exists>text. com_file env = Some text \<and> take 8 (cstr (take 20 text)) = ''charging'')
     then [(''sys.chargeonly.mode'', ''1'')]
     else [(''tcmd.suspend'', ''0'')])"
proof -
  have field: "check_bootinfo env ''POWERUPREASON'' w \<longleftrightarrow> w = reason" for w
    by (rule check_bootinfo_field [OF assms(1)]) simp
  have cmp: "strncmp0 t ''cidtcmd'' 7 \<longleftrightarrow> take 7 t = ''cidtcmd''" "strncmp0 t ''charger'' 7 \<longleftrightarrow> take 7 t = ''charger''"
    "strncmp0 t ''kpanic'' 6 \<longleftrightarrow> take 6 t = ''kpanic''" "strncmp0 t ''wdreset'' 7 \<longleftrightarrow> take 7 t = ''wdreset''"
    "strncmp0 t ''wdcpcap'' 7 \<longleftrightarrow> take 7 t = ''wdcpcap''" "strncmp0 t ''charging'' 8 \<longleftrightarrow> take 8 t = ''charging''" for t
    by (simp_all add: strncmp0_prefix)
  have com: "check_com_reset env \<longleftrightarrow> (\<exists>text. com_file env = Some text \<and> take 8 (cstr (take 20 text)) = ''charging'')"
    by (auto simp: check_com_reset_def cmp cstr_def split: option.splits)
  show ?thesis
    by (auto simp: boot_main_def check_cid_recover_boot_def boot_reason_charge_only_def check_abnormal_reboot_def
        assms(2) field cmp com check_data_12m_def)
qed

theorem boot_mode_decision_witness:
  "boot_main \<lparr>ro_bootmode = None, proc_bootinfo = Some (''X : 1'' @ [CHR 0x0A] @ ''POWERUPREASON'' @ '' : '' @ ''0x00020000'' @ [CHR 0x0A]),
     com_file = Some ''charging''\<rparr> = Inr [(''sys.chargeonly.mode'', ''1'')]"
proof -
  let ?e = "\<lparr>ro_bootmode = None, proc_bootinfo = Some (''X : 1'' @ [CHR 0x0A] @ ''POWERUPREASON'' @ '' : '' @ ''0x00020000'' @ [CHR 0x0A]),
     com_file = Some ''charging''\<rparr>"
  have h: "has_field ?e ''POWERUPREASON'' ''0x00020000''"
    unfolding has_field_def
    by (rule exI [of _ "''X : 1'' @ [CHR 0x0A]"], rule exI [of _ "[]"]) (simp add: less_Suc_eq numeral_eq_Suc is_space_def)
  have b: "bootmode ?e = Inr ''unknown''" by (simp add: bootmode_def)
  have c: "\<not> check_bootinfo ?e (CHR 0x0A # ''CID_RECOVER_BOOT'') ''0x01''" by code_simp
  have d: "cstr ''charging'' = ''charging''" by code_simp
  show ?thesis using boot_mode_decision [OF h b] c d by simp
qed

end
