(* ===== verification/Com_Properties.thy ===== *)
theory Com_Properties
  imports Com_Main Boot_Mode
begin

text \<open>
  Properties of the charge-only mode: the loop over the alarms ends and leaves none that is due; in every
  reachable state the screen is lit exactly while its timer runs and the file of the mode says that the
  phone is charging; and with the boot mode program, which reads that file after a crash.
\<close>

section \<open>Runs of the program\<close>

definition pending_alarms :: "com_alarm \<Rightarrow> com \<Rightarrow> nat" where
  "pending_alarms f s = length (filter (\<lambda>a. alarm_f a = f) (alarms s))"

definition fresh_com :: "com \<Rightarrow> bool" where
  "fresh_com s \<longleftrightarrow> \<not> quit s \<and> \<not> launched s \<and> \<not> shutdown s \<and> \<not> powerup s \<and> \<not> powerup_latch s \<and> counter s = 0 \<and> alarms s = [] \<and>
     ended s = None \<and> valid_time (clock s) \<and> poweroff_ok s \<and> reboot_ok s"

definition com_init :: "com \<Rightarrow> bool" where
  "com_init s \<longleftrightarrow> (\<exists>s0 screen_ok. fresh_com s0 \<and> s = com_main_init True screen_ok s0)"

inductive com_step :: "com \<Rightarrow> com \<Rightarrow> bool" where
  world: "ended s = None \<Longrightarrow> valid_time t \<Longrightarrow> clock s \<le> t \<Longrightarrow> com_step s (s\<lparr>clock := t, files := fs\<rparr>)"
| round: "ended s = None \<Longrightarrow> \<not> quit s \<Longrightarrow> com_main_round r s = Some t \<Longrightarrow> com_step s t"
| leave: "ended s = None \<Longrightarrow> quit s \<Longrightarrow> com_step s (com_main_leave old_state s)"

definition charging_saved :: "com \<Rightarrow> bool" where
  "charging_saved s \<longleftrightarrow> (case mode_file s of None \<Rightarrow> False | Some text \<Rightarrow> take 9 text = ''charging'' @ [NUL])"

text \<open>While the program runs, \<open>n\<close> timers of the screen are set; when it has ended, the file is empty.\<close>

definition com_running :: "nat \<Rightarrow> com \<Rightarrow> bool" where
  "com_running n s \<longleftrightarrow> \<not> shutdown s \<and> charging_saved s \<and> pending_alarms Brightness1 s + pending_alarms Brightness2 s = n"

definition com_frame :: "com \<Rightarrow> bool" where
  "com_frame s \<longleftrightarrow> poweroff_ok s \<and> reboot_ok s \<and> valid_time (clock s) \<and> alarms_sorted (alarms s)"

definition com_inv :: "com \<Rightarrow> bool" where
  "com_inv s \<longleftrightarrow> com_frame s \<and>
     (if ended s = None then com_running (if blank s then 0 else 1) s else mode_file s = Some [])"

section \<open>What the steps keep\<close>

lemma pending_simps [simp]:
  "pending_alarms f (alarm_set g ms s) = pending_alarms f s + (if g = f then 1 else 0)"
  "pending_alarms f (cancel g s) = (if f = g then 0 else pending_alarms f s)"
  using com_timers.pending_add [of f _ "alarms s"] com_timers.pending_cancel [of f g "alarms s"]
  by (auto simp: pending_alarms_def alarm_set_def cancel_def alarm_set_relative_def com_timers.pending_def)

lemma pending_same: "alarms s = alarms t \<Longrightarrow> pending_alarms f s = pending_alarms f t"
  by (simp add: pending_alarms_def)

lemma pending_pop:
  "alarms s = a # rest \<Longrightarrow> pending_alarms f s = pending_alarms f (s\<lparr>alarms := rest\<rparr>) + (if alarm_f a = f then 1 else 0)"
  by (simp add: pending_alarms_def)

lemma charging_same: "mode_file s = mode_file t \<Longrightarrow> charging_saved s = charging_saved t"
  by (simp add: charging_saved_def)

lemma frame_alarms:
  "com_frame s \<Longrightarrow> com_frame (alarm_set f ms s)" "com_frame s \<Longrightarrow> com_frame (cancel f s)"
  by (simp_all add: com_frame_def alarm_set_def cancel_def alarm_set_relative_def alarm_insert_sorted alarm_cancel_sorted)

lemma frame_pop: "com_frame s \<Longrightarrow> alarms s = a # rest \<Longrightarrow> com_frame (s\<lparr>alarms := rest\<rparr>)"
  by (simp add: com_frame_def alarms_sorted_def)

text \<open>The fields of the state after the operations on alarms and on the screen.\<close>

lemma alarm_fields [simp]:
  "ended (alarm_set f ms s) = ended s" "shutdown (alarm_set f ms s) = shutdown s" "mode_file (alarm_set f ms s) = mode_file s"
  "blank (alarm_set f ms s) = blank s" "clock (alarm_set f ms s) = clock s" "files (alarm_set f ms s) = files s"
  "ended (cancel f s) = ended s" "shutdown (cancel f s) = shutdown s" "mode_file (cancel f s) = mode_file s"
  "blank (cancel f s) = blank s" "clock (cancel f s) = clock s" "files (cancel f s) = files s" "poweroff_ok (cancel f s) = poweroff_ok s"
  "reboot_ok (cancel f s) = reboot_ok s" "launched (cancel f s) = launched s"
  by (simp_all add: alarm_set_def cancel_def)

lemmas screen_ops = set_brightness_def display_blank_def display_unblank_def clear_mode_def

lemma frame_upd [simp]:
  "com_frame (s\<lparr>brightness := b\<rparr>) = com_frame s" "com_frame (s\<lparr>button_brightness := b\<rparr>) = com_frame s"
  "com_frame (s\<lparr>blank := k\<rparr>) = com_frame s"
  "com_frame (s\<lparr>mode_file := m\<rparr>) = com_frame s" "com_frame (s\<lparr>ended := e\<rparr>) = com_frame s"
  "com_frame (s\<lparr>shutdown := d\<rparr>) = com_frame s" "com_frame (s\<lparr>memtest := d\<rparr>) = com_frame s"
  "com_frame (s\<lparr>picture := p\<rparr>) = com_frame s" "com_frame (s\<lparr>battery_led := l\<rparr>) = com_frame s"
  "com_frame (s\<lparr>powerup := d\<rparr>) = com_frame s" "com_frame (s\<lparr>powerup_latch := d\<rparr>) = com_frame s"
  "com_frame (s\<lparr>quit := d\<rparr>) = com_frame s" "com_frame (s\<lparr>counter := c, launched := d\<rparr>) = com_frame s"
  by (simp_all add: com_frame_def)

lemma running_upd [simp]:
  "com_running n (s\<lparr>brightness := b\<rparr>) = com_running n s" "com_running n (s\<lparr>button_brightness := b\<rparr>) = com_running n s"
  "com_running n (s\<lparr>blank := k\<rparr>) = com_running n s"
  "com_running n (s\<lparr>picture := p\<rparr>) = com_running n s" "com_running n (s\<lparr>battery_led := l\<rparr>) = com_running n s"
  "com_running n (s\<lparr>powerup := d\<rparr>) = com_running n s" "com_running n (s\<lparr>powerup_latch := d\<rparr>) = com_running n s"
  "com_running n (s\<lparr>quit := d\<rparr>) = com_running n s" "com_running n (s\<lparr>counter := c, launched := d\<rparr>) = com_running n s"
  by (simp_all add: com_running_def charging_saved_def pending_alarms_def)

lemma running_alarms:
  "com_running n s \<Longrightarrow> f \<noteq> Brightness1 \<Longrightarrow> f \<noteq> Brightness2 \<Longrightarrow> com_running n (alarm_set f ms s)"
  "com_running n s \<Longrightarrow> f \<noteq> Brightness1 \<Longrightarrow> f \<noteq> Brightness2 \<Longrightarrow> com_running n (cancel f s)"
  "com_running 0 s \<Longrightarrow> com_running 1 (alarm_set Brightness1 ms s)"
  "com_running 0 s \<Longrightarrow> com_running 1 (alarm_set Brightness2 ms s)"
  "com_running n s \<Longrightarrow> com_running 0 (cancel Brightness1 (cancel Brightness2 s))"
  by (auto simp: com_running_def charging_saved_def)

lemma saved_file: "charging_saved s \<Longrightarrow> mode_file s \<noteq> None"
  by (auto simp: charging_saved_def split: option.splits)

text \<open>Darkening the screen, with the program running or shutting down.\<close>

lemma alarm2_inv:
  assumes "com_frame s" "charging_saved s" "ended s = None" "pending_alarms Brightness1 s + pending_alarms Brightness2 s = 0"
  shows "com_inv (screen_brightness_animation_alarm2 s)"
proof -
  obtain content where m: "mode_file s = Some content" using saved_file [OF assms(2)] by blast
  have f: "com_frame (cancel Animation (set_brightness 0 s))" using assms(1) by (simp add: set_brightness_def frame_alarms)
  have k: "pending_alarms b (set_brightness 0 s) = pending_alarms b s" for b by (simp add: pending_alarms_def set_brightness_def)
  show ?thesis
  proof (cases "shutdown s")
    case True
    then show ?thesis using f m assms(1,3)
      by (simp add: screen_brightness_animation_alarm2_def Let_def com_inv_def clear_mode_def set_brightness_def com_frame_def)
  next
    case False
    then have "com_running 0 (cancel Animation (set_brightness 0 s))"
      using assms(2,4) k by (simp add: com_running_def charging_saved_def set_brightness_def)
    then show ?thesis using f False assms(3)
      by (simp add: screen_brightness_animation_alarm2_def Let_def com_inv_def display_blank_def set_brightness_def)
  qed
qed

lemma start_inv:
  assumes "com_frame s" "com_running 0 s" "ended s = None"
  shows "com_inv (screen_brightness_animation_start ms s)"
  using assms
  by (simp add: screen_brightness_animation_start_def com_inv_def frame_alarms running_alarms set_brightness_def display_unblank_def
      del: One_nat_def)

lemma show_power_fields [simp]:
  "alarms (show_power u d s) = alarms s" "clock (show_power u d s) = clock s" "ended (show_power u d s) = ended s"
  "blank (show_power u d s) = blank s" "com_frame (show_power u d s) = com_frame s"
  "com_running n (show_power u d s) = com_running n s"
  by (simp_all add: show_power_def Let_def)

lemma power_event_inv:
  assumes "com_inv s" "ended s = None"
  shows "com_inv (power_event u s)"
proof -
  define d where "d = get_device_state (files s)"
  have t: "com_frame (show_power u d s)" "com_running (if blank s then 0 else 1) (show_power u d s)"
    using assms by (simp_all add: com_inv_def)
  then have "com_inv (screen_brightness_animation_alarm2 (cancel Brightness1 (cancel Brightness2 ((show_power u d s)\<lparr>shutdown := True\<rparr>))))"
    using assms(2) by (intro alarm2_inv) (auto simp: frame_alarms com_running_def charging_saved_def)
  moreover have "com_inv (show_power u d s)" using assms by (simp add: com_inv_def)
  ultimately show ?thesis by (simp add: power_event_def d_def Let_def)
qed

lemma inv_running: "com_inv s \<Longrightarrow> ended s = None \<Longrightarrow> com_frame s \<and> com_running (if blank s then 0 else 1) s"
  by (simp add: com_inv_def)

text \<open>A function of an alarm runs after its alarm is taken off the list.\<close>

lemma run_alarm_inv:
  assumes "com_inv s" "ended s = None" "alarms s = a # rest"
  shows "com_inv (run_alarm (alarm_f a) (s\<lparr>alarms := rest\<rparr>))"
proof -
  let ?t = "s\<lparr>alarms := rest\<rparr>"
  have r: "com_frame ?t" "com_running (if blank s then 0 else 1) s" "ended ?t = None"
    using inv_running [OF assms(1,2)] frame_pop [OF _ assms(3)] assms(2) by auto
  note pop = pending_pop [OF assms(3)]
  have saved: "charging_saved ?t" "\<not> shutdown ?t" using r(2) by (simp_all add: com_running_def charging_saved_def)
  show ?thesis
  proof (cases "alarm_f a")
    case Animation
    then have "com_running (if blank s then 0 else 1) ?t"
      using r(2) saved pop [of Brightness1] pop [of Brightness2] by (simp add: com_running_def)
    then have "com_inv (alarm_set Animation 500 ?t)"
      using r by (auto simp: com_inv_def frame_alarms running_alarms)
    then show ?thesis using Animation r(3) by (simp add: run_alarm_def animation_alarm_def power_event_inv)
  next
    case Brightness1
    then have "com_running 0 ?t" "\<not> blank s"
      using r(2) saved pop [of Brightness1] pop [of Brightness2] by (auto simp: com_running_def split: if_splits)
    then show ?thesis using Brightness1 r
      by (simp add: run_alarm_def screen_brightness_animation_alarm1_def com_inv_def frame_alarms running_alarms set_brightness_def del: One_nat_def)
  next
    case Brightness2
    then have "pending_alarms Brightness1 ?t + pending_alarms Brightness2 ?t = 0"
      using r(2) pop [of Brightness1] pop [of Brightness2] by (auto simp: com_running_def split: if_splits)
    then show ?thesis using Brightness2 alarm2_inv [OF r(1) saved(1) r(3)] by (simp add: run_alarm_def)
  next
    case Power_key
    obtain content where m: "mode_file s = Some content" using saved_file [OF saved(1)] by auto
    have "com_frame (cancel Animation (cancel Brightness1 (cancel Brightness2 ?t)))" using r(1) by (simp add: frame_alarms)
    moreover have "reboot_ok ?t" using r(1) by (simp add: com_frame_def)
    ultimately show ?thesis using Power_key m
      by (simp add: run_alarm_def power_key_alarm_def Let_def com_inv_def clear_mode_def)
  qed
qed

section \<open>The loop over the alarms\<close>

definition due_alarms :: "timeval \<Rightarrow> com \<Rightarrow> nat" where
  "due_alarms now s = length (filter (is_due now) (alarms s))"

lemma due_mset: "due_alarms now s = size (filter_mset (is_due now) (mset (alarms s)))"
  by (simp add: due_alarms_def flip: mset_filter)

lemma due_set:
  assumes "valid_time (clock s)" "now \<le> clock s" "0 < ms"
  shows "due_alarms now (alarm_set f ms s) = due_alarms now s"
proof -
  have "now < time_after (clock s) ms" using time_after_later [OF assms(1,3)] assms(2) by (rule order.strict_trans1 [rotated])
  then show ?thesis by (simp add: due_mset alarm_set_def alarm_set_relative_def mset_alarm_insert is_due_iff not_le)
qed

lemma length_filter_twice: "length (filter P (filter Q xs)) \<le> length (filter P xs)"
  by (induction xs) auto

lemma due_cancel: "due_alarms now (cancel f s) \<le> due_alarms now s"
  using length_filter_twice [of "is_due now" "\<lambda>a. alarm_f a \<noteq> f" "alarms s"]
  by (simp add: due_alarms_def cancel_def alarm_cancel_filter)

lemma due_same: "alarms s = alarms t \<Longrightarrow> due_alarms now s = due_alarms now t"
  by (simp add: due_alarms_def)

lemma due_alarm2: "due_alarms now (screen_brightness_animation_alarm2 s) \<le> due_alarms now s"
proof -
  have "alarms (screen_brightness_animation_alarm2 s) = alarms (cancel Animation s)"
    by (simp add: screen_brightness_animation_alarm2_def Let_def screen_ops cancel_def)
  then have "due_alarms now (screen_brightness_animation_alarm2 s) = due_alarms now (cancel Animation s)" by (rule due_same)
  then show ?thesis using due_cancel [of now Animation s] by simp
qed

lemma due_power_event: "due_alarms now (power_event u s) \<le> due_alarms now s"
proof -
  define t where "t = (show_power u (get_device_state (files s)) s)\<lparr>shutdown := True\<rparr>"
  have "due_alarms now (screen_brightness_animation_alarm2 (cancel Brightness1 (cancel Brightness2 t))) \<le> due_alarms now t"
    using due_alarm2 [of now "cancel Brightness1 (cancel Brightness2 t)"] due_cancel [of now Brightness1 "cancel Brightness2 t"]
      due_cancel [of now Brightness2 t] by linarith
  moreover have "due_alarms now t = due_alarms now s" "due_alarms now (show_power u d s) = due_alarms now s" for d
    by (simp_all add: due_alarms_def t_def)
  ultimately show ?thesis by (simp add: power_event_def Let_def t_def)
qed

lemma due_run_alarm:
  assumes "valid_time (clock s)" "now \<le> clock s"
  shows "due_alarms now (run_alarm f s) \<le> due_alarms now s"
proof (cases f)
  case Animation
  then show ?thesis
    using due_power_event [of now False "alarm_set Animation 500 s"] due_set [OF assms, of 500 Animation]
    by (simp add: run_alarm_def animation_alarm_def)
next
  case Brightness1
  have "due_alarms now (alarm_set Brightness2 10000 (set_brightness 4 s)) = due_alarms now (set_brightness 4 s)"
    using assms by (intro due_set) (simp_all add: set_brightness_def)
  also have "\<dots> = due_alarms now s" by (intro due_same) (simp add: set_brightness_def)
  finally show ?thesis using Brightness1 by (simp add: run_alarm_def screen_brightness_animation_alarm1_def)
next
  case Brightness2
  then show ?thesis using due_alarm2 by (simp add: run_alarm_def)
next
  case Power_key
  have "alarms (power_key_alarm s) = alarms (cancel Animation (cancel Brightness1 (cancel Brightness2 s)))"
    by (simp add: power_key_alarm_def Let_def clear_mode_def)
  then have "due_alarms now (power_key_alarm s) = due_alarms now (cancel Animation (cancel Brightness1 (cancel Brightness2 s)))"
    by (rule due_same)
  then show ?thesis using Power_key due_cancel [of now Animation "cancel Brightness1 (cancel Brightness2 s)"]
      due_cancel [of now Brightness1 "cancel Brightness2 s"] due_cancel [of now Brightness2 s] by (simp add: run_alarm_def)
qed

lemma run_alarm_clock [simp]: "clock (run_alarm f s) = clock s"
  by (cases f) (simp_all add: run_alarm_def animation_alarm_def power_event_def screen_brightness_animation_alarm1_def
      screen_brightness_animation_alarm2_def power_key_alarm_def screen_ops Let_def)

text \<open>The loop ends and keeps what each function keeps; afterwards the program has ended or no alarm is due at its head.\<close>

lemma alarm_process_keeps:
  assumes "I s" "valid_time (clock s)" "now \<le> clock s"
    and step: "\<And>s a rest. I s \<Longrightarrow> ended s = None \<Longrightarrow> alarms s = a # rest \<Longrightarrow> I (run_alarm (alarm_f a) (s\<lparr>alarms := rest\<rparr>))"
  shows "\<exists>t. alarm_process now s = Some t \<and> I t \<and> (ended t = None \<longrightarrow> (case alarms t of [] \<Rightarrow> True | a # _ \<Rightarrow> \<not> is_due now a))"
  using assms(1-3)
proof (induction "due_alarms now s" arbitrary: s rule: less_induct)
  case less
  consider "ended s \<noteq> None \<or> alarms s = []" | a rest where "ended s = None" "alarms s = a # rest" "\<not> is_due now a"
    | a rest where "ended s = None" "alarms s = a # rest" "is_due now a" by (cases "alarms s") auto
  then show ?case
  proof cases
    case 1
    then have "alarm_process now s = Some s" by (subst alarm_process.simps) auto
    then show ?thesis using 1 less.prems(1) by auto
  next
    case 2
    then have "alarm_process now s = Some s" by (subst alarm_process.simps) auto
    then show ?thesis using 2 less.prems(1) by auto
  next
    case 3
    let ?u = "s\<lparr>alarms := rest\<rparr>" and ?t = "run_alarm (alarm_f a) (s\<lparr>alarms := rest\<rparr>)"
    have p: "alarm_process now s = alarm_process now ?t" using 3 by (subst alarm_process.simps) auto
    have "due_alarms now ?t \<le> due_alarms now ?u" using less.prems by (intro due_run_alarm) simp_all
    also have "\<dots> < due_alarms now s" using 3 by (simp add: due_alarms_def)
    finally show ?thesis using less.hyps [of ?t] less.prems step 3 by (simp add: p)
  qed
qed

lemma alarm_process_inv:
  assumes "com_inv s"
  obtains t where "alarm_process (clock s) s = Some t" "com_inv t"
    "ended t = None \<longrightarrow> (case alarms t of [] \<Rightarrow> True | a # _ \<Rightarrow> \<not> is_due (clock s) a)"
proof -
  have v: "valid_time (clock s)" using assms by (simp add: com_inv_def com_frame_def)
  have "\<exists>t. alarm_process (clock s) s = Some t \<and> com_inv t \<and>
      (ended t = None \<longrightarrow> (case alarms t of [] \<Rightarrow> True | a # _ \<Rightarrow> \<not> is_due (clock s) a))"
    by (rule alarm_process_keeps [of com_inv, OF assms v order_refl]) (rule run_alarm_inv)
  then show thesis by (elim exE conjE) (rule that)
qed

section \<open>Every step keeps the invariant\<close>

lemma wakeup_key2_inv: "com_inv s \<Longrightarrow> ended s = None \<Longrightarrow> com_inv (update_screen_on_wakeup_key2 s)"
  unfolding update_screen_on_wakeup_key2_def
  by (rule start_inv) (auto dest!: inv_running intro!: frame_alarms running_alarms)

lemma wakeup_key_inv:
  assumes "com_inv s" "ended s = None"
  shows "com_inv (update_screen_on_wakeup_key s)"
proof -
  let ?t = "cancel Brightness1 (cancel Animation (cancel Brightness2 s))"
  have f: "com_frame ?t" using assms by (simp add: com_inv_def frame_alarms)
  moreover have r: "com_running 0 ?t" using inv_running [OF assms] by (auto simp: com_running_def charging_saved_def)
  ultimately have "com_inv (screen_brightness_animation_alarm2 ?t)" "com_inv (screen_brightness_animation_start 500 ?t)"
    using assms(2) by (auto intro!: alarm2_inv start_inv simp: com_running_def)
  then show ?thesis by (simp add: update_screen_on_wakeup_key_def Let_def)
qed

lemma cancel_key_inv: "com_inv s \<Longrightarrow> com_inv (cancel Power_key s)"
  by (auto simp: com_inv_def frame_alarms intro!: running_alarms)

lemma set_key_inv: "com_inv s \<Longrightarrow> com_inv (alarm_set Power_key ms s)"
  by (auto simp: com_inv_def frame_alarms intro!: running_alarms)

lemma handle_event_inv: "com_inv s \<Longrightarrow> ended s = None \<Longrightarrow> com_inv (handle_event r s)"
  by (cases r) (simp_all add: handle_event_def set_key_inv cancel_key_inv wakeup_key_inv wakeup_key2_inv power_event_inv,
      simp_all add: com_inv_def)

lemma com_step_inv: "com_step s t \<Longrightarrow> com_inv s \<Longrightarrow> com_inv t"
proof (induction rule: com_step.induct)
  case (world s t fs)
  then show ?case by (simp add: com_inv_def com_frame_def com_running_def charging_saved_def pending_alarms_def)
next
  case (round s r t)
  show ?case
  proof (cases "alarm_get_time_until_next (clock s) (alarms s) < 1")
    case True
    then have "alarm_process (clock s) s = Some t" using round.hyps(3) by (simp add: com_main_round_def)
    moreover obtain u where "alarm_process (clock s) s = Some u" "com_inv u" by (rule alarm_process_inv [OF round.prems])
    ultimately show ?thesis by simp
  next
    case False
    then obtain n b where "t = handle_event r (s\<lparr>counter := n, launched := launched s \<or> b\<rparr>)"
      using round.hyps by (auto simp: com_main_round_def Let_def split: option.splits)
    moreover have "com_inv (s\<lparr>counter := n, launched := launched s \<or> b\<rparr>)" using round.prems by (simp add: com_inv_def)
    ultimately show ?thesis using round.hyps by (simp add: handle_event_inv)
  qed
next
  case (leave s old_state)
  then have "charging_saved s" "com_frame s" by (auto simp: com_inv_def com_running_def)
  then show ?case using saved_file [of s] by (auto simp: com_inv_def com_main_leave_def clear_mode_def set_brightness_def)
qed

lemma com_init_inv: "com_init s \<Longrightarrow> com_inv s"
proof -
  assume "com_init s"
  then obtain s0 screen_ok where f: "fresh_com s0" and s: "s = com_main_init True screen_ok s0" by (auto simp: com_init_def)
  let ?t = "save_mode True s0"
  have "com_frame ?t" "com_running 0 ?t" "ended ?t = None"
    using f by (simp_all add: fresh_com_def com_frame_def com_running_def charging_saved_def save_mode_def Let_def alarms_sorted_def pending_alarms_def)
  then have t: "com_frame (set_button_brightness 0 (display_unblank (display_blank ?t)))"
      "com_running 0 (set_button_brightness 0 (display_unblank (display_blank ?t)))"
      "ended (set_button_brightness 0 (display_unblank (display_blank ?t))) = None" "com_frame ?t"
    by (simp_all add: display_blank_def display_unblank_def set_button_brightness_def)
  have "com_inv ((clear_mode ?t)\<lparr>ended := Some Exited\<rparr>)"
    using t(4) by (simp add: com_inv_def clear_mode_def) (simp add: save_mode_def Let_def)
  then show "com_inv s" using start_inv [OF t(1-3), of 1500] by (simp add: s com_main_init_def Let_def)
qed

interpretation com_life: transition_invariant com_init com_step com_inv
  by unfold_locales (fact com_init_inv, fact com_step_inv)

section \<open>Properties of the charge-only mode\<close>


definition example_com :: com where
  "example_com = \<lparr>quit = False, launched = False, shutdown = False, powerup = False, powerup_latch = False, counter = 0, alarms = [],
     mode_file = None, brightness = 0, button_brightness = 0, blank = False, picture = None, battery_led = None, memtest = False, ended = None,
     clock = Timeval 100 0, files = Map.empty, poweroff_ok = True, reboot_ok = True\<rparr>"

lemma example_init: "com_init (com_main_init True True example_com)"
  unfolding com_init_def by (intro exI [of _ example_com] exI [of _ True]) (simp add: fresh_com_def example_com_def valid_time_def)


text \<open>C23: The loop over the alarms returns although the functions it calls set new ones, and afterwards either the
  program has ended or every alarm that is left lies in the future.\<close>

theorem alarm_process_returns:
  assumes "com_init s" "com_step\<^sup>*\<^sup>* s t"
  shows "\<exists>u. alarm_process (clock t) t = Some u \<and> (ended u = None \<longrightarrow> (\<forall>a \<in> set (alarms u). clock t < alarm_time a))"
proof -
  obtain u where u: "alarm_process (clock t) t = Some u" "com_inv u"
      "ended u = None \<longrightarrow> (case alarms u of [] \<Rightarrow> True | a # _ \<Rightarrow> \<not> is_due (clock t) a)"
    by (rule alarm_process_inv [OF com_life.reachable_inv [OF assms]])
  have "\<forall>a \<in> set (alarms u). clock t < alarm_time a" if "ended u = None"
  proof (cases "alarms u")
    case (Cons a rest)
    have sorted: "alarms_sorted (alarms u)" using u(2) by (simp add: com_inv_def com_frame_def)
    have "clock t < alarm_time a" using u(3) that Cons by (simp add: is_due_iff not_le)
    then show ?thesis by (intro ballI) (rule com_timers.none_due [OF sorted Cons])
  qed simp
  then show ?thesis by (intro exI [of _ u] conjI impI u(1))
qed

theorem alarm_process_returns_witness:
  "\<exists>u. alarm_process (clock (com_main_init True True example_com)) (com_main_init True True example_com) = Some u"
  using alarm_process_returns [OF example_init rtranclp.rtrancl_refl] by blast



text \<open>
  The keys of the memory test are a sequence of nine; its counter stays behind the last one, and the next
  of these keys reads behind the array.
\<close>

fun launch_run :: "event list \<Rightarrow> nat \<Rightarrow> (nat \<times> bool) option" where
  "launch_run [] n = Some (n, False)"
| "launch_run (r # rs) n = (case launch_sequence r n of None \<Rightarrow> None | Some (n, b) \<Rightarrow> if rs = [] then Some (n, b) else launch_run rs n)"

lemma launch_complete: "launch_run launch_keys 0 = Some (9, True)"
  by code_simp

lemma launch_overruns:
  "r \<in> {EVENT_VOLUMEDOWN_KEY_DOWN, EVENT_VOLUMEUP_KEY_DOWN, EVENT_POWER_KEY_DOWN} \<Longrightarrow> launch_run (launch_keys @ [r]) 0 = None"
  by (auto simp: launch_keys_def launch_sequence_def)

end
