(* ===== verification/Spec2Isabelle.thy ===== *)
theory Spec2Isabelle
  imports Usb_Properties Edid_Properties Hwc_Properties Omx_Properties Osal_Events Lights Com_Properties
begin

text \<open>
  Verification library of the device tree of the Motorola Solana (Droid 3), the files under
  \<^verbatim>\<open>src/\<close>.  The tree holds the device's own programs and libraries, vendored code (alsa-lib, the
  PowerVR driver) and data.  The library models the parts below, each from its C source, with
  executable definitions at the top level of its theories.

  \<^bold>\<open>The parts and how they interact.\<close>

  \<^item> \<^bold>\<open>The USB daemon\<close> (\<^verbatim>\<open>usbd/usb_app.c\<close>, \<^verbatim>\<open>usb_defines.h\<close>) listens to kernel uevents, to the USB
    driver node and to one application on a local socket, and switches the USB mode of the phone.
    It talks to the rest of the system through system calls only.
  \<^item> \<^bold>\<open>The EDID parser\<close> (\<^verbatim>\<open>edid/lib/edid_parser.c\<close>) decodes the capabilities of an HDMI display,
    in particular the stereoscopic formats, from the bytes the display sent.  It is a library that is
    called with the bytes and returns a handle.
  \<^item> \<^bold>\<open>The 2D regionizer\<close> (\<^verbatim>\<open>hwc/rgz_2d.c\<close>) is called by the hardware composer once per frame:
    \<open>rgz_in\<close> with \<open>RGZ_IN_HWCCHK\<close> checks the layers and finds out which area of the screen changed,
    \<open>rgz_in\<close> with \<open>RGZ_IN_HWC\<close> cuts the screen into regions in which the same layers are visible, and
    \<open>rgz_out\<close> writes the blit operations of the regions that must be drawn for the 2D core.

  \<^item> \<^bold>\<open>The hardware composer\<close> (\<^verbatim>\<open>hwc/hwc.c\<close>) is called by SurfaceFlinger: \<open>hwc_prepare\<close> decides for
    every layer of a frame whether an overlay of the display controller, the blitter or the GPU draws
    it and how an external display is driven, \<open>hwc_set\<close> hands the frame to the framebuffer driver.  An
    event thread handles hotplug, vertical sync and an idle timeout on the same device, under its lock.
    It calls the regionizer for the layers the blitter draws.
  \<^item> \<^bold>\<open>The OpenMAX core\<close> (\<^verbatim>\<open>domx/omx_core\<close>) finds the component libraries of the media codecs, loads them
    and keeps a handle and a library for each open component; the \<^bold>\<open>OS abstraction\<close> (\<^verbatim>\<open>domx/mm_osal\<close>)
    gives their threads message pipes and event groups.
  \<^item> \<^bold>\<open>The lights module\<close> (\<^verbatim>\<open>liblight/lights.c\<close>) turns light states of the framework into numbers in
    files of the kernel.
  \<^item> \<^bold>\<open>The boot mode program\<close> (\<^verbatim>\<open>mot_boot_mode\<close>) decides at start-up whether the phone only charges; the
    \<^bold>\<open>charge-only mode\<close> (\<^verbatim>\<open>charge_only_mode\<close>) is what runs then.  The two share a file: the charge-only
    mode marks in it that it is running, and the boot mode program reads it after a crash.

  \<^bold>\<open>Shared theories.\<close>  \<^verbatim>\<open>Prelude\<close>: the state-and-error monad of the daemon with its triples
  (\<open>hoare_intros\<close>), the error monad \<open>andThen\<close>, C strings, list lemmas, and the locale
  \<open>transition_invariant\<close>: an invariant that holds initially and that a step keeps holds in every
  reachable state.  \<^verbatim>\<open>Cfloat\<close>: the type \<open>float\<close> of C, single precision with rounding to nearest even.
  \<^verbatim>\<open>Cnumber\<close>: \<open>atoi\<close>, \<open>strtoull\<close> and the number conversions of \<open>sscanf\<close>.

  \<^bold>\<open>The USB daemon.\<close>  \<^verbatim>\<open>Usb_Modes\<close>: the enumerations, the tables \<open>usb_mode_list\<close> and
  \<open>usb_alt_mode_tlb\<close>, the look-ups (locale \<open>mode_table\<close>, interpreted on the table of the code).
  \<^verbatim>\<open>Usb_World\<close>: the record \<open>usbd\<close> of the globals of \<open>usb_app.c\<close>, and the system calls as an
  environment that answers each call, with a log of the calls made.  \<^verbatim>\<open>Usb_Cdrom\<close>: the hooks, the
  loop devices and the CD-ROM image.  \<^verbatim>\<open>Usb_Daemon\<close>: mode switching, the application socket, uevents
  and the driver messages.  \<^verbatim>\<open>Usb_Main\<close>: start-up and one iteration of the loop of \<open>main\<close>.
  \<^verbatim>\<open>Usb_Invariant\<close>: the invariant \<open>usb_inv\<close>, kept by every operation (\<open>inv_intros\<close>), the step relation
  \<open>usbd_step\<close> and the interpretation of \<open>transition_invariant\<close> on it.  \<^verbatim>\<open>Usb_Properties\<close>: which
  descriptors \<open>select\<close> watches, the cable and the alternate modes in every reachable state, what a
  request of the application, a uevent and a driver message do on every branch, the descriptors that
  are closed and those that leak.  Each system call may return any value its type allows; a write out
  of a buffer is a fault.

  \<^bold>\<open>The EDID parser.\<close>  \<^verbatim>\<open>Edid\<close>: every function of the parser, on bytes with 8- and 16-bit
  arithmetic as in the code; a read outside of the EDID, a read of memory that was never written and
  an endless loop are errors.  The walk over the data blocks has 257 units of fuel: the offset is an
  8-bit number, so a walk of 257 steps has repeated an offset and never ends (\<open>datablock_scan_fuel\<close>).
  \<^verbatim>\<open>Edid_Properties\<close>: what is found of an encoded extension, the formats that are reported, the bounds
  of every index, and where the code fails.

  \<^bold>\<open>The 2D regionizer.\<close>  \<^verbatim>\<open>Rgz_Sort\<close>: \<open>rgz_bsort\<close> and \<open>rgz_bunique\<close> (locale \<open>cut_points\<close>, interpreted
  on them: cut points split an interval exactly).  \<^verbatim>\<open>Rgz_Layers\<close>: the layers, formats, rotation and the
  part of the source buffer that is shown.  \<^verbatim>\<open>Rgz_Damage\<close>: \<open>rgz_in_hwccheck\<close> and the dirty-region
  tracking.  \<^verbatim>\<open>Rgz_Regions\<close>: \<open>rgz_in_hwc\<close> and \<open>rgz_gen_blitregions\<close>.  \<^verbatim>\<open>Rgz_Blit\<close>: \<open>rgz_out\<close> and all
  that it calls.  \<^verbatim>\<open>Rgz_Draw\<close>, \<^verbatim>\<open>Rgz_Subregion\<close>, \<^verbatim>\<open>Rgz_Compose\<close>: the meaning of a blit entry (which pixels
  it changes, and to the blend of which buffers), then of the entries of a subregion, of a region and
  of the screen.  \<^verbatim>\<open>Rgz_Output\<close>: the composition of the three calls: the abstract specification is
  \<open>picture\<close>, the blend of the layers over a pixel from the topmost opaque one on, and the generated
  entries draw it on every pixel that is damaged or dirty.  The array of entries has room for
  \<open>RGZ_MAX_BLITS\<close> = 625 of them; with up to four layers it cannot overflow.  Coordinates of layers are
  mathematical integers, the sizes in blit entries are 32-bit words and the conversions between
  signed and unsigned numbers are written out.  The function \<open>bv_blt\<close> of the bltsville library, which
  is not part of the tree, is a parameter.

  \<^bold>\<open>The hardware composer.\<close>  \<^verbatim>\<open>Hwc_Device\<close>: the records of \<^verbatim>\<open>hwc_dev.h\<close> and \<^verbatim>\<open>dsscomp.h\<close>, formats and the
  set-up of an overlay.  \<^verbatim>\<open>Hwc_Geometry\<close>: the transformation matrices and the cropping of overlays.
  \<^verbatim>\<open>Hwc_Scale\<close>: what the display controller can scale, the choice of the HDMI mode.  \<^verbatim>\<open>Hwc_Prepare\<close>:
  \<open>hwc_prepare\<close> with all its parts.  \<^verbatim>\<open>Hwc_Set\<close>: \<open>hwc_set\<close>, and from the kernel's framebuffer driver the
  part of \<open>ProcessFlipV2\<close> that finds the memory of an overlay.  \<^verbatim>\<open>Hwc_Hotplug\<close>: hotplug, uevents, the event
  thread, opening and closing.  The system calls of the composer are logged in the field \<open>calls\<close> of the
  device; what the system answers comes from the environments \<open>hwc_env\<close>, \<open>set_env\<close>, \<open>hot_env\<close>, \<open>open_env\<close>.
  The lock makes each operation one step.  Counters that the code keeps in \<open>uint32_t\<close> are 32-bit words.

  \<^verbatim>\<open>Hwc_Pipes\<close>, \<^verbatim>\<open>Hwc_Picture\<close>, \<^verbatim>\<open>Hwc_Count\<close>: the loop of \<open>hwc_prepare\<close> over the layers, with the locale
  \<open>pipe_loop\<close> for an invariant that its two kinds of step keep, interpreted for the z-positions, the pipes,
  the picture and the room for overlays.  \<^verbatim>\<open>Hwc_Clone\<close>, \<^verbatim>\<open>Hwc_Frame\<close>: the decision about cloning and the
  overlays of a whole frame.  \<^verbatim>\<open>Hwc_Life\<close>: the step relation \<open>hwc_step\<close> over all operations and its
  invariant.  \<^verbatim>\<open>Hwc_Properties\<close>: the abstract specification is \<open>frame_pixel\<close>, the stack of buffers over a
  pixel that the client's layers ask for; the overlays of a frame show it, and the post that
  \<open>hwc_set\<close> makes leads the driver to the buffers of the layers.

  \<^bold>\<open>Media and the small programs.\<close>  \<^verbatim>\<open>Omx_Core\<close>: the OpenMAX core, with the loader and the component
  libraries as parameters and the calls to them in a log; \<^verbatim>\<open>Omx_Properties\<close>: the slots of handles and
  libraries in every reachable state, opening and closing, the two queries of the role table.
  \<^verbatim>\<open>Osal_Pipes\<close>: the message pipes over a pipe of the kernel of any capacity; the locale \<open>message_queue\<close>
  states the refinement of a bounded queue and is interpreted on them.  \<^verbatim>\<open>Osal_Events\<close>: the event groups;
  a retrieve is cut at its waits, \<open>event_step\<close> is the interleaving of the threads with the condition
  variable as POSIX describes it.  \<^verbatim>\<open>Lights\<close>: the lights, and the reference \<open>lights_show\<close> of what each file
  must hold after any calls.  \<^verbatim>\<open>Boot_Mode\<close>: the boot mode program on the texts it reads.  \<^verbatim>\<open>Com_Alarm\<close>: the
  timers (locale \<open>timer_queue\<close>); \<^verbatim>\<open>Com_Main\<close>: the charge-only mode; its loop over the alarms is a partial
  function, and \<^verbatim>\<open>Com_Properties\<close> shows that it returns, the invariant of the screen and of the file, and what
  the boot mode program makes of the file after a crash.

  \<^bold>\<open>Not modelled.\<close>  Debug output (\<open>DEBUG\<close>, \<open>ALOGE\<close>, the SVG dump \<open>rgz_out_svg\<close>, \<open>rgz_print_layer\<close>,
  \<open>dump_set_info\<close>, \<open>hwc_dump\<close>, \<open>showfps\<close>), \<open>rgz_profile_hwc\<close>, the command line tool of the EDID parser, the
  stereoscopic code of the composer (compiled out in this tree); vendored and generated code; the
  components of the tree that are listed in the manifest as not modelled: they wrap devices and libraries.
\<close>

end
